(* ===== verification/Prelude.thy ===== *)
theory Prelude
  imports Main "HOL-Library.Word" "HOL-Library.State_Monad" "HOL-Library.Finite_Map"
begin

text \<open>
  Shared vocabulary of the development: the result type of fallible Go functions, the
  effect type of functions that talk to the outside world, machine integers, and the
  generic lemmas the components use.

  \<^item> A Go \<open>error\<close> is a value of \<open>error\<close>; a function returning \<open>(T, error)\<close> with
    exactly one of the two meaningful returns \<open>error + 'a\<close>.
  \<^item> Code that performs calls on the API server, on a BMC or on the clock is a state
    monad over an abstract world \<open>'w\<close>; the calls themselves are arguments of the model.
  \<^item> Go's \<open>int\<close> (64 bits on every platform the program is built for) is \<open>64 word\<close>,
    read with \<open>sint\<close>.
  \<^item> Times and durations are integers counting nanoseconds.
\<close>

named_theorems model_defs \<open>definitions of the model that proofs unfold together\<close>
named_theorems inv_intros \<open>preservation rules of the state invariants\<close>

type_synonym ('w, 'a) io = "('w, 'a) State_Monad.state"
type_synonym goint = "64 word"
type_synonym Time = int
type_synonym Duration = int

abbreviation nanosecond :: Duration where "nanosecond \<equiv> 1"
abbreviation microsecond :: Duration where "microsecond \<equiv> 1000"
abbreviation millisecond :: Duration where "millisecond \<equiv> 1000000"
abbreviation second :: Duration where "second \<equiv> 1000000000"
abbreviation minute :: Duration where "minute \<equiv> 60000000000"
abbreviation hour :: Duration where "hour \<equiv> 3600000000000"

section \<open>Errors\<close>

text \<open>
  An error carries its message. The only distinction the program makes between errors is
  \<open>apierrors.IsNotFound\<close>, so that is the only one the type has.
\<close>

datatype error = ErrNotFound string | Err string

fun Error :: "error \<Rightarrow> string" where
  "Error (ErrNotFound m) = m"
| "Error (Err m) = m"

fun IsNotFound :: "error \<Rightarrow> bool" where
  "IsNotFound (ErrNotFound m) = True"
| "IsNotFound (Err m) = False"

text \<open>\<open>fmt.Errorf("<m>: %w", err)\<close> and \<open>errors.Wrap(err, m)\<close> keep the wrapped error's kind.\<close>

fun wrap_error :: "string \<Rightarrow> error \<Rightarrow> error" where
  "wrap_error m (ErrNotFound e) = ErrNotFound (m @ '': '' @ e)"
| "wrap_error m (Err e) = Err (m @ '': '' @ e)"

lemma IsNotFound_wrap [simp]: "IsNotFound (wrap_error m e) = IsNotFound e"
  by (cases e) auto

lemma Error_wrap [simp]: "Error (wrap_error m e) = m @ '': '' @ Error e"
  by (cases e) auto

section \<open>World-passing computations\<close>

text \<open>Running one branch of a case distinction: the simplifier pushes \<open>run_state\<close> inwards.\<close>

lemma run_state_case_sum [simp]:
  "run_state (case x of Inl e \<Rightarrow> f e | Inr v \<Rightarrow> g v) w =
     (case x of Inl e \<Rightarrow> run_state (f e) w | Inr v \<Rightarrow> run_state (g v) w)"
  by (cases x) auto

lemma run_state_case_option [simp]:
  "run_state (case x of None \<Rightarrow> f | Some v \<Rightarrow> g v) w =
     (case x of None \<Rightarrow> run_state f w | Some v \<Rightarrow> run_state (g v) w)"
  by (cases x) auto

lemma run_state_case_prod [simp]:
  "run_state (case x of (a, b) \<Rightarrow> f a b) w = (case x of (a, b) \<Rightarrow> run_state (f a b) w)"
  by (cases x) auto

lemma run_state_if [simp]:
  "run_state (if b then f else g) w = (if b then run_state f w else run_state g w)"
  by simp

lemma run_state_let [simp]:
  "run_state (let x = a in f x) w = (let x = a in run_state (f x) w)"
  by (simp add: Let_def)

text \<open>
  A computation keeps a predicate on worlds, whatever its result. The rules below let a
  property of a whole handler follow from the property of the calls it makes.
\<close>

definition keeps :: "('w \<Rightarrow> bool) \<Rightarrow> ('w, 'a) io \<Rightarrow> bool" where
  "keeps I m \<longleftrightarrow> (\<forall>w. I w \<longrightarrow> I (snd (run_state m w)))"

lemma keepsD: "keeps I m \<Longrightarrow> run_state m w = (r, w') \<Longrightarrow> I w \<Longrightarrow> I w'"
  by (metis keeps_def snd_conv)

text \<open>Every result a computation can return, from any world, satisfies a predicate.\<close>

definition yields :: "('a \<Rightarrow> bool) \<Rightarrow> ('w, 'a) io \<Rightarrow> bool" where
  "yields P m \<longleftrightarrow> (\<forall>w. P (fst (run_state m w)))"

named_theorems keeps_rules \<open>composition rules for keeps and yields\<close>

lemma keeps_return [keeps_rules]: "keeps I (State_Monad.return x)"
  by (simp add: keeps_def)

lemma keeps_bind [keeps_rules]:
  "keeps I m \<Longrightarrow> (\<And>x. keeps I (f x)) \<Longrightarrow> keeps I (State_Monad.bind m f)"
  by (fastforce simp: keeps_def split: prod.splits)

lemma keeps_if [keeps_rules]: "(b \<Longrightarrow> keeps I m) \<Longrightarrow> (\<not> b \<Longrightarrow> keeps I n) \<Longrightarrow> keeps I (if b then m else n)"
  by simp

lemma keeps_case_sum [keeps_rules]:
  "(\<And>e. keeps I (f e)) \<Longrightarrow> (\<And>v. keeps I (g v)) \<Longrightarrow>
     keeps I (case x of Inl e \<Rightarrow> f e | Inr v \<Rightarrow> g v)"
  by (cases x) auto

lemma keeps_case_option [keeps_rules]:
  "keeps I f \<Longrightarrow> (\<And>v. keeps I (g v)) \<Longrightarrow>
     keeps I (case x of None \<Rightarrow> f | Some v \<Rightarrow> g v)"
  by (cases x) auto

lemma keeps_case_prod [keeps_rules]:
  "(\<And>a b. keeps I (f a b)) \<Longrightarrow> keeps I (case x of (a, b) \<Rightarrow> f a b)"
  by (cases x) auto

lemma yields_return [keeps_rules]: "P x \<Longrightarrow> yields P (State_Monad.return x)"
  by (simp add: yields_def)

lemma yields_bind [keeps_rules]: "(\<And>x. yields P (f x)) \<Longrightarrow> yields P (State_Monad.bind m f)"
  by (simp add: yields_def split: prod.splits)

lemma yields_bind_on: "yields R m \<Longrightarrow> (\<And>x. R x \<Longrightarrow> yields P (f x)) \<Longrightarrow> yields P (State_Monad.bind m f)"
  by (simp add: yields_def split: prod.splits) (metis fst_conv)

lemma yieldsD: "yields P m \<Longrightarrow> run_state m w = (r, w') \<Longrightarrow> P r"
  by (metis fst_conv yields_def)

lemma yields_if [keeps_rules]:
  "(b \<Longrightarrow> yields P m) \<Longrightarrow> (\<not> b \<Longrightarrow> yields P n) \<Longrightarrow> yields P (if b then m else n)"
  by simp

lemma yields_case_sum [keeps_rules]:
  "(\<And>e. yields P (f e)) \<Longrightarrow> (\<And>v. yields P (g v)) \<Longrightarrow>
     yields P (case x of Inl e \<Rightarrow> f e | Inr v \<Rightarrow> g v)"
  by (cases x) auto

lemma yields_case_option [keeps_rules]:
  "yields P f \<Longrightarrow> (\<And>v. yields P (g v)) \<Longrightarrow>
     yields P (case x of None \<Rightarrow> f | Some v \<Rightarrow> g v)"
  by (cases x) auto

lemma yields_case_prod [keeps_rules]:
  "(\<And>a b. yields P (f a b)) \<Longrightarrow> yields P (case x of (a, b) \<Rightarrow> f a b)"
  by (cases x) auto

text \<open>
  A triple: started in a world with \<open>P\<close>, the computation returns a result and a world with
  \<open>Q\<close>. Every computation of the model returns, so a triple is total.
\<close>

definition triple :: "('w \<Rightarrow> bool) \<Rightarrow> ('w, 'a) io \<Rightarrow> ('a \<Rightarrow> 'w \<Rightarrow> bool) \<Rightarrow> bool" where
  "triple P m Q \<longleftrightarrow> (\<forall>w. P w \<longrightarrow> (case run_state m w of (r, w') \<Rightarrow> Q r w'))"

named_theorems triple_rules \<open>composition rules for triples\<close>

lemma tripleI: "(\<And>w r w'. P w \<Longrightarrow> run_state m w = (r, w') \<Longrightarrow> Q r w') \<Longrightarrow> triple P m Q"
  by (simp add: triple_def split: prod.splits)

lemma tripleD: "triple P m Q \<Longrightarrow> run_state m w = (r, w') \<Longrightarrow> P w \<Longrightarrow> Q r w'"
  by (auto simp: triple_def split: prod.splits)

lemma triple_return [triple_rules]: "(\<And>w. P w \<Longrightarrow> Q x w) \<Longrightarrow> triple P (State_Monad.return x) Q"
  by (simp add: triple_def)

lemma triple_bind:
  "triple P m R \<Longrightarrow> (\<And>x. triple (R x) (f x) Q) \<Longrightarrow> triple P (State_Monad.bind m f) Q"
  by (fastforce simp: triple_def split: prod.splits)

lemma triple_keeps_bind:
  "keeps P m \<Longrightarrow> (\<And>x. triple P (f x) Q) \<Longrightarrow> triple P (State_Monad.bind m f) Q"
  by (fastforce simp: triple_def keeps_def split: prod.splits)

lemma triple_post: "triple P m R \<Longrightarrow> (\<And>r w. R r w \<Longrightarrow> Q r w) \<Longrightarrow> triple P m Q"
  by (fastforce simp: triple_def split: prod.splits)

lemma triple_pre: "(\<And>w. P w \<Longrightarrow> triple (\<lambda>v. v = w) m Q) \<Longrightarrow> triple P m Q"
  by (simp add: triple_def)

lemma triple_weaken: "triple R m Q \<Longrightarrow> (\<And>w. P w \<Longrightarrow> R w) \<Longrightarrow> triple P m Q"
  by (simp add: triple_def)

lemma triple_conj: "(B \<Longrightarrow> triple P m Q) \<Longrightarrow> triple (\<lambda>w. P w \<and> B) m Q"
  by (simp add: triple_def)

lemma triple_if [triple_rules]:
  "(b \<Longrightarrow> triple P m Q) \<Longrightarrow> (\<not> b \<Longrightarrow> triple P n Q) \<Longrightarrow> triple P (if b then m else n) Q"
  by simp

lemma triple_case_sum [triple_rules]:
  "(\<And>e. x = Inl e \<Longrightarrow> triple P (f e) Q) \<Longrightarrow> (\<And>v. x = Inr v \<Longrightarrow> triple P (g v) Q) \<Longrightarrow>
     triple P (case x of Inl e \<Rightarrow> f e | Inr v \<Rightarrow> g v) Q"
  by (cases x) auto

lemma triple_case_option [triple_rules]:
  "(x = None \<Longrightarrow> triple P f Q) \<Longrightarrow> (\<And>v. x = Some v \<Longrightarrow> triple P (g v) Q) \<Longrightarrow>
     triple P (case x of None \<Rightarrow> f | Some v \<Rightarrow> g v) Q"
  by (cases x) auto

lemma triple_case_prod [triple_rules]:
  "(\<And>a b. x = (a, b) \<Longrightarrow> triple P (f a b) Q) \<Longrightarrow> triple P (case x of (a, b) \<Rightarrow> f a b) Q"
  by (cases x) auto

lemma triple_let [triple_rules]: "triple P (f a) Q \<Longrightarrow> triple P (let x = a in f x) Q"
  by simp

section \<open>Lists\<close>

lemma find_Some_split:
  "List.find P xs = Some x \<longleftrightarrow>
     (\<exists>ys zs. xs = ys @ x # zs \<and> P x \<and> (\<forall>y \<in> set ys. \<not> P y))"
proof (induction xs)
  case (Cons a xs)
  show ?case
  proof (cases "P a")
    case True
    then show ?thesis by (auto simp: Cons_eq_append_conv)
  next
    case False
    with Cons.IH show ?thesis by (auto simp: Cons_eq_append_conv) (metis set_ConsD)
  qed
qed simp

lemma find_SomeD: "List.find P xs = Some x \<Longrightarrow> x \<in> set xs \<and> P x"
  by (induction xs) (auto split: if_splits)

section \<open>Machine integers\<close>

text \<open>\<open>s += x\<close> over a slice: the sum wraps, and is exact when the true sum fits.\<close>

lemma sint_of_int_small: "- (2 ^ 63) \<le> i \<Longrightarrow> i < 2 ^ 63 \<Longrightarrow> sint (word_of_int i :: goint) = i"
  by (simp add: sint_sbintrunc' signed_take_bit_int_eq_self)

lemma of_int_sum_sint: "word_of_int (sum_list (map sint ws)) = (sum_list ws :: goint)"
  by (induction ws) (auto simp: wi_hom_syms)

lemma sint_sum_list:
  assumes "- (2 ^ 63) \<le> sum_list (map sint ws)" and "sum_list (map sint ws) < 2 ^ 63"
  shows "sint (sum_list (ws :: goint list)) = sum_list (map sint ws)"
  using sint_of_int_small [OF assms] by (simp add: of_int_sum_sint)

end
