(* ===== verification/ApiTypes.thy ===== *)
theory ApiTypes
  imports Prelude
begin

text \<open>
  The API objects of \<open>api/v1beta1\<close>: one record per Go struct, fields in source order, with a
  short prefix because Isabelle field names are global. Pointers that may be nil are
  options, slices are lists, string-typed enumerations stay strings with one constant per
  Go constant. The records of the Kubernetes and Cluster API libraries hold the fields the
  program reads or writes.

  \<open>GetConditions\<close>/\<open>SetConditions\<close> make the three object kinds instances of one interface, the
  locale \<open>conditions_object\<close>.
\<close>

section \<open>Library objects\<close>

record ObjectMeta =
  om_Name :: string
  om_Namespace :: string
  om_UID :: string
  om_ResourceVersion :: string
  om_Labels :: "string \<rightharpoonup> string"
  om_Annotations :: "string \<rightharpoonup> string"
  om_Finalizers :: "string list"
  om_DeletionTimestamp :: "Time option"

record TypeMeta =
  tm_Kind :: string
  tm_APIVersion :: string

record NamespacedName =
  nn_Namespace :: string
  nn_Name :: string

record ObjectReference =
  or_Kind :: string
  or_APIVersion :: string
  or_Name :: string
  or_Namespace :: string
  or_UID :: string

record Condition =
  co_Type :: string
  co_Status :: string
  co_Severity :: string
  co_Reason :: string
  co_Message :: string

type_synonym Conditions = "Condition list"

record MachineAddress =
  ma_Type :: string
  ma_Address :: string

record APIEndpoint =
  ep_Host :: string
  ep_Port :: "32 word"

record FailureDomainSpec =
  fd_ControlPlane :: bool
  fd_Attributes :: "(string, string) fmap option"

type_synonym FailureDomains = "(string, FailureDomainSpec) fmap"

record Secret =
  se_meta :: ObjectMeta
  se_CreationTimestamp :: Time
  se_Data :: "string \<rightharpoonup> string"

record Machine =
  mc_meta :: ObjectMeta
  mc_Addresses :: "MachineAddress list"
  mc_Conditions :: Conditions

record Cluster =
  cl_meta :: ObjectMeta

section \<open>PhysicalHost\<close>

definition StateNone :: string where [simp]: "StateNone = ''''"
definition StateUnknown :: string where [simp]: "StateUnknown = ''Unknown''"
definition StateEnrolling :: string where [simp]: "StateEnrolling = ''Enrolling''"
definition StateAvailable :: string where [simp]: "StateAvailable = ''Available''"
definition StateInUse :: string where [simp]: "StateInUse = ''InUse''"
definition StateInspecting :: string where [simp]: "StateInspecting = ''Inspecting''"
definition StateReady :: string where [simp]: "StateReady = ''Ready''"
definition StateError :: string where [simp]: "StateError = ''Error''"

definition InspectionComplete :: string where [simp]: "InspectionComplete = ''Complete''"
definition InspectionPhasePending :: string where [simp]: "InspectionPhasePending = ''Pending''"
definition InspectionPhaseBooting :: string where [simp]: "InspectionPhaseBooting = ''Booting''"
definition InspectionPhaseInProgress :: string where [simp]: "InspectionPhaseInProgress = ''InProgress''"
definition InspectionPhaseComplete :: string where [simp]: "InspectionPhaseComplete = ''Complete''"
definition InspectionPhaseFailed :: string where [simp]: "InspectionPhaseFailed = ''Failed''"
definition InspectionPhaseTimeout :: string where [simp]: "InspectionPhaseTimeout = ''Timeout''"

definition RedfishConnectionReadyCondition :: string where
  [simp]: "RedfishConnectionReadyCondition = ''RedfishConnectionReady''"
definition HostAvailableCondition :: string where
  [simp]: "HostAvailableCondition = ''HostAvailable''"
definition HostInspectedCondition :: string where
  [simp]: "HostInspectedCondition = ''HostInspected''"
definition MissingCredentialsReason :: string where
  [simp]: "MissingCredentialsReason = ''MissingCredentials''"
definition RedfishConnectionFailedReason :: string where
  [simp]: "RedfishConnectionFailedReason = ''RedfishConnectionFailed''"
definition RedfishQueryFailedReason :: string where
  [simp]: "RedfishQueryFailedReason = ''RedfishQueryFailed''"

record RedfishConnection =
  rc_Address :: string
  rc_CredentialsSecretRef :: string
  rc_InsecureSkipVerify :: "bool option"

record HardwareStatus =
  hs_Health :: string
  hs_HealthRollup :: string
  hs_State :: string

record HardwareDetails =
  hd_Manufacturer :: string
  hd_Model :: string
  hd_SerialNumber :: string
  hd_Status :: HardwareStatus

record PhysicalHostSpec =
  ps_RedfishConnection :: RedfishConnection
  ps_ConsumerRef :: "ObjectReference option"

record CPUInfo =
  ci_ID :: string
  ci_Vendor :: string
  ci_Model :: string
  ci_Cores :: goint
  ci_Threads :: goint
  ci_Frequency :: string

record MemoryInfo =
  mi_ID :: string
  mi_Type :: string
  mi_Capacity :: string
  mi_Speed :: string

record DiskInfo =
  di_Name :: string
  di_Model :: string
  di_SizeGB :: goint
  di_Type :: string
  di_SerialNumber :: string

record NICInfo =
  ni_Name :: string
  ni_MACAddress :: string
  ni_Driver :: string
  ni_Speed :: string
  ni_IPAddresses :: "string list"

record InspectionReport =
  ir_Timestamp :: Time
  ir_Manufacturer :: string
  ir_Model :: string
  ir_SerialNumber :: string
  ir_BootModeDetected :: string
  ir_FirmwareVersion :: string
  ir_CPUs :: "CPUInfo list"
  ir_Memory :: "MemoryInfo list"
  ir_Disks :: "DiskInfo list"
  ir_NICs :: "NICInfo list"

record PhysicalHostStatus =
  st_Ready :: bool
  st_State :: string
  st_ObservedPowerState :: string
  st_ErrorMessage :: string
  st_HardwareDetails :: HardwareDetails
  st_Addresses :: "MachineAddress list"
  st_InspectionReport :: "InspectionReport option"
  st_InspectionPhase :: string
  st_InspectionTimestamp :: "Time option"
  st_Conditions :: Conditions

record PhysicalHost =
  ph_type :: TypeMeta
  ph_meta :: ObjectMeta
  ph_Spec :: PhysicalHostSpec
  ph_Status :: PhysicalHostStatus

section \<open>Beskar7Machine\<close>

definition InfrastructureReadyCondition :: string where
  [simp]: "InfrastructureReadyCondition = ''InfrastructureReady''"
definition PhysicalHostAssociatedCondition :: string where
  [simp]: "PhysicalHostAssociatedCondition = ''PhysicalHostAssociated''"
definition PhysicalHostAssociationFailedReason :: string where
  [simp]: "PhysicalHostAssociationFailedReason = ''PhysicalHostAssociationFailed''"
definition WaitingForPhysicalHostReason :: string where
  [simp]: "WaitingForPhysicalHostReason = ''WaitingForPhysicalHost''"
definition PhysicalHostNotReadyReason :: string where
  [simp]: "PhysicalHostNotReadyReason = ''PhysicalHostNotReady''"
definition PhysicalHostErrorReason :: string where
  [simp]: "PhysicalHostErrorReason = ''PhysicalHostError''"

text \<open>The severities and the ready condition of Cluster API.\<close>

abbreviation ConditionSeverityError :: string where "ConditionSeverityError \<equiv> ''Error''"
abbreviation ConditionSeverityWarning :: string where "ConditionSeverityWarning \<equiv> ''Warning''"
abbreviation ConditionSeverityInfo :: string where "ConditionSeverityInfo \<equiv> ''Info''"

record HardwareRequirements =
  hr_MinCPUCores :: goint
  hr_MinMemoryGB :: goint
  hr_MinDiskGB :: goint

record Beskar7MachineSpec =
  bs_ProviderID :: "string option"
  bs_InspectionImageURL :: string
  bs_TargetImageURL :: string
  bs_ConfigurationURL :: string
  bs_HardwareRequirements :: "HardwareRequirements option"

record Beskar7MachineStatus =
  bt_Ready :: bool
  bt_Phase :: "string option"
  bt_FailureReason :: "string option"
  bt_FailureMessage :: "string option"
  bt_Addresses :: "MachineAddress list"
  bt_Conditions :: Conditions

record Beskar7Machine =
  bm_type :: TypeMeta
  bm_meta :: ObjectMeta
  bm_Spec :: Beskar7MachineSpec
  bm_Status :: Beskar7MachineStatus

section \<open>Beskar7Cluster\<close>

definition ControlPlaneEndpointReady :: string where
  [simp]: "ControlPlaneEndpointReady = ''ControlPlaneEndpointReady''"
definition ControlPlaneEndpointNotSetReason :: string where
  [simp]: "ControlPlaneEndpointNotSetReason = ''ControlPlaneEndpointNotSet''"

record Beskar7ClusterSpec =
  cs_ControlPlaneEndpoint :: APIEndpoint

record Beskar7ClusterStatus =
  ct_Ready :: bool
  ct_ControlPlaneEndpoint :: APIEndpoint
  ct_FailureDomains :: "FailureDomains option"
  ct_Conditions :: Conditions

record Beskar7Cluster =
  bc_type :: TypeMeta
  bc_meta :: ObjectMeta
  bc_Spec :: Beskar7ClusterSpec
  bc_Status :: Beskar7ClusterStatus

section \<open>Objects with conditions\<close>

text \<open>
  Cluster API's condition helpers work on any object that offers \<open>GetConditions\<close> and
  \<open>SetConditions\<close>. What a helper needs of the pair are the laws of a field.
\<close>

locale conditions_object =
  fixes GetConditions :: "'o \<Rightarrow> Conditions"
    and SetConditions :: "Conditions \<Rightarrow> 'o \<Rightarrow> 'o"
  assumes get_set: "GetConditions (SetConditions cs x) = cs"
    and set_get: "SetConditions (GetConditions x) x = x"
    and set_set: "SetConditions cs (SetConditions ds x) = SetConditions cs x"
begin

text \<open>
  A helper rewrites the condition list through the interface: it reads the list, changes
  it and writes it back.
\<close>

lemma get_update: "GetConditions (SetConditions (f (GetConditions x)) x) = f (GetConditions x)"
  by (rule get_set)

lemma update_update:
  "SetConditions (f (GetConditions (SetConditions cs x))) (SetConditions cs x) = SetConditions (f cs) x"
  by (simp add: get_set set_set)

lemma update_unchanged: "f (GetConditions x) = GetConditions x \<Longrightarrow> SetConditions (f (GetConditions x)) x = x"
  by (simp add: set_get)

end

definition ph_GetConditions :: "PhysicalHost \<Rightarrow> Conditions" where
  "ph_GetConditions h = st_Conditions (ph_Status h)"

definition ph_SetConditions :: "Conditions \<Rightarrow> PhysicalHost \<Rightarrow> PhysicalHost" where
  "ph_SetConditions cs h = h\<lparr>ph_Status := (ph_Status h)\<lparr>st_Conditions := cs\<rparr>\<rparr>"

definition bm_GetConditions :: "Beskar7Machine \<Rightarrow> Conditions" where
  "bm_GetConditions m = bt_Conditions (bm_Status m)"

definition bm_SetConditions :: "Conditions \<Rightarrow> Beskar7Machine \<Rightarrow> Beskar7Machine" where
  "bm_SetConditions cs m = m\<lparr>bm_Status := (bm_Status m)\<lparr>bt_Conditions := cs\<rparr>\<rparr>"

definition bc_GetConditions :: "Beskar7Cluster \<Rightarrow> Conditions" where
  "bc_GetConditions c = ct_Conditions (bc_Status c)"

definition bc_SetConditions :: "Conditions \<Rightarrow> Beskar7Cluster \<Rightarrow> Beskar7Cluster" where
  "bc_SetConditions cs c = c\<lparr>bc_Status := (bc_Status c)\<lparr>ct_Conditions := cs\<rparr>\<rparr>"

interpretation phc: conditions_object ph_GetConditions ph_SetConditions
  by unfold_locales (simp_all add: ph_GetConditions_def ph_SetConditions_def)

interpretation bmc: conditions_object bm_GetConditions bm_SetConditions
  by unfold_locales (simp_all add: bm_GetConditions_def bm_SetConditions_def)

interpretation bcc: conditions_object bc_GetConditions bc_SetConditions
  by unfold_locales (simp_all add: bc_GetConditions_def bc_SetConditions_def)

text \<open>The three kinds of helper application, and the parts of the object they leave alone.\<close>

abbreviation ph_conditions :: "(Conditions \<Rightarrow> Conditions) \<Rightarrow> PhysicalHost \<Rightarrow> PhysicalHost" where
  "ph_conditions f h \<equiv> ph_SetConditions (f (ph_GetConditions h)) h"

abbreviation bm_conditions :: "(Conditions \<Rightarrow> Conditions) \<Rightarrow> Beskar7Machine \<Rightarrow> Beskar7Machine" where
  "bm_conditions f m \<equiv> bm_SetConditions (f (bm_GetConditions m)) m"

abbreviation bc_conditions :: "(Conditions \<Rightarrow> Conditions) \<Rightarrow> Beskar7Cluster \<Rightarrow> Beskar7Cluster" where
  "bc_conditions f c \<equiv> bc_SetConditions (f (bc_GetConditions c)) c"

lemma ph_SetConditions_frame [simp]:
  "ph_type (ph_SetConditions cs h) = ph_type h" "ph_meta (ph_SetConditions cs h) = ph_meta h"
  "ph_Spec (ph_SetConditions cs h) = ph_Spec h"
  "ph_Status (ph_SetConditions cs h) = (ph_Status h)\<lparr>st_Conditions := cs\<rparr>"
  by (simp_all add: ph_SetConditions_def)

lemma bm_SetConditions_frame [simp]:
  "bm_type (bm_SetConditions cs m) = bm_type m" "bm_meta (bm_SetConditions cs m) = bm_meta m"
  "bm_Spec (bm_SetConditions cs m) = bm_Spec m"
  "bm_Status (bm_SetConditions cs m) = (bm_Status m)\<lparr>bt_Conditions := cs\<rparr>"
  by (simp_all add: bm_SetConditions_def)

lemma bc_SetConditions_frame [simp]:
  "bc_type (bc_SetConditions cs c) = bc_type c" "bc_meta (bc_SetConditions cs c) = bc_meta c"
  "bc_Spec (bc_SetConditions cs c) = bc_Spec c"
  "bc_Status (bc_SetConditions cs c) = (bc_Status c)\<lparr>ct_Conditions := cs\<rparr>"
  by (simp_all add: bc_SetConditions_def)

end
