(* ===== verification/Kube.thy ===== *)
theory Kube
  imports ApiTypes
begin

text \<open>
  The outside world of the controllers: the API server behind \<open>client.Client\<close>, the helper
  packages of Cluster API and controller-runtime, and the clock. None of this code is part
  of the repository, so it is one argument \<open>E\<close> of the model, a record of functions; calls
  that reach outside are computations over an abstract world \<open>'w\<close>. What a theorem assumes
  about \<open>E\<close> is a named predicate below, each stating the documented behaviour of one
  library.

  \<open>ctrl_out\<close> is how a reconciler ends: with a \<open>ctrl.Result\<close> and possibly an error, or with
  a Go panic (a call through a nil function or interface value).
\<close>

section \<open>Results of a reconciliation\<close>

record Result =
  Requeue :: bool
  RequeueAfter :: Duration

definition ResultZero :: Result where
  "ResultZero = \<lparr>Requeue = False, RequeueAfter = 0\<rparr>"

definition requeue_now :: Result where
  "requeue_now = \<lparr>Requeue = True, RequeueAfter = 0\<rparr>"

definition requeue_after :: "Duration \<Rightarrow> Result" where
  "requeue_after d = \<lparr>Requeue = False, RequeueAfter = d\<rparr>"

definition Result_IsZero :: "Result \<Rightarrow> bool" where
  "Result_IsZero r \<longleftrightarrow> r = ResultZero"

lemma Result_IsZero_simps [simp]:
  "Result_IsZero ResultZero" "\<not> Result_IsZero requeue_now" "Result_IsZero (requeue_after d) \<longleftrightarrow> d = 0"
  by (simp_all add: Result_IsZero_def ResultZero_def requeue_now_def requeue_after_def)

lemma Result_distinct [simp]:
  "requeue_after d = requeue_after d' \<longleftrightarrow> d = d'" "requeue_after d \<noteq> requeue_now" "requeue_now \<noteq> requeue_after d"
  "requeue_after d = ResultZero \<longleftrightarrow> d = 0" "ResultZero = requeue_after d \<longleftrightarrow> d = 0"
  "requeue_now \<noteq> ResultZero" "ResultZero \<noteq> requeue_now"
  by (auto simp: ResultZero_def requeue_now_def requeue_after_def)

datatype ctrl_out = Return Result "error option" | Panic string

definition nil_call :: string where
  "nil_call = ''runtime error: invalid memory address or nil pointer dereference''"

section \<open>The environment\<close>

record 'w env =
  Now :: "('w, Time) io"
  Get_PhysicalHost :: "NamespacedName \<Rightarrow> ('w, error + PhysicalHost) io"
  Get_Beskar7Machine :: "NamespacedName \<Rightarrow> ('w, error + Beskar7Machine) io"
  Get_Beskar7Cluster :: "NamespacedName \<Rightarrow> ('w, error + Beskar7Cluster) io"
  Get_Secret :: "NamespacedName \<Rightarrow> ('w, error + Secret) io"
  List_PhysicalHosts :: "string \<Rightarrow> ('w, error + PhysicalHost list) io"
  List_Beskar7Clusters :: "string \<Rightarrow> ('w, error + Beskar7Cluster list) io"
  List_Machines :: "string \<Rightarrow> (string \<times> string) list \<Rightarrow> ('w, error + Machine list) io"
  Update_PhysicalHost :: "PhysicalHost \<Rightarrow> ('w, error + PhysicalHost) io"
  StatusUpdate_PhysicalHost :: "PhysicalHost \<Rightarrow> ('w, error + PhysicalHost) io"
  Event_PhysicalHost :: "PhysicalHost \<Rightarrow> string \<Rightarrow> string \<Rightarrow> string \<Rightarrow> ('w, unit) io"
  GetOwnerMachine :: "ObjectMeta \<Rightarrow> ('w, error + Machine option) io"
  GetClusterFromMetadata :: "ObjectMeta \<Rightarrow> ('w, error + Cluster option) io"
  GetOwnerCluster :: "ObjectMeta \<Rightarrow> ('w, error + Cluster option) io"
  NewHelper_Beskar7Machine :: "Beskar7Machine \<Rightarrow> error option"
  NewHelper_Beskar7Cluster :: "Beskar7Cluster \<Rightarrow> error option"
  Patch_Beskar7Machine :: "Beskar7Machine \<Rightarrow> Beskar7Machine \<Rightarrow> ('w, error option) io"
  Patch_Beskar7Cluster :: "Beskar7Cluster \<Rightarrow> Beskar7Cluster \<Rightarrow> ('w, error option) io"
  HasPaused :: "ObjectMeta \<Rightarrow> bool"
  AddFinalizer :: "string \<Rightarrow> string list \<Rightarrow> string list \<times> bool"
  RemoveFinalizer :: "string \<Rightarrow> string list \<Rightarrow> string list \<times> bool"
  ContainsFinalizer :: "string \<Rightarrow> string list \<Rightarrow> bool"
  MarkTrue :: "string \<Rightarrow> Conditions \<Rightarrow> Conditions"
  MarkFalse :: "string \<Rightarrow> string \<Rightarrow> string \<Rightarrow> string \<Rightarrow> Conditions \<Rightarrow> Conditions"
  IsTrue :: "string \<Rightarrow> Conditions \<Rightarrow> bool"
  SetSummary :: "string list \<Rightarrow> Conditions \<Rightarrow> Conditions"

section \<open>Documented behaviour of the libraries\<close>

text \<open>
  \<open>controllerutil\<close>: a finalizer is added only when it is missing and removed wherever it
  occurs, and the flag says whether the list changed.
\<close>

definition finalizers_ok :: "'w env \<Rightarrow> bool" where
  "finalizers_ok E \<longleftrightarrow>
     (\<forall>f fs. AddFinalizer E f fs = (if f \<in> set fs then (fs, False) else (fs @ [f], True))) \<and>
     (\<forall>f fs. RemoveFinalizer E f fs = (filter (\<lambda>g. g \<noteq> f) fs, f \<in> set fs)) \<and>
     (\<forall>f fs. ContainsFinalizer E f fs = (f \<in> set fs))"

text \<open>
  \<open>conditions\<close>: after \<open>MarkTrue\<close> the condition is true, after \<open>MarkFalse\<close> it is false with
  the given reason, severity and message, and conditions of other types are untouched.
\<close>

definition condition_of :: "string \<Rightarrow> Conditions \<Rightarrow> Condition option" where
  "condition_of t cs = List.find (\<lambda>c. co_Type c = t) cs"

definition conditions_ok :: "'w env \<Rightarrow> bool" where
  "conditions_ok E \<longleftrightarrow>
     (\<forall>t cs. condition_of t (MarkTrue E t cs) =
        Some \<lparr>co_Type = t, co_Status = ''True'', co_Severity = '''', co_Reason = '''', co_Message = ''''\<rparr>) \<and>
     (\<forall>t r v m cs. condition_of t (MarkFalse E t r v m cs) =
        Some \<lparr>co_Type = t, co_Status = ''False'', co_Severity = v, co_Reason = r, co_Message = m\<rparr>) \<and>
     (\<forall>t u cs. t \<noteq> u \<longrightarrow> condition_of u (MarkTrue E t cs) = condition_of u cs) \<and>
     (\<forall>t u r v m cs. t \<noteq> u \<longrightarrow> condition_of u (MarkFalse E t r v m cs) = condition_of u cs) \<and>
     (\<forall>t cs. IsTrue E t cs \<longleftrightarrow> (\<exists>c. condition_of t cs = Some c \<and> co_Status c = ''True''))"

lemma finalizers_okD:
  assumes "finalizers_ok E"
  shows "AddFinalizer E f fs = (if f \<in> set fs then (fs, False) else (fs @ [f], True))"
    and "RemoveFinalizer E f fs = (filter (\<lambda>g. g \<noteq> f) fs, f \<in> set fs)"
    and "ContainsFinalizer E f fs \<longleftrightarrow> f \<in> set fs"
  using assms by (simp_all add: finalizers_ok_def)

lemma conditions_okD:
  assumes "conditions_ok E"
  shows "condition_of t (MarkTrue E t cs) =
      Some \<lparr>co_Type = t, co_Status = ''True'', co_Severity = '''', co_Reason = '''', co_Message = ''''\<rparr>"
    and "condition_of t (MarkFalse E t r v m cs) =
      Some \<lparr>co_Type = t, co_Status = ''False'', co_Severity = v, co_Reason = r, co_Message = m\<rparr>"
    and "t \<noteq> u \<Longrightarrow> condition_of u (MarkTrue E t cs) = condition_of u cs"
    and "t \<noteq> u \<Longrightarrow> condition_of u (MarkFalse E t r v m cs) = condition_of u cs"
    and "IsTrue E t cs \<longleftrightarrow> (\<exists>c. condition_of t cs = Some c \<and> co_Status c = ''True'')"
  by (rule assms [unfolded conditions_ok_def, THEN conjunct1, rule_format]
      assms [unfolded conditions_ok_def, THEN conjunct2, THEN conjunct1, rule_format]
      assms [unfolded conditions_ok_def, THEN conjunct2, THEN conjunct2, THEN conjunct1, rule_format]
      assms [unfolded conditions_ok_def, THEN conjunct2, THEN conjunct2, THEN conjunct2, THEN conjunct1, rule_format]
      assms [unfolded conditions_ok_def, THEN conjunct2, THEN conjunct2, THEN conjunct2, THEN conjunct2, rule_format];
      assumption?)+

definition ph_key :: "PhysicalHost \<Rightarrow> NamespacedName" where
  "ph_key h = \<lparr>nn_Namespace = om_Namespace (ph_meta h), nn_Name = om_Name (ph_meta h)\<rparr>"

text \<open>
  The API server's optimistic concurrency, for the \<open>PhysicalHost\<close> objects it stores. \<open>hosts\<close> reads the
  stored objects off the world, and \<open>seen h w\<close> says that \<open>h\<close> is a state the object had at some time up to \<open>w\<close>.
  Reads come from a cache and may be stale: they return an object that was seen, not necessarily the
  stored one. Every write gives the object a new resource version, so an object that was seen is \<open>genuine\<close>:
  if the stored object has its version, it is the stored object. Other clients may write during the calls
  that read, be it hosts or secrets; what was seen stays seen. A write succeeds only against the resource
  version it carries. \<open>Update\<close> leaves the status alone and \<open>Status().Update\<close> everything else, as the status
  is a subresource. An object marked for deletion goes away as soon as its last finalizer does, so only \<open>lasting\<close>
  objects are read, and an update is stored when its outcome is lasting.
\<close>

definition lasting :: "ObjectMeta \<Rightarrow> bool" where
  "lasting m \<longleftrightarrow> om_DeletionTimestamp m = None \<or> om_Finalizers m \<noteq> []"

definition ph_version :: "PhysicalHost \<Rightarrow> string" where
  "ph_version h = om_ResourceVersion (ph_meta h)"

definition genuine :: "('w \<Rightarrow> NamespacedName \<Rightarrow> PhysicalHost option) \<Rightarrow> PhysicalHost \<Rightarrow> 'w \<Rightarrow> bool" where
  "genuine hosts h w \<longleftrightarrow> (\<forall>h0. hosts w (ph_key h) = Some h0 \<and> ph_version h0 = ph_version h \<longrightarrow> h0 = h)"

definition store_ok :: "'w env \<Rightarrow> ('w \<Rightarrow> NamespacedName \<Rightarrow> PhysicalHost option) \<Rightarrow> (PhysicalHost \<Rightarrow> 'w \<Rightarrow> bool) \<Rightarrow> bool" where
  "store_ok E hosts seen \<longleftrightarrow>
     (\<forall>h w. seen h w \<longrightarrow> genuine hosts h w) \<and>
     (\<forall>h w. hosts w (ph_key h) = Some h \<longrightarrow> seen h w) \<and>
     (\<forall>k w h w'. run_state (Get_PhysicalHost E k) w = (Inr h, w') \<longrightarrow>
        ph_key h = k \<and> seen h w' \<and> lasting (ph_meta h)) \<and>
     (\<forall>ns w hs w'. run_state (List_PhysicalHosts E ns) w = (Inr hs, w') \<longrightarrow>
        (\<forall>h \<in> set hs. om_Namespace (ph_meta h) = ns \<and> seen h w' \<and> lasting (ph_meta h))) \<and>
     (\<forall>h w h' w'. lasting (ph_meta h) \<longrightarrow>
        run_state (Update_PhysicalHost E h) w = (Inr h', w') \<longrightarrow>
        (\<exists>h0. hosts w (ph_key h) = Some h0 \<and> ph_version h0 = ph_version h \<and>
           hosts w' (ph_key h) = Some h' \<and> ph_key h' = ph_key h \<and>
           ph_Spec h' = ph_Spec h \<and> ph_Status h' = ph_Status h0)) \<and>
     (\<forall>h w h' w'. run_state (StatusUpdate_PhysicalHost E h) w = (Inr h', w') \<longrightarrow>
        (\<exists>h0. hosts w (ph_key h) = Some h0 \<and> ph_version h0 = ph_version h \<and>
           hosts w' (ph_key h) = Some h' \<and> ph_key h' = ph_key h \<and>
           ph_Spec h' = ph_Spec h0 \<and> ph_Status h' = ph_Status h)) \<and>
     (\<forall>h k. keeps (seen h) (Get_Secret E k))"

lemma store_ok_seen: "store_ok E hosts seen \<Longrightarrow> seen h w \<Longrightarrow> genuine hosts h w"
  by (simp add: store_ok_def)

lemma store_ok_stored: "store_ok E hosts seen \<Longrightarrow> hosts w (ph_key h) = Some h \<Longrightarrow> seen h w"
  by (simp add: store_ok_def)

lemma store_ok_get:
  "store_ok E hosts seen \<Longrightarrow> run_state (Get_PhysicalHost E k) w = (Inr h, w') \<Longrightarrow>
     ph_key h = k \<and> seen h w' \<and> lasting (ph_meta h)"
  unfolding store_ok_def by (elim conjE) metis

lemma store_ok_list:
  "store_ok E hosts seen \<Longrightarrow> run_state (List_PhysicalHosts E ns) w = (Inr hs, w') \<Longrightarrow> h \<in> set hs \<Longrightarrow>
     om_Namespace (ph_meta h) = ns \<and> seen h w' \<and> lasting (ph_meta h)"
  unfolding store_ok_def by (elim conjE) metis

lemma store_ok_update:
  assumes "store_ok E hosts seen" and "lasting (ph_meta h)"
    and "run_state (Update_PhysicalHost E h) w = (Inr h', w')"
  obtains h0 where "hosts w (ph_key h) = Some h0" "ph_version h0 = ph_version h"
    "hosts w' (ph_key h) = Some h'" "ph_key h' = ph_key h" "ph_Spec h' = ph_Spec h" "ph_Status h' = ph_Status h0"
  using assms unfolding store_ok_def by (elim conjE) metis

lemma store_ok_status_update:
  assumes "store_ok E hosts seen" and "run_state (StatusUpdate_PhysicalHost E h) w = (Inr h', w')"
  obtains h0 where "hosts w (ph_key h) = Some h0" "ph_version h0 = ph_version h"
    "hosts w' (ph_key h) = Some h'" "ph_key h' = ph_key h" "ph_Spec h' = ph_Spec h0" "ph_Status h' = ph_Status h"
  using assms unfolding store_ok_def by (elim conjE) metis

lemma store_ok_secret: "store_ok E hosts seen \<Longrightarrow> keeps (seen h) (Get_Secret E k)"
  by (simp add: store_ok_def)

text \<open>
  A status write based on an object that was read stores the computed status beside the spec that
  was read.
\<close>

lemma status_write_on_read:
  assumes "store_ok E hosts seen" and "seen ph w" and "ph_meta h = ph_meta ph"
    and "run_state (StatusUpdate_PhysicalHost E h) w = (Inr h', w')"
  shows "hosts w' (ph_key ph) = Some h' \<and> ph_Spec h' = ph_Spec ph \<and> ph_Status h' = ph_Status h"
proof -
  have k: "ph_key h = ph_key ph" "ph_version h = ph_version ph"
    using assms(3) by (simp_all add: ph_key_def ph_version_def)
  from assms(1,4) obtain h0 where h0: "hosts w (ph_key h) = Some h0" "ph_version h0 = ph_version h"
      "hosts w' (ph_key h) = Some h'" "ph_Spec h' = ph_Spec h0" "ph_Status h' = ph_Status h"
    by (rule store_ok_status_update)
  with store_ok_seen [OF assms(1,2)] k have "h0 = ph" by (simp add: genuine_def)
  with h0 k show ?thesis by simp
qed

section \<open>The history of the hosts\<close>

text \<open>
  The \<open>PhysicalHost\<close> objects an API server stores are the outcome of the writes it has accepted. A
  history is the list of them, each with the component that made it, the key, and the object as stored or
  \<open>None\<close> when the write removed it. \<open>Others\<close> are all clients but the component that is looked at.
\<close>

datatype component = HostController | MachineController | ReportHandler | Others

type_synonym host_map = "NamespacedName \<Rightarrow> PhysicalHost option"
type_synonym change = "component \<times> NamespacedName \<times> PhysicalHost option"
type_synonym history = "change list"

fun replay :: "history \<Rightarrow> host_map \<Rightarrow> host_map" where
  "replay [] S = S"
| "replay ((c, k, v) # D) S = replay D (S(k := v))"

definition stored :: "history \<Rightarrow> host_map" where
  "stored L = replay L Map.empty"

definition past :: "history \<Rightarrow> PhysicalHost set" where
  "past L = {h. \<exists>c k. (c, k, Some h) \<in> set L}"

text \<open>
  What holds of every history: objects are stored under their key, only lasting ones are stored, and no
  resource version is given twice to different states of one object.
\<close>

definition sound_history :: "history \<Rightarrow> bool" where
  "sound_history L \<longleftrightarrow> (\<forall>c k h. (c, k, Some h) \<in> set L \<longrightarrow> ph_key h = k \<and> lasting (ph_meta h)) \<and>
     (\<forall>h \<in> past L. \<forall>h' \<in> past L. ph_key h = ph_key h' \<and> ph_version h = ph_version h' \<longrightarrow> h = h')"

lemma replay_append [simp]: "replay (D1 @ D2) S = replay D2 (replay D1 S)"
  by (induction D1 arbitrary: S) auto

lemma stored_append: "stored (L @ D) = replay D (stored L)"
  by (simp add: stored_def)

lemma past_append [simp]: "past (L @ D) = past L \<union> past D"
  by (auto simp: past_def)

lemma replay_past: "replay D S k = Some h \<Longrightarrow> S k = Some h \<or> (\<exists>c. (c, k, Some h) \<in> set D)"
  by (induction D S rule: replay.induct) (auto split: if_splits)

lemma stored_past: "stored L k = Some h \<Longrightarrow> h \<in> past L"
  using replay_past [of L Map.empty k h] by (auto simp: stored_def past_def)

lemma sound_history_prefix: "sound_history (L @ D) \<Longrightarrow> sound_history L"
  by (simp add: sound_history_def)

text \<open>A past state of an object whose version is stored is the stored one.\<close>

lemma past_is_stored:
  assumes "sound_history L" and "h \<in> past L" and "stored L (ph_key h) = Some x" and "ph_version x = ph_version h"
  shows "x = h"
proof -
  from replay_past [of L Map.empty] assms(3) obtain c where "(c, ph_key h, Some x) \<in> set L" by (auto simp: stored_def)
  then have "ph_key x = ph_key h" "x \<in> past L" using assms(1) by (auto simp: sound_history_def past_def)
  with assms(1,2,4) show ?thesis by (simp add: sound_history_def)
qed

section \<open>Pause checks\<close>

definition isPaused :: "'w env \<Rightarrow> ObjectMeta \<Rightarrow> bool" where
  "isPaused E obj = HasPaused E obj"

definition isClusterPaused :: "'w env \<Rightarrow> Cluster option \<Rightarrow> bool" where
  "isClusterPaused E cluster = (case cluster of None \<Rightarrow> False | Some c \<Rightarrow> HasPaused E (cl_meta c))"

end
