(* ===== verification/GoStrings.thy ===== *)
theory GoStrings
  imports Prelude
begin

text \<open>
  The parts of Go's \<open>strconv\<close>, \<open>fmt\<close>, \<open>strings\<close> and \<open>time\<close> packages the program relies on. A Go string
  is its list of bytes.

  \<^item> \<open>show_nat\<close>, \<open>show_int\<close>: the verb \<open>%d\<close>; \<open>Quote\<close>: the verb \<open>%q\<close>.
  \<^item> \<open>SkipSpace\<close>, \<open>Sscanf_d\<close>: \<open>fmt.Sscanf(s, "%d", &n)\<close>, the call that reads memory
    capacities; \<open>None\<close> is a non-nil error.
  \<^item> \<open>Duration_String\<close>: \<open>time.Duration.String\<close>; \<open>time_Sub\<close>: the saturating \<open>time.Time.Sub\<close>.

  The lemmas show that printing and scanning are inverse to each other and that only the
  leading number of a scanned string matters.
\<close>

section \<open>Decimal numbers\<close>

abbreviation byte :: "char \<Rightarrow> nat" where "byte c \<equiv> of_char c"

definition is_digit :: "char \<Rightarrow> bool" where
  "is_digit c \<longleftrightarrow> 48 \<le> byte c \<and> byte c \<le> 57"

definition digit_char :: "nat \<Rightarrow> char" where
  "digit_char d = char_of (48 + d)"

fun show_nat :: "nat \<Rightarrow> string" where
  "show_nat n = (if n < 10 then [digit_char n] else show_nat (n div 10) @ [digit_char (n mod 10)])"

declare show_nat.simps [simp del]

definition show_int :: "int \<Rightarrow> string" where
  "show_int i = (if i < 0 then ''-'' @ show_nat (nat (- i)) else show_nat (nat i))"

definition digits_val :: "string \<Rightarrow> nat" where
  "digits_val ds = foldl (\<lambda>a c. a * 10 + (byte c - 48)) 0 ds"

lemma digit_char_simps [simp]:
  "digit_char 0 = CHR ''0''" "digit_char (Suc 0) = CHR ''1''" "digit_char 1 = CHR ''1''"
  "digit_char 2 = CHR ''2''" "digit_char 3 = CHR ''3''" "digit_char 4 = CHR ''4''"
  "digit_char 5 = CHR ''5''" "digit_char 6 = CHR ''6''" "digit_char 7 = CHR ''7''"
  "digit_char 8 = CHR ''8''" "digit_char 9 = CHR ''9''"
  by code_simp+

lemma byte_digit_char [simp]: "d < 10 \<Longrightarrow> byte (digit_char d) = 48 + d"
  by (simp add: digit_char_def)

lemma is_digit_digit_char [simp]: "d < 10 \<Longrightarrow> is_digit (digit_char d)"
  by (simp add: is_digit_def)

lemma digits_val_Nil [simp]: "digits_val [] = 0"
  by (simp add: digits_val_def)

lemma digits_val_snoc [simp]: "digits_val (ds @ [c]) = digits_val ds * 10 + (byte c - 48)"
  by (simp add: digits_val_def)

lemma digits_val_single [simp]: "digits_val [c] = byte c - 48"
  by (simp add: digits_val_def)

lemma show_nat_digits: "\<forall>c \<in> set (show_nat n). is_digit c"
proof (induction n rule: show_nat.induct)
  case (1 n)
  then show ?case by (cases "n < 10") (auto simp: show_nat.simps [of n])
qed

lemma show_nat_nonempty [simp]: "show_nat n \<noteq> []"
  by (subst show_nat.simps) simp

lemma digits_val_show_nat [simp]: "digits_val (show_nat n) = n"
proof (induction n rule: show_nat.induct)
  case (1 n)
  then show ?case by (cases "n < 10") (auto simp: show_nat.simps [of n])
qed

lemma takeWhile_show_nat:
  "rest = [] \<or> \<not> is_digit (hd rest) \<Longrightarrow> takeWhile is_digit (show_nat n @ rest) = show_nat n"
  using show_nat_digits [of n] by (cases rest) (auto simp: takeWhile_append2)

section \<open>Quoting\<close>

text \<open>
  \<open>strconv.Quote\<close>, byte by byte. The strings the program quotes are Kubernetes object
  names, which the API server restricts to ASCII; a byte of a multi-byte character is
  copied, as it is for every printable character.
\<close>

definition hex_digit :: "nat \<Rightarrow> char" where
  "hex_digit d = (if d < 10 then char_of (48 + d) else char_of (87 + d))"

definition quote_byte :: "char \<Rightarrow> string" where
  "quote_byte c = (let n = byte c; bs = CHR 0x5C in
     if n = 0x22 then [bs, c]
     else if n = 0x5C then [bs, bs]
     else if n = 0x07 then [bs, CHR ''a'']
     else if n = 0x08 then [bs, CHR ''b'']
     else if n = 0x0C then [bs, CHR ''f'']
     else if n = 0x0A then [bs, CHR ''n'']
     else if n = 0x0D then [bs, CHR ''r'']
     else if n = 0x09 then [bs, CHR ''t'']
     else if n = 0x0B then [bs, CHR ''v'']
     else if n < 0x20 \<or> n = 0x7F then [bs, CHR ''x'', hex_digit (n div 16), hex_digit (n mod 16)]
     else [c])"

definition Quote :: "string \<Rightarrow> string" where
  "Quote s = [CHR 0x22] @ concat (map quote_byte s) @ [CHR 0x22]"

section \<open>Scanning an integer\<close>

text \<open>
  The byte length of the white-space character a string starts with, 0 if it starts with
  none: the table \<open>space\<close> of \<open>fmt/scan.go\<close> in its UTF-8 encoding.
\<close>

definition byte_at :: "string \<Rightarrow> nat \<Rightarrow> nat" where
  "byte_at s i = (if i < length s then byte (s ! i) else 256)"

definition space_width :: "string \<Rightarrow> nat" where
  "space_width s = (let a = byte_at s 0; b = byte_at s 1; c = byte_at s 2 in
     if (9 \<le> a \<and> a \<le> 13) \<or> a = 0x20 then 1
     else if a = 0xC2 \<and> (b = 0x85 \<or> b = 0xA0) then 2
     else if a = 0xE1 \<and> b = 0x9A \<and> c = 0x80 then 3
     else if a = 0xE2 \<and> b = 0x80 \<and> (0x80 \<le> c \<and> c \<le> 0x8A \<or> c = 0xA8 \<or> c = 0xA9 \<or> c = 0xAF) then 3
     else if a = 0xE2 \<and> b = 0x81 \<and> c = 0x9F then 3
     else if a = 0xE3 \<and> b = 0x80 \<and> c = 0x80 then 3
     else 0)"

text \<open>\<open>(*ss).SkipSpace\<close>: an unexpected newline is an error (\<open>Sscanf\<close> does not treat it as space).\<close>

function SkipSpace :: "string \<Rightarrow> string option" where
  "SkipSpace s =
     (if s = [] then Some []
      else if byte (hd s) = 10 then None
      else if space_width s = 0 then Some s
      else SkipSpace (drop (space_width s) s))"
  by pat_completeness auto
termination
  by (relation "measure length") auto

declare SkipSpace.simps [simp del]

text \<open>\<open>scanInt\<close> with the verb \<open>d\<close>: an optional sign, at least one digit, and a value that fits.\<close>

definition accept_sign :: "string \<Rightarrow> bool \<times> string" where
  "accept_sign s = (case s of [] \<Rightarrow> (False, s)
     | c # cs \<Rightarrow> if c = CHR ''-'' then (True, cs) else if c = CHR ''+'' then (False, cs) else (False, s))"

definition Sscanf_d :: "string \<Rightarrow> goint option" where
  "Sscanf_d s = (case SkipSpace s of None \<Rightarrow> None
     | Some t \<Rightarrow>
        (let (neg, u) = accept_sign t; ds = takeWhile is_digit u;
             v = (if neg then - int (digits_val ds) else int (digits_val ds))
         in if ds = [] then None
            else if v < - (2 ^ 63) \<or> 2 ^ 63 \<le> v then None
            else Some (word_of_int v)))"

lemma SkipSpace_nospace:
  "s \<noteq> [] \<Longrightarrow> is_digit (hd s) \<Longrightarrow> SkipSpace s = Some s"
  by (subst SkipSpace.simps) (cases s, auto simp: space_width_def byte_at_def is_digit_def Let_def)

lemma SkipSpace_spaces [simp]: "SkipSpace (replicate k CHR '' '' @ s) = SkipSpace s"
proof (induction k)
  case (Suc k)
  have "space_width (CHR '' '' # replicate k CHR '' '' @ s) = 1"
    by (simp add: space_width_def byte_at_def)
  with Suc show ?case by (subst SkipSpace.simps) simp
qed simp

text \<open>
  Scanning reads back what printing wrote, whatever text follows the number: the unit
  behind a capacity never influences the value.
\<close>

lemma Sscanf_d_show_nat:
  assumes "n < 2 ^ 63" and "rest = [] \<or> \<not> is_digit (hd rest)"
  shows "Sscanf_d (replicate k CHR '' '' @ show_nat n @ rest) = Some (of_nat n)"
proof -
  have d: "is_digit (hd (show_nat n))"
    using show_nat_digits [of n] by (cases "show_nat n") auto
  then have skip: "SkipSpace (show_nat n @ rest) = Some (show_nat n @ rest)"
    by (intro SkipSpace_nospace) auto
  have "hd (show_nat n) \<noteq> CHR ''-''" "hd (show_nat n) \<noteq> CHR ''+''"
    using d by (auto simp: is_digit_def)
  then have "accept_sign (show_nat n @ rest) = (False, show_nat n @ rest)"
    by (cases "show_nat n") (auto simp: accept_sign_def)
  with skip assms show ?thesis
    by (simp add: Sscanf_d_def takeWhile_show_nat)
qed

section \<open>Durations\<close>

definition maxDuration :: Duration where "maxDuration = 2 ^ 63 - 1"
definition minDuration :: Duration where "minDuration = - (2 ^ 63)"

text \<open>\<open>Time.Sub\<close> saturates at the extreme durations; \<open>time.Since(t)\<close> is \<open>time_Sub now t\<close>.\<close>

definition time_Sub :: "Time \<Rightarrow> Time \<Rightarrow> Duration" where
  "time_Sub t u = max minDuration (min maxDuration (t - u))"

lemma time_Sub_gt: "minDuration \<le> d \<Longrightarrow> d < maxDuration \<Longrightarrow> d < time_Sub t u \<longleftrightarrow> d < t - u"
  by (auto simp: time_Sub_def)

lemma time_Sub_lt: "minDuration < d \<Longrightarrow> d \<le> maxDuration \<Longrightarrow> time_Sub t u < d \<longleftrightarrow> t - u < d"
  by (auto simp: time_Sub_def)

text \<open>
  \<open>Duration.String\<close>: \<open>fmtFrac\<close> prints the fraction of \<open>v / 10^prec\<close> without trailing
  zeros, and no dot when it is zero.
\<close>

fun frac_digits :: "nat \<Rightarrow> nat \<Rightarrow> string" where
  "frac_digits p v = (if p = 0 then [] else frac_digits (p - 1) (v div 10) @ [digit_char (v mod 10)])"

declare frac_digits.simps [simp del]

definition strip_zeros :: "string \<Rightarrow> string" where
  "strip_zeros ds = rev (dropWhile (\<lambda>c. c = CHR ''0'') (rev ds))"

definition fmtFrac :: "nat \<Rightarrow> nat \<Rightarrow> string" where
  "fmtFrac v prec = (let ds = strip_zeros (frac_digits prec v) in if ds = [] then [] else CHR ''.'' # ds)"

definition Duration_String :: "Duration \<Rightarrow> string" where
  "Duration_String d =
    (let u = nat \<bar>d\<bar>; sgn = (if d < 0 then ''-'' else []) in
     sgn @
     (if u = 0 then ''0s''
      else if u < 1000 then show_nat u @ ''ns''
      else if u < 1000000 then show_nat (u div 1000) @ fmtFrac u 3 @ [CHR 0xC2, CHR 0xB5, CHR ''s'']
      else if u < 1000000000 then show_nat (u div 1000000) @ fmtFrac u 6 @ ''ms''
      else
       (let s = u div 1000000000; m = s div 60; h = m div 60;
            secs = show_nat (s mod 60) @ fmtFrac u 9 @ ''s'';
            mins = (if m > 0 then show_nat (m mod 60) @ ''m'' else []);
            hrs = (if h > 0 then show_nat h @ ''h'' else [])
        in hrs @ mins @ secs)))"

text \<open>The equations that evaluate these functions on concrete arguments.\<close>

lemmas print_eval = Duration_String_def show_int_def show_nat.simps fmtFrac_def strip_zeros_def
  frac_digits.simps Quote_def quote_byte_def hex_digit_def Let_def

lemmas scan_eval = Sscanf_d_def SkipSpace.simps accept_sign_def is_digit_def digits_val_def
  space_width_def byte_at_def

section \<open>The strings package\<close>

fun has_prefix :: "string \<Rightarrow> string \<Rightarrow> bool" where
  "has_prefix [] s = True"
| "has_prefix (p # ps) [] = False"
| "has_prefix (p # ps) (c # cs) = (p = c \<and> has_prefix ps cs)"

fun strings_Contains :: "string \<Rightarrow> string \<Rightarrow> bool" where
  "strings_Contains [] sub = (sub = [])"
| "strings_Contains (c # cs) sub = (has_prefix sub (c # cs) \<or> strings_Contains cs sub)"

text \<open>\<open>strings.Split\<close> and \<open>strings.Cut\<close> for a separator of one byte.\<close>

fun strings_Split :: "char \<Rightarrow> string \<Rightarrow> string list" where
  "strings_Split sep [] = [[]]"
| "strings_Split sep (c # cs) =
     (if c = sep then [] # strings_Split sep cs
      else case strings_Split sep cs of [] \<Rightarrow> [[c]] | l # ls \<Rightarrow> (c # l) # ls)"

definition strings_Cut :: "char \<Rightarrow> string \<Rightarrow> string \<times> string" where
  "strings_Cut sep s = (takeWhile (\<lambda>c. c \<noteq> sep) s, drop 1 (dropWhile (\<lambda>c. c \<noteq> sep) s))"

fun strings_Join :: "string \<Rightarrow> string list \<Rightarrow> string" where
  "strings_Join sep [] = []"
| "strings_Join sep [s] = s"
| "strings_Join sep (s # t # ss) = s @ sep @ strings_Join sep (t # ss)"

definition lower_byte :: "char \<Rightarrow> char" where
  "lower_byte c = (if 65 \<le> byte c \<and> byte c \<le> 90 then char_of (byte c + 32) else c)"

text \<open>
  \<open>strings.ToLower\<close> lowers the bytes of an ASCII string; on any other string it applies the Unicode
  case tables, which are the argument \<open>unicode_lower\<close>.
\<close>

definition strings_ToLower :: "(string \<Rightarrow> string) \<Rightarrow> string \<Rightarrow> string" where
  "strings_ToLower unicode_lower s = (if list_all (\<lambda>c. byte c < 128) s then map lower_byte s else unicode_lower s)"

lemma has_prefix_iff: "has_prefix p s \<longleftrightarrow> (\<exists>t. s = p @ t)"
  by (induction p s rule: has_prefix.induct) auto

lemma strings_Contains_iff: "strings_Contains s sub \<longleftrightarrow> (\<exists>pre post. s = pre @ sub @ post)"
proof (induction s)
  case (Cons c cs)
  show ?case
  proof
    assume "strings_Contains (c # cs) sub"
    then consider "has_prefix sub (c # cs)" | "strings_Contains cs sub" by auto
    then show "\<exists>pre post. c # cs = pre @ sub @ post"
    proof cases
      case 1
      then show ?thesis using has_prefix_iff by (metis append_Nil)
    next
      case 2
      with Cons.IH show ?thesis by (metis append_Cons)
    qed
  next
    assume "\<exists>pre post. c # cs = pre @ sub @ post"
    then obtain pre post where e: "c # cs = pre @ sub @ post" by blast
    show "strings_Contains (c # cs) sub"
    proof (cases pre)
      case Nil
      with e have "has_prefix sub (c # cs)" using has_prefix_iff by auto
      then show ?thesis by simp
    next
      case (Cons d ds)
      with e Cons.IH show ?thesis by auto
    qed
  qed
qed simp

lemma strings_Split_nonempty [simp]: "strings_Split sep s \<noteq> []"
  by (cases s) (auto split: list.splits)

lemma strings_Split_no_sep: "l \<in> set (strings_Split sep s) \<Longrightarrow> sep \<notin> set l"
  by (induction s arbitrary: l) (auto split: if_splits list.splits)

lemma strings_Join_Cons: "ls \<noteq> [] \<Longrightarrow> strings_Join sep (l # ls) = l @ sep @ strings_Join sep ls"
  by (cases ls) auto

lemma strings_Join_Split [simp]: "strings_Join [sep] (strings_Split sep s) = s"
proof (induction s)
  case (Cons c cs)
  obtain l ls where s: "strings_Split sep cs = l # ls" by (meson list.exhaust strings_Split_nonempty)
  with Cons.IH show ?case by (cases ls) auto
qed simp

lemma strings_Split_append:
  "sep \<notin> set l \<Longrightarrow> strings_Split sep (l @ sep # s) = l # strings_Split sep s"
  by (induction l) auto

lemma strings_Split_single: "sep \<notin> set l \<Longrightarrow> strings_Split sep l = [l]"
  by (induction l) auto

lemma strings_Split_Join:
  "ls \<noteq> [] \<Longrightarrow> \<forall>l \<in> set ls. sep \<notin> set l \<Longrightarrow> strings_Split sep (strings_Join [sep] ls) = ls"
proof (induction "[sep]" ls rule: strings_Join.induct)
  case (3 s t ss)
  then show ?case by (simp add: strings_Split_append)
qed (auto simp: strings_Split_single)

lemma strings_Cut_append: "sep \<notin> set a \<Longrightarrow> strings_Cut sep (a @ sep # b) = (a, b)"
  by (auto simp: strings_Cut_def takeWhile_append dropWhile_append)

lemma strings_Cut_absent: "sep \<notin> set a \<Longrightarrow> strings_Cut sep a = (a, [])"
  by (induction a) (auto simp: strings_Cut_def)

end
