(* ===== verification/GoNet.thy ===== *)
theory GoNet
  imports GoStrings
begin

unbundle bit_operations_syntax

text \<open>
  The parts of Go's \<open>net\<close> and \<open>net/netip\<close> packages the program relies on: \<open>ParseIP\<close>,
  \<open>ParseCIDR\<close> and \<open>IPNet.Contains\<close>, translated from the standard library's algorithms. An
  address is its list of octets, 4 of them or 16.

  The lemmas show that \<open>ParseIP\<close> reads back every printed dotted quad and that it rejects
  every string without a dot or a colon, so that no plain label is taken for an address.
\<close>

type_synonym octet = "8 word"
type_synonym IP = "octet list"

datatype Addr = Addr4 IP | Addr6 IP string

section \<open>Textual addresses\<close>

text \<open>
  \<open>parseIPv4Fields\<close>: one pass over the bytes with the value and the number of digits of the
  current octet and the finished octets. The number of digits is zero exactly at the
  start and behind a dot.
\<close>

fun parseIPv4Fields :: "string \<Rightarrow> nat \<Rightarrow> nat \<Rightarrow> nat list \<Rightarrow> nat list option" where
  "parseIPv4Fields [] val digLen fields =
     (if length fields < 3 then None else Some (fields @ [val]))"
| "parseIPv4Fields (c # cs) val digLen fields =
     (if is_digit c then
        if digLen = 1 \<and> val = 0 then None
        else let v = val * 10 + (byte c - 48) in
          if v > 255 then None else parseIPv4Fields cs v (digLen + 1) fields
      else if c = CHR ''.'' then
        if digLen = 0 \<or> cs = [] then None
        else if length fields = 3 then None
        else parseIPv4Fields cs 0 0 (fields @ [val])
      else None)"

definition octets :: "nat list \<Rightarrow> IP" where
  "octets ns = map of_nat ns"

definition is_hex :: "char \<Rightarrow> bool" where
  "is_hex c \<longleftrightarrow> is_digit c \<or> (97 \<le> byte c \<and> byte c \<le> 102) \<or> (65 \<le> byte c \<and> byte c \<le> 70)"

definition hex_val :: "char \<Rightarrow> nat" where
  "hex_val c = (if is_digit c then byte c - 48
     else if 97 \<le> byte c \<and> byte c \<le> 102 then byte c - 87 else byte c - 55)"

definition hexs_val :: "string \<Rightarrow> nat" where
  "hexs_val ds = foldl (\<lambda>a c. a * 16 + hex_val c) 0 ds"

text \<open>
  The loop of \<open>parseIPv6\<close>: a group of at most four hexadecimal digits per round. The result
  is the unread rest, the octets and the position of the ellipsis.
\<close>

function parseIPv6_loop :: "string \<Rightarrow> nat list \<Rightarrow> nat option \<Rightarrow> (string \<times> nat list \<times> nat option) option" where
  "parseIPv6_loop s ip ell =
    (if 16 \<le> length ip then Some (s, ip, ell)
     else let ds = takeWhile is_hex s; t = drop (length ds) s in
       if ds = [] \<or> 4 < length ds then None
       else if t \<noteq> [] \<and> hd t = CHR ''.'' then
         if ell = None \<and> length ip \<noteq> 12 then None
         else if 16 < length ip + 4 then None
         else (case parseIPv4Fields s 0 0 [] of None \<Rightarrow> None | Some fs \<Rightarrow> Some ([], ip @ fs, ell))
       else let ip' = ip @ [hexs_val ds div 256, hexs_val ds mod 256] in
         if t = [] then Some ([], ip', ell)
         else if hd t \<noteq> CHR '':'' then None
         else if length t = 1 then None
         else let u = tl t in
           if hd u = CHR '':'' then
             if ell \<noteq> None then None
             else if tl u = [] then Some ([], ip', Some (length ip'))
             else parseIPv6_loop (tl u) ip' (Some (length ip'))
           else parseIPv6_loop u ip' ell)"
  by pat_completeness auto
termination
  by (relation "measure (\<lambda>(s, ip, ell). 16 - length ip)") auto

declare parseIPv6_loop.simps [simp del]

definition parseIPv6_body :: "string \<Rightarrow> IP option" where
  "parseIPv6_body s0 =
    (let (s, ell) = (if take 2 s0 = ''::'' then (drop 2 s0, Some 0) else (s0, None)) in
     if ell = Some 0 \<and> s = [] then Some (replicate 16 0)
     else case parseIPv6_loop s [] ell of None \<Rightarrow> None
       | Some (rest, ip, e) \<Rightarrow>
          if rest \<noteq> [] then None
          else if length ip < 16 then
            (case e of None \<Rightarrow> None
             | Some k \<Rightarrow> Some (octets (take k ip @ replicate (16 - length ip) 0 @ drop k ip)))
          else if e \<noteq> None then None else Some (octets ip))"

text \<open>\<open>strings.Cut\<close> at the first occurrence of a byte.\<close>

definition cut :: "char \<Rightarrow> string \<Rightarrow> (string \<times> string) option" where
  "cut c s = (case dropWhile (\<lambda>x. x \<noteq> c) s of [] \<Rightarrow> None
     | _ # after \<Rightarrow> Some (takeWhile (\<lambda>x. x \<noteq> c) s, after))"

definition parseIPv6 :: "string \<Rightarrow> Addr option" where
  "parseIPv6 s = (case cut CHR ''%'' s of
       None \<Rightarrow> map_option (\<lambda>ip. Addr6 ip []) (parseIPv6_body s)
     | Some (a, zone) \<Rightarrow>
         if zone = [] then None else map_option (\<lambda>ip. Addr6 ip zone) (parseIPv6_body a))"

definition parseIPv4 :: "string \<Rightarrow> Addr option" where
  "parseIPv4 s = map_option (\<lambda>fs. Addr4 (octets fs)) (parseIPv4Fields s 0 0 [])"

text \<open>\<open>netip.ParseAddr\<close>: the first dot, colon or percent sign decides.\<close>

definition ParseAddr :: "string \<Rightarrow> Addr option" where
  "ParseAddr s = (case List.find (\<lambda>c. c \<in> {CHR ''.'', CHR '':'', CHR ''%''}) s of
       None \<Rightarrow> None
     | Some c \<Rightarrow> if c = CHR ''.'' then parseIPv4 s else if c = CHR '':'' then parseIPv6 s else None)"

definition v4InV6Prefix :: IP where
  "v4InV6Prefix = replicate 10 0 @ [255, 255]"

fun As16 :: "Addr \<Rightarrow> IP" where
  "As16 (Addr4 ip) = v4InV6Prefix @ ip"
| "As16 (Addr6 ip z) = ip"

fun Zone :: "Addr \<Rightarrow> string" where
  "Zone (Addr4 ip) = []"
| "Zone (Addr6 ip z) = z"

fun BitLen :: "Addr \<Rightarrow> nat" where
  "BitLen (Addr4 ip) = 32"
| "BitLen (Addr6 ip z) = 128"

definition ParseIP :: "string \<Rightarrow> IP option" where
  "ParseIP s = (case ParseAddr s of None \<Rightarrow> None
     | Some a \<Rightarrow> if Zone a \<noteq> [] then None else Some (As16 a))"

section \<open>Networks\<close>

record IPNet =
  net_IP :: IP
  net_Mask :: IP

definition To4 :: "IP \<Rightarrow> IP option" where
  "To4 ip = (if length ip = 4 then Some ip
     else if length ip = 16 \<and> take 12 ip = v4InV6Prefix then Some (drop 12 ip) else None)"

definition CIDRMask :: "nat \<Rightarrow> nat \<Rightarrow> IP" where
  "CIDRMask ones bits = map (\<lambda>i. if 8 * (i + 1) \<le> ones then 255
     else if ones \<le> 8 * i then 0 else NOT (drop_bit (ones - 8 * i) 255)) [0..<bits div 8]"

definition IP_Mask :: "IP \<Rightarrow> IP \<Rightarrow> IP" where
  "IP_Mask ip m = (let ip' = (if length m = 4 \<and> length ip = 16 \<and> take 12 ip = v4InV6Prefix
       then drop 12 ip else ip) in map2 (AND) ip' m)"

definition ParseCIDR :: "string \<Rightarrow> IPNet option" where
  "ParseCIDR s = (case cut CHR ''/'' s of None \<Rightarrow> None
     | Some (a, msk) \<Rightarrow>
        (case ParseAddr a of None \<Rightarrow> None
         | Some addr \<Rightarrow>
            if Zone addr \<noteq> [] then None
            else if msk = [] \<or> \<not> list_all is_digit msk \<or> BitLen addr < digits_val msk then None
            else let m = CIDRMask (digits_val msk) (BitLen addr)
                 in Some \<lparr>net_IP = IP_Mask (As16 addr) m, net_Mask = m\<rparr>))"

definition Contains :: "IPNet \<Rightarrow> IP \<Rightarrow> bool" where
  "Contains n ip =
    (let nn = (case To4 (net_IP n) of Some x \<Rightarrow> x | None \<Rightarrow> net_IP n);
         m = (if length (net_Mask n) = 16 \<and> length nn = 4 then drop 12 (net_Mask n) else net_Mask n);
         x = (case To4 ip of Some y \<Rightarrow> y | None \<Rightarrow> ip)
     in length nn = length m \<and> length x = length nn
        \<and> list_all (\<lambda>(a, b, k). a AND k = b AND k) (zip nn (zip x m)))"

section \<open>Dotted quads\<close>

definition dotted_quad :: "octet \<Rightarrow> octet \<Rightarrow> octet \<Rightarrow> octet \<Rightarrow> string" where
  "dotted_quad a b c d = show_nat (unat a) @ ''.'' @ show_nat (unat b) @ ''.'' @ show_nat (unat c)
     @ ''.'' @ show_nat (unat d)"

lemma unat_octet: "unat (x :: octet) \<le> 255"
proof -
  have "unat x < 2 ^ LENGTH(8)" by (rule unsigned_less)
  then show ?thesis by simp
qed

text \<open>Reading one printed octet: its digits are consumed and give back its value.\<close>

lemma show_nat_no_leading_zero: "0 < n \<Longrightarrow> hd (show_nat n) \<noteq> CHR ''0''"
proof (induction n rule: show_nat.induct)
  case (1 n)
  show ?case
  proof (cases "n < 10")
    case True
    have "digit_char n \<noteq> CHR ''0''"
    proof
      assume "digit_char n = CHR ''0''"
      then have "byte (digit_char n) = 48" by simp
      with True \<open>0 < n\<close> show False by simp
    qed
    with True show ?thesis by (simp add: show_nat.simps [of n])
  next
    case False
    with 1 have "hd (show_nat (n div 10)) \<noteq> CHR ''0''" by simp
    with False show ?thesis by (simp add: show_nat.simps [of n])
  qed
qed

lemma parse_octet_step:
  assumes "is_digit c" and "0 < digLen \<longrightarrow> 0 < val" and "val * 10 + (byte c - 48) \<le> 255"
  shows "parseIPv4Fields (c # cs) val digLen fs = parseIPv4Fields cs (val * 10 + (byte c - 48)) (digLen + 1) fs"
  using assms by (auto simp: Let_def)

lemma parse_octet:
  assumes "n \<le> 255"
  shows "parseIPv4Fields (show_nat n @ cs) 0 0 fs = parseIPv4Fields cs n (length (show_nat n)) fs"
proof -
  consider "n < 10" | "10 \<le> n" "n < 100" | "100 \<le> n" by linarith
  then show ?thesis
  proof cases
    case 1
    then show ?thesis by (simp add: show_nat.simps [of n] Let_def)
  next
    case 2
    define a b where "a = n div 10" and "b = n mod 10"
    have s: "show_nat n = [digit_char a, digit_char b]"
      using 2 by (simp add: show_nat.simps [of n] show_nat.simps [of "n div 10"] a_def b_def)
    have "a < 10" "0 < a" "b < 10" "a * 10 + b = n"
      using 2 by (auto simp: a_def b_def)
    with s assms show ?thesis by (simp add: Let_def)
  next
    case 3
    define d where "d = n div 10"
    define a b c where "a = d div 10" and "b = d mod 10" and "c = n mod 10"
    have n: "n = d * 10 + c" and d: "d = a * 10 + b" and bc: "b < 10" "c < 10"
      by (simp_all add: a_def b_def c_def d_def)
    with 3 assms have a: "a < 10" "0 < a" "a * 10 + b \<le> 255" "10 \<le> d"
      by linarith+
    have s: "show_nat n = [digit_char a, digit_char b, digit_char c]"
      using 3 a by (simp add: show_nat.simps [of n] show_nat.simps [of d] show_nat.simps [of a]
          b_def c_def flip: a_def d_def)
    show ?thesis
      using s a bc assms n unfolding d by (simp add: Let_def)
  qed
qed

lemma parseIPv4Fields_dotted_quad:
  "parseIPv4Fields (dotted_quad a b c d) 0 0 [] = Some [unat a, unat b, unat c, unat d]"
proof -
  have le: "unat x \<le> 255" for x :: octet
    by (rule unat_octet)
  have nd: "\<not> is_digit CHR ''.''" by (simp add: is_digit_def)
  have d: "parseIPv4Fields (show_nat (unat d)) 0 0 fs = parseIPv4Fields [] (unat d) (length (show_nat (unat d))) fs" for fs
    using parse_octet [OF le, of d "[]" fs] by simp
  show ?thesis
    by (simp add: dotted_quad_def parse_octet [OF le] nd d)
qed

lemma find_dot_dotted_quad:
  "List.find (\<lambda>x. x \<in> {CHR ''.'', CHR '':'', CHR ''%''}) (dotted_quad a b c d) = Some CHR ''.''"
proof -
  have "\<forall>y \<in> set (show_nat (unat a)). \<not> y \<in> {CHR ''.'', CHR '':'', CHR ''%''}"
    using show_nat_digits [of "unat a"] by (auto simp: is_digit_def)
  then show ?thesis
    unfolding find_Some_split dotted_quad_def
    by - (rule exI [of _ "show_nat (unat a)"], simp)
qed

lemma ParseAddr_dotted_quad: "ParseAddr (dotted_quad a b c d) = Some (Addr4 [a, b, c, d])"
  unfolding ParseAddr_def find_dot_dotted_quad parseIPv4_def parseIPv4Fields_dotted_quad
  by (simp add: octets_def)

lemma ParseIP_dotted_quad: "ParseIP (dotted_quad a b c d) = Some (v4InV6Prefix @ [a, b, c, d])"
  unfolding ParseIP_def ParseAddr_dotted_quad by simp

lemma ParseIP_plain:
  assumes "CHR ''.'' \<notin> set s" and "CHR '':'' \<notin> set s"
  shows "ParseIP s = None"
proof (cases "List.find (\<lambda>c. c \<in> {CHR ''.'', CHR '':'', CHR ''%''}) s")
  case None
  show ?thesis unfolding ParseIP_def ParseAddr_def None by simp
next
  case (Some c)
  from Some obtain ys zs where "s = ys @ c # zs" unfolding find_Some_split by blast
  with assms have "c \<noteq> CHR ''.''" "c \<noteq> CHR '':''" by auto
  then show ?thesis unfolding ParseIP_def ParseAddr_def Some by simp
qed

end
