(* ===== verification/Redfish.thy ===== *)
theory Redfish
  imports ApiTypes GoNet
begin

unbundle bit_operations_syntax

text \<open>
  \<open>internal/redfish\<close>: the interface \<open>Client\<close> the controllers talk to, the conversion of BMC
  addresses to Cluster API machine addresses, and the implementation \<open>MockClient\<close>.

  A \<open>Client\<close> is a record of world-passing methods. What the machine controller relies on
  is the contract \<open>bmc_session\<close> on the commands the BMC at the client's address has accepted: a query
  sends none, and a command that reports success has been accepted there and nowhere else.
\<close>

section \<open>Client interface\<close>

record Status =
  rs_Health :: string
  rs_HealthRollup :: string
  rs_State :: string

record SystemInfo =
  si_Manufacturer :: string
  si_Model :: string
  si_SerialNumber :: string
  si_Status :: Status

definition IPv4AddressType :: string where [simp]: "IPv4AddressType = ''IPv4''"
definition IPv6AddressType :: string where [simp]: "IPv6AddressType = ''IPv6''"

record NetworkAddress =
  na_Type :: string
  na_Address :: string
  na_Gateway :: string
  na_InterfaceName :: string
  na_MACAddress :: string

text \<open>The power states and reset types of gofish the program names.\<close>

abbreviation OnPowerState :: string where "OnPowerState \<equiv> ''On''"
abbreviation OffPowerState :: string where "OffPowerState \<equiv> ''Off''"

record 'w Client =
  Close :: "('w, unit) io"
  GetSystemInfo :: "('w, error + SystemInfo option) io"
  GetPowerState :: "('w, error + string) io"
  SetPowerState :: "string \<Rightarrow> ('w, error option) io"
  SetBootSourcePXE :: "('w, error option) io"
  Reset :: "('w, error option) io"
  GetNetworkAddresses :: "('w, error + NetworkAddress list) io"

type_synonym 'w RedfishClientFactory =
  "string \<Rightarrow> string \<Rightarrow> string \<Rightarrow> bool \<Rightarrow> ('w, error + 'w Client) io"

section \<open>Addresses\<close>

text \<open>\<open>for cidr { if _, n, err := net.ParseCIDR(cidr); err == nil { if n.Contains(ip) { return true } } }\<close>\<close>

fun any_contains :: "string list \<Rightarrow> IP \<Rightarrow> bool" where
  "any_contains [] ip = False"
| "any_contains (cidr # cidrs) ip =
     (case ParseCIDR cidr of
        Some n \<Rightarrow> if Contains n ip then True else any_contains cidrs ip
      | None \<Rightarrow> any_contains cidrs ip)"

definition privateCIDRs4 :: "string list" where
  "privateCIDRs4 = [''10.0.0.0/8'', ''172.16.0.0/12'', ''192.168.0.0/16'', ''127.0.0.0/8'', ''169.254.0.0/16'']"

definition privateCIDRs6 :: "string list" where
  "privateCIDRs6 = [''fc00::/7'', ''fe80::/10'', ''::1/128'']"

definition isPrivateIPv4 :: "string \<Rightarrow> bool" where
  "isPrivateIPv4 ip = (case ParseIP ip of None \<Rightarrow> False | Some parsed \<Rightarrow> any_contains privateCIDRs4 parsed)"

definition isPrivateIPv6 :: "string \<Rightarrow> bool" where
  "isPrivateIPv6 ip = (case ParseIP ip of None \<Rightarrow> False | Some parsed \<Rightarrow> any_contains privateCIDRs6 parsed)"

abbreviation MachineInternalIP :: string where "MachineInternalIP \<equiv> ''InternalIP''"
abbreviation MachineExternalIP :: string where "MachineExternalIP \<equiv> ''ExternalIP''"

fun ConvertToMachineAddresses :: "NetworkAddress list \<Rightarrow> MachineAddress list" where
  "ConvertToMachineAddresses [] = []"
| "ConvertToMachineAddresses (netAddr # rest) =
     (let addrType =
        (if na_Type netAddr = IPv4AddressType then
           if isPrivateIPv4 (na_Address netAddr) then MachineInternalIP else MachineExternalIP
         else if na_Type netAddr = IPv6AddressType then
           if isPrivateIPv6 (na_Address netAddr) then MachineInternalIP else MachineExternalIP
         else MachineInternalIP)
      in \<lparr>ma_Type = addrType, ma_Address = na_Address netAddr\<rparr> # ConvertToMachineAddresses rest)"

section \<open>The contract of a client\<close>

text \<open>
  \<open>commands\<close> reads off the world the commands that BMCs have accepted, each with the address of its BMC. A
  client of the BMC at the address \<open>a\<close> reports success only for a command that this BMC has accepted, once;
  queries are no commands. Whether and when the device follows a command is not promised.
\<close>

datatype bmc_command = BootFromPXE | PowerRequest string

locale bmc_session =
  fixes C :: "'w Client" and commands :: "'w \<Rightarrow> (string \<times> bmc_command) list" and a :: string
  assumes set_pxe: "run_state (SetBootSourcePXE C) w = (None, w') \<Longrightarrow> commands w' = commands w @ [(a, BootFromPXE)]"
    and set_power: "p = OnPowerState \<or> p = OffPowerState \<Longrightarrow> run_state (SetPowerState C p) w = (None, w') \<Longrightarrow>
      commands w' = commands w @ [(a, PowerRequest p)]"
    and get_power: "run_state (GetPowerState C) w = (q, w') \<Longrightarrow> commands w' = commands w"
    and system_info: "run_state (GetSystemInfo C) w = (s, w') \<Longrightarrow> commands w' = commands w"
    and addresses: "run_state (GetNetworkAddresses C) w = (n, w') \<Longrightarrow> commands w' = commands w"
    and close: "run_state (Close C) w = (u, w') \<Longrightarrow> commands w' = commands w"
begin

text \<open>
  The command sequence of an inspection boot: ask for a network boot, read the power state, ask for power
  unless it is on.
\<close>

lemma boot_commands:
  assumes "run_state (SetBootSourcePXE C) w0 = (None, w1)" and "run_state (GetPowerState C) w1 = (Inr p, w2)"
    and "run_state (if p \<noteq> OnPowerState then SetPowerState C OnPowerState else State_Monad.return None) w2 = (None, w3)"
  shows "commands w3 = commands w0 @ (a, BootFromPXE) # (if p = OnPowerState then [] else [(a, PowerRequest OnPowerState)])"
  using set_pxe [OF assms(1)] get_power [OF assms(2)] assms(3) set_power [of OnPowerState w2 w3] by (auto split: if_splits)

end

section \<open>MockClient\<close>

record MockClient =
  mk_SystemInfo :: "SystemInfo option"
  mk_PowerState :: string
  mk_ShouldFail :: "string \<rightharpoonup> error option"
  mk_BootSourceIsPXE :: bool
  mk_NetworkAddresses :: "NetworkAddress list"
  mk_GetNetworkAddressesFunc :: "(error + NetworkAddress list) option"
  mk_CloseCalled :: bool
  mk_GetSystemInfoCalled :: bool
  mk_GetPowerStateCalled :: bool
  mk_SetPowerStateCalled :: bool
  mk_SetBootSourcePXECalled :: bool
  mk_ResetCalled :: bool
  mk_GetNetworkAddressesCalled :: bool

definition NewMockClient :: MockClient where
  "NewMockClient =
    \<lparr>mk_SystemInfo = Some \<lparr>si_Manufacturer = ''MockInc'', si_Model = ''MockSystem'',
        si_SerialNumber = ''MOCK12345'',
        si_Status = \<lparr>rs_Health = '''', rs_HealthRollup = '''', rs_State = ''Enabled''\<rparr>\<rparr>,
     mk_PowerState = OffPowerState, mk_ShouldFail = Map.empty, mk_BootSourceIsPXE = False,
     mk_NetworkAddresses = [], mk_GetNetworkAddressesFunc = None,
     mk_CloseCalled = False, mk_GetSystemInfoCalled = False, mk_GetPowerStateCalled = False,
     mk_SetPowerStateCalled = False, mk_SetBootSourcePXECalled = False, mk_ResetCalled = False,
     mk_GetNetworkAddressesCalled = False\<rparr>"

definition failIfNeeded :: "MockClient \<Rightarrow> string \<Rightarrow> error option" where
  "failIfNeeded m methodName = (case mk_ShouldFail m methodName of Some err \<Rightarrow> err | None \<Rightarrow> None)"

text \<open>
  The methods, on the mock's own state. \<open>GetSystemInfo\<close> hands out the stored pointer; a test
  that stores nil gets the zero error and a nil info, which the callers would dereference.
\<close>

definition mock_GetSystemInfo :: "(MockClient, error + SystemInfo option) io" where
  "mock_GetSystemInfo = State (\<lambda>m0. let m = m0\<lparr>mk_GetSystemInfoCalled := True\<rparr> in
     case failIfNeeded m ''GetSystemInfo'' of Some err \<Rightarrow> (Inl err, m) | None \<Rightarrow> (Inr (mk_SystemInfo m), m))"

definition mock_GetPowerState :: "(MockClient, error + string) io" where
  "mock_GetPowerState = State (\<lambda>m0. let m = m0\<lparr>mk_GetPowerStateCalled := True\<rparr> in
     case failIfNeeded m ''GetPowerState'' of Some err \<Rightarrow> (Inl err, m) | None \<Rightarrow> (Inr (mk_PowerState m), m))"

definition mock_SetPowerState :: "string \<Rightarrow> (MockClient, error option) io" where
  "mock_SetPowerState state = State (\<lambda>m0. let m = m0\<lparr>mk_SetPowerStateCalled := True\<rparr> in
     case failIfNeeded m ''SetPowerState'' of Some err \<Rightarrow> (Some err, m)
     | None \<Rightarrow> (None, m\<lparr>mk_PowerState := state\<rparr>))"

definition mock_SetBootSourcePXE :: "(MockClient, error option) io" where
  "mock_SetBootSourcePXE = State (\<lambda>m0. let m = m0\<lparr>mk_SetBootSourcePXECalled := True\<rparr> in
     case failIfNeeded m ''SetBootSourcePXE'' of Some err \<Rightarrow> (Some err, m)
     | None \<Rightarrow> (None, m\<lparr>mk_BootSourceIsPXE := True\<rparr>))"

definition mock_Reset :: "(MockClient, error option) io" where
  "mock_Reset = State (\<lambda>m0. let m = m0\<lparr>mk_ResetCalled := True\<rparr> in
     case failIfNeeded m ''Reset'' of Some err \<Rightarrow> (Some err, m)
     | None \<Rightarrow> (None, m\<lparr>mk_PowerState := OnPowerState\<rparr>))"

definition mock_GetNetworkAddresses :: "(MockClient, error + NetworkAddress list) io" where
  "mock_GetNetworkAddresses = State (\<lambda>m0. let m = m0\<lparr>mk_GetNetworkAddressesCalled := True\<rparr> in
     case failIfNeeded m ''GetNetworkAddresses'' of Some err \<Rightarrow> (Inl err, m)
     | None \<Rightarrow> (case mk_GetNetworkAddressesFunc m of Some r \<Rightarrow> (r, m)
                | None \<Rightarrow> (Inr (mk_NetworkAddresses m), m)))"

definition mock_Close :: "(MockClient, unit) io" where
  "mock_Close = State (\<lambda>m. ((), m\<lparr>mk_CloseCalled := True\<rparr>))"

lemmas mock_defs = mock_GetSystemInfo_def mock_GetPowerState_def mock_SetPowerState_def
  mock_SetBootSourcePXE_def mock_Reset_def mock_GetNetworkAddresses_def mock_Close_def
  failIfNeeded_def Let_def

text \<open>
  The mock as a \<open>Client\<close> inside a larger world: \<open>on_mock\<close> runs a method on the second
  component. \<open>mock_factory\<close> is the factory the controller tests inject.
\<close>

definition on_mock :: "(MockClient, 'a) io \<Rightarrow> ('s \<times> MockClient, 'a) io" where
  "on_mock f = State (\<lambda>(s, m). let (a, m') = run_state f m in (a, (s, m')))"

definition mock_client :: "('s \<times> MockClient) Client" where
  "mock_client =
    \<lparr>Close = on_mock mock_Close, GetSystemInfo = on_mock mock_GetSystemInfo,
     GetPowerState = on_mock mock_GetPowerState, SetPowerState = (\<lambda>p. on_mock (mock_SetPowerState p)),
     SetBootSourcePXE = on_mock mock_SetBootSourcePXE, Reset = on_mock mock_Reset,
     GetNetworkAddresses = on_mock mock_GetNetworkAddresses\<rparr>"

definition mock_factory :: "('s \<times> MockClient) RedfishClientFactory" where
  "mock_factory address username password insecure = State_Monad.return (Inr mock_client)"

lemma run_on_mock [simp]:
  "run_state (on_mock f) w = (fst (run_state f (snd w)), (fst w, snd (run_state f (snd w))))"
  by (simp add: on_mock_def split: prod.splits)

lemma mock_client_simps [simp]:
  "Close mock_client = on_mock mock_Close"
  "GetSystemInfo mock_client = on_mock mock_GetSystemInfo"
  "GetPowerState mock_client = on_mock mock_GetPowerState"
  "SetPowerState mock_client p = on_mock (mock_SetPowerState p)"
  "SetBootSourcePXE mock_client = on_mock mock_SetBootSourcePXE"
  "Reset mock_client = on_mock mock_Reset"
  "GetNetworkAddresses mock_client = on_mock mock_GetNetworkAddresses"
  by (simp_all add: mock_client_def)

section \<open>Classification of addresses\<close>

text \<open>The networks the constant lists denote.\<close>

lemma ParseCIDR_private4:
  "ParseCIDR ''10.0.0.0/8'' = Some \<lparr>net_IP = [10, 0, 0, 0], net_Mask = [255, 0, 0, 0]\<rparr>"
  "ParseCIDR ''172.16.0.0/12'' = Some \<lparr>net_IP = [172, 16, 0, 0], net_Mask = [255, 240, 0, 0]\<rparr>"
  "ParseCIDR ''192.168.0.0/16'' = Some \<lparr>net_IP = [192, 168, 0, 0], net_Mask = [255, 255, 0, 0]\<rparr>"
  "ParseCIDR ''127.0.0.0/8'' = Some \<lparr>net_IP = [127, 0, 0, 0], net_Mask = [255, 0, 0, 0]\<rparr>"
  "ParseCIDR ''169.254.0.0/16'' = Some \<lparr>net_IP = [169, 254, 0, 0], net_Mask = [255, 255, 0, 0]\<rparr>"
  by code_simp+

lemma Contains4:
  "Contains \<lparr>net_IP = [n0, n1, n2, n3], net_Mask = [k0, k1, k2, k3]\<rparr> (v4InV6Prefix @ [a, b, c, d]) \<longleftrightarrow>
     n0 AND k0 = a AND k0 \<and> n1 AND k1 = b AND k1 \<and> n2 AND k2 = c AND k2 \<and> n3 AND k3 = d AND k3"
  by (auto simp: Contains_def To4_def v4InV6Prefix_def Let_def)

lemma octet_and_240: "16 = (b :: octet) AND 240 \<longleftrightarrow> 16 \<le> unat b \<and> unat b \<le> 31"
proof -
  have all: "list_all (\<lambda>n. (16 = (of_nat n :: octet) AND 240) = (16 \<le> n \<and> n \<le> 31)) [0..<256]"
    by code_simp
  have "unat b \<in> set [0..<256]" using unat_octet [of b] by auto
  with all have "(16 = (of_nat (unat b) :: octet) AND 240) = (16 \<le> unat b \<and> unat b \<le> 31)"
    unfolding list_all_iff by blast
  then show ?thesis by simp
qed

lemma octet_and_255 [simp]: "(b :: octet) AND 255 = b" "255 AND (b :: octet) = b"
proof -
  have "(255 :: octet) = NOT 0" by simp
  then show "(b :: octet) AND 255 = b" "255 AND (b :: octet) = b" by (metis and.right_neutral and.left_neutral bit.compl_zero)+
qed

lemma any_contains_private4:
  "any_contains privateCIDRs4 (v4InV6Prefix @ [a, b, c, d]) \<longleftrightarrow>
     a = 10 \<or> a = 172 \<and> 16 \<le> unat b \<and> unat b \<le> 31 \<or> a = 192 \<and> b = 168 \<or> a = 127
     \<or> a = 169 \<and> b = 254"
  by (auto simp: privateCIDRs4_def ParseCIDR_private4 Contains4 octet_and_240)

lemma ConvertToMachineAddresses_addresses:
  "map ma_Address (ConvertToMachineAddresses as) = map na_Address as"
  by (induction as) (auto simp: Let_def)

lemma ConvertToMachineAddresses_append:
  "ConvertToMachineAddresses (as @ bs) = ConvertToMachineAddresses as @ ConvertToMachineAddresses bs"
  by (induction as) (auto simp: Let_def)

end
