(* ===== verification/MemEnv.thy ===== *)
theory MemEnv
  imports Kube Redfish
begin

text \<open>
  A reference environment: an in-memory API server with optimistic concurrency and the
  documented behaviour of the helper libraries, next to a \<open>MockClient\<close> that plays the BMCs.
  It models no code of the repository. It shows that the predicates the theorems assume of
  the environment (\<open>finalizers_ok\<close>, \<open>conditions_ok\<close>, \<open>store_ok\<close>) can hold together, and the
  concrete instances of the theorems run in it.
\<close>

record mem =
  mm_hosts :: "PhysicalHost list"
  mm_machines :: "Beskar7Machine list"
  mm_secrets :: "Secret list"
  mm_owner :: "Machine option"
  mm_cluster :: "Cluster option"
  mm_now :: Time
  mm_version :: nat
  mm_log :: history
  mm_commands :: "(string \<times> bmc_command) list"

type_synonym mem_world = "mem \<times> MockClient"

definition not_found :: error where
  "not_found = ErrNotFound ''not found''"

definition meta_key :: "ObjectMeta \<Rightarrow> NamespacedName" where
  "meta_key m = \<lparr>nn_Namespace = om_Namespace m, nn_Name = om_Name m\<rparr>"

definition lookup_by :: "('a \<Rightarrow> NamespacedName) \<Rightarrow> NamespacedName \<Rightarrow> 'a list \<Rightarrow> error + 'a" where
  "lookup_by key k xs = (case List.find (\<lambda>x. key x = k) xs of None \<Rightarrow> Inl not_found | Some x \<Rightarrow> Inr x)"

definition read_mem :: "(mem \<Rightarrow> 'a) \<Rightarrow> (mem_world, 'a) io" where
  "read_mem f = State (\<lambda>w. (f (fst w), w))"

fun replace_host :: "PhysicalHost \<Rightarrow> PhysicalHost list \<Rightarrow> PhysicalHost list" where
  "replace_host h [] = []"
| "replace_host h (x # xs) =
     (if ph_key x = ph_key h then h # filter (\<lambda>y. ph_key y \<noteq> ph_key h) xs else x # replace_host h xs)"

definition stored_hosts :: "mem \<Rightarrow> PhysicalHost list" where
  "stored_hosts m = filter (\<lambda>h. lasting (ph_meta h)) (mm_hosts m)"

definition mem_hosts :: "mem_world \<Rightarrow> NamespacedName \<Rightarrow> PhysicalHost option" where
  "mem_hosts w k = List.find (\<lambda>h. ph_key h = k) (stored_hosts (fst w))"

definition stamp :: "nat \<Rightarrow> PhysicalHost \<Rightarrow> PhysicalHost" where
  "stamp n h = h\<lparr>ph_meta := (ph_meta h)\<lparr>om_ResourceVersion := show_nat n\<rparr>\<rparr>"

definition mem_write ::
  "(PhysicalHost \<Rightarrow> PhysicalHost \<Rightarrow> PhysicalHost) \<Rightarrow> PhysicalHost \<Rightarrow> (mem_world, error + PhysicalHost) io" where
  "mem_write merge h = State (\<lambda>w. let m = fst w in
     case mem_hosts w (ph_key h) of
       None \<Rightarrow> (Inl not_found, w)
     | Some h0 \<Rightarrow>
        if ph_version h0 \<noteq> ph_version h then (Inl (Err ''the object has been modified''), w)
        else let h' = stamp (mm_version m) (merge h0 h);
                 m' = m\<lparr>mm_hosts := replace_host h' (stored_hosts m), mm_version := Suc (mm_version m)\<rparr>
             in (Inr h', (m', snd w)))"

fun replace_machine :: "Beskar7Machine \<Rightarrow> Beskar7Machine list \<Rightarrow> Beskar7Machine list" where
  "replace_machine b [] = []"
| "replace_machine b (x # xs) =
     (if meta_key (bm_meta x) = meta_key (bm_meta b) then b # xs else x # replace_machine b xs)"

definition mem_patch :: "Beskar7Machine \<Rightarrow> (mem_world, error option) io" where
  "mem_patch b = State (\<lambda>w. (None, ((fst w)\<lparr>mm_machines := replace_machine b (mm_machines (fst w))\<rparr>, snd w)))"

definition put_condition :: "Condition \<Rightarrow> Conditions \<Rightarrow> Conditions" where
  "put_condition c cs = c # filter (\<lambda>d. co_Type d \<noteq> co_Type c) cs"

text \<open>Names are unique in a namespace: only the first object under a key is listed.\<close>

definition list_hosts :: "string \<Rightarrow> PhysicalHost list \<Rightarrow> PhysicalHost list" where
  "list_hosts ns xs = filter (\<lambda>h. om_Namespace (ph_meta h) = ns \<and>
     List.find (\<lambda>x. ph_key x = ph_key h) xs = Some h) xs"

definition mem_env :: "mem_world env" where
  "mem_env =
    \<lparr>Now = read_mem mm_now,
     Get_PhysicalHost = (\<lambda>k. read_mem (\<lambda>m. lookup_by ph_key k (stored_hosts m))),
     Get_Beskar7Machine = (\<lambda>k. read_mem (\<lambda>m. lookup_by (\<lambda>b. meta_key (bm_meta b)) k (mm_machines m))),
     Get_Beskar7Cluster = (\<lambda>k. State_Monad.return (Inl not_found)),
     Get_Secret = (\<lambda>k. read_mem (\<lambda>m. lookup_by (\<lambda>s. meta_key (se_meta s)) k (mm_secrets m))),
     List_PhysicalHosts = (\<lambda>ns. read_mem (\<lambda>m. Inr (list_hosts ns (stored_hosts m)))),
     List_Beskar7Clusters = (\<lambda>ns. State_Monad.return (Inr [])),
     List_Machines = (\<lambda>ns ls. State_Monad.return (Inr [])),
     Update_PhysicalHost = mem_write (\<lambda>h0 h. h\<lparr>ph_Status := ph_Status h0\<rparr>),
     StatusUpdate_PhysicalHost = mem_write (\<lambda>h0 h. h0\<lparr>ph_Status := ph_Status h\<rparr>),
     Event_PhysicalHost = (\<lambda>h t r m. State_Monad.return ()),
     GetOwnerMachine = (\<lambda>m. read_mem (\<lambda>s. Inr (mm_owner s))),
     GetClusterFromMetadata = (\<lambda>m. read_mem (\<lambda>s. Inr (mm_cluster s))),
     GetOwnerCluster = (\<lambda>m. read_mem (\<lambda>s. Inr (mm_cluster s))),
     NewHelper_Beskar7Machine = (\<lambda>m. None),
     NewHelper_Beskar7Cluster = (\<lambda>c. None),
     Patch_Beskar7Machine = (\<lambda>before after. mem_patch after),
     Patch_Beskar7Cluster = (\<lambda>before after. State_Monad.return None),
     HasPaused = (\<lambda>m. om_Annotations m ''cluster.x-k8s.io/paused'' \<noteq> None),
     AddFinalizer = (\<lambda>f fs. if f \<in> set fs then (fs, False) else (fs @ [f], True)),
     RemoveFinalizer = (\<lambda>f fs. (filter (\<lambda>g. g \<noteq> f) fs, f \<in> set fs)),
     ContainsFinalizer = (\<lambda>f fs. f \<in> set fs),
     MarkTrue = (\<lambda>t. put_condition
        \<lparr>co_Type = t, co_Status = ''True'', co_Severity = '''', co_Reason = '''', co_Message = ''''\<rparr>),
     MarkFalse = (\<lambda>t r v m. put_condition
        \<lparr>co_Type = t, co_Status = ''False'', co_Severity = v, co_Reason = r, co_Message = m\<rparr>),
     IsTrue = (\<lambda>t cs. case condition_of t cs of None \<Rightarrow> False | Some c \<Rightarrow> co_Status c = ''True''),
     SetSummary = (\<lambda>ts cs. cs)\<rparr>"

lemma mem_env_simps [simp]:
  "Now mem_env = read_mem mm_now"
  "Get_PhysicalHost mem_env k = read_mem (\<lambda>m. lookup_by ph_key k (stored_hosts m))"
  "Get_Beskar7Machine mem_env k = read_mem (\<lambda>m. lookup_by (\<lambda>b. meta_key (bm_meta b)) k (mm_machines m))"
  "Get_Secret mem_env k = read_mem (\<lambda>m. lookup_by (\<lambda>s. meta_key (se_meta s)) k (mm_secrets m))"
  "List_PhysicalHosts mem_env ns = read_mem (\<lambda>m. Inr (list_hosts ns (stored_hosts m)))"
  "Update_PhysicalHost mem_env = mem_write (\<lambda>h0 h. h\<lparr>ph_Status := ph_Status h0\<rparr>)"
  "StatusUpdate_PhysicalHost mem_env = mem_write (\<lambda>h0 h. h0\<lparr>ph_Status := ph_Status h\<rparr>)"
  "Event_PhysicalHost mem_env h t r msg = State_Monad.return ()"
  "GetOwnerMachine mem_env om = read_mem (\<lambda>s. Inr (mm_owner s))"
  "GetClusterFromMetadata mem_env om = read_mem (\<lambda>s. Inr (mm_cluster s))"
  "NewHelper_Beskar7Machine mem_env b = None"
  "Patch_Beskar7Machine mem_env b b' = mem_patch b'"
  "HasPaused mem_env om = (om_Annotations om ''cluster.x-k8s.io/paused'' \<noteq> None)"
  "AddFinalizer mem_env f fs = (if f \<in> set fs then (fs, False) else (fs @ [f], True))"
  "RemoveFinalizer mem_env f fs = (filter (\<lambda>g. g \<noteq> f) fs, f \<in> set fs)"
  "ContainsFinalizer mem_env f fs = (f \<in> set fs)"
  "MarkTrue mem_env t = put_condition
        \<lparr>co_Type = t, co_Status = ''True'', co_Severity = '''', co_Reason = '''', co_Message = ''''\<rparr>"
  "MarkFalse mem_env t r v msg = put_condition
        \<lparr>co_Type = t, co_Status = ''False'', co_Severity = v, co_Reason = r, co_Message = msg\<rparr>"
  "SetSummary mem_env ts cs = cs"
  by (simp_all add: mem_env_def)

lemma run_read_mem [simp]: "run_state (read_mem f) w = (f (fst w), w)"
  by (simp add: read_mem_def)

lemma condition_of_put [simp]: "condition_of (co_Type c) (put_condition c cs) = Some c"
  by (simp add: condition_of_def put_condition_def)

lemma find_filter_other:
  "(\<And>x. Q x \<Longrightarrow> P x) \<Longrightarrow> List.find Q (filter P xs) = List.find Q xs"
  by (induction xs) auto

lemma condition_of_put_other: "co_Type c \<noteq> u \<Longrightarrow> condition_of u (put_condition c cs) = condition_of u cs"
  unfolding condition_of_def put_condition_def
  by (subst find.simps(2)) (auto intro!: find_filter_other)

lemma mem_finalizers_ok: "finalizers_ok mem_env"
  by (simp add: finalizers_ok_def)

lemma mem_conditions_ok: "conditions_ok mem_env"
proof -
  have t: "condition_of t (put_condition \<lparr>co_Type = t, co_Status = s, co_Severity = v, co_Reason = r, co_Message = m\<rparr> cs)
      = Some \<lparr>co_Type = t, co_Status = s, co_Severity = v, co_Reason = r, co_Message = m\<rparr>" for t s v r m cs
    using condition_of_put [of "\<lparr>co_Type = t, co_Status = s, co_Severity = v, co_Reason = r, co_Message = m\<rparr>"] by simp
  have u: "t \<noteq> u \<Longrightarrow> condition_of u (put_condition \<lparr>co_Type = t, co_Status = s, co_Severity = v, co_Reason = r, co_Message = m\<rparr> cs)
      = condition_of u cs" for t u s v r m cs
    by (rule condition_of_put_other) simp
  have i: "IsTrue mem_env t cs = (case condition_of t cs of None \<Rightarrow> False | Some c \<Rightarrow> co_Status c = ''True'')" for t cs
    by (simp add: mem_env_def)
  show ?thesis
    unfolding conditions_ok_def by (simp add: t u i split: option.splits)
qed

lemma find_replace_host:
  "List.find (\<lambda>h. ph_key h = ph_key h') xs \<noteq> None \<Longrightarrow> lasting (ph_meta h') \<Longrightarrow> \<forall>h \<in> set xs. lasting (ph_meta h) \<Longrightarrow>
     List.find (\<lambda>h. ph_key h = ph_key h') (filter (\<lambda>h. lasting (ph_meta h)) (replace_host h' xs)) = Some h'"
  by (induction xs) auto

lemma mem_hosts_lasting: "mem_hosts w k = Some h \<Longrightarrow> ph_key h = k \<and> lasting (ph_meta h)"
  unfolding mem_hosts_def stored_hosts_def by (drule find_SomeD) simp

lemma ph_key_stamp [simp]: "ph_key (stamp n h) = ph_key h"
  by (simp add: stamp_def ph_key_def)

lemma stamp_frame [simp]: "ph_Spec (stamp n h) = ph_Spec h" "ph_Status (stamp n h) = ph_Status h"
  by (simp_all add: stamp_def)

lemma lasting_stamp [simp]: "lasting (ph_meta (stamp n h)) = lasting (ph_meta h)"
  by (simp add: stamp_def lasting_def)

lemma mem_write_success:
  assumes "run_state (mem_write merge h) w = (Inr h', w')"
    and "\<And>h0. ph_key h0 = ph_key h \<Longrightarrow> lasting (ph_meta h0) \<Longrightarrow> ph_key (merge h0 h) = ph_key h \<and> lasting (ph_meta (merge h0 h))"
  shows "\<exists>h0. mem_hosts w (ph_key h) = Some h0 \<and> ph_version h0 = ph_version h \<and>
    h' = stamp (mm_version (fst w)) (merge h0 h) \<and> ph_key h' = ph_key h \<and> mem_hosts w' (ph_key h) = Some h'"
proof -
  from assms(1) obtain h0 where h0: "mem_hosts w (ph_key h) = Some h0"
    by (cases "mem_hosts w (ph_key h)") (simp_all add: mem_write_def Let_def)
  with assms(1) have v: "ph_version h0 = ph_version h"
    by (simp add: mem_write_def Let_def split: if_splits)
  with assms(1) h0 have h': "h' = stamp (mm_version (fst w)) (merge h0 h)"
    by (simp add: mem_write_def Let_def)
  from assms(1) h0 v have w': "mm_hosts (fst w') = replace_host h' (stored_hosts (fst w))"
    by (auto simp: mem_write_def Let_def)
  from mem_hosts_lasting [OF h0] assms(2) h' have k: "ph_key h' = ph_key h" "lasting (ph_meta h')"
    by simp_all
  have "List.find (\<lambda>x. ph_key x = ph_key h') (stored_hosts (fst w)) \<noteq> None"
    using h0 k by (simp add: mem_hosts_def)
  from find_replace_host [OF this k(2)] have "mem_hosts w' (ph_key h) = Some h'"
    unfolding mem_hosts_def stored_hosts_def [of "fst w'"] w' k(1) by (simp add: stored_hosts_def)
  with h0 v h' k show ?thesis by simp
qed

lemma find_key_filter:
  "List.find (\<lambda>x. ph_key x = k) (filter (\<lambda>y. ph_key y \<noteq> k' \<and> P y) xs) =
     (if k = k' then None else List.find (\<lambda>x. ph_key x = k) (filter P xs))"
  by (induction xs) auto

lemma find_replace_key:
  "List.find (\<lambda>x. ph_key x = ph_key h) xs \<noteq> None \<Longrightarrow>
     List.find (\<lambda>x. ph_key x = k) (filter P (replace_host h xs)) =
     (if k = ph_key h then (if P h then Some h else None) else List.find (\<lambda>x. ph_key x = k) (filter P xs))"
  by (induction xs) (auto simp: find_key_filter)

text \<open>What a write against the stored version does to the whole store: the object under its key is the new one, gone once it is released.\<close>

lemma mem_write_store:
  assumes "run_state (mem_write merge h) w = (u, w')" and "mem_hosts w (ph_key h) = Some h0" and "ph_version h0 = ph_version h"
    and "ph_key (merge h0 h) = ph_key h" and "h' = stamp (mm_version (fst w)) (merge h0 h)"
  shows "u = Inr h' \<and> mem_hosts w' = (mem_hosts w)(ph_key h := (if lasting (ph_meta h') then Some h' else None)) \<and>
    mm_version (fst w') = Suc (mm_version (fst w)) \<and> mm_log (fst w') = mm_log (fst w)"
proof -
  have w': "u = Inr h'" "fst w' = (fst w)\<lparr>mm_hosts := replace_host h' (stored_hosts (fst w)), mm_version := Suc (mm_version (fst w))\<rparr>"
    using assms(1-3,5) by (auto simp: mem_write_def Let_def)
  have "List.find (\<lambda>x. ph_key x = ph_key h') (stored_hosts (fst w)) \<noteq> None"
    using assms(2,4,5) by (simp add: mem_hosts_def)
  from find_replace_key [OF this, of _ "\<lambda>h. lasting (ph_meta h)"]
  have "mem_hosts w' k = ((mem_hosts w)(ph_key h := (if lasting (ph_meta h') then Some h' else None))) k" for k
    using assms(4,5) by (simp add: mem_hosts_def stored_hosts_def [of "fst w'"] w'(2)) (simp add: stored_hosts_def)
  with w' show ?thesis by auto
qed

lemma lookup_by_genuine:
  assumes "lookup_by ph_key k (stored_hosts (fst w)) = Inr h"
  shows "ph_key h = k \<and> genuine mem_hosts h w \<and> lasting (ph_meta h)"
proof -
  from assms have f: "mem_hosts w k = Some h"
    by (simp add: lookup_by_def mem_hosts_def split: option.splits)
  with mem_hosts_lasting [OF f] show ?thesis by (simp add: genuine_def)
qed

lemma mem_store_ok: "store_ok mem_env mem_hosts (genuine mem_hosts)"
  unfolding store_ok_def
proof (intro conjI allI impI ballI)
  show "mem_hosts w (ph_key h) = Some h \<Longrightarrow> genuine mem_hosts h w" for h w
    by (simp add: genuine_def)
next
  fix k w h w'
  assume "run_state (Get_PhysicalHost mem_env k) w = (Inr h, w')"
  then show "ph_key h = k" "genuine mem_hosts h w'" "lasting (ph_meta h)" by (auto dest: lookup_by_genuine)
next
  fix ns w hs w' h
  assume "run_state (List_PhysicalHosts mem_env ns) w = (Inr hs, w')" and "h \<in> set hs"
  then show "om_Namespace (ph_meta h) = ns" "genuine mem_hosts h w'" "lasting (ph_meta h)"
    by (auto simp: list_hosts_def genuine_def mem_hosts_def stored_hosts_def)
next
  fix h w h' w'
  assume "lasting (ph_meta h)" and "run_state (Update_PhysicalHost mem_env h) w = (Inr h', w')"
  then show "\<exists>h0. mem_hosts w (ph_key h) = Some h0 \<and> ph_version h0 = ph_version h \<and>
      mem_hosts w' (ph_key h) = Some h' \<and> ph_key h' = ph_key h \<and>
      ph_Spec h' = ph_Spec h \<and> ph_Status h' = ph_Status h0"
    using mem_write_success [of "\<lambda>h0 h. h\<lparr>ph_Status := ph_Status h0\<rparr>" h w h' w'] by (auto simp: ph_key_def)
next
  fix h w h' w'
  assume "run_state (StatusUpdate_PhysicalHost mem_env h) w = (Inr h', w')"
  then show "\<exists>h0. mem_hosts w (ph_key h) = Some h0 \<and> ph_version h0 = ph_version h \<and>
      mem_hosts w' (ph_key h) = Some h' \<and> ph_key h' = ph_key h \<and>
      ph_Spec h' = ph_Spec h0 \<and> ph_Status h' = ph_Status h"
    using mem_write_success [of "\<lambda>h0 h. h0\<lparr>ph_Status := ph_Status h\<rparr>" h w h' w'] by (auto simp: ph_key_def)
qed (simp_all add: keeps_def)

section \<open>A site of BMCs\<close>

text \<open>
  One \<open>MockClient\<close> per address as far as commands are concerned: \<open>site_client a\<close> is the mock with a
  record of the commands that were accepted at \<open>a\<close>.
\<close>

definition noting :: "string \<times> bmc_command \<Rightarrow> (mem_world, error option) io \<Rightarrow> (mem_world, error option) io" where
  "noting c m = State (\<lambda>w. case run_state m w of
     (None, w') \<Rightarrow> (None, ((fst w')\<lparr>mm_commands := mm_commands (fst w') @ [c]\<rparr>, snd w')) | (Some err, w') \<Rightarrow> (Some err, w'))"

definition site_client :: "string \<Rightarrow> mem_world Client" where
  "site_client a = mock_client\<lparr>SetBootSourcePXE := noting (a, BootFromPXE) (SetBootSourcePXE mock_client),
     SetPowerState := (\<lambda>p. noting (a, PowerRequest p) (SetPowerState mock_client p))\<rparr>"

definition site_factory :: "mem_world RedfishClientFactory" where
  "site_factory address username password insecure = State_Monad.return (Inr (site_client address))"

definition site_commands :: "mem_world \<Rightarrow> (string \<times> bmc_command) list" where
  "site_commands w = mm_commands (fst w)"

lemma run_noting:
  "run_state (noting c m) w = (case run_state m w of
     (None, w') \<Rightarrow> (None, ((fst w')\<lparr>mm_commands := mm_commands (fst w') @ [c]\<rparr>, snd w')) | (Some err, w') \<Rightarrow> (Some err, w'))"
  by (simp add: noting_def)

interpretation site: bmc_session "site_client a" site_commands a for a
  by unfold_locales (auto simp: site_client_def run_noting site_commands_def split: option.splits prod.splits)

section \<open>Sample objects\<close>

definition sample_meta :: "string \<Rightarrow> string list \<Rightarrow> ObjectMeta" where
  "sample_meta name fs = \<lparr>om_Name = name, om_Namespace = ''metal'', om_UID = ''u1'', om_ResourceVersion = ''7'',
     om_Labels = Map.empty, om_Annotations = Map.empty, om_Finalizers = fs, om_DeletionTimestamp = None\<rparr>"

definition sample_status :: "string \<Rightarrow> PhysicalHostStatus" where
  "sample_status state = \<lparr>st_Ready = False, st_State = state, st_ObservedPowerState = '''', st_ErrorMessage = '''',
     st_HardwareDetails = \<lparr>hd_Manufacturer = '''', hd_Model = '''', hd_SerialNumber = '''',
       hd_Status = \<lparr>hs_Health = '''', hs_HealthRollup = '''', hs_State = ''''\<rparr>\<rparr>,
     st_Addresses = [], st_InspectionReport = None, st_InspectionPhase = '''', st_InspectionTimestamp = None,
     st_Conditions = []\<rparr>"

definition sample_host :: "string \<Rightarrow> string list \<Rightarrow> ObjectReference option \<Rightarrow> string \<Rightarrow> PhysicalHost" where
  "sample_host name fs ref state =
     \<lparr>ph_type = \<lparr>tm_Kind = ''PhysicalHost'', tm_APIVersion = ''infrastructure.cluster.x-k8s.io/v1beta1''\<rparr>,
      ph_meta = sample_meta name fs,
      ph_Spec = \<lparr>ps_RedfishConnection = \<lparr>rc_Address = ''https://10.0.0.9'', rc_CredentialsSecretRef = ''bmc'',
        rc_InsecureSkipVerify = None\<rparr>, ps_ConsumerRef = ref\<rparr>,
      ph_Status = sample_status state\<rparr>"

definition sample_ref :: "string \<Rightarrow> ObjectReference" where
  "sample_ref name = \<lparr>or_Kind = ''Beskar7Machine'', or_APIVersion = ''infrastructure.cluster.x-k8s.io/v1beta1'',
     or_Name = name, or_Namespace = ''metal'', or_UID = ''u1''\<rparr>"

definition sample_secret :: Secret where
  "sample_secret = \<lparr>se_meta = sample_meta ''bmc'' [], se_CreationTimestamp = 0,
     se_Data = [''username'' \<mapsto> ''admin'', ''password'' \<mapsto> ''pw'']\<rparr>"

definition sample_world :: "PhysicalHost list \<Rightarrow> Secret list \<Rightarrow> mem_world" where
  "sample_world hs secrets =
     (\<lparr>mm_hosts = hs, mm_machines = [], mm_secrets = secrets, mm_owner = None, mm_cluster = None,
       mm_now = 0, mm_version = 8, mm_log = [], mm_commands = []\<rparr>, NewMockClient)"

definition sample_key :: "string \<Rightarrow> NamespacedName" where
  "sample_key name = \<lparr>nn_Namespace = ''metal'', nn_Name = name\<rparr>"

lemmas sample_defs = sample_meta_def sample_status_def sample_host_def sample_ref_def sample_secret_def
  sample_world_def sample_key_def NewMockClient_def

lemmas mem_eval = lookup_by_def ph_key_def meta_key_def mem_write_def mem_hosts_def stamp_def ph_version_def
  not_found_def mem_patch_def list_hosts_def put_condition_def condition_of_def
  stored_hosts_def lasting_def Let_def

end
