(* ===== verification/PhysicalHostCtl.thy ===== *)
theory PhysicalHostCtl
  imports MemEnv
begin

text \<open>
  \<open>controllers/physicalhost_controller.go\<close>: the reconciler of \<open>PhysicalHost\<close> objects. It keeps
  the finalizer, contacts the BMC, records what it observes and derives the host's state
  from its \<open>ConsumerRef\<close>.

  The definitions follow the Go functions one by one; \<open>ph_settle\<close> is the tail of
  \<open>reconcileNormal\<close> that decides the state, \<open>ph_reconcileConnected\<close> its part behind a
  successful connection. A nil \<open>RedfishClientFactory\<close> or \<open>Recorder\<close> is called through, which
  is a panic.
\<close>

definition PhysicalHostFinalizer :: string where
  [simp]: "PhysicalHostFinalizer = ''physicalhost.infrastructure.cluster.x-k8s.io''"

record 'w PhysicalHostReconciler =
  pr_Client :: "'w env"
  pr_Recorder :: bool
  pr_RedfishClientFactory :: "'w RedfishClientFactory option"

definition NewPhysicalHostReconciler ::
  "'w env \<Rightarrow> 'w RedfishClientFactory option \<Rightarrow> bool \<Rightarrow> 'w PhysicalHostReconciler" where
  "NewPhysicalHostReconciler c redfishFactory recorder =
     \<lparr>pr_Client = c, pr_Recorder = recorder, pr_RedfishClientFactory = redfishFactory\<rparr>"

text \<open>The literal \<open>cmd/manager/main.go\<close> builds: no \<open>Recorder\<close>, and the factory set to nil.\<close>

definition main_PhysicalHostReconciler :: "'w env \<Rightarrow> 'w PhysicalHostReconciler" where
  "main_PhysicalHostReconciler c =
     \<lparr>pr_Client = c, pr_Recorder = False, pr_RedfishClientFactory = None\<rparr>"

definition updateStatus :: "PhysicalHost \<Rightarrow> string \<Rightarrow> bool \<Rightarrow> string \<Rightarrow> PhysicalHost" where
  "updateStatus ph state ready errorMsg =
     ph\<lparr>ph_Status := (ph_Status ph)\<lparr>st_State := state, st_Ready := ready, st_ErrorMessage := errorMsg\<rparr>\<rparr>"

definition getRedfishCredentials :: "'w env \<Rightarrow> PhysicalHost \<Rightarrow> ('w, error + string \<times> string) io" where
  "getRedfishCredentials E ph =
    (let secretName = rc_CredentialsSecretRef (ps_RedfishConnection (ph_Spec ph)) in
     if secretName = '''' then State_Monad.return (Inl (Err ''credentials secret reference is empty''))
     else do {
       g \<leftarrow> Get_Secret E \<lparr>nn_Namespace = om_Namespace (ph_meta ph), nn_Name = secretName\<rparr>;
       case g of
         Inl err \<Rightarrow>
           State_Monad.return (Inl (if IsNotFound err
             then Err (''credentials secret '' @ Quote secretName @ '' not found'')
             else wrap_error ''failed to get credentials secret'' err))
       | Inr secret \<Rightarrow>
           (case se_Data secret ''username'' of
              None \<Rightarrow> State_Monad.return (Inl (Err (''username not found in secret '' @ Quote secretName)))
            | Some username \<Rightarrow>
                (case se_Data secret ''password'' of
                   None \<Rightarrow> State_Monad.return (Inl (Err (''password not found in secret '' @ Quote secretName)))
                 | Some password \<Rightarrow> State_Monad.return (Inr (username, password))))
     })"

text \<open>\<open>insecure := false; if ptr != nil { insecure = *ptr }\<close>\<close>

definition insecure_setting :: "PhysicalHost \<Rightarrow> bool" where
  "insecure_setting ph = (case rc_InsecureSkipVerify (ps_RedfishConnection (ph_Spec ph)) of
     None \<Rightarrow> False | Some b \<Rightarrow> b)"

section \<open>Reconciliation\<close>

definition hardware_details :: "SystemInfo \<Rightarrow> HardwareDetails" where
  "hardware_details sysInfo =
     \<lparr>hd_Manufacturer = si_Manufacturer sysInfo, hd_Model = si_Model sysInfo,
      hd_SerialNumber = si_SerialNumber sysInfo,
      hd_Status = \<lparr>hs_Health = rs_Health (si_Status sysInfo),
        hs_HealthRollup = rs_HealthRollup (si_Status sysInfo), hs_State = rs_State (si_Status sysInfo)\<rparr>\<rparr>"

definition ph_settle :: "'w env \<Rightarrow> PhysicalHost \<Rightarrow> PhysicalHost" where
  "ph_settle E ph0 =
    (let ph = ph_conditions (MarkTrue E RedfishConnectionReadyCondition) ph0 in
     case ps_ConsumerRef (ph_Spec ph) of
       Some _ \<Rightarrow>
         if st_State (ph_Status ph) \<noteq> StateInUse \<and> st_State (ph_Status ph) \<noteq> StateInspecting
            \<and> st_State (ph_Status ph) \<noteq> StateReady
         then updateStatus ph StateInUse True '''' else ph
     | None \<Rightarrow>
         if st_State (ph_Status ph) \<noteq> StateAvailable
         then ph_conditions (MarkTrue E HostAvailableCondition) (updateStatus ph StateAvailable True '''')
         else ph)"

definition ph_fail :: "'w env \<Rightarrow> PhysicalHost \<Rightarrow> string \<Rightarrow> string \<Rightarrow> string \<Rightarrow> PhysicalHost" where
  "ph_fail E ph errorMsg reason message =
     ph_conditions (MarkFalse E RedfishConnectionReadyCondition reason ConditionSeverityError message)
       (updateStatus ph StateError False errorMsg)"

definition ph_reconcileConnected :: "'w env \<Rightarrow> PhysicalHost \<Rightarrow> 'w Client \<Rightarrow> ('w, ctrl_out) io" where
  "ph_reconcileConnected E ph rfClient = do {
     info \<leftarrow> GetSystemInfo rfClient;
     case info of
       Inl err \<Rightarrow> do {
         _ \<leftarrow> StatusUpdate_PhysicalHost E (ph_fail E ph (''Failed to query system: '' @ Error err)
               RedfishQueryFailedReason (''Query failed: '' @ Error err));
         State_Monad.return (Return (requeue_after minute) (Some err))
       }
     | Inr None \<Rightarrow> State_Monad.return (Panic nil_call)
     | Inr (Some sysInfo) \<Rightarrow> do {
         let ph1 = ph\<lparr>ph_Status := (ph_Status ph)\<lparr>st_HardwareDetails := hardware_details sysInfo\<rparr>\<rparr>;
         power \<leftarrow> GetPowerState rfClient;
         let ph2 = (case power of Inl _ \<Rightarrow> ph1
           | Inr powerState \<Rightarrow> ph1\<lparr>ph_Status := (ph_Status ph1)\<lparr>st_ObservedPowerState := powerState\<rparr>\<rparr>);
         addrs \<leftarrow> GetNetworkAddresses rfClient;
         let ph3 = (case addrs of Inl _ \<Rightarrow> ph2
           | Inr addresses \<Rightarrow>
               ph2\<lparr>ph_Status := (ph_Status ph2)\<lparr>st_Addresses := ConvertToMachineAddresses addresses\<rparr>\<rparr>);
         u \<leftarrow> StatusUpdate_PhysicalHost E (ph_settle E ph3);
         case u of
           Inl err \<Rightarrow> State_Monad.return (Return ResultZero (Some err))
         | Inr _ \<Rightarrow> State_Monad.return (Return (requeue_after (5 * minute)) None)
       }
   }"

definition ph_reconcileNormal :: "'w PhysicalHostReconciler \<Rightarrow> PhysicalHost \<Rightarrow> ('w, ctrl_out) io" where
  "ph_reconcileNormal R ph = (let E = pr_Client R in do {
     creds \<leftarrow> getRedfishCredentials E ph;
     case creds of
       Inl err \<Rightarrow> do {
         u \<leftarrow> StatusUpdate_PhysicalHost E (ph_fail E ph (Error err) MissingCredentialsReason
               (''Failed to retrieve credentials: '' @ Error err));
         case u of
           Inl updateErr \<Rightarrow> State_Monad.return (Return ResultZero (Some updateErr))
         | Inr _ \<Rightarrow> State_Monad.return (Return (requeue_after minute) (Some err))
       }
     | Inr (username, password) \<Rightarrow>
         (case pr_RedfishClientFactory R of
            None \<Rightarrow> State_Monad.return (Panic nil_call)
          | Some factory \<Rightarrow> do {
              conn \<leftarrow> factory (rc_Address (ps_RedfishConnection (ph_Spec ph))) username password
                (insecure_setting ph);
              case conn of
                Inl err \<Rightarrow> do {
                  _ \<leftarrow> StatusUpdate_PhysicalHost E (ph_fail E ph (''Redfish connection failed: '' @ Error err)
                        RedfishConnectionFailedReason (''Connection failed: '' @ Error err));
                  State_Monad.return (Return (requeue_after minute) (Some err))
                }
              | Inr rfClient \<Rightarrow> do {
                  out \<leftarrow> ph_reconcileConnected E ph rfClient;
                  _ \<leftarrow> Close rfClient;
                  State_Monad.return out
                }
            })
   })"

definition ph_set_finalizers :: "string list \<Rightarrow> PhysicalHost \<Rightarrow> PhysicalHost" where
  "ph_set_finalizers fs ph = ph\<lparr>ph_meta := (ph_meta ph)\<lparr>om_Finalizers := fs\<rparr>\<rparr>"

definition ph_reconcileDelete :: "'w PhysicalHostReconciler \<Rightarrow> PhysicalHost \<Rightarrow> ('w, ctrl_out) io" where
  "ph_reconcileDelete R ph = (let E = pr_Client R; fs = om_Finalizers (ph_meta ph) in do {
     recorded \<leftarrow> (case ps_ConsumerRef (ph_Spec ph) of
         None \<Rightarrow> State_Monad.return True
       | Some ref \<Rightarrow>
           if pr_Recorder R then do {
             _ \<leftarrow> Event_PhysicalHost E ph ''Warning'' ''DeletingClaimedHost''
                   (''Deleting host that is still claimed by '' @ or_Name ref);
             State_Monad.return True
           } else State_Monad.return False);
     if \<not> recorded then State_Monad.return (Panic nil_call)
     else if ContainsFinalizer E PhysicalHostFinalizer fs then do {
       u \<leftarrow> Update_PhysicalHost E (ph_set_finalizers (fst (RemoveFinalizer E PhysicalHostFinalizer fs)) ph);
       case u of
         Inl err \<Rightarrow> State_Monad.return (Return ResultZero (Some err))
       | Inr _ \<Rightarrow> State_Monad.return (Return ResultZero None)
     }
     else State_Monad.return (Return ResultZero None)
   })"

definition ph_Reconcile :: "'w PhysicalHostReconciler \<Rightarrow> NamespacedName \<Rightarrow> ('w, ctrl_out) io" where
  "ph_Reconcile R req = (let E = pr_Client R in do {
     g \<leftarrow> Get_PhysicalHost E req;
     case g of
       Inl err \<Rightarrow>
         State_Monad.return (if IsNotFound err then Return ResultZero None else Return ResultZero (Some err))
     | Inr ph \<Rightarrow>
         if om_DeletionTimestamp (ph_meta ph) \<noteq> None then ph_reconcileDelete R ph
         else if \<not> ContainsFinalizer E PhysicalHostFinalizer (om_Finalizers (ph_meta ph)) then do {
           u \<leftarrow> Update_PhysicalHost E
                 (ph_set_finalizers (fst (AddFinalizer E PhysicalHostFinalizer (om_Finalizers (ph_meta ph)))) ph);
           case u of
             Inl err \<Rightarrow> State_Monad.return (Return ResultZero (Some err))
           | Inr _ \<Rightarrow> State_Monad.return (Return requeue_now None)
         }
         else ph_reconcileNormal R ph
   })"

section \<open>Watch on secrets\<close>

text \<open>The mapping function receives an arbitrary object; anything but a secret maps to nothing.\<close>

fun secret_requests :: "string \<Rightarrow> PhysicalHost list \<Rightarrow> NamespacedName list" where
  "secret_requests name [] = []"
| "secret_requests name (ph # phs) =
     (if rc_CredentialsSecretRef (ps_RedfishConnection (ph_Spec ph)) = name
      then ph_key ph # secret_requests name phs else secret_requests name phs)"

definition SecretToPhysicalHosts :: "'w env \<Rightarrow> Secret option \<Rightarrow> ('w, NamespacedName list) io" where
  "SecretToPhysicalHosts E obj = (case obj of
       None \<Rightarrow> State_Monad.return []
     | Some secret \<Rightarrow> do {
         l \<leftarrow> List_PhysicalHosts E (om_Namespace (se_meta secret));
         case l of
           Inl err \<Rightarrow> State_Monad.return []
         | Inr items \<Rightarrow> State_Monad.return (secret_requests (om_Name (se_meta secret)) items)
       })"

lemmas ph_reconcile_defs = ph_reconcileNormal_def ph_reconcileConnected_def ph_reconcileDelete_def
  ph_Reconcile_def Let_def

section \<open>The host state machine\<close>

text \<open>
  What a successful reconciliation promises of the state: a claimed host is in use, being
  inspected or ready, an unclaimed one is available.
\<close>

definition claimed :: "PhysicalHost \<Rightarrow> bool" where
  "claimed ph \<longleftrightarrow> ps_ConsumerRef (ph_Spec ph) \<noteq> None"

definition next_state :: "bool \<Rightarrow> string \<Rightarrow> string" where
  "next_state c s = (if c then (if s \<in> {StateInUse, StateInspecting, StateReady} then s else StateInUse)
     else StateAvailable)"

definition state_matches_claim :: "PhysicalHost \<Rightarrow> bool" where
  "state_matches_claim ph \<longleftrightarrow>
     (if claimed ph then st_State (ph_Status ph) \<in> {StateInUse, StateInspecting, StateReady}
      else st_State (ph_Status ph) = StateAvailable)"

definition redfish_condition :: "PhysicalHost \<Rightarrow> Condition option" where
  "redfish_condition ph = condition_of RedfishConnectionReadyCondition (st_Conditions (ph_Status ph))"

lemma ph_conditions_frame [simp]:
  "ph_meta (ph_conditions f h) = ph_meta h" "ph_Spec (ph_conditions f h) = ph_Spec h"
  "st_State (ph_Status (ph_conditions f h)) = st_State (ph_Status h)"
  "st_Ready (ph_Status (ph_conditions f h)) = st_Ready (ph_Status h)"
  "st_ErrorMessage (ph_Status (ph_conditions f h)) = st_ErrorMessage (ph_Status h)"
  "st_Conditions (ph_Status (ph_conditions f h)) = f (st_Conditions (ph_Status h))"
  "st_InspectionPhase (ph_Status (ph_conditions f h)) = st_InspectionPhase (ph_Status h)"
  by (simp_all add: ph_GetConditions_def ph_SetConditions_def)

lemma updateStatus_frame [simp]:
  "ph_meta (updateStatus h s r m) = ph_meta h" "ph_Spec (updateStatus h s r m) = ph_Spec h"
  "st_State (ph_Status (updateStatus h s r m)) = s" "st_Ready (ph_Status (updateStatus h s r m)) = r"
  "st_ErrorMessage (ph_Status (updateStatus h s r m)) = m"
  "st_Conditions (ph_Status (updateStatus h s r m)) = st_Conditions (ph_Status h)"
  "st_InspectionPhase (ph_Status (updateStatus h s r m)) = st_InspectionPhase (ph_Status h)"
  by (simp_all add: updateStatus_def)

lemma ph_settle_frame [simp]: "ph_meta (ph_settle E ph) = ph_meta ph" "ph_Spec (ph_settle E ph) = ph_Spec ph"
  by (simp_all add: ph_settle_def Let_def split: option.splits)

lemma ph_settle_state: "st_State (ph_Status (ph_settle E ph)) = next_state (claimed ph) (st_State (ph_Status ph))"
  by (simp add: ph_settle_def next_state_def claimed_def Let_def split: option.splits)

lemma ph_settle_phase: "st_InspectionPhase (ph_Status (ph_settle E ph)) = st_InspectionPhase (ph_Status ph)"
  by (simp add: ph_settle_def Let_def split: option.splits)

lemma ph_settle_condition:
  assumes "conditions_ok E"
  shows "map_option co_Status (redfish_condition (ph_settle E ph)) = Some ''True''"
  using conditions_okD(1,3) [OF assms]
  by (simp add: ph_settle_def redfish_condition_def ph_GetConditions_def Let_def split: option.splits)

lemma ph_fail_frame [simp]:
  "ph_meta (ph_fail E ph e r m) = ph_meta ph" "ph_Spec (ph_fail E ph e r m) = ph_Spec ph"
  "st_State (ph_Status (ph_fail E ph e r m)) = StateError" "\<not> st_Ready (ph_Status (ph_fail E ph e r m))"
  "st_ErrorMessage (ph_Status (ph_fail E ph e r m)) = e"
  "st_InspectionPhase (ph_Status (ph_fail E ph e r m)) = st_InspectionPhase (ph_Status ph)"
  by (simp_all add: ph_fail_def)

lemma ph_fail_condition:
  assumes "conditions_ok E"
  shows "redfish_condition (ph_fail E ph e r m) =
    Some \<lparr>co_Type = RedfishConnectionReadyCondition, co_Status = ''False'',
      co_Severity = ConditionSeverityError, co_Reason = r, co_Message = m\<rparr>"
  using conditions_okD(2) [OF assms] by (simp add: ph_fail_def redfish_condition_def)

lemma state_matches_claim_cong:
  "ph_Spec h = ph_Spec g \<Longrightarrow> st_State (ph_Status h) = next_state (claimed g) s \<Longrightarrow> state_matches_claim h"
  by (simp add: state_matches_claim_def next_state_def claimed_def)

section \<open>Reconciling against the stored objects\<close>

text \<open>
  What the reconciler relies on in the BMC connection: while it talks to the device the host
  object it has read stays a seen one, and closing the session leaves the stored objects alone.
\<close>

locale bmc_link =
  fixes hosts :: "'w \<Rightarrow> NamespacedName \<Rightarrow> PhysicalHost option" and seen :: "PhysicalHost \<Rightarrow> 'w \<Rightarrow> bool" and F :: "'w RedfishClientFactory"
  assumes connect: "keeps (seen h) (F a u p i)"
    and system_info: "run_state (F a u p i) w = (Inr C, w') \<Longrightarrow> keeps (seen h) (GetSystemInfo C)"
    and power_state: "run_state (F a u p i) w = (Inr C, w') \<Longrightarrow> keeps (seen h) (GetPowerState C)"
    and addresses: "run_state (F a u p i) w = (Inr C, w') \<Longrightarrow> keeps (seen h) (GetNetworkAddresses C)"
    and close: "run_state (F a u p i) w = (Inr C, w') \<Longrightarrow> keeps (\<lambda>w. Q (hosts w)) (Close C)"

interpretation mock_link: bmc_link mem_hosts "genuine mem_hosts" mock_factory
proof unfold_locales
  fix Q :: "(NamespacedName \<Rightarrow> PhysicalHost option) \<Rightarrow> bool" and a u p i C and w w' :: mem_world
  assume "run_state (mock_factory a u p i) w = (Inr C, w')"
  then show "keeps (\<lambda>w. Q (mem_hosts w)) (Close C)"
    by (auto simp: keeps_def mock_factory_def mem_hosts_def [abs_def])
qed (auto simp: keeps_def mock_factory_def genuine_def mem_hosts_def)

definition settled :: "(NamespacedName \<Rightarrow> PhysicalHost option) \<Rightarrow> NamespacedName \<Rightarrow> bool" where
  "settled hosts k \<longleftrightarrow> (\<exists>h. hosts k = Some h \<and> state_matches_claim h \<and>
     map_option co_Status (redfish_condition h) = Some ''True'')"

lemma settle_write:
  assumes "store_ok E hosts seen" and "conditions_ok E" and "ph_meta h = ph_meta ph" and "ph_Spec h = ph_Spec ph"
  shows "triple (seen ph) (StatusUpdate_PhysicalHost E (ph_settle E h))
    (\<lambda>r w. \<forall>h'. r = Inr h' \<longrightarrow> settled (hosts w) (ph_key ph))"
proof (rule tripleI, intro allI impI)
  fix w r w' h'
  assume g: "seen ph w" and run: "run_state (StatusUpdate_PhysicalHost E (ph_settle E h)) w = (r, w')"
    and r: "r = Inr h'"
  have *: "hosts w' (ph_key ph) = Some h'" "ph_Spec h' = ph_Spec ph" "ph_Status h' = ph_Status (ph_settle E h)"
    using status_write_on_read [OF assms(1) g _ run [unfolded r]] assms(3) by simp_all
  have "redfish_condition h' = redfish_condition (ph_settle E h)"
    by (simp add: redfish_condition_def *)
  moreover have "state_matches_claim h'"
    by (rule state_matches_claim_cong [where g = h]) (simp_all add: * assms(4) ph_settle_state)
  ultimately show "settled (hosts w') (ph_key ph)"
    using * ph_settle_condition [OF assms(2), of h] by (simp add: settled_def)
qed

abbreviation settled_success ::
  "(NamespacedName \<Rightarrow> PhysicalHost option) \<Rightarrow> NamespacedName \<Rightarrow> ctrl_out \<Rightarrow> bool" where
  "settled_success hosts k out \<equiv> (out = Return (requeue_after (5 * minute)) None \<longrightarrow> settled hosts k)"

lemma getRedfishCredentials_keeps:
  "store_ok E hosts seen \<Longrightarrow> keeps (seen h) (getRedfishCredentials E ph)"
  unfolding getRedfishCredentials_def Let_def
  by (intro keeps_rules store_ok_secret)

context bmc_link
begin

lemma connected_settles:
  assumes "store_ok E hosts seen" and "conditions_ok E" and F: "run_state (F a u p i) w0 = (Inr C, w1)"
  shows "triple (seen ph) (ph_reconcileConnected E ph C)
    (\<lambda>out w. settled_success (hosts w) (ph_key ph) out)"
  unfolding ph_reconcileConnected_def
  apply (rule triple_keeps_bind [OF system_info [OF F]])
  apply (rule triple_case_sum)
   apply (rule triple_bind [where R = "\<lambda>_ _. True"], simp add: triple_def)
   apply (rule triple_return, simp)
  apply (rule triple_case_option)
   apply (rule triple_return, simp)
  apply (rule triple_let)
  apply (rule triple_keeps_bind [OF power_state [OF F]], rule triple_let)
  apply (rule triple_keeps_bind [OF addresses [OF F]], rule triple_let)
  apply (rule triple_bind, rule settle_write [OF assms(1,2)])
    apply (simp split: sum.splits)
   apply (simp split: sum.splits)
  apply (rule triple_case_sum; rule triple_return; simp)
  done

lemma normal_settles:
  assumes "store_ok (pr_Client R) hosts seen" and "conditions_ok (pr_Client R)"
    and "pr_RedfishClientFactory R = Some F"
  shows "triple (seen ph) (ph_reconcileNormal R ph)
    (\<lambda>out w. settled_success (hosts w) (ph_key ph) out)"
  unfolding ph_reconcileNormal_def Let_def
  apply (rule triple_keeps_bind [OF getRedfishCredentials_keeps [OF assms(1)]])
  apply (rule triple_case_sum)
   apply (rule triple_bind [where R = "\<lambda>_ _. True"], simp add: triple_def)
   apply (rule triple_case_sum; rule triple_return; simp)
  apply (rule triple_case_prod, simp add: assms(3))
  apply (rule triple_bind [where R = "\<lambda>c w. seen ph w \<and> (\<forall>C. c = Inr C \<longrightarrow>
      (\<exists>a u p i w0 w1. run_state (F a u p i) w0 = (Inr C, w1)))"])
   apply (rule tripleI, blast dest: keepsD [OF connect])
  apply (rule triple_case_sum)
   apply (rule triple_bind [where R = "\<lambda>_ _. True"], simp add: triple_def)
   apply (rule triple_return, simp)
  apply (rule triple_conj, drule spec, drule mp, assumption, elim exE)
  apply (rule triple_bind, erule connected_settles [OF assms(1,2)])
  apply (rule triple_keeps_bind, erule close)
  apply (rule triple_return, simp)
  done

end

section \<open>Properties\<close>

text \<open>
  C3. When a reconciliation of a host ends with its success outcome, no error and a requeue after five minutes, the object
  stored under the request is settled: a claimed host is in use, inspecting or ready, an unclaimed one is available, and its
  Redfish condition is true. This holds for any API server with optimistic concurrency, however
  other clients write between the calls, and any BMC connection that leaves the objects alone.
\<close>

theorem ph_Reconcile_settles:
  assumes "store_ok (pr_Client R) hosts seen" and "conditions_ok (pr_Client R)"
    and "pr_RedfishClientFactory R = Some F" and "bmc_link hosts seen F"
    and "run_state (ph_Reconcile R req) w = (Return (requeue_after (5 * minute)) None, w')"
  shows "settled (hosts w') req"
proof -
  have delete: "triple P (ph_reconcileDelete R ph) (\<lambda>out w. settled_success (hosts w) req out)" for P ph
    unfolding triple_def ph_reconcileDelete_def by (auto simp: Let_def split: sum.splits option.splits prod.splits)
  have "triple (\<lambda>_. True) (ph_Reconcile R req) (\<lambda>out w. settled_success (hosts w) req out)"
    unfolding ph_Reconcile_def Let_def
    apply (rule triple_bind [where R = "\<lambda>g w. \<forall>ph. g = Inr ph \<longrightarrow> seen ph w \<and> ph_key ph = req"])
     apply (rule tripleI, blast dest: store_ok_get [OF assms(1)])
    apply (rule triple_case_sum, rule triple_return, simp)
    apply (rule triple_if, rule delete)
    apply (rule triple_if)
     apply (rule triple_bind [where R = "\<lambda>_ _. True"], simp add: triple_def)
     apply (rule triple_case_sum; rule triple_return; simp)
    apply (simp, rule triple_conj)
    using bmc_link.normal_settles [OF assms(4,1,2,3)] by auto
  from tripleD [OF this assms(5)] show ?thesis by simp
qed

text \<open>The same for a claimed host that was in the error state, reconciled against the mock BMC.\<close>

definition sample_reconciler :: "mem_world PhysicalHostReconciler" where
  "sample_reconciler = NewPhysicalHostReconciler mem_env (Some mock_factory) True"

definition sample_run :: "ctrl_out \<times> mem_world" where
  "sample_run = run_state (ph_Reconcile sample_reconciler (sample_key ''h1''))
     (sample_world [sample_host ''h1'' [PhysicalHostFinalizer] (Some (sample_ref ''m1'')) StateError] [sample_secret])"

lemmas ph_eval = sample_reconciler_def NewPhysicalHostReconciler_def ph_reconcile_defs getRedfishCredentials_def
  insecure_setting_def mock_factory_def mock_defs hardware_details_def ph_settle_def ph_fail_def updateStatus_def
  ph_set_finalizers_def ph_GetConditions_def ph_SetConditions_def

theorem ph_Reconcile_settles_witness:
  "fst sample_run = Return (requeue_after (5 * minute)) None \<and> settled (mem_hosts (snd sample_run)) (sample_key ''h1'')"
proof -
  have out: "fst sample_run = Return (requeue_after (5 * minute)) None"
    by (simp add: sample_run_def ph_eval sample_defs mem_eval)
  then have "run_state (ph_Reconcile sample_reconciler (sample_key ''h1''))
      (sample_world [sample_host ''h1'' [PhysicalHostFinalizer] (Some (sample_ref ''m1'')) StateError] [sample_secret])
    = (Return (requeue_after (5 * minute)) None, snd sample_run)"
    by (metis prod.collapse sample_run_def)
  with out show ?thesis
    using ph_Reconcile_settles [of sample_reconciler mem_hosts "genuine mem_hosts" mock_factory "sample_key ''h1''"]
    by (simp add: sample_reconciler_def NewPhysicalHostReconciler_def mem_store_ok mem_conditions_ok
        mock_link.bmc_link_axioms)
qed

text \<open>
  C12. When the BMC credentials of a host cannot be read, a reconciliation that asks to be retried in a
  minute has recorded the failure: the stored host is in the error state, is not ready, and carries
  the error and a false Redfish condition with the reason \<open>MissingCredentials\<close>.
\<close>

theorem ph_reconcileNormal_credentials_error:
  assumes "store_ok (pr_Client R) hosts seen" and "conditions_ok (pr_Client R)" and "seen ph w"
    and "run_state (getRedfishCredentials (pr_Client R) ph) w = (Inl err, w1)"
    and "run_state (ph_reconcileNormal R ph) w = (Return (requeue_after minute) e, w')"
  shows "e = Some err \<and> (\<exists>h. hosts w' (ph_key ph) = Some h \<and> st_State (ph_Status h) = StateError \<and>
    \<not> st_Ready (ph_Status h) \<and> st_ErrorMessage (ph_Status h) = Error err \<and>
    map_option co_Status (redfish_condition h) = Some ''False'' \<and>
    map_option co_Reason (redfish_condition h) = Some MissingCredentialsReason)"
proof -
  let ?f = "ph_fail (pr_Client R) ph (Error err) MissingCredentialsReason
    (''Failed to retrieve credentials: '' @ Error err)"
  from assms(4,5) obtain h where h: "run_state (StatusUpdate_PhysicalHost (pr_Client R) ?f) w1 = (Inr h, w')" "e = Some err"
    by (auto simp: ph_reconcileNormal_def Let_def split: sum.splits prod.splits)
  have "seen ph w1"
    by (rule keepsD [OF getRedfishCredentials_keeps [OF assms(1)] assms(4,3)])
  from status_write_on_read [OF assms(1) this _ h(1)]
  have *: "hosts w' (ph_key ph) = Some h" "ph_Status h = ph_Status ?f" by simp_all
  have "redfish_condition h = redfish_condition ?f" by (simp add: redfish_condition_def *)
  with * h(2) ph_fail_condition [OF assms(2)] show ?thesis by simp
qed

theorem ph_reconcileNormal_credentials_error_witness:
  "let w = sample_world [sample_host ''h1'' [PhysicalHostFinalizer] None StateAvailable] [];
       ph = sample_host ''h1'' [PhysicalHostFinalizer] None StateAvailable;
       w' = snd (run_state (ph_reconcileNormal sample_reconciler ph) w)
   in \<exists>h. mem_hosts w' (ph_key ph) = Some h \<and> st_State (ph_Status h) = StateError"
proof -
  let ?ph = "sample_host ''h1'' [PhysicalHostFinalizer] None StateAvailable"
  let ?w = "sample_world [?ph] []"
  let ?err = "Err (''credentials secret '' @ Quote ''bmc'' @ '' not found'')"
  have E: "pr_Client sample_reconciler = mem_env"
    by (simp add: sample_reconciler_def NewPhysicalHostReconciler_def)
  have "genuine mem_hosts ?ph ?w"
    by (simp add: genuine_def sample_defs mem_eval)
  moreover have "run_state (getRedfishCredentials mem_env ?ph) ?w = (Inl ?err, ?w)"
    by (simp add: getRedfishCredentials_def sample_defs mem_eval)
  moreover have "\<exists>w'. run_state (ph_reconcileNormal sample_reconciler ?ph) ?w =
      (Return (requeue_after minute) (Some ?err), w')"
    by (simp add: ph_eval sample_defs mem_eval)
  ultimately show ?thesis
    using ph_reconcileNormal_credentials_error [of sample_reconciler mem_hosts "genuine mem_hosts" ?ph ?w ?err ?w "Some ?err"]
    by (auto simp: E mem_store_ok mem_conditions_ok Let_def)
qed

text \<open>
  C28. With the reconciler that \<open>cmd/manager/main.go\<close> builds (\<open>RedfishClientFactory\<close> nil, no \<open>Recorder\<close>)
  every reconciliation of a host that has its finalizer and whose credentials can be read panics on the nil factory, before any status
  is written; so does the deletion of a claimed host, on the nil recorder.
\<close>

theorem main_reconciler_panics:
  assumes "run_state (Get_PhysicalHost E req) w = (Inr ph, w1)"
    and "om_DeletionTimestamp (ph_meta ph) = None \<Longrightarrow>
      ContainsFinalizer E PhysicalHostFinalizer (om_Finalizers (ph_meta ph)) \<and>
      (\<exists>c. run_state (getRedfishCredentials E ph) w1 = (Inr c, w2))"
    and "om_DeletionTimestamp (ph_meta ph) \<noteq> None \<Longrightarrow> ps_ConsumerRef (ph_Spec ph) \<noteq> None \<and> w2 = w1"
  shows "run_state (ph_Reconcile (main_PhysicalHostReconciler E) req) w = (Panic nil_call, w2)"
  using assms
  by (cases "om_DeletionTimestamp (ph_meta ph)") (auto simp: ph_reconcile_defs main_PhysicalHostReconciler_def)

theorem main_reconciler_panics_witness:
  "fst (run_state (ph_Reconcile (main_PhysicalHostReconciler mem_env) (sample_key ''h1''))
     (sample_world [sample_host ''h1'' [PhysicalHostFinalizer] None StateAvailable] [sample_secret])) = Panic nil_call"
proof -
  let ?ph = "sample_host ''h1'' [PhysicalHostFinalizer] None StateAvailable"
  let ?w = "sample_world [?ph] [sample_secret]"
  have "run_state (Get_PhysicalHost mem_env (sample_key ''h1'')) ?w = (Inr ?ph, ?w)"
    by (simp add: sample_defs mem_eval)
  moreover have "om_DeletionTimestamp (ph_meta ?ph) = None"
    "ContainsFinalizer mem_env PhysicalHostFinalizer (om_Finalizers (ph_meta ?ph))"
    by (simp_all add: sample_defs)
  moreover have "run_state (getRedfishCredentials mem_env ?ph) ?w = (Inr (''admin'', ''pw''), ?w)"
    by (simp add: getRedfishCredentials_def sample_defs mem_eval)
  ultimately have "run_state (ph_Reconcile (main_PhysicalHostReconciler mem_env) (sample_key ''h1'')) ?w = (Panic nil_call, ?w)"
    by - (rule main_reconciler_panics, auto)
  then show ?thesis by simp
qed

text \<open>
  Reconciling a host under deletion ends its finalizer and does nothing else: one event when the
  host is still claimed, then one \<open>Update\<close> of the object read with exactly the controller's finalizer
  taken out of the list. No BMC is contacted and the outcome is the outcome of that update.
\<close>

theorem ph_Reconcile_deletion:
  assumes "finalizers_ok (pr_Client R)" and "pr_Recorder R"
    and "run_state (Get_PhysicalHost (pr_Client R) req) w = (Inr ph, w1)"
    and "om_DeletionTimestamp (ph_meta ph) \<noteq> None" and "PhysicalHostFinalizer \<in> set (om_Finalizers (ph_meta ph))"
  shows "\<exists>w2 u w3 fs. run_state (case ps_ConsumerRef (ph_Spec ph) of None \<Rightarrow> State_Monad.return ()
        | Some ref \<Rightarrow> Event_PhysicalHost (pr_Client R) ph ''Warning'' ''DeletingClaimedHost''
            (''Deleting host that is still claimed by '' @ or_Name ref)) w1 = ((), w2) \<and>
      run_state (Update_PhysicalHost (pr_Client R) (ph_set_finalizers fs ph)) w2 = (u, w3) \<and>
      fs = filter (\<lambda>f. f \<noteq> PhysicalHostFinalizer) (om_Finalizers (ph_meta ph)) \<and>
      run_state (ph_Reconcile R req) w =
        (Return ResultZero (case u of Inl err \<Rightarrow> Some err | Inr _ \<Rightarrow> None), w3)"
  using assms(2-) finalizers_okD(2,3) [OF assms(1)]
  by (cases "ps_ConsumerRef (ph_Spec ph)") (auto simp: ph_reconcile_defs split: prod.splits sum.splits)

theorem ph_Reconcile_deletion_witness:
  "let ph = sample_host ''h1'' [PhysicalHostFinalizer] None StateReady;
       dying = ph\<lparr>ph_meta := (ph_meta ph)\<lparr>om_DeletionTimestamp := Some 5\<rparr>\<rparr>
   in fst (run_state (ph_Reconcile sample_reconciler (sample_key ''h1'')) (sample_world [dying] [])) = Return ResultZero None"
proof -
  define dying where "dying = (sample_host ''h1'' [PhysicalHostFinalizer] None StateReady)
    \<lparr>ph_meta := (sample_meta ''h1'' [PhysicalHostFinalizer])\<lparr>om_DeletionTimestamp := Some 5\<rparr>\<rparr>"
  let ?w = "sample_world [dying] []"
  have "run_state (Get_PhysicalHost mem_env (sample_key ''h1'')) ?w = (Inr dying, ?w)"
    by (simp add: dying_def sample_defs mem_eval)
  then obtain w2 u w3 where *: "w2 = ?w"
    "run_state (Update_PhysicalHost mem_env (ph_set_finalizers [] dying)) w2 = (u, w3)"
    "run_state (ph_Reconcile sample_reconciler (sample_key ''h1'')) ?w =
        (Return ResultZero (case u of Inl err \<Rightarrow> Some err | Inr _ \<Rightarrow> None), w3)"
    using ph_Reconcile_deletion [of sample_reconciler "sample_key ''h1''" ?w dying ?w]
    by (auto simp: sample_reconciler_def NewPhysicalHostReconciler_def mem_finalizers_ok dying_def sample_defs)
  moreover have "\<exists>h. u = Inr h"
    using *(1,2) by (auto simp: dying_def ph_set_finalizers_def sample_defs mem_eval)
  ultimately show ?thesis by (auto simp: dying_def sample_host_def)
qed

lemma secret_requests_eq:
  "secret_requests name phs =
     map ph_key (filter (\<lambda>ph. rc_CredentialsSecretRef (ps_RedfishConnection (ph_Spec ph)) = name) phs)"
  by (induction phs) auto

text \<open>
  The watch on secrets wakes exactly the hosts that use the secret: a listed host is
  requested if and only if it names the changed secret as its credentials.
\<close>

theorem SecretToPhysicalHosts_exact:
  assumes "run_state (List_PhysicalHosts E (om_Namespace (se_meta s))) w = (Inr phs, w')"
  shows "run_state (SecretToPhysicalHosts E (Some s)) w = (map ph_key
    (filter (\<lambda>ph. rc_CredentialsSecretRef (ps_RedfishConnection (ph_Spec ph)) = om_Name (se_meta s)) phs), w')"
  using assms by (simp add: SecretToPhysicalHosts_def secret_requests_eq)

theorem SecretToPhysicalHosts_exact_witness:
  "fst (run_state (SecretToPhysicalHosts mem_env (Some sample_secret))
     (sample_world [sample_host ''h1'' [] None StateNone] [])) = [sample_key ''h1'']"
  using SecretToPhysicalHosts_exact [of mem_env sample_secret "sample_world [sample_host ''h1'' [] None StateNone] []"
    "[sample_host ''h1'' [] None StateNone]"]
  by (simp add: sample_defs mem_eval)

end
