(* ===== verification/Beskar7MachineCtl.thy ===== *)
theory Beskar7MachineCtl
  imports PhysicalHostCtl
begin

text \<open>
  \<open>controllers/beskar7machine_controller.go\<close>: the reconciler of \<open>Beskar7Machine\<close> objects. It
  claims a \<open>PhysicalHost\<close>, boots the inspection image, validates the inspection report and
  reports the machine as provisioned.

  The Go handlers mutate the machine object in place and the caller patches it at the end, also
  when a handler panics. The model returns the machine next to the outcome.
\<close>

definition Beskar7MachineFinalizer :: string where
  [simp]: "Beskar7MachineFinalizer = ''beskar7machine.infrastructure.cluster.x-k8s.io''"

definition ProviderIDPrefix :: string where
  "ProviderIDPrefix = ''b7://''"

definition DefaultInspectionTimeout :: Duration where
  "DefaultInspectionTimeout = 10 * minute"

record 'w Beskar7MachineReconciler =
  mr_Client :: "'w env"
  mr_RedfishClientFactory :: "'w RedfishClientFactory option"

text \<open>The literal \<open>cmd/manager/main.go\<close> builds.\<close>

definition main_Beskar7MachineReconciler :: "'w env \<Rightarrow> 'w Beskar7MachineReconciler" where
  "main_Beskar7MachineReconciler c = \<lparr>mr_Client = c, mr_RedfishClientFactory = None\<rparr>"

section \<open>Provider IDs\<close>

definition providerID :: "string \<Rightarrow> string \<Rightarrow> string" where
  "providerID namespace name = ProviderIDPrefix @ namespace @ ''/'' @ name"

text \<open>
  The loop over the string looks for the first slash; its index stays 0 when there is none. A
  slash is one byte and never part of another character's encoding.
\<close>

fun slash_index :: "nat \<Rightarrow> string \<Rightarrow> nat" where
  "slash_index i [] = 0"
| "slash_index i (c # cs) = (if c = CHR ''/'' then i else slash_index (i + 1) cs)"

definition parseProviderID :: "string \<Rightarrow> error + string \<times> string" where
  "parseProviderID pid =
    (if length pid \<le> length ProviderIDPrefix then Inl (Err ''invalid provider ID format'')
     else
       let parts = drop (length ProviderIDPrefix) pid;
           idx = slash_index 0 parts
       in if idx = 0 then Inl (Err ''invalid provider ID format'')
          else Inr (take idx parts, drop (idx + 1) parts))"

section \<open>Claiming a host\<close>

definition claim_ref :: "Beskar7Machine \<Rightarrow> ObjectReference" where
  "claim_ref b = \<lparr>or_Kind = tm_Kind (bm_type b), or_APIVersion = tm_APIVersion (bm_type b),
     or_Name = om_Name (bm_meta b), or_Namespace = om_Namespace (bm_meta b), or_UID = om_UID (bm_meta b)\<rparr>"

definition set_consumer :: "ObjectReference option \<Rightarrow> PhysicalHost \<Rightarrow> PhysicalHost" where
  "set_consumer ref host = host\<lparr>ph_Spec := (ph_Spec host)\<lparr>ps_ConsumerRef := ref\<rparr>\<rparr>"

fun claim_loop :: "'w env \<Rightarrow> Beskar7Machine \<Rightarrow> PhysicalHost list \<Rightarrow>
    ('w, PhysicalHost option \<times> Result \<times> error option) io" where
  "claim_loop E b [] = State_Monad.return (None, ResultZero, None)"
| "claim_loop E b (host # hosts) =
    (if st_State (ph_Status host) = StateAvailable \<and> ps_ConsumerRef (ph_Spec host) = None then do {
       u \<leftarrow> Update_PhysicalHost E (set_consumer (Some (claim_ref b)) host);
       case u of
         Inl err \<Rightarrow> State_Monad.return (None, ResultZero, Some err)
       | Inr host' \<Rightarrow> State_Monad.return (Some host', requeue_after (5 * second), None)
     }
     else claim_loop E b hosts)"

definition findAvailable :: "'w env \<Rightarrow> Beskar7Machine \<Rightarrow>
    ('w, PhysicalHost option \<times> Result \<times> error option) io" where
  "findAvailable E b = do {
     l \<leftarrow> List_PhysicalHosts E (om_Namespace (bm_meta b));
     case l of
       Inl err \<Rightarrow> State_Monad.return (None, ResultZero, Some err)
     | Inr items \<Rightarrow> claim_loop E b items
   }"

definition findAndClaimOrGetAssociatedHost :: "'w env \<Rightarrow> Beskar7Machine \<Rightarrow>
    ('w, PhysicalHost option \<times> Result \<times> error option) io" where
  "findAndClaimOrGetAssociatedHost E b =
    (case bs_ProviderID (bm_Spec b) of
       None \<Rightarrow> findAvailable E b
     | Some pid \<Rightarrow>
         if pid = '''' then findAvailable E b
         else (case parseProviderID pid of
           Inl _ \<Rightarrow> findAvailable E b
         | Inr (ns, name) \<Rightarrow>
             if ns \<noteq> om_Namespace (bm_meta b) then findAvailable E b
             else do {
               g \<leftarrow> Get_PhysicalHost E \<lparr>nn_Namespace = ns, nn_Name = name\<rparr>;
               case g of
                 Inl _ \<Rightarrow> findAvailable E b
               | Inr host \<Rightarrow> State_Monad.return (Some host, ResultZero, None)
             }))"

section \<open>Inspection\<close>

definition bm_set_phase :: "string \<Rightarrow> Beskar7Machine \<Rightarrow> Beskar7Machine" where
  "bm_set_phase phase b = b\<lparr>bm_Status := (bm_Status b)\<lparr>bt_Phase := Some phase\<rparr>\<rparr>"

text \<open>\<open>string(secret.Data[key])\<close>: a missing key reads as the empty string.\<close>

definition secret_string :: "Secret \<Rightarrow> string \<Rightarrow> string" where
  "secret_string secret key = (case se_Data secret key of None \<Rightarrow> '''' | Some v \<Rightarrow> v)"

text \<open>The outcome \<open>None\<close> is the panic of calling a nil factory.\<close>

definition getRedfishClientForHost :: "'w Beskar7MachineReconciler \<Rightarrow> PhysicalHost \<Rightarrow>
    ('w, (error + 'w Client) option) io" where
  "getRedfishClientForHost R host = do {
     g \<leftarrow> Get_Secret (mr_Client R) \<lparr>nn_Namespace = om_Namespace (ph_meta host),
           nn_Name = rc_CredentialsSecretRef (ps_RedfishConnection (ph_Spec host))\<rparr>;
     case g of
       Inl err \<Rightarrow> State_Monad.return (Some (Inl (wrap_error ''failed to get credentials secret'' err)))
     | Inr secret \<Rightarrow>
         (case mr_RedfishClientFactory R of
            None \<Rightarrow> State_Monad.return None
          | Some factory \<Rightarrow> do {
              c \<leftarrow> factory (rc_Address (ps_RedfishConnection (ph_Spec host)))
                (secret_string secret ''username'') (secret_string secret ''password'') (insecure_setting host);
              State_Monad.return (Some c)
            })
   }"

definition inspecting_status :: "Time \<Rightarrow> PhysicalHost \<Rightarrow> PhysicalHost" where
  "inspecting_status now host = host\<lparr>ph_Status := (ph_Status host)
     \<lparr>st_State := StateInspecting, st_InspectionPhase := InspectionPhaseBooting, st_InspectionTimestamp := Some now\<rparr>\<rparr>"

text \<open>\<open>inspection_boot\<close> is \<open>triggerInspection\<close> behind the connection; the session is closed on every exit.\<close>

definition inspection_boot :: "'w env \<Rightarrow> Beskar7Machine \<Rightarrow> PhysicalHost \<Rightarrow> 'w Client \<Rightarrow>
    ('w, Beskar7Machine \<times> ctrl_out) io" where
  "inspection_boot E b host rfClient = do {
     boot \<leftarrow> SetBootSourcePXE rfClient;
     case boot of
       Some err \<Rightarrow> State_Monad.return (b, Return ResultZero (Some err))
     | None \<Rightarrow> do {
         power \<leftarrow> GetPowerState rfClient;
         case power of
           Inl err \<Rightarrow> State_Monad.return (b, Return ResultZero (Some err))
         | Inr powerState \<Rightarrow> do {
             on \<leftarrow> (if powerState \<noteq> OnPowerState then SetPowerState rfClient OnPowerState
                   else State_Monad.return None);
             case on of
               Some err \<Rightarrow> State_Monad.return (b, Return ResultZero (Some err))
             | None \<Rightarrow> do {
                 now \<leftarrow> Now E;
                 u \<leftarrow> StatusUpdate_PhysicalHost E (inspecting_status now host);
                 case u of
                   Inl err \<Rightarrow> State_Monad.return (b, Return ResultZero (Some err))
                 | Inr _ \<Rightarrow>
                     State_Monad.return (bm_set_phase ''Inspecting'' b, Return (requeue_after (30 * second)) None)
               }
           }
       }
   }"

definition triggerInspection :: "'w Beskar7MachineReconciler \<Rightarrow> Beskar7Machine \<Rightarrow> PhysicalHost \<Rightarrow>
    ('w, Beskar7Machine \<times> ctrl_out) io" where
  "triggerInspection R b host = do {
     c \<leftarrow> getRedfishClientForHost R host;
     case c of
       None \<Rightarrow> State_Monad.return (b, Panic nil_call)
     | Some (Inl err) \<Rightarrow> State_Monad.return (b, Return ResultZero (Some err))
     | Some (Inr rfClient) \<Rightarrow> do {
         out \<leftarrow> inspection_boot (mr_Client R) b host rfClient;
         _ \<leftarrow> Close rfClient;
         State_Monad.return out
       }
   }"

section \<open>Hardware validation\<close>

fun total_cores :: "goint \<Rightarrow> CPUInfo list \<Rightarrow> goint" where
  "total_cores acc [] = acc"
| "total_cores acc (cpu # cpus) = total_cores (acc + ci_Cores cpu) cpus"

fun total_memory :: "goint \<Rightarrow> MemoryInfo list \<Rightarrow> goint" where
  "total_memory acc [] = acc"
| "total_memory acc (mem # mems) =
     (case Sscanf_d (mi_Capacity mem) of
        None \<Rightarrow> total_memory acc mems
      | Some memGB \<Rightarrow> total_memory (acc + memGB) mems)"

fun total_disk :: "goint \<Rightarrow> DiskInfo list \<Rightarrow> goint" where
  "total_disk acc [] = acc"
| "total_disk acc (disk # disks) = total_disk (acc + di_SizeGB disk) disks"

definition shortage :: "string \<Rightarrow> string \<Rightarrow> goint \<Rightarrow> goint \<Rightarrow> error" where
  "shortage what unit_name found required = Err (''insufficient '' @ what @ '': found '' @ show_int (sint found) @
     unit_name @ '', required '' @ show_int (sint required) @ unit_name)"

definition check_hardware :: "HardwareRequirements \<Rightarrow> InspectionReport \<Rightarrow> error option" where
  "check_hardware reqs report =
    (let cores = total_cores 0 (ir_CPUs report); memoryGB = total_memory 0 (ir_Memory report);
         disk = total_disk 0 (ir_Disks report) in
     if sint (hr_MinCPUCores reqs) > 0 \<and> sint cores < sint (hr_MinCPUCores reqs)
     then Some (shortage ''CPU cores'' '''' cores (hr_MinCPUCores reqs))
     else if sint (hr_MinMemoryGB reqs) > 0 \<and> sint memoryGB < sint (hr_MinMemoryGB reqs)
     then Some (shortage ''memory'' '' GB'' memoryGB (hr_MinMemoryGB reqs))
     else if sint (hr_MinDiskGB reqs) > 0 \<and> sint disk < sint (hr_MinDiskGB reqs)
     then Some (shortage ''disk space'' '' GB'' disk (hr_MinDiskGB reqs))
     else None)"

definition ready_status :: "'w env \<Rightarrow> PhysicalHost \<Rightarrow> PhysicalHost" where
  "ready_status E host = ph_conditions (MarkTrue E HostInspectedCondition)
     (host\<lparr>ph_Status := (ph_Status host)\<lparr>st_State := StateReady\<rparr>\<rparr>)"

definition validateInspectionReport :: "'w env \<Rightarrow> Beskar7Machine \<Rightarrow> PhysicalHost \<Rightarrow> ('w, Beskar7Machine \<times> ctrl_out) io" where
  "validateInspectionReport E b host =
    (case st_InspectionReport (ph_Status host) of
       None \<Rightarrow> State_Monad.return (b, Return (requeue_after (10 * second)) None)
     | Some report \<Rightarrow>
         (case (case bs_HardwareRequirements (bm_Spec b) of None \<Rightarrow> None | Some reqs \<Rightarrow> check_hardware reqs report) of
            Some err \<Rightarrow> State_Monad.return (b, Return ResultZero (Some err))
          | None \<Rightarrow> do {
              u \<leftarrow> StatusUpdate_PhysicalHost E (ready_status E host);
              case u of
                Inl err \<Rightarrow> State_Monad.return (b, Return ResultZero (Some err))
              | Inr _ \<Rightarrow> State_Monad.return (b, Return requeue_now None)
            }))"

section \<open>The handlers of a claimed host\<close>

definition timeout_status :: "Duration \<Rightarrow> PhysicalHost \<Rightarrow> PhysicalHost" where
  "timeout_status elapsed host = host\<lparr>ph_Status := (ph_Status host)
     \<lparr>st_InspectionPhase := InspectionPhaseTimeout, st_State := StateError,
      st_ErrorMessage := ''Inspection timeout after '' @ Duration_String elapsed\<rparr>\<rparr>"

definition handleInspectingHost :: "'w env \<Rightarrow> Beskar7Machine \<Rightarrow> PhysicalHost \<Rightarrow> ('w, Beskar7Machine \<times> ctrl_out) io" where
  "handleInspectingHost E b host = do {
     expired \<leftarrow> (case st_InspectionTimestamp (ph_Status host) of
         None \<Rightarrow> State_Monad.return None
       | Some started \<Rightarrow> do {
           now \<leftarrow> Now E;
           let elapsed = time_Sub now started;
           State_Monad.return (if elapsed > DefaultInspectionTimeout then Some elapsed else None)
         });
     case expired of
       Some elapsed \<Rightarrow> do {
         _ \<leftarrow> StatusUpdate_PhysicalHost E (timeout_status elapsed host);
         State_Monad.return (b, Return ResultZero (Some (Err ''inspection timeout'')))
       }
     | None \<Rightarrow>
         if st_InspectionPhase (ph_Status host) = InspectionPhaseComplete
         then validateInspectionReport E b host
         else State_Monad.return (bm_set_phase ''Inspecting'' b, Return (requeue_after (30 * second)) None)
   }"

definition handleReadyHost :: "'w env \<Rightarrow> Beskar7Machine \<Rightarrow> PhysicalHost \<Rightarrow> Beskar7Machine \<times> ctrl_out" where
  "handleReadyHost E b host =
    (let currentProviderID = providerID (om_Namespace (ph_meta host)) (om_Name (ph_meta host));
         b1 = (if bs_ProviderID (bm_Spec b) \<noteq> Some currentProviderID
               then b\<lparr>bm_Spec := (bm_Spec b)\<lparr>bs_ProviderID := Some currentProviderID\<rparr>\<rparr> else b);
         b2 = (if st_Addresses (ph_Status host) \<noteq> []
               then b1\<lparr>bm_Status := (bm_Status b1)\<lparr>bt_Addresses := st_Addresses (ph_Status host)\<rparr>\<rparr> else b1);
         b3 = bm_conditions (MarkTrue E InfrastructureReadyCondition) b2;
         b4 = b3\<lparr>bm_Status := (bm_Status b3)\<lparr>bt_Ready := True\<rparr>\<rparr>
     in (bm_set_phase ''Provisioned'' b4, Return ResultZero None))"

definition handlePhysicalHostState :: "'w Beskar7MachineReconciler \<Rightarrow> Beskar7Machine \<Rightarrow> PhysicalHost \<Rightarrow>
    ('w, Beskar7Machine \<times> ctrl_out) io" where
  "handlePhysicalHostState R b host = (let E = mr_Client R; state = st_State (ph_Status host) in
     if state = StateReady then State_Monad.return (handleReadyHost E b host)
     else if state = StateInspecting then handleInspectingHost E b host
     else if state = StateInUse then triggerInspection R b host
     else if state = StateError then
       (let b1 = bm_conditions (MarkFalse E InfrastructureReadyCondition PhysicalHostErrorReason ConditionSeverityError
              (''PhysicalHost '' @ Quote (om_Name (ph_meta host)) @ '' in error state: '' @
               st_ErrorMessage (ph_Status host))) b;
            b2 = bm_set_phase ''Failed'' b1
        in State_Monad.return (b2\<lparr>bm_Status := (bm_Status b2)\<lparr>bt_Ready := False\<rparr>\<rparr>, Return ResultZero None))
     else
       (let b1 = bm_conditions (MarkFalse E InfrastructureReadyCondition PhysicalHostNotReadyReason ConditionSeverityInfo
              (''PhysicalHost '' @ Quote (om_Name (ph_meta host)) @ '' is in state: '' @ state)) b
        in State_Monad.return (bm_set_phase ''Pending'' b1, Return (requeue_after (30 * second)) None)))"

section \<open>Reconciliation\<close>

definition bm_set_finalizers :: "string list \<Rightarrow> Beskar7Machine \<Rightarrow> Beskar7Machine" where
  "bm_set_finalizers fs b = b\<lparr>bm_meta := (bm_meta b)\<lparr>om_Finalizers := fs\<rparr>\<rparr>"

definition bm_reconcileNormal :: "'w Beskar7MachineReconciler \<Rightarrow> Beskar7Machine \<Rightarrow> ('w, Beskar7Machine \<times> ctrl_out) io" where
  "bm_reconcileNormal R b0 =
    (let E = mr_Client R; (fs, added) = AddFinalizer E Beskar7MachineFinalizer (om_Finalizers (bm_meta b0));
         b = bm_set_finalizers fs b0 in
     if added then State_Monad.return (b, Return requeue_now None)
     else do {
       found \<leftarrow> findAndClaimOrGetAssociatedHost E b;
       (case found of (physicalHost, result, err) \<Rightarrow>
         (case err of
            Some e \<Rightarrow> State_Monad.return (bm_conditions (MarkFalse E PhysicalHostAssociatedCondition
                PhysicalHostAssociationFailedReason ConditionSeverityWarning
                (''Failed to associate with PhysicalHost: '' @ Error e)) b, Return result (Some e))
          | None \<Rightarrow>
              (case physicalHost of
                 None \<Rightarrow> State_Monad.return (bm_conditions (MarkFalse E PhysicalHostAssociatedCondition
                     WaitingForPhysicalHostReason ConditionSeverityInfo ''No available PhysicalHost found'') b,
                   Return (requeue_after minute) None)
               | Some host \<Rightarrow>
                   (let b1 = bm_conditions (MarkTrue E PhysicalHostAssociatedCondition) b in
                    if \<not> Result_IsZero result then State_Monad.return (b1, Return result None)
                    else handlePhysicalHostState R b1 host))))
     })"

definition release_host :: "'w env \<Rightarrow> Beskar7Machine \<Rightarrow> ('w, error option) io" where
  "release_host E b =
    (case bs_ProviderID (bm_Spec b) of
       None \<Rightarrow> State_Monad.return None
     | Some pid \<Rightarrow>
         if pid = '''' then State_Monad.return None
         else (case parseProviderID pid of
           Inl _ \<Rightarrow> State_Monad.return None
         | Inr (ns, name) \<Rightarrow> do {
             g \<leftarrow> Get_PhysicalHost E \<lparr>nn_Namespace = ns, nn_Name = name\<rparr>;
             case g of
               Inl _ \<Rightarrow> State_Monad.return None
             | Inr host \<Rightarrow>
                 (case ps_ConsumerRef (ph_Spec host) of
                    None \<Rightarrow> State_Monad.return None
                  | Some ref \<Rightarrow>
                      if or_Name ref = om_Name (bm_meta b) then do {
                        u \<leftarrow> Update_PhysicalHost E (set_consumer None host);
                        State_Monad.return (case u of Inl err \<Rightarrow> Some err | Inr _ \<Rightarrow> None)
                      }
                      else State_Monad.return None)
           }))"

definition bm_reconcileDelete :: "'w Beskar7MachineReconciler \<Rightarrow> Beskar7Machine \<Rightarrow> ('w, Beskar7Machine \<times> ctrl_out) io" where
  "bm_reconcileDelete R b = (let E = mr_Client R in do {
     released \<leftarrow> release_host E b;
     case released of
       Some err \<Rightarrow> State_Monad.return (b, Return ResultZero (Some err))
     | None \<Rightarrow> State_Monad.return
         (bm_set_finalizers (fst (RemoveFinalizer E Beskar7MachineFinalizer (om_Finalizers (bm_meta b)))) b,
          Return ResultZero None)
   })"

text \<open>\<open>patch_on_exit\<close> is the deferred function: it runs on every exit, a panic included.\<close>

definition patch_on_exit :: "'w env \<Rightarrow> Beskar7Machine \<Rightarrow> Beskar7Machine \<times> ctrl_out \<Rightarrow> ('w, ctrl_out) io" where
  "patch_on_exit E before exit_state = (case exit_state of (b, out) \<Rightarrow> do {
     p \<leftarrow> Patch_Beskar7Machine E before (bm_conditions (SetSummary E [InfrastructureReadyCondition]) b);
     State_Monad.return (case out of
         Panic m \<Rightarrow> Panic m
       | Return result reterr \<Rightarrow> Return result (case reterr of None \<Rightarrow> p | Some e \<Rightarrow> Some e))
   })"

definition bm_Reconcile :: "'w Beskar7MachineReconciler \<Rightarrow> NamespacedName \<Rightarrow> ('w, ctrl_out) io" where
  "bm_Reconcile R req = (let E = mr_Client R in do {
     g \<leftarrow> Get_Beskar7Machine E req;
     case g of
       Inl err \<Rightarrow>
         State_Monad.return (if IsNotFound err then Return ResultZero None else Return ResultZero (Some err))
     | Inr b \<Rightarrow>
         if isPaused E (bm_meta b) then State_Monad.return (Return ResultZero None)
         else do {
           owner \<leftarrow> GetOwnerMachine E (bm_meta b);
           case owner of
             Inl err \<Rightarrow> State_Monad.return (Return ResultZero (Some err))
           | Inr None \<Rightarrow> State_Monad.return (Return (requeue_after (10 * second)) None)
           | Inr (Some machine) \<Rightarrow> do {
               c \<leftarrow> GetClusterFromMetadata E (mc_meta machine);
               case c of
                 Inl err \<Rightarrow> State_Monad.return (Return ResultZero (Some err))
               | Inr cluster \<Rightarrow>
                   if isClusterPaused E cluster then State_Monad.return (Return ResultZero None)
                   else (case NewHelper_Beskar7Machine E b of
                       Some err \<Rightarrow> State_Monad.return (Return ResultZero (Some err))
                     | None \<Rightarrow> do {
                         exit_state \<leftarrow> (if om_DeletionTimestamp (bm_meta b) \<noteq> None
                           then bm_reconcileDelete R b else bm_reconcileNormal R b);
                         patch_on_exit E b exit_state
                       })
             }
         }
   })"

section \<open>Provider IDs\<close>

lemma slash_index_first: "CHR ''/'' \<notin> set ns \<Longrightarrow> slash_index i (ns @ CHR ''/'' # name) = i + length ns"
  by (induction ns arbitrary: i) auto

lemma slash_index_none: "CHR ''/'' \<notin> set s \<Longrightarrow> slash_index i s = 0"
  by (induction s arbitrary: i) auto

lemma slash_index_pos:
  assumes "slash_index 0 s \<noteq> 0"
  obtains ns name where "s = ns @ CHR ''/'' # name" "CHR ''/'' \<notin> set ns" "ns \<noteq> []" "slash_index 0 s = length ns"
proof -
  have "CHR ''/'' \<in> set s" using assms slash_index_none [of s 0] by auto
  then obtain ns name where s: "s = ns @ CHR ''/'' # name" "CHR ''/'' \<notin> set ns"
    by (meson split_list_first)
  then have "slash_index 0 s = length ns" by (simp add: slash_index_first)
  with assms s show ?thesis by (intro that) auto
qed

lemma length_ProviderIDPrefix [simp]: "length ProviderIDPrefix = 5"
  by (simp add: ProviderIDPrefix_def)

lemma parseProviderID_shape:
  assumes "length pre = 5" and "CHR ''/'' \<notin> set ns" and "ns \<noteq> []"
  shows "parseProviderID (pre @ ns @ CHR ''/'' # name) = Inr (ns, name)"
  using assms by (simp add: parseProviderID_def slash_index_first)

text \<open>
  C27. Which strings \<open>parseProviderID\<close> accepts, and what it returns: any five bytes, a non-empty
  namespace without a slash, a slash, and the name. The five bytes are not compared with the prefix.
\<close>

theorem parseProviderID_exact:
  "parseProviderID pid = Inr (ns, name) \<longleftrightarrow>
     (\<exists>pre. pid = pre @ ns @ ''/'' @ name \<and> length pre = length ProviderIDPrefix \<and>
       CHR ''/'' \<notin> set ns \<and> ns \<noteq> [])"
proof
  assume ok: "parseProviderID pid = Inr (ns, name)"
  let ?parts = "drop 5 pid"
  from ok have nz: "slash_index 0 ?parts \<noteq> 0"
    and r: "ns = take (slash_index 0 ?parts) ?parts" "name = drop (slash_index 0 ?parts + 1) ?parts" "length pid > 5"
    by (auto simp: parseProviderID_def Let_def split: if_splits)
  from nz obtain ns' name' where *: "?parts = ns' @ CHR ''/'' # name'" "CHR ''/'' \<notin> set ns'" "ns' \<noteq> []"
      "slash_index 0 ?parts = length ns'"
    by (rule slash_index_pos)
  then have "ns = ns'" "name = name'" using r by simp_all
  with * r(3) show "\<exists>pre. pid = pre @ ns @ ''/'' @ name \<and> length pre = length ProviderIDPrefix \<and>
       CHR ''/'' \<notin> set ns \<and> ns \<noteq> []"
    by (intro exI [of _ "take 5 pid"]) (simp, metis append_take_drop_id)
next
  assume "\<exists>pre. pid = pre @ ns @ ''/'' @ name \<and> length pre = length ProviderIDPrefix \<and>
       CHR ''/'' \<notin> set ns \<and> ns \<noteq> []"
  then show "parseProviderID pid = Inr (ns, name)"
    using parseProviderID_shape by auto
qed

text \<open>
  C26. A provider ID written for a host names that host: parsing what \<open>providerID\<close> prints gives
  back the namespace and the name, for every namespace the API server allows.
\<close>

theorem providerID_roundtrip:
  assumes "ns \<noteq> []" and "CHR ''/'' \<notin> set ns"
  shows "parseProviderID (providerID ns name) = Inr (ns, name)"
  using parseProviderID_shape [of ProviderIDPrefix ns name] assms by (simp add: providerID_def)

theorem providerID_roundtrip_witness:
  "parseProviderID (providerID ''metal'' ''h1'') = Inr (''metal'', ''h1'')"
  by (rule providerID_roundtrip) simp_all

section \<open>Claiming\<close>

definition available :: "PhysicalHost \<Rightarrow> bool" where
  "available h \<longleftrightarrow> st_State (ph_Status h) = StateAvailable \<and> ps_ConsumerRef (ph_Spec h) = None"

lemma set_consumer_frame [simp]:
  "ph_meta (set_consumer r h) = ph_meta h" "ph_Status (set_consumer r h) = ph_Status h"
  "ps_ConsumerRef (ph_Spec (set_consumer r h)) = r" "ph_key (set_consumer r h) = ph_key h"
  "ph_version (set_consumer r h) = ph_version h"
  by (simp_all add: set_consumer_def ph_key_def ph_version_def)

text \<open>The loop stops at the first available host, whatever the outcome of its update.\<close>

lemma claim_loop_eq:
  "claim_loop E b hs = (case List.find available hs of
      None \<Rightarrow> State_Monad.return (None, ResultZero, None)
    | Some host \<Rightarrow> do {
        u \<leftarrow> Update_PhysicalHost E (set_consumer (Some (claim_ref b)) host);
        case u of
          Inl err \<Rightarrow> State_Monad.return (None, ResultZero, Some err)
        | Inr host' \<Rightarrow> State_Monad.return (Some host', requeue_after (5 * second), None)
      })"
  by (induction hs) (simp_all add: available_def)

text \<open>An update whose basis was read is applied to that very object.\<close>

lemma spec_write_on_read:
  assumes "store_ok E hosts seen" and "seen ph w" and "ph_meta h = ph_meta ph" and "lasting (ph_meta ph)"
    and "run_state (Update_PhysicalHost E h) w = (Inr h', w')"
  shows "hosts w (ph_key ph) = Some ph \<and> hosts w' (ph_key ph) = Some h' \<and> ph_Spec h' = ph_Spec h \<and> ph_Status h' = ph_Status ph"
proof -
  have k: "ph_key h = ph_key ph" "ph_version h = ph_version ph"
    using assms(3) by (simp_all add: ph_key_def ph_version_def)
  have "lasting (ph_meta h)" using assms(3,4) by simp
  from assms(1) this assms(5) obtain h0 where h0: "hosts w (ph_key h) = Some h0" "ph_version h0 = ph_version h"
      "hosts w' (ph_key h) = Some h'" "ph_Spec h' = ph_Spec h" "ph_Status h' = ph_Status h0"
    by (rule store_ok_update)
  with store_ok_seen [OF assms(1,2)] k have "h0 = ph" by (simp add: genuine_def)
  with h0 k show ?thesis by simp
qed

lemma claim_loop_safe:
  assumes "store_ok E hosts seen" and "\<And>h. h \<in> set hs \<Longrightarrow> seen h w \<and> lasting (ph_meta h)"
    and "run_state (claim_loop E b hs) w = ((Some host, result, None), w')"
  shows "\<exists>h0 \<in> set hs. hosts w (ph_key h0) = Some h0 \<and> available h0 \<and>
    run_state (Update_PhysicalHost E (set_consumer (Some (claim_ref b)) h0)) w = (Inr host, w') \<and>
    hosts w' (ph_key h0) = Some host \<and> ps_ConsumerRef (ph_Spec host) = Some (claim_ref b) \<and> ph_Status host = ph_Status h0 \<and> result = requeue_after (5 * second)"
proof -
  from assms(3) obtain h0 where f: "List.find available hs = Some h0"
      and u: "run_state (Update_PhysicalHost E (set_consumer (Some (claim_ref b)) h0)) w = (Inr host, w')"
      and r: "result = requeue_after (5 * second)"
    by (cases "List.find available hs") (auto simp: claim_loop_eq split: sum.splits prod.splits)
  from find_SomeD [OF f] have h0: "h0 \<in> set hs" "available h0" by auto
  from assms(2) [OF h0(1)] spec_write_on_read [OF assms(1) _ _ _ u, of h0]
  have "hosts w (ph_key h0) = Some h0" "hosts w' (ph_key h0) = Some host"
      "ph_Spec host = ph_Spec (set_consumer (Some (claim_ref b)) h0)" "ph_Status host = ph_Status h0"
    by simp_all
  with h0 r u show ?thesis by auto
qed

lemma findAvailable_safe:
  assumes "store_ok E hosts seen" and "run_state (findAvailable E b) w = ((Some host, result, None), w')"
  shows "\<exists>w1 h0. hosts w1 (ph_key h0) = Some h0 \<and> available h0 \<and>
    om_Namespace (ph_meta h0) = om_Namespace (bm_meta b) \<and>
    run_state (Update_PhysicalHost E (set_consumer (Some (claim_ref b)) h0)) w1 = (Inr host, w') \<and>
    hosts w' (ph_key h0) = Some host \<and> ps_ConsumerRef (ph_Spec host) = Some (claim_ref b) \<and> ph_Status host = ph_Status h0"
proof -
  from assms(2) obtain hs w1 where l: "run_state (List_PhysicalHosts E (om_Namespace (bm_meta b))) w = (Inr hs, w1)"
      and c: "run_state (claim_loop E b hs) w1 = ((Some host, result, None), w')"
    by (auto simp: findAvailable_def split: sum.splits prod.splits)
  from store_ok_list [OF assms(1) l]
  have g: "\<And>h. h \<in> set hs \<Longrightarrow> om_Namespace (ph_meta h) = om_Namespace (bm_meta b) \<and> seen h w1 \<and> lasting (ph_meta h)"
    by blast
  have "\<exists>h0 \<in> set hs. hosts w1 (ph_key h0) = Some h0 \<and> available h0 \<and>
    run_state (Update_PhysicalHost E (set_consumer (Some (claim_ref b)) h0)) w1 = (Inr host, w') \<and>
    hosts w' (ph_key h0) = Some host \<and> ps_ConsumerRef (ph_Spec host) = Some (claim_ref b) \<and> ph_Status host = ph_Status h0
    \<and> result = requeue_after (5 * second)"
    by (rule claim_loop_safe [OF assms(1) _ c]) (use g in blast)
  with g show ?thesis by blast
qed

text \<open>
  C2. Claiming never takes a host from another machine. When a reconciliation claims a host, the
  object stored at the moment of the write was available, without a consumer and in the machine's
  namespace; afterwards it is stored with the machine as its consumer and an unchanged status.
  Reads may be stale: the resource version of the write protects the claim.
\<close>

theorem claim_takes_only_free_hosts:
  assumes "store_ok E hosts seen"
    and "run_state (findAndClaimOrGetAssociatedHost E b) w = ((Some host, requeue_after (5 * second), None), w')"
  shows "\<exists>w1 h0. hosts w1 (ph_key h0) = Some h0 \<and> available h0 \<and>
    om_Namespace (ph_meta h0) = om_Namespace (bm_meta b) \<and>
    run_state (Update_PhysicalHost E (set_consumer (Some (claim_ref b)) h0)) w1 = (Inr host, w') \<and>
    hosts w' (ph_key h0) = Some host \<and> ps_ConsumerRef (ph_Spec host) = Some (claim_ref b) \<and> ph_Status host = ph_Status h0"
proof -
  from assms(2) obtain w0 where "run_state (findAvailable E b) w0 = ((Some host, requeue_after (5 * second), None), w')"
    by (auto simp: findAndClaimOrGetAssociatedHost_def split: option.splits if_splits sum.splits prod.splits)
  then show ?thesis by (rule findAvailable_safe [OF assms(1)])
qed

definition sample_machine :: "string option \<Rightarrow> Beskar7Machine" where
  "sample_machine pid =
     \<lparr>bm_type = \<lparr>tm_Kind = ''Beskar7Machine'', tm_APIVersion = ''infrastructure.cluster.x-k8s.io/v1beta1''\<rparr>,
      bm_meta = sample_meta ''m1'' [Beskar7MachineFinalizer],
      bm_Spec = \<lparr>bs_ProviderID = pid, bs_InspectionImageURL = '''', bs_TargetImageURL = '''', bs_ConfigurationURL = '''',
        bs_HardwareRequirements = None\<rparr>,
      bm_Status = \<lparr>bt_Ready = False, bt_Phase = None, bt_FailureReason = None, bt_FailureMessage = None,
        bt_Addresses = [], bt_Conditions = []\<rparr>\<rparr>"

lemmas machine_eval = sample_machine_def findAndClaimOrGetAssociatedHost_def findAvailable_def set_consumer_def
  claim_ref_def

theorem claim_takes_only_free_hosts_witness:
  "let h0 = sample_host ''h1'' [PhysicalHostFinalizer] None StateAvailable;
       w = sample_world [h0] [];
       r = run_state (findAndClaimOrGetAssociatedHost mem_env (sample_machine None)) w
   in \<exists>host. fst r = (Some host, requeue_after (5 * second), None) \<and>
        ps_ConsumerRef (ph_Spec host) = Some (sample_ref ''m1'')"
proof -
  let ?w = "sample_world [sample_host ''h1'' [PhysicalHostFinalizer] None StateAvailable] []"
  have "\<exists>host w'. run_state (findAndClaimOrGetAssociatedHost mem_env (sample_machine None)) ?w =
      ((Some host, requeue_after (5 * second), None), w')"
    by (simp add: machine_eval sample_defs mem_eval)
  then obtain host w' where r: "run_state (findAndClaimOrGetAssociatedHost mem_env (sample_machine None)) ?w =
      ((Some host, requeue_after (5 * second), None), w')" by blast
  from claim_takes_only_free_hosts [OF mem_store_ok r]
  have "ps_ConsumerRef (ph_Spec host) = Some (claim_ref (sample_machine None))" by blast
  then show ?thesis
    using r by (simp add: claim_ref_def sample_machine_def sample_meta_def sample_ref_def)
qed

section \<open>Hardware validation\<close>

text \<open>
  The reference, over the integers. Cores and disks are numbers; the capacity of a memory module is text, and
  the requirement is in GB. A module that states \<open>g\<close> GB has the capacity \<open><g>GB\<close>, the form of the API
  documentation, and one without a capacity counts nothing.
\<close>

definition states_GB :: "MemoryInfo \<Rightarrow> nat \<Rightarrow> bool" where
  "states_GB m g \<longleftrightarrow> mi_Capacity m = show_nat g @ ''GB'' \<or> mi_Capacity m = '''' \<and> g = 0"

definition cores_sum :: "InspectionReport \<Rightarrow> int" where
  "cores_sum r = (\<Sum>c \<leftarrow> ir_CPUs r. sint (ci_Cores c))"

definition disk_sum :: "InspectionReport \<Rightarrow> int" where
  "disk_sum r = (\<Sum>d \<leftarrow> ir_Disks r. sint (di_SizeGB d))"

definition fits_int :: "int \<Rightarrow> bool" where
  "fits_int i \<longleftrightarrow> - (2 ^ 63) \<le> i \<and> i < 2 ^ 63"

text \<open>\<open>gs\<close> are the sizes of the memory modules of the report in GB.\<close>

definition measured :: "InspectionReport \<Rightarrow> nat list \<Rightarrow> bool" where
  "measured r gs \<longleftrightarrow> list_all2 states_GB (ir_Memory r) gs \<and>
     fits_int (cores_sum r) \<and> fits_int (int (sum_list gs)) \<and> fits_int (disk_sum r)"

definition satisfies :: "HardwareRequirements \<Rightarrow> InspectionReport \<Rightarrow> nat list \<Rightarrow> bool" where
  "satisfies q r gs \<longleftrightarrow> (sint (hr_MinCPUCores q) > 0 \<longrightarrow> sint (hr_MinCPUCores q) \<le> cores_sum r) \<and>
     (sint (hr_MinMemoryGB q) > 0 \<longrightarrow> sint (hr_MinMemoryGB q) \<le> int (sum_list gs)) \<and>
     (sint (hr_MinDiskGB q) > 0 \<longrightarrow> sint (hr_MinDiskGB q) \<le> disk_sum r)"

text \<open>What the code counts for a module: the number at the start of its capacity.\<close>

definition module_GB :: "MemoryInfo \<Rightarrow> int" where
  "module_GB m = (case Sscanf_d (mi_Capacity m) of None \<Rightarrow> 0 | Some v \<Rightarrow> sint v)"

lemma total_cores_sum: "total_cores acc cpus = acc + sum_list (map ci_Cores cpus)"
  by (induction cpus arbitrary: acc) (auto simp: add.assoc)

lemma total_disk_sum: "total_disk acc disks = acc + sum_list (map di_SizeGB disks)"
  by (induction disks arbitrary: acc) (auto simp: add.assoc)

lemma total_memory_sum: "total_memory acc mems = acc + sum_list (map (\<lambda>m. word_of_int (module_GB m)) mems)"
  by (induction mems arbitrary: acc) (auto simp: add.assoc module_GB_def split: option.splits)

lemma of_int_sum: "sum_list (map (\<lambda>x. word_of_int (f x)) xs) = (word_of_int (sum_list (map f xs)) :: goint)"
  by (induction xs) (auto simp: wi_hom_syms)

lemma module_GB_leading:
  assumes "mi_Capacity m = show_nat n @ u" and "n < 2 ^ 63" and "u = [] \<or> \<not> is_digit (hd u)"
  shows "module_GB m = int n"
proof -
  have "Sscanf_d (mi_Capacity m) = Some (of_nat n)"
    using Sscanf_d_show_nat [OF assms(2,3), of 0] assms(1) by simp
  moreover have "sint (of_nat n :: goint) = int n"
    using sint_of_int_small [of "int n"] assms(2) by simp
  ultimately show ?thesis by (simp add: module_GB_def)
qed

lemma module_GB_states:
  assumes "states_GB m g" and "g < 2 ^ 63"
  shows "module_GB m = int g"
proof (cases "mi_Capacity m = []")
  case True
  with assms(1) have "g = 0" by (simp add: states_GB_def)
  moreover have "Sscanf_d '''' = None" by code_simp
  ultimately show ?thesis using True by (simp add: module_GB_def)
next
  case False
  with assms(1) have "mi_Capacity m = show_nat g @ ''GB''" by (simp add: states_GB_def)
  then show ?thesis by (rule module_GB_leading [OF _ assms(2)]) (simp add: is_digit_def)
qed

lemma module_GB_sum:
  "list_all2 states_GB ms gs \<Longrightarrow> sum_list gs < 2 ^ 63 \<Longrightarrow> (\<Sum>m \<leftarrow> ms. module_GB m) = int (sum_list gs)"
  by (induction rule: list_all2_induct) (auto simp: module_GB_states)

lemma totals_exact:
  assumes "measured r gs"
  shows "sint (total_cores 0 (ir_CPUs r)) = cores_sum r" "sint (total_memory 0 (ir_Memory r)) = int (sum_list gs)"
    "sint (total_disk 0 (ir_Disks r)) = disk_sum r"
proof -
  have "int (sum_list gs) < 2 ^ 63" using assms by (simp add: measured_def fits_int_def)
  then have "sum_list gs < 2 ^ 63" by simp
  with assms have m: "(\<Sum>m \<leftarrow> ir_Memory r. module_GB m) = int (sum_list gs)" by (auto simp: measured_def module_GB_sum)
  show "sint (total_cores 0 (ir_CPUs r)) = cores_sum r" "sint (total_disk 0 (ir_Disks r)) = disk_sum r"
    using assms sint_sum_list [of "map ci_Cores (ir_CPUs r)"] sint_sum_list [of "map di_SizeGB (ir_Disks r)"]
    by (simp_all add: measured_def fits_int_def total_cores_sum total_disk_sum cores_sum_def disk_sum_def comp_def)
  show "sint (total_memory 0 (ir_Memory r)) = int (sum_list gs)"
    using assms sint_of_int_small [of "int (sum_list gs)"] by (simp add: measured_def fits_int_def total_memory_sum of_int_sum m)
qed

lemma check_hardware_exact:
  assumes "measured r gs"
  shows "check_hardware q r = None \<longleftrightarrow> satisfies q r gs"
  using totals_exact [OF assms] by (auto simp: check_hardware_def satisfies_def Let_def)

lemma validation_decides:
  assumes "store_ok E hosts seen" and "seen host w"
    and "st_InspectionReport (ph_Status host) = Some r" and "bs_HardwareRequirements (bm_Spec b) = Some q" and "measured r gs"
    and "run_state (validateInspectionReport E b host) w = ((b', out), w')"
  shows "b' = b \<and>
    (if satisfies q r gs
     then (\<exists>h'. out = Return requeue_now None \<and> hosts w' (ph_key host) = Some h' \<and>
             st_State (ph_Status h') = StateReady \<and> ph_Spec h' = ph_Spec host) \<or>
          (\<exists>err. out = Return ResultZero (Some err) \<and>
             run_state (StatusUpdate_PhysicalHost E (ready_status E host)) w = (Inl err, w'))
     else w' = w \<and> (\<exists>err. out = Return ResultZero (Some err)))"
proof (cases "satisfies q r gs")
  case False
  then obtain err where "check_hardware q r = Some err"
    using check_hardware_exact [OF assms(5), of q] by auto
  with False assms(3,4,6) show ?thesis by (auto simp: validateInspectionReport_def)
next
  case True
  then have "check_hardware q r = None" using check_hardware_exact [OF assms(5)] by blast
  with assms(3,4,6) obtain u where u: "run_state (StatusUpdate_PhysicalHost E (ready_status E host)) w = (u, w')"
      and out: "(b', out) = (b, case u of Inl err \<Rightarrow> Return ResultZero (Some err) | Inr _ \<Rightarrow> Return requeue_now None)"
    by (cases "run_state (StatusUpdate_PhysicalHost E (ready_status E host)) w")
      (auto simp: validateInspectionReport_def split: sum.splits)
  show ?thesis
  proof (cases u)
    case (Inr h')
    have "hosts w' (ph_key host) = Some h' \<and> ph_Spec h' = ph_Spec host \<and> ph_Status h' = ph_Status (ready_status E host)"
      by (rule status_write_on_read [OF assms(1,2) _ u [unfolded Inr]]) (simp add: ready_status_def)
    with Inr out True show ?thesis by (simp add: ready_status_def)
  qed (use u out True in simp)
qed

text \<open>
  C4. A host under inspection becomes ready only with hardware that satisfies the machine's
  requirements, and the refusal is exact. Provided that every memory module states its capacity in GB, as
  documented, or none at all, and that the totals of cores, memory and disks fit in an int: if the report
  meets every requirement, the memory one in GB, the host is stored ready unless the API server refuses the
  write; otherwise nothing is written, an error is returned and the machine is unchanged.
\<close>

theorem validateInspectionReport_exact:
  assumes "store_ok E hosts seen" and "seen host w"
    and "st_InspectionReport (ph_Status host) = Some r" and "bs_HardwareRequirements (bm_Spec b) = Some q" and "measured r gs"
    and "run_state (validateInspectionReport E b host) w = ((b', out), w')"
  shows "b' = b \<and>
    (if satisfies q r gs
     then (\<exists>h'. out = Return requeue_now None \<and> hosts w' (ph_key host) = Some h' \<and>
             st_State (ph_Status h') = StateReady \<and> ph_Spec h' = ph_Spec host) \<or>
          (\<exists>err. out = Return ResultZero (Some err) \<and>
             run_state (StatusUpdate_PhysicalHost E (ready_status E host)) w = (Inl err, w'))
     else w' = w \<and> (\<exists>err. out = Return ResultZero (Some err)))"
  by (rule validation_decides [OF assms])

definition sample_report :: "nat \<Rightarrow> InspectionReport" where
  "sample_report cores = \<lparr>ir_Timestamp = 0, ir_Manufacturer = '''', ir_Model = '''', ir_SerialNumber = '''',
     ir_BootModeDetected = ''UEFI'', ir_FirmwareVersion = '''',
     ir_CPUs = [\<lparr>ci_ID = ''0'', ci_Vendor = '''', ci_Model = '''', ci_Cores = of_nat cores, ci_Threads = 16, ci_Frequency = ''''\<rparr>],
     ir_Memory = [\<lparr>mi_ID = ''0'', mi_Type = ''DDR4'', mi_Capacity = ''32GB'', mi_Speed = ''''\<rparr>],
     ir_Disks = [\<lparr>di_Name = ''sda'', di_Model = '''', di_SizeGB = 500, di_Type = ''SSD'', di_SerialNumber = ''''\<rparr>],
     ir_NICs = []\<rparr>"

definition sample_inspected :: PhysicalHost where
  "sample_inspected = (sample_host ''h1'' [PhysicalHostFinalizer] (Some (sample_ref ''m1'')) StateInspecting)
     \<lparr>ph_Status := (sample_status StateInspecting)\<lparr>st_InspectionPhase := InspectionPhaseComplete,
        st_InspectionReport := Some (sample_report 8)\<rparr>\<rparr>"

definition sample_requirements :: "goint \<Rightarrow> HardwareRequirements" where
  "sample_requirements cores = \<lparr>hr_MinCPUCores = cores, hr_MinMemoryGB = 32, hr_MinDiskGB = 100\<rparr>"

definition demanding :: "goint \<Rightarrow> Beskar7Machine" where
  "demanding cores = (sample_machine None)
     \<lparr>bm_Spec := (bm_Spec (sample_machine None))\<lparr>bs_HardwareRequirements := Some (sample_requirements cores)\<rparr>\<rparr>"

lemma sample_measured: "measured (sample_report 8) [32]"
proof -
  have "states_GB \<lparr>mi_ID = ''0'', mi_Type = ''DDR4'', mi_Capacity = ''32GB'', mi_Speed = ''''\<rparr> 32"
    by (simp add: states_GB_def print_eval)
  then show ?thesis by (simp add: measured_def fits_int_def cores_sum_def disk_sum_def sample_report_def)
qed

text \<open>Eight cores do not satisfy a requirement of sixteen.\<close>

theorem validateInspectionReport_exact_witness:
  "snd (fst (run_state (validateInspectionReport mem_env (demanding 16) sample_inspected)
      (sample_world [sample_inspected] []))) \<noteq> Return requeue_now None \<and>
   snd (run_state (validateInspectionReport mem_env (demanding 16) sample_inspected)
      (sample_world [sample_inspected] [])) = sample_world [sample_inspected] []"
proof -
  let ?w = "sample_world [sample_inspected] []"
  obtain b' out w' where r: "run_state (validateInspectionReport mem_env (demanding 16) sample_inspected) ?w = ((b', out), w')"
    by (metis prod.collapse)
  have "genuine mem_hosts sample_inspected ?w"
    by (simp add: genuine_def sample_inspected_def sample_defs mem_eval)
  moreover have "st_InspectionReport (ph_Status sample_inspected) = Some (sample_report 8)"
    "bs_HardwareRequirements (bm_Spec (demanding 16)) = Some (sample_requirements 16)"
    by (simp_all add: sample_inspected_def demanding_def sample_defs)
  moreover have "\<not> satisfies (sample_requirements 16) (sample_report 8) [32]"
    by (simp add: satisfies_def cores_sum_def sample_report_def sample_requirements_def)
  ultimately show ?thesis
    using validateInspectionReport_exact [OF mem_store_ok _ _ _ sample_measured r, of "sample_requirements 16"] r
    by auto
qed

text \<open>
  The memory total is the sum of the leading numbers of the capacities. Whatever follows the
  number is ignored, the unit included: a module of \<open>16384MB\<close> counts as 16384 GB.
\<close>

theorem total_memory_leading_numbers:
  assumes "list_all2 (\<lambda>m (n, u). mi_Capacity m = show_nat n @ u \<and> (u = [] \<or> \<not> is_digit (hd u))) mems caps"
    and "(\<Sum>(n, u) \<leftarrow> caps. n) < 2 ^ 63"
  shows "sint (total_memory 0 mems) = int (\<Sum>(n, u) \<leftarrow> caps. n)"
proof -
  have "(\<Sum>m \<leftarrow> mems. module_GB m) = int (\<Sum>(n, u) \<leftarrow> caps. n)"
    using assms
  proof (induction rule: list_all2_induct)
    case (Cons m ms c cs)
    obtain n u where c: "c = (n, u)" by (cases c)
    with Cons have "module_GB m = int n" by (intro module_GB_leading [of m n u]) auto
    with Cons c show ?case by simp
  qed simp
  with assms(2) show ?thesis
    using sint_of_int_small [of "\<Sum>m \<leftarrow> mems. module_GB m"] by (simp add: total_memory_sum of_int_sum)
qed

theorem total_memory_leading_numbers_witness:
  "sint (total_memory 0 [\<lparr>mi_ID = '''', mi_Type = '''', mi_Capacity = ''32GB'', mi_Speed = ''''\<rparr>,
     \<lparr>mi_ID = '''', mi_Type = '''', mi_Capacity = ''16384MB'', mi_Speed = ''''\<rparr>]) = 16416"
  using total_memory_leading_numbers [of "[\<lparr>mi_ID = '''', mi_Type = '''', mi_Capacity = ''32GB'', mi_Speed = ''''\<rparr>,
     \<lparr>mi_ID = '''', mi_Type = '''', mi_Capacity = ''16384MB'', mi_Speed = ''''\<rparr>]" "[(32, ''GB''), (16384, ''MB'')]"]
  by (simp add: is_digit_def print_eval)

section \<open>A machine and its host\<close>

lemma bm_conditions_frame [simp]:
  "bm_meta (bm_conditions f b) = bm_meta b" "bm_Spec (bm_conditions f b) = bm_Spec b"
  "bt_Ready (bm_Status (bm_conditions f b)) = bt_Ready (bm_Status b)"
  "bt_Phase (bm_Status (bm_conditions f b)) = bt_Phase (bm_Status b)"
  "bt_Addresses (bm_Status (bm_conditions f b)) = bt_Addresses (bm_Status b)"
  "bt_Conditions (bm_Status (bm_conditions f b)) = f (bt_Conditions (bm_Status b))"
  by (simp_all add: bm_GetConditions_def bm_SetConditions_def)

lemma bm_set_phase_frame [simp]:
  "bm_meta (bm_set_phase p b) = bm_meta b" "bm_Spec (bm_set_phase p b) = bm_Spec b"
  "bt_Ready (bm_Status (bm_set_phase p b)) = bt_Ready (bm_Status b)"
  "bt_Phase (bm_Status (bm_set_phase p b)) = Some p"
  "bt_Addresses (bm_Status (bm_set_phase p b)) = bt_Addresses (bm_Status b)"
  "bt_Conditions (bm_Status (bm_set_phase p b)) = bt_Conditions (bm_Status b)"
  by (simp_all add: bm_set_phase_def)

lemma bm_set_finalizers_frame [simp]:
  "bm_Spec (bm_set_finalizers fs b) = bm_Spec b" "bm_Status (bm_set_finalizers fs b) = bm_Status b"
  "om_Namespace (bm_meta (bm_set_finalizers fs b)) = om_Namespace (bm_meta b)"
  "om_Finalizers (bm_meta (bm_set_finalizers fs b)) = fs"
  by (simp_all add: bm_set_finalizers_def)

text \<open>
  C20. A machine that found its host ready is provisioned and stays with that host. After
  \<open>handleReadyHost\<close> the machine is ready in phase \<open>Provisioned\<close> with a true infrastructure condition,
  and looking up its host again reads exactly that host instead of claiming another one.
\<close>

theorem ready_machine_keeps_host:
  assumes "conditions_ok E" and "handleReadyHost E b host = (b', out)"
    and "om_Namespace (ph_meta host) = om_Namespace (bm_meta b)"
    and "om_Namespace (bm_meta b) \<noteq> []" and "CHR ''/'' \<notin> set (om_Namespace (bm_meta b))"
  shows "bt_Ready (bm_Status b') \<and> bt_Phase (bm_Status b') = Some ''Provisioned'' \<and> out = Return ResultZero None \<and>
    IsTrue E InfrastructureReadyCondition (bt_Conditions (bm_Status b')) \<and>
    (run_state (Get_PhysicalHost E (ph_key host)) w = (Inr h, w') \<longrightarrow>
       run_state (findAndClaimOrGetAssociatedHost E b') w = ((Some h, ResultZero, None), w'))"
proof -
  let ?pid = "providerID (om_Namespace (ph_meta host)) (om_Name (ph_meta host))"
  have b': "bs_ProviderID (bm_Spec b') = Some ?pid" "bm_meta b' = bm_meta b"
      "bt_Ready (bm_Status b')" "bt_Phase (bm_Status b') = Some ''Provisioned''" "out = Return ResultZero None"
    using assms(2) by (auto simp: handleReadyHost_def Let_def)
  have "\<exists>cs. bt_Conditions (bm_Status b') = MarkTrue E InfrastructureReadyCondition cs"
    using assms(2) by (auto simp: handleReadyHost_def Let_def)
  then have c: "IsTrue E InfrastructureReadyCondition (bt_Conditions (bm_Status b'))"
    using conditions_okD(1,5) [OF assms(1)] by auto
  have p: "parseProviderID ?pid = Inr (om_Namespace (ph_meta host), om_Name (ph_meta host))"
    using parseProviderID_shape [of ProviderIDPrefix] assms(3-5) by (simp add: providerID_def)
  have "?pid \<noteq> []" by (simp add: providerID_def ProviderIDPrefix_def)
  with b' c p assms(3) show ?thesis
    by (simp add: findAndClaimOrGetAssociatedHost_def ph_key_def)
qed

theorem ready_machine_keeps_host_witness:
  "let host = sample_host ''h1'' [] None StateReady; w = sample_world [host] [];
       b' = fst (handleReadyHost mem_env (sample_machine None) host)
   in run_state (findAndClaimOrGetAssociatedHost mem_env b') w = ((Some host, ResultZero, None), w)"
proof -
  let ?host = "sample_host ''h1'' [] None StateReady"
  have g: "run_state (Get_PhysicalHost mem_env (ph_key ?host)) (sample_world [?host] []) = (Inr ?host, sample_world [?host] [])"
    by (simp add: sample_defs mem_eval)
  show ?thesis
    using ready_machine_keeps_host [of mem_env "sample_machine None" ?host _ _ "sample_world [?host] []" ?host
        "sample_world [?host] []", OF mem_conditions_ok prod.collapse [symmetric]] g
    by (simp add: Let_def sample_machine_def sample_meta_def sample_host_def)
qed

section \<open>Machines without a provider ID\<close>

definition unassociated :: "Beskar7Machine \<Rightarrow> bool" where
  "unassociated b \<longleftrightarrow> bs_ProviderID (bm_Spec b) \<in> {None, Some ''''}"

lemma findAndClaim_unassociated: "unassociated b \<Longrightarrow> findAndClaimOrGetAssociatedHost E b = findAvailable E b"
  by (auto simp: unassociated_def findAndClaimOrGetAssociatedHost_def)

lemma findAvailable_not_settled: "yields (\<lambda>(host, result, err). host = None \<or> \<not> Result_IsZero result) (findAvailable E b)"
  unfolding findAvailable_def claim_loop_eq by (intro keeps_rules) auto

lemma reconcileNormal_unassociated:
  assumes "unassociated b" and "run_state (bm_reconcileNormal R b) w = ((b', out), w')"
  shows "bm_Spec b' = bm_Spec b \<and> bt_Ready (bm_Status b') = bt_Ready (bm_Status b) \<and>
    bt_Phase (bm_Status b') = bt_Phase (bm_Status b)"
proof -
  obtain fs added where f: "AddFinalizer (mr_Client R) Beskar7MachineFinalizer (om_Finalizers (bm_meta b)) = (fs, added)"
    by (cases "AddFinalizer (mr_Client R) Beskar7MachineFinalizer (om_Finalizers (bm_meta b))")
  have u: "unassociated (bm_set_finalizers fs b)" using assms(1) by (simp add: unassociated_def)
  obtain host result err w1
    where g: "run_state (findAvailable (mr_Client R) (bm_set_finalizers fs b)) w = ((host, result, err), w1)"
    by (metis prod.collapse)
  have "case fst (run_state (findAvailable (mr_Client R) (bm_set_finalizers fs b)) w) of
      (host, result, err) \<Rightarrow> host = None \<or> \<not> Result_IsZero result"
    by (rule findAvailable_not_settled [unfolded yields_def, rule_format])
  with g have "host = None \<or> \<not> Result_IsZero result" by simp
  with assms(2) g f show ?thesis
    by (cases added; cases err; cases host)
      (auto simp: bm_reconcileNormal_def findAndClaim_unassociated [OF u] Let_def)
qed

text \<open>Any number of reconciliations of one machine, in whatever worlds they happen.\<close>

inductive reconciled :: "'w Beskar7MachineReconciler \<Rightarrow> Beskar7Machine \<Rightarrow> Beskar7Machine \<Rightarrow> bool" for R b where
  start: "reconciled R b b"
| again: "reconciled R b b1 \<Longrightarrow> run_state (bm_reconcileNormal R b1) w = ((b2, out), w') \<Longrightarrow> reconciled R b b2"

text \<open>
  C21. A machine created without a provider ID is never provisioned: over any number of
  reconciliations, against any API server, its spec, readiness and phase stay what they were. Only
  \<open>handleReadyHost\<close> writes a provider ID, and it is reached only through one.
\<close>

theorem unassociated_machine_never_ready:
  assumes "reconciled R b b'" and "unassociated b" and "\<not> bt_Ready (bm_Status b)"
  shows "bm_Spec b' = bm_Spec b \<and> \<not> bt_Ready (bm_Status b') \<and> bt_Phase (bm_Status b') = bt_Phase (bm_Status b)"
  using assms
proof (induction rule: reconciled.induct)
  case (again b1 w b2 out w')
  then have "unassociated b1" by (simp add: unassociated_def)
  from reconcileNormal_unassociated [OF this again.hyps(2)] again show ?case by simp
qed simp

definition machine_reconciler :: "mem_world Beskar7MachineReconciler" where
  "machine_reconciler = \<lparr>mr_Client = mem_env, mr_RedfishClientFactory = Some mock_factory\<rparr>"

definition two_hosts :: mem_world where
  "two_hosts = sample_world [sample_host ''h1'' [] None StateAvailable, sample_host ''h2'' [] None StateAvailable] []"

theorem unassociated_machine_never_ready_witness:
  "\<not> bt_Ready (bm_Status (fst (fst (run_state (bm_reconcileNormal machine_reconciler (sample_machine None)) two_hosts))))"
proof -
  obtain b' out w' where "run_state (bm_reconcileNormal machine_reconciler (sample_machine None)) two_hosts = ((b', out), w')"
    by (metis prod.collapse)
  then have "reconciled machine_reconciler (sample_machine None) b'" by (rule reconciled.again [OF reconciled.start])
  from unassociated_machine_never_ready [OF this]
  show ?thesis using \<open>run_state _ _ = _\<close> by (simp add: unassociated_def sample_machine_def)
qed

text \<open>
  C22. Such a machine collects hosts. Every reconciliation of a machine that has its finalizer but no provider
  ID writes itself as the consumer of the first available host of its namespace that the listing shows,
  whatever hosts carry it as their consumer already; when the API server accepts the write, that host was free
  and is now claimed. The machine comes out without a provider ID again, so the next reconciliation does the
  same. Without an available host nothing is written.
\<close>

theorem unassociated_machine_claims_again:
  assumes "store_ok (mr_Client R) hosts seen" and "finalizers_ok (mr_Client R)"
    and "unassociated b" and "Beskar7MachineFinalizer \<in> set (om_Finalizers (bm_meta b))"
    and "run_state (List_PhysicalHosts (mr_Client R) (om_Namespace (bm_meta b))) w = (Inr hs, w1)"
    and "run_state (bm_reconcileNormal R b) w = ((b', out), w')"
  shows "unassociated b' \<and> bm_meta b' = bm_meta b \<and> claim_ref b' = claim_ref b \<and>
    (case List.find available hs of
       None \<Rightarrow> w' = w1 \<and> out = Return (requeue_after minute) None
     | Some h0 \<Rightarrow> (\<exists>u. run_state (Update_PhysicalHost (mr_Client R) (set_consumer (Some (claim_ref b)) h0)) w1 = (u, w') \<and>
         (case u of
            Inl err \<Rightarrow> out = Return ResultZero (Some err)
          | Inr h' \<Rightarrow> out = Return (requeue_after (5 * second)) None \<and> hosts w1 (ph_key h0) = Some h0 \<and> available h0 \<and>
              hosts w' (ph_key h0) = Some h' \<and> ps_ConsumerRef (ph_Spec h') = Some (claim_ref b))))"
proof -
  let ?E = "mr_Client R"
  have fin: "AddFinalizer ?E Beskar7MachineFinalizer (om_Finalizers (bm_meta b)) = (om_Finalizers (bm_meta b), False)"
    using finalizers_okD(1) [OF assms(2)] assms(4) by simp
  have same: "bm_set_finalizers (om_Finalizers (bm_meta b)) b = b" by (simp add: bm_set_finalizers_def)
  note run = assms(6) [unfolded bm_reconcileNormal_def Let_def fin prod.case same findAndClaim_unassociated [OF assms(3)]
      findAvailable_def claim_loop_eq]
  show ?thesis
  proof (cases "List.find available hs")
    case None
    with run assms(3,5) show ?thesis by (auto simp: unassociated_def claim_ref_def bm_SetConditions_def)
  next
    case (Some h0)
    obtain u v where u: "run_state (Update_PhysicalHost ?E (set_consumer (Some (claim_ref b)) h0)) w1 = (u, v)" by fastforce
    from find_SomeD [OF Some] have h0: "available h0" "h0 \<in> set hs" by auto
    have read: "seen h0 w1" "lasting (ph_meta h0)" using store_ok_list [OF assms(1,5) h0(2)] by simp_all
    show ?thesis
    proof (cases u)
      case (Inl err)
      with run Some u assms(3,5) show ?thesis by (auto simp: unassociated_def claim_ref_def bm_SetConditions_def)
    next
      case (Inr h')
      from spec_write_on_read [OF assms(1) read(1) _ read(2) u [unfolded Inr]]
      have "hosts w1 (ph_key h0) = Some h0" "hosts v (ph_key h0) = Some h'" "ps_ConsumerRef (ph_Spec h') = Some (claim_ref b)"
        by simp_all
      with run Some u Inr assms(3,5) h0(1) show ?thesis by (auto simp: unassociated_def claim_ref_def bm_SetConditions_def)
    qed
  qed
qed

text \<open>With two free hosts the second reconciliation claims the second one, although the first is claimed already.\<close>

definition once_reconciled :: mem_world where
  "once_reconciled = snd (run_state (bm_reconcileNormal machine_reconciler (sample_machine None)) two_hosts)"

theorem unassociated_machine_claims_again_witness:
  "\<exists>h1 h2. mem_hosts once_reconciled (sample_key ''h1'') = Some h1 \<and> ps_ConsumerRef (ph_Spec h1) = Some (sample_ref ''m1'') \<and>
     mem_hosts (snd (run_state (bm_reconcileNormal machine_reconciler (sample_machine None)) once_reconciled)) (sample_key ''h2'') = Some h2 \<and>
     ps_ConsumerRef (ph_Spec h2) = Some (sample_ref ''m1'')"
proof -
  let ?h1 = "stamp 8 (sample_host ''h1'' [] (Some (sample_ref ''m1'')) StateAvailable)" and ?h2 = "sample_host ''h2'' [] None StateAvailable"
  have w: "once_reconciled = ((fst two_hosts)\<lparr>mm_hosts := [?h1, ?h2], mm_version := 9\<rparr>, snd two_hosts)"
    by (simp add: once_reconciled_def bm_reconcileNormal_def machine_reconciler_def two_hosts_def machine_eval sample_defs mem_eval
        bm_set_finalizers_def bm_GetConditions_def bm_SetConditions_def)
  have list: "run_state (List_PhysicalHosts mem_env (om_Namespace (bm_meta (sample_machine None)))) once_reconciled = (Inr [?h1, ?h2], once_reconciled)"
    by (simp add: w sample_machine_def two_hosts_def sample_defs mem_eval)
  have find: "List.find available [?h1, ?h2] = Some ?h2"
    by (simp add: available_def sample_defs stamp_def)
  obtain b' out w' where r: "run_state (bm_reconcileNormal machine_reconciler (sample_machine None)) once_reconciled = ((b', out), w')"
    by (metis prod.collapse)
  obtain h v where accepted: "run_state (Update_PhysicalHost mem_env (set_consumer (Some (claim_ref (sample_machine None))) ?h2)) once_reconciled = (Inr h, v)"
  proof -
    have "\<exists>h v. run_state (Update_PhysicalHost mem_env (set_consumer (Some (claim_ref (sample_machine None))) ?h2)) once_reconciled = (Inr h, v)"
      by (simp add: w two_hosts_def set_consumer_def sample_defs mem_eval)
    then show ?thesis using that by blast
  qed
  have E: "mr_Client machine_reconciler = mem_env" by (simp add: machine_reconciler_def)
  have u: "unassociated (sample_machine None)" "Beskar7MachineFinalizer \<in> set (om_Finalizers (bm_meta (sample_machine None)))"
    by (simp_all add: unassociated_def sample_machine_def sample_meta_def)
  note claims = unassociated_machine_claims_again [of machine_reconciler, unfolded E, OF mem_store_ok mem_finalizers_ok u list r]
  have "mem_hosts w' (ph_key ?h2) = Some h \<and> ps_ConsumerRef (ph_Spec h) = Some (claim_ref (sample_machine None))"
    using claims unfolding find option.case accepted by simp
  moreover have "mem_hosts once_reconciled (sample_key ''h1'') = Some ?h1"
    by (simp add: w two_hosts_def sample_defs mem_eval)
  ultimately show ?thesis
    using r by (simp add: claim_ref_def sample_machine_def sample_defs stamp_def ph_key_def)
qed

text \<open>
  Deleting a machine without a provider ID drops its finalizer at once and touches no host: the
  hosts it has claimed keep it as their consumer.
\<close>

theorem unassociated_machine_leaks_hosts:
  assumes "finalizers_ok (mr_Client R)" and "unassociated b"
  shows "run_state (bm_reconcileDelete R b) w = ((bm_set_finalizers
    (filter (\<lambda>f. f \<noteq> Beskar7MachineFinalizer) (om_Finalizers (bm_meta b))) b, Return ResultZero None), w)"
  using assms(2) finalizers_okD(2) [OF assms(1)]
  by (auto simp: bm_reconcileDelete_def release_host_def unassociated_def Let_def)

theorem unassociated_machine_leaks_hosts_witness:
  "snd (run_state (bm_reconcileDelete machine_reconciler (sample_machine None))
     (sample_world [sample_host ''h1'' [] (Some (sample_ref ''m1'')) StateInUse] [])) =
   sample_world [sample_host ''h1'' [] (Some (sample_ref ''m1'')) StateInUse] []"
  using unassociated_machine_leaks_hosts [of machine_reconciler "sample_machine None"]
  by (simp add: machine_reconciler_def mem_finalizers_ok unassociated_def sample_machine_def)

section \<open>Deletion\<close>

text \<open>The host a deleted machine gives back: the one its provider ID names, if it can be read and names the machine as consumer.\<close>

definition releasable :: "'w env \<Rightarrow> Beskar7Machine \<Rightarrow> 'w \<Rightarrow> PhysicalHost \<Rightarrow> 'w \<Rightarrow> bool" where
  "releasable E b w host w1 \<longleftrightarrow> (\<exists>pid ns name ref. bs_ProviderID (bm_Spec b) = Some pid \<and> parseProviderID pid = Inr (ns, name) \<and>
     run_state (Get_PhysicalHost E \<lparr>nn_Namespace = ns, nn_Name = name\<rparr>) w = (Inr host, w1) \<and>
     ps_ConsumerRef (ph_Spec host) = Some ref \<and> or_Name ref = om_Name (bm_meta b))"

lemma release_host_releasable:
  assumes "releasable E b w host w1"
  shows "run_state (release_host E b) w = (case run_state (Update_PhysicalHost E (set_consumer None host)) w1 of
    (Inl err, w') \<Rightarrow> (Some err, w') | (Inr _, w') \<Rightarrow> (None, w'))"
  using assms unfolding releasable_def release_host_def
  by (auto simp: parseProviderID_def split: prod.splits sum.splits)

lemma release_host_nothing:
  assumes "\<nexists>host w1. releasable E b w host w1"
  shows "\<exists>w'. run_state (release_host E b) w = (None, w') \<and> (w' = w \<or> (\<exists>k g. run_state (Get_PhysicalHost E k) w = (g, w')))"
proof (cases "bs_ProviderID (bm_Spec b)")
  case (Some pid)
  show ?thesis
  proof (cases "pid = [] \<or> (\<exists>e. parseProviderID pid = Inl e)")
    case False
    then obtain ns name where p: "pid \<noteq> []" "parseProviderID pid = Inr (ns, name)"
      by (cases "parseProviderID pid") auto
    obtain g v where g: "run_state (Get_PhysicalHost E \<lparr>nn_Namespace = ns, nn_Name = name\<rparr>) w = (g, v)" by fastforce
    with assms Some p have "run_state (release_host E b) w = (None, v)"
      by (auto simp: release_host_def releasable_def split: sum.splits option.splits)
    with g show ?thesis by auto
  qed (use Some in \<open>auto simp: release_host_def\<close>)
qed (simp add: release_host_def)

text \<open>
  C17. What deleting a machine does to its host. When the host the provider ID names can be read and has a
  consumer with the machine's name, it is given back before the machine goes: either the host is stored without a
  consumer and the finalizer is gone, or the API server refused that write, its error is returned and the machine
  keeps its finalizer for the next attempt. In every other case, no provider ID or one that does not parse included, the
  finalizer goes at once, no error is returned and nothing but at most one read is done.
\<close>

theorem bm_reconcileDelete_releases:
  assumes "store_ok (mr_Client R) hosts seen" and "finalizers_ok (mr_Client R)"
    and "run_state (bm_reconcileDelete R b) w = ((b', out), w')"
  shows "(\<exists>host w1. releasable (mr_Client R) b w host w1 \<and>
      ((\<exists>h'. hosts w' (ph_key host) = Some h' \<and> ps_ConsumerRef (ph_Spec h') = None \<and> ph_Status h' = ph_Status host \<and>
          Beskar7MachineFinalizer \<notin> set (om_Finalizers (bm_meta b')) \<and> out = Return ResultZero None) \<or>
       (\<exists>err. run_state (Update_PhysicalHost (mr_Client R) (set_consumer None host)) w1 = (Inl err, w') \<and>
          b' = b \<and> out = Return ResultZero (Some err)))) \<or>
    (\<nexists>host w1. releasable (mr_Client R) b w host w1) \<and> Beskar7MachineFinalizer \<notin> set (om_Finalizers (bm_meta b')) \<and>
      out = Return ResultZero None \<and> (w' = w \<or> (\<exists>k g. run_state (Get_PhysicalHost (mr_Client R) k) w = (g, w')))"
proof (cases "\<exists>host w1. releasable (mr_Client R) b w host w1")
  case True
  then obtain host w1 where r: "releasable (mr_Client R) b w host w1" by blast
  then have host: "seen host w1" "lasting (ph_meta host)" using store_ok_get [OF assms(1)] by (auto simp: releasable_def)
  obtain u v where u: "run_state (Update_PhysicalHost (mr_Client R) (set_consumer None host)) w1 = (u, v)" by fastforce
  with assms(3) release_host_releasable [OF r] have out: "v = w'" "(b', out) = (case u of Inl err \<Rightarrow> (b, Return ResultZero (Some err))
      | Inr _ \<Rightarrow> (bm_set_finalizers (fst (RemoveFinalizer (mr_Client R) Beskar7MachineFinalizer (om_Finalizers (bm_meta b)))) b,
          Return ResultZero None))"
    by (auto simp: bm_reconcileDelete_def Let_def split: sum.splits)
  show ?thesis
  proof (cases u)
    case (Inr h')
    with spec_write_on_read [OF assms(1) host(1) _ host(2), of "set_consumer None host" h' w'] u out(1)
    have "hosts w' (ph_key host) = Some h' \<and> ps_ConsumerRef (ph_Spec h') = None \<and> ph_Status h' = ph_Status host" by simp
    with Inr out r finalizers_okD(2) [OF assms(2)] show ?thesis by auto
  qed (use out u r in auto)
next
  case False
  from release_host_nothing [OF False] assms(3) finalizers_okD(2) [OF assms(2)] False show ?thesis
    by (auto simp: bm_reconcileDelete_def Let_def)
qed

theorem bm_reconcileDelete_releases_witness:
  "let host = sample_host ''h1'' [] (Some (sample_ref ''m1'')) StateReady;
       r = run_state (bm_reconcileDelete machine_reconciler (sample_machine (Some (providerID ''metal'' ''h1''))))
         (sample_world [host] [])
   in snd (fst r) = Return ResultZero None \<and>
      (\<exists>h'. mem_hosts (snd r) (sample_key ''h1'') = Some h' \<and> ps_ConsumerRef (ph_Spec h') = None)"
proof -
  let ?host = "sample_host ''h1'' [] (Some (sample_ref ''m1'')) StateReady" and ?pid = "providerID ''metal'' ''h1''"
  let ?r = "run_state (bm_reconcileDelete machine_reconciler (sample_machine (Some ?pid))) (sample_world [?host] [])"
  have p: "parseProviderID ?pid = Inr (''metal'', ''h1'')"
    by (simp add: parseProviderID_def providerID_def ProviderIDPrefix_def)
  have out: "snd (fst ?r) = Return ResultZero None"
    by (simp add: bm_reconcileDelete_def release_host_def machine_reconciler_def sample_machine_def p set_consumer_def
        sample_defs mem_eval)
  obtain b' w' where r: "?r = ((b', Return ResultZero None), w')"
    using out by (metis prod.collapse)
  have "releasable mem_env (sample_machine (Some ?pid)) (sample_world [?host] []) ?host (sample_world [?host] [])"
    by (auto simp: releasable_def p sample_machine_def sample_defs mem_eval)
  then have "\<exists>host w1. releasable mem_env (sample_machine (Some ?pid)) (sample_world [?host] []) host w1" by blast
  moreover have "ph_key host = sample_key ''h1''" if "releasable mem_env (sample_machine (Some ?pid)) (sample_world [?host] []) host w1" for host w1
    using that store_ok_get [OF mem_store_ok] p by (fastforce simp: releasable_def sample_machine_def sample_key_def)
  ultimately have "\<exists>h'. mem_hosts w' (sample_key ''h1'') = Some h' \<and> ps_ConsumerRef (ph_Spec h') = None"
    using bm_reconcileDelete_releases [OF _ _ r, of mem_hosts "genuine mem_hosts"]
    by (fastforce simp: machine_reconciler_def mem_store_ok mem_finalizers_ok)
  with r show ?thesis by simp
qed

section \<open>Inspection\<close>

text \<open>
  What the inspection boot needs of its surroundings: the factory connects to the BMC at the address it is
  given, clients keep their contract, API calls are no commands, and while the controller talks to the BMC the
  host object it has read stays a seen one.
\<close>

locale inspection_site = bmc_link hosts seen F
  for hosts :: "'w \<Rightarrow> NamespacedName \<Rightarrow> PhysicalHost option" and seen and F :: "'w RedfishClientFactory" +
  fixes E :: "'w env" and commands :: "'w \<Rightarrow> (string \<times> bmc_command) list"
  assumes store: "store_ok E hosts seen"
    and connected: "run_state (F a u p i) w = (Inr C, w') \<Longrightarrow> bmc_session C commands a"
    and connecting: "run_state (F a u p i) w = (c, w') \<Longrightarrow> commands w' = commands w"
    and secret: "run_state (Get_Secret E k) w = (r, w') \<Longrightarrow> commands w' = commands w"
    and now: "run_state (Now E) w = (t, w') \<Longrightarrow> commands w' = commands w"
    and update: "run_state (StatusUpdate_PhysicalHost E h) w = (v, w') \<Longrightarrow> commands w' = commands w"
    and now_seen: "keeps (seen h) (Now E)"
    and boot_seen: "run_state (F a u p i) w = (Inr C, w') \<Longrightarrow> keeps (seen h) (SetBootSourcePXE C)"
    and power_seen: "run_state (F a u p i) w = (Inr C, w') \<Longrightarrow> keeps (seen h) (SetPowerState C s)"
begin

lemma boot_sends:
  assumes "run_state (F a u p i) w0 = (Inr C, w)" and "seen host w"
    and "run_state (inspection_boot E b host C) w = ((b', Return (requeue_after (30 * second)) None), w')"
  shows "bt_Phase (bm_Status b') = Some ''Inspecting'' \<and>
    (\<exists>s w1 w2. run_state (SetBootSourcePXE C) w = (None, w1) \<and> run_state (GetPowerState C) w1 = (Inr s, w2) \<and>
       commands w' = commands w @ (a, BootFromPXE) # (if s = OnPowerState then [] else [(a, PowerRequest OnPowerState)])) \<and>
    (\<exists>h' t. hosts w' (ph_key host) = Some h' \<and> ph_Spec h' = ph_Spec host \<and> ph_Status h' = ph_Status (inspecting_status t host))"
proof -
  from assms(3) obtain w1 w2 w3 w4 s t h' where 1: "run_state (SetBootSourcePXE C) w = (None, w1)"
      and 2: "run_state (GetPowerState C) w1 = (Inr s, w2)"
      and 3: "run_state (if s \<noteq> OnPowerState then SetPowerState C OnPowerState else State_Monad.return None) w2 = (None, w3)"
      and 4: "run_state (Now E) w3 = (t, w4)"
      and 5: "run_state (StatusUpdate_PhysicalHost E (inspecting_status t host)) w4 = (Inr h', w')"
      and b': "b' = bm_set_phase ''Inspecting'' b"
    by (auto simp: inspection_boot_def simp del: run_state_if split: option.splits sum.splits prod.splits)
  have c: "commands w' = commands w @ (a, BootFromPXE) # (if s = OnPowerState then [] else [(a, PowerRequest OnPowerState)])"
    using bmc_session.boot_commands [OF connected [OF assms(1)] 1 2 3] now [OF 4] update [OF 5] by simp
  have "seen host w3"
    using 3 keepsD [OF power_state [OF assms(1)] 2] keepsD [OF boot_seen [OF assms(1)] 1 assms(2)]
      keepsD [OF power_seen [OF assms(1)], of OnPowerState w2]
    by (auto split: if_splits)
  from keepsD [OF now_seen 4 this]
  have "hosts w' (ph_key host) = Some h' \<and> ph_Spec h' = ph_Spec host \<and> ph_Status h' = ph_Status (inspecting_status t host)"
    by (rule status_write_on_read [OF store _ _ 5]) (simp add: inspecting_status_def)
  moreover have "bt_Phase (bm_Status b') = Some ''Inspecting''" using b' by simp
  ultimately show ?thesis using c 1 2 by blast
qed

lemma trigger_sends:
  assumes "mr_Client R = E" and "mr_RedfishClientFactory R = Some F" and "seen host w"
    and "run_state (triggerInspection R b host) w = ((b', Return (requeue_after (30 * second)) None), w')"
  obtains secret C w0 w1 w2 s w3 h' t where
    "run_state (Get_Secret E \<lparr>nn_Namespace = om_Namespace (ph_meta host),
       nn_Name = rc_CredentialsSecretRef (ps_RedfishConnection (ph_Spec host))\<rparr>) w = (Inr secret, w0)"
    and "run_state (F (rc_Address (ps_RedfishConnection (ph_Spec host))) (secret_string secret ''username'')
       (secret_string secret ''password'') (insecure_setting host)) w0 = (Inr C, w1)"
    and "run_state (SetBootSourcePXE C) w1 = (None, w2)" and "run_state (GetPowerState C) w2 = (Inr s, w3)"
    and "commands w' = commands w @ (rc_Address (ps_RedfishConnection (ph_Spec host)), BootFromPXE) #
       (if s = OnPowerState then [] else [(rc_Address (ps_RedfishConnection (ph_Spec host)), PowerRequest OnPowerState)])"
    and "bt_Phase (bm_Status b') = Some ''Inspecting''"
    and "hosts w' (ph_key host) = Some h'" and "ph_Spec h' = ph_Spec host" and "ph_Status h' = ph_Status (inspecting_status t host)"
proof -
  let ?a = "rc_Address (ps_RedfishConnection (ph_Spec host))"
  let ?k = "\<lparr>nn_Namespace = om_Namespace (ph_meta host), nn_Name = rc_CredentialsSecretRef (ps_RedfishConnection (ph_Spec host))\<rparr>"
  from assms(4) obtain g w0 where g: "run_state (Get_Secret E ?k) w = (g, w0)" by fastforce
  with assms(1,2,4) obtain sec where sec: "g = Inr sec"
    by (cases g) (auto simp: triggerInspection_def getRedfishClientForHost_def)
  obtain c w1 where c: "run_state (F ?a (secret_string sec ''username'') (secret_string sec ''password'') (insecure_setting host)) w0 = (c, w1)"
    by fastforce
  from assms(1,2,4) g sec c obtain C v where C: "c = Inr C"
      and i: "run_state (inspection_boot E b host C) w1 = ((b', Return (requeue_after (30 * second)) None), v)"
      and cl: "run_state (Close C) v = ((), w')"
    by (cases c) (auto simp: triggerInspection_def getRedfishClientForHost_def split: prod.splits)
  note f = c [unfolded C]
  have "seen host w1" using keepsD [OF connect c] keepsD [OF store_ok_secret [OF store] g assms(3)] by simp
  from boot_sends [OF f this i] obtain s w2 w3 h' t where
      d: "run_state (SetBootSourcePXE C) w1 = (None, w2)" "run_state (GetPowerState C) w2 = (Inr s, w3)" "bt_Phase (bm_Status b') = Some ''Inspecting''"
      "commands v = commands w1 @ (?a, BootFromPXE) # (if s = OnPowerState then [] else [(?a, PowerRequest OnPowerState)])"
      and h': "hosts v (ph_key host) = Some h'" "ph_Spec h' = ph_Spec host" "ph_Status h' = ph_Status (inspecting_status t host)"
    by blast
  have "hosts w' (ph_key host) = Some h'"
    by (rule keepsD [OF close [OF f, of "\<lambda>s. s (ph_key host) = Some h'"] cl h'(1)])
  moreover have "commands w' = commands v" by (rule bmc_session.close [OF connected [OF f] cl])
  moreover have "commands w1 = commands w" using connecting [OF c] secret [OF g] by simp
  ultimately show ?thesis using that [OF g [unfolded sec] f d(1,2)] d h' by simp
qed

end

lemma mem_write_commands: "run_state (mem_write f h) w = (u, w') \<Longrightarrow> mm_commands (fst w') = mm_commands (fst w)"
  by (auto simp: mem_write_def Let_def split: option.splits if_splits)

lemma site_client_hosts:
  "run_state (SetBootSourcePXE (site_client a)) w = (r, w') \<Longrightarrow> mem_hosts w' = mem_hosts w"
  "run_state (SetPowerState (site_client a) s) w = (r, w') \<Longrightarrow> mem_hosts w' = mem_hosts w"
  by (auto simp: site_client_def run_noting mem_hosts_def [abs_def] stored_hosts_def split: option.splits prod.splits)

interpretation site_link: bmc_link mem_hosts "genuine mem_hosts" site_factory
proof unfold_locales
  fix Q :: "(NamespacedName \<Rightarrow> PhysicalHost option) \<Rightarrow> bool" and a u p i C and w w' :: mem_world
  assume "run_state (site_factory a u p i) w = (Inr C, w')"
  then show "keeps (\<lambda>w. Q (mem_hosts w)) (Close C)"
    by (auto simp: keeps_def site_factory_def site_client_def mem_hosts_def [abs_def])
qed (auto simp: keeps_def site_factory_def site_client_def genuine_def mem_hosts_def)

interpretation mem_site: inspection_site mem_hosts "genuine mem_hosts" site_factory mem_env site_commands
proof (rule inspection_site.intro, rule site_link.bmc_link_axioms, rule inspection_site_axioms.intro)
  show "store_ok mem_env mem_hosts (genuine mem_hosts)" by (rule mem_store_ok)
next
  fix a u p i w C w'
  assume "run_state (site_factory a u p i) w = (Inr C, w')"
  then have C: "C = site_client a" by (simp add: site_factory_def)
  show "bmc_session C site_commands a" unfolding C by (rule site.bmc_session_axioms)
  show "keeps (genuine mem_hosts h) (SetBootSourcePXE C)" "keeps (genuine mem_hosts h) (SetPowerState C s)" for h s
    unfolding C keeps_def genuine_def using site_client_hosts by (metis prod.collapse)+
qed (auto simp: site_factory_def site_commands_def keeps_def genuine_def mem_hosts_def dest: mem_write_commands)

text \<open>
  C18. Triggering an inspection does what it reports. When it succeeds, exactly these commands have been
  accepted since it began, all by the BMC at the host's address, to which it connected with the credentials of
  the host's secret: to boot from the network, and then to power on unless that BMC has reported the state \<open>On\<close>; no
  other BMC has been sent a command. The stored host is inspecting in phase \<open>Booting\<close> with a start time, its claim is
  untouched, and the machine's phase is \<open>Inspecting\<close>.
\<close>

theorem triggerInspection_arms_host:
  assumes "inspection_site hosts seen F E commands" and "mr_Client R = E" and "mr_RedfishClientFactory R = Some F" and "seen host w"
    and "run_state (triggerInspection R b host) w = ((b', Return (requeue_after (30 * second)) None), w')"
    and "addr = rc_Address (ps_RedfishConnection (ph_Spec host))"
  shows "(\<exists>secret w0 C w1 w2 s w3. run_state (Get_Secret E \<lparr>nn_Namespace = om_Namespace (ph_meta host),
        nn_Name = rc_CredentialsSecretRef (ps_RedfishConnection (ph_Spec host))\<rparr>) w = (Inr secret, w0) \<and>
      run_state (F addr (secret_string secret ''username'') (secret_string secret ''password'') (insecure_setting host)) w0 = (Inr C, w1) \<and>
      run_state (SetBootSourcePXE C) w1 = (None, w2) \<and> run_state (GetPowerState C) w2 = (Inr s, w3) \<and>
      commands w' = commands w @ (addr, BootFromPXE) # (if s = OnPowerState then [] else [(addr, PowerRequest OnPowerState)])) \<and>
    bt_Phase (bm_Status b') = Some ''Inspecting'' \<and>
    (\<exists>h'. hosts w' (ph_key host) = Some h' \<and> ph_Spec h' = ph_Spec host \<and> st_State (ph_Status h') = StateInspecting \<and>
       st_InspectionPhase (ph_Status h') = InspectionPhaseBooting \<and> st_InspectionTimestamp (ph_Status h') \<noteq> None)"
proof (rule inspection_site.trigger_sends [OF assms(1-5)], goal_cases)
  case (1 secret C w0 w1 w2 s w3 h' t)
  then show ?case unfolding assms(6)
    by (intro conjI exI [of _ secret] exI [of _ w0] exI [of _ C] exI [of _ w1] exI [of _ w2] exI [of _ s] exI [of _ w3] exI [of _ h'])
      (simp_all add: inspecting_status_def)
qed

definition site_reconciler :: "mem_world Beskar7MachineReconciler" where
  "site_reconciler = \<lparr>mr_Client = mem_env, mr_RedfishClientFactory = Some site_factory\<rparr>"

theorem triggerInspection_arms_host_witness:
  "let host = sample_host ''h1'' [] (Some (sample_ref ''m1'')) StateInUse;
       r = run_state (triggerInspection site_reconciler (sample_machine None) host) (sample_world [host] [sample_secret])
   in snd (fst r) = Return (requeue_after (30 * second)) None \<and> (''https://10.0.0.9'', BootFromPXE) \<in> set (site_commands (snd r)) \<and>
      fst ` set (site_commands (snd r)) = {''https://10.0.0.9''}"
proof -
  let ?host = "sample_host ''h1'' [] (Some (sample_ref ''m1'')) StateInUse"
  let ?w = "sample_world [?host] [sample_secret]"
  let ?r = "run_state (triggerInspection site_reconciler (sample_machine None) ?host) ?w"
  have out: "snd (fst ?r) = Return (requeue_after (30 * second)) None"
    by (simp add: triggerInspection_def getRedfishClientForHost_def inspection_boot_def site_reconciler_def
        insecure_setting_def site_factory_def site_client_def run_noting mock_defs inspecting_status_def sample_defs mem_eval)
  then obtain b' w' where r: "?r = ((b', Return (requeue_after (30 * second)) None), w')"
    by (metis prod.collapse)
  have s: "genuine mem_hosts ?host ?w" "site_commands ?w = []" "mr_Client site_reconciler = mem_env"
      "mr_RedfishClientFactory site_reconciler = Some site_factory" "''https://10.0.0.9'' = rc_Address (ps_RedfishConnection (ph_Spec ?host))"
    by (simp_all add: genuine_def site_commands_def site_reconciler_def sample_defs mem_eval)
  obtain p :: string where "site_commands w' = (''https://10.0.0.9'', BootFromPXE) #
      (if p = OnPowerState then [] else [(''https://10.0.0.9'', PowerRequest OnPowerState)])"
    using triggerInspection_arms_host [OF mem_site.inspection_site_axioms s(3,4,1) r s(5)] unfolding s(2) append_Nil by blast
  then show ?thesis using r by auto
qed

lemma DefaultInspectionTimeout_bounds: "minDuration \<le> DefaultInspectionTimeout" "DefaultInspectionTimeout < maxDuration"
  by (simp_all add: DefaultInspectionTimeout_def minDuration_def maxDuration_def)

lemma handleInspectingHost_started:
  assumes "st_InspectionTimestamp (ph_Status host) = Some started" and "run_state (Now E) w = (now, w1)"
  shows "run_state (handleInspectingHost E b host) w =
    (if now - started > DefaultInspectionTimeout
     then ((b, Return ResultZero (Some (Err ''inspection timeout''))),
           snd (run_state (StatusUpdate_PhysicalHost E (timeout_status (time_Sub now started) host)) w1))
     else if st_InspectionPhase (ph_Status host) = InspectionPhaseComplete
     then run_state (validateInspectionReport E b host) w1
     else ((bm_set_phase ''Inspecting'' b, Return (requeue_after (30 * second)) None), w1))"
  using assms time_Sub_gt [OF DefaultInspectionTimeout_bounds, of now started]
  by (simp add: handleInspectingHost_def Let_def split: prod.splits)



section \<open>Pausing and wiring\<close>

text \<open>
  A paused machine, or a machine of a paused cluster, is left alone: the reconciliation ends
  without an error, a requeue or any write; it makes only the reads up to the one that showed the pause.
\<close>

theorem paused_machine_untouched:
  assumes "run_state (Get_Beskar7Machine (mr_Client R) req) w = (Inr b, w1)"
    and "if isPaused (mr_Client R) (bm_meta b) then w' = w1
      else (\<exists>m w2. run_state (GetOwnerMachine (mr_Client R) (bm_meta b)) w1 = (Inr (Some m), w2) \<and>
        (\<exists>c. run_state (GetClusterFromMetadata (mr_Client R) (mc_meta m)) w2 = (Inr c, w') \<and>
           isClusterPaused (mr_Client R) c))"
  shows "run_state (bm_Reconcile R req) w = (Return ResultZero None, w')"
  using assms by (auto simp: bm_Reconcile_def Let_def split: if_splits)

definition paused_machine :: Beskar7Machine where
  "paused_machine = (sample_machine None)\<lparr>bm_meta := (sample_meta ''m1'' [])
     \<lparr>om_Annotations := [''cluster.x-k8s.io/paused'' \<mapsto> '''']\<rparr>\<rparr>"

theorem paused_machine_untouched_witness:
  "let w = ((fst two_hosts)\<lparr>mm_machines := [paused_machine]\<rparr>, snd two_hosts)
   in run_state (bm_Reconcile machine_reconciler (sample_key ''m1'')) w = (Return ResultZero None, w)"
proof -
  let ?w = "((fst two_hosts)\<lparr>mm_machines := [paused_machine]\<rparr>, snd two_hosts)"
  have "run_state (Get_Beskar7Machine mem_env (sample_key ''m1'')) ?w = (Inr paused_machine, ?w)"
    by (simp add: paused_machine_def sample_machine_def sample_defs mem_eval)
  moreover have "isPaused mem_env (bm_meta paused_machine)"
    by (simp add: isPaused_def paused_machine_def)
  ultimately have "run_state (bm_Reconcile machine_reconciler (sample_key ''m1'')) ?w = (Return ResultZero None, ?w)"
    by - (rule paused_machine_untouched, auto simp: machine_reconciler_def)
  then show ?thesis by simp
qed

text \<open>
  The machine reconciler that \<open>cmd/manager/main.go\<close> builds cannot start an inspection: with its nil
  factory, reconciling a machine whose claimed host is in use panics as soon as the BMC secret has
  been read, and the panic goes through the patch on exit.
\<close>

theorem main_machine_reconciler_panics:
  assumes "run_state (Get_Secret E \<lparr>nn_Namespace = om_Namespace (ph_meta host),
      nn_Name = rc_CredentialsSecretRef (ps_RedfishConnection (ph_Spec host))\<rparr>) w = (Inr secret, w1)"
    and "st_State (ph_Status host) = StateInUse"
  shows "run_state (handlePhysicalHostState (main_Beskar7MachineReconciler E) b host) w = ((b, Panic nil_call), w1) \<and>
    fst (run_state (patch_on_exit E before (b, Panic nil_call)) w1) = Panic nil_call"
  using assms
  by (simp add: handlePhysicalHostState_def main_Beskar7MachineReconciler_def triggerInspection_def
      getRedfishClientForHost_def patch_on_exit_def split: prod.splits)

theorem main_machine_reconciler_panics_witness:
  "fst (run_state (handlePhysicalHostState (main_Beskar7MachineReconciler mem_env) (sample_machine None)
     (sample_host ''h1'' [] (Some (sample_ref ''m1'')) StateInUse)) (sample_world [] [sample_secret])) =
   (sample_machine None, Panic nil_call)"
  using main_machine_reconciler_panics [of mem_env "sample_host ''h1'' [] (Some (sample_ref ''m1'')) StateInUse"
      "sample_world [] [sample_secret]" sample_secret "sample_world [] [sample_secret]" "sample_machine None"]
  by (simp add: sample_defs mem_eval)

end
