(* ===== verification/Metrics.thy ===== *)
theory Metrics
  imports Prelude Complex_Main
begin

text \<open>
  \<open>internal/metrics/metrics.go\<close>: the metrics of the provider. A metric vector is its declaration, and
  recording a metric is the list of the calls on the Prometheus vectors it makes, in order. The
  Prometheus client itself is not part of the repository: its documentation says that
  \<open>WithLabelValues\<close> panics when the number of values is not the number of declared labels, and that
  \<open>MustRegister\<close> panics when two vectors share a fully qualified name; the theorems of this theory
  show that neither can happen here.

  A \<open>float64\<close> is a real number; the rounding of the division in \<open>Duration.Seconds\<close> and of the
  availability ratio is not modelled.
\<close>

section \<open>Vectors\<close>

definition MetricNamespace :: string where [simp]: "MetricNamespace = ''beskar7''"
definition MetricSubsystem :: string where [simp]: "MetricSubsystem = ''controller''"

datatype bucket_spec = DefBuckets | Buckets "real list"

datatype metric_kind = CounterKind | GaugeKind | HistogramKind bucket_spec

record metric_vec =
  mv_Kind :: metric_kind
  mv_Namespace :: string
  mv_Subsystem :: string
  mv_Name :: string
  mv_Labels :: "string list"

definition PhysicalHostStatesGauge :: metric_vec where
  "PhysicalHostStatesGauge = \<lparr>mv_Kind = GaugeKind, mv_Namespace = MetricNamespace, mv_Subsystem = MetricSubsystem,
     mv_Name = ''physicalhost_states_total'', mv_Labels = [''state'', ''namespace'']\<rparr>"

definition PhysicalHostProvisioningTotal :: metric_vec where
  "PhysicalHostProvisioningTotal = \<lparr>mv_Kind = CounterKind, mv_Namespace = MetricNamespace, mv_Subsystem = MetricSubsystem,
     mv_Name = ''physicalhost_provisioning_total'', mv_Labels = [''outcome'', ''namespace'', ''error_type'']\<rparr>"

definition PhysicalHostPowerOperationsTotal :: metric_vec where
  "PhysicalHostPowerOperationsTotal = \<lparr>mv_Kind = CounterKind, mv_Namespace = MetricNamespace, mv_Subsystem = MetricSubsystem,
     mv_Name = ''physicalhost_power_operations_total'', mv_Labels = [''operation'', ''outcome'', ''namespace'']\<rparr>"

definition PhysicalHostRedfishConnectionsTotal :: metric_vec where
  "PhysicalHostRedfishConnectionsTotal = \<lparr>mv_Kind = CounterKind, mv_Namespace = MetricNamespace, mv_Subsystem = MetricSubsystem,
     mv_Name = ''physicalhost_redfish_connections_total'', mv_Labels = [''outcome'', ''namespace'', ''error_type'']\<rparr>"

definition Beskar7MachineStatesGauge :: metric_vec where
  "Beskar7MachineStatesGauge = \<lparr>mv_Kind = GaugeKind, mv_Namespace = MetricNamespace, mv_Subsystem = MetricSubsystem,
     mv_Name = ''beskar7machine_states_total'', mv_Labels = [''phase'', ''namespace'']\<rparr>"

definition Beskar7MachineProvisioningDuration :: metric_vec where
  "Beskar7MachineProvisioningDuration = \<lparr>mv_Kind = HistogramKind (Buckets [30, 60, 120, 300, 600, 1200, 1800, 3600]),
     mv_Namespace = MetricNamespace, mv_Subsystem = MetricSubsystem,
     mv_Name = ''beskar7machine_provisioning_duration_seconds'', mv_Labels = [''outcome'', ''namespace'']\<rparr>"

definition Beskar7MachineBootConfigurationsTotal :: metric_vec where
  "Beskar7MachineBootConfigurationsTotal = \<lparr>mv_Kind = CounterKind, mv_Namespace = MetricNamespace, mv_Subsystem = MetricSubsystem,
     mv_Name = ''beskar7machine_boot_configurations_total'', mv_Labels = [''mode'', ''os_family'', ''outcome'', ''namespace'']\<rparr>"

definition Beskar7ClusterStatesGauge :: metric_vec where
  "Beskar7ClusterStatesGauge = \<lparr>mv_Kind = GaugeKind, mv_Namespace = MetricNamespace, mv_Subsystem = MetricSubsystem,
     mv_Name = ''beskar7cluster_states_total'', mv_Labels = [''ready'', ''namespace'']\<rparr>"

definition Beskar7ClusterFailureDomainsGauge :: metric_vec where
  "Beskar7ClusterFailureDomainsGauge = \<lparr>mv_Kind = GaugeKind, mv_Namespace = MetricNamespace, mv_Subsystem = MetricSubsystem,
     mv_Name = ''beskar7cluster_failure_domains_total'', mv_Labels = [''cluster'', ''namespace'']\<rparr>"

definition Beskar7ClusterFailureDomainDiscoveryTotal :: metric_vec where
  "Beskar7ClusterFailureDomainDiscoveryTotal = \<lparr>mv_Kind = CounterKind, mv_Namespace = MetricNamespace, mv_Subsystem = MetricSubsystem,
     mv_Name = ''beskar7cluster_failure_domain_discovery_total'', mv_Labels = [''outcome'', ''namespace'']\<rparr>"

definition ControllerReconciliationDuration :: metric_vec where
  "ControllerReconciliationDuration = \<lparr>mv_Kind = HistogramKind DefBuckets, mv_Namespace = MetricNamespace, mv_Subsystem = MetricSubsystem,
     mv_Name = ''reconciliation_duration_seconds'', mv_Labels = [''controller'', ''outcome'', ''namespace'']\<rparr>"

definition ControllerReconciliationTotal :: metric_vec where
  "ControllerReconciliationTotal = \<lparr>mv_Kind = CounterKind, mv_Namespace = MetricNamespace, mv_Subsystem = MetricSubsystem,
     mv_Name = ''reconciliation_total'', mv_Labels = [''controller'', ''outcome'', ''namespace'']\<rparr>"

definition ControllerErrorsTotal :: metric_vec where
  "ControllerErrorsTotal = \<lparr>mv_Kind = CounterKind, mv_Namespace = MetricNamespace, mv_Subsystem = MetricSubsystem,
     mv_Name = ''errors_total'', mv_Labels = [''controller'', ''error_type'', ''namespace'']\<rparr>"

definition ControllerRequeueTotal :: metric_vec where
  "ControllerRequeueTotal = \<lparr>mv_Kind = CounterKind, mv_Namespace = MetricNamespace, mv_Subsystem = MetricSubsystem,
     mv_Name = ''requeue_total'', mv_Labels = [''controller'', ''reason'', ''namespace'']\<rparr>"

definition PhysicalHostAvailabilityGauge :: metric_vec where
  "PhysicalHostAvailabilityGauge = \<lparr>mv_Kind = GaugeKind, mv_Namespace = MetricNamespace, mv_Subsystem = MetricSubsystem,
     mv_Name = ''physicalhost_availability'', mv_Labels = [''namespace'']\<rparr>"

definition PhysicalHostConsumerMappingsGauge :: metric_vec where
  "PhysicalHostConsumerMappingsGauge = \<lparr>mv_Kind = GaugeKind, mv_Namespace = MetricNamespace, mv_Subsystem = MetricSubsystem,
     mv_Name = ''physicalhost_consumer_mappings_total'', mv_Labels = [''consumer_type'', ''namespace'']\<rparr>"

definition hostClaimAttempts :: metric_vec where
  "hostClaimAttempts = \<lparr>mv_Kind = CounterKind, mv_Namespace = '''', mv_Subsystem = '''',
     mv_Name = ''beskar7_host_claim_attempts_total'', mv_Labels = [''namespace'', ''outcome'', ''conflict_reason'']\<rparr>"

definition hostClaimDuration :: metric_vec where
  "hostClaimDuration = \<lparr>mv_Kind = HistogramKind DefBuckets, mv_Namespace = '''', mv_Subsystem = '''',
     mv_Name = ''beskar7_host_claim_duration_seconds'', mv_Labels = [''namespace'', ''outcome'']\<rparr>"

definition provisioningQueueLength :: metric_vec where
  "provisioningQueueLength = \<lparr>mv_Kind = GaugeKind, mv_Namespace = '''', mv_Subsystem = '''',
     mv_Name = ''beskar7_provisioning_queue_length'', mv_Labels = [''namespace'']\<rparr>"

definition provisioningQueueProcessingCount :: metric_vec where
  "provisioningQueueProcessingCount = \<lparr>mv_Kind = GaugeKind, mv_Namespace = '''', mv_Subsystem = '''',
     mv_Name = ''beskar7_provisioning_queue_processing_count'', mv_Labels = [''namespace'']\<rparr>"

definition concurrentProvisioningOperations :: metric_vec where
  "concurrentProvisioningOperations = \<lparr>mv_Kind = CounterKind, mv_Namespace = '''', mv_Subsystem = '''',
     mv_Name = ''beskar7_concurrent_provisioning_operations_total'', mv_Labels = [''namespace'', ''operation_type'', ''outcome'']\<rparr>"

definition bmcCooldownWaits :: metric_vec where
  "bmcCooldownWaits = \<lparr>mv_Kind = CounterKind, mv_Namespace = '''', mv_Subsystem = '''',
     mv_Name = ''beskar7_bmc_cooldown_waits_total'', mv_Labels = [''namespace'', ''bmc_address'']\<rparr>"

definition hostSelectionDuration :: metric_vec where
  "hostSelectionDuration = \<lparr>mv_Kind = HistogramKind (Buckets [0.001, 0.005, 0.01, 0.025, 0.05, 0.1, 0.25, 0.5, 1.0]),
     mv_Namespace = '''', mv_Subsystem = '''',
     mv_Name = ''beskar7_host_selection_duration_seconds'', mv_Labels = [''namespace'', ''selection_method'']\<rparr>"

definition claimCoordinatorLeaderElection :: metric_vec where
  "claimCoordinatorLeaderElection = \<lparr>mv_Kind = CounterKind, mv_Namespace = '''', mv_Subsystem = '''',
     mv_Name = ''beskar7_claim_coordinator_leader_election_total'', mv_Labels = [''namespace'', ''event_type'']\<rparr>"

definition claimCoordinatorResults :: metric_vec where
  "claimCoordinatorResults = \<lparr>mv_Kind = CounterKind, mv_Namespace = '''', mv_Subsystem = '''',
     mv_Name = ''beskar7_claim_coordinator_results_total'', mv_Labels = [''namespace'', ''result_type'']\<rparr>"

definition claimCoordinatorProcessing :: metric_vec where
  "claimCoordinatorProcessing = \<lparr>mv_Kind = HistogramKind DefBuckets, mv_Namespace = '''', mv_Subsystem = '''',
     mv_Name = ''beskar7_claim_coordinator_processing_duration_seconds'', mv_Labels = [''namespace'', ''result_type'']\<rparr>"

definition claimCoordinatorLeadershipDuration :: metric_vec where
  "claimCoordinatorLeadershipDuration = \<lparr>mv_Kind = GaugeKind, mv_Namespace = '''', mv_Subsystem = '''',
     mv_Name = ''beskar7_claim_coordinator_leadership_duration_seconds'', mv_Labels = [''namespace'', ''identity'']\<rparr>"

lemmas metric_vec_defs =
  PhysicalHostStatesGauge_def PhysicalHostProvisioningTotal_def PhysicalHostPowerOperationsTotal_def
  PhysicalHostRedfishConnectionsTotal_def Beskar7MachineStatesGauge_def
  Beskar7MachineProvisioningDuration_def Beskar7MachineBootConfigurationsTotal_def
  Beskar7ClusterStatesGauge_def Beskar7ClusterFailureDomainsGauge_def
  Beskar7ClusterFailureDomainDiscoveryTotal_def ControllerReconciliationDuration_def
  ControllerReconciliationTotal_def ControllerErrorsTotal_def ControllerRequeueTotal_def
  PhysicalHostAvailabilityGauge_def PhysicalHostConsumerMappingsGauge_def hostClaimAttempts_def
  hostClaimDuration_def provisioningQueueLength_def provisioningQueueProcessingCount_def
  concurrentProvisioningOperations_def bmcCooldownWaits_def hostSelectionDuration_def
  claimCoordinatorLeaderElection_def claimCoordinatorResults_def claimCoordinatorProcessing_def
  claimCoordinatorLeadershipDuration_def

definition Init :: "metric_vec list" where
  "Init = [PhysicalHostStatesGauge, PhysicalHostProvisioningTotal, PhysicalHostPowerOperationsTotal,
     PhysicalHostRedfishConnectionsTotal, Beskar7MachineStatesGauge,
     Beskar7MachineProvisioningDuration, Beskar7MachineBootConfigurationsTotal,
     Beskar7ClusterStatesGauge, Beskar7ClusterFailureDomainsGauge,
     Beskar7ClusterFailureDomainDiscoveryTotal, ControllerReconciliationDuration,
     ControllerReconciliationTotal, ControllerErrorsTotal, ControllerRequeueTotal,
     PhysicalHostAvailabilityGauge, PhysicalHostConsumerMappingsGauge, hostClaimAttempts,
     hostClaimDuration, provisioningQueueLength, provisioningQueueProcessingCount,
     concurrentProvisioningOperations, bmcCooldownWaits, hostSelectionDuration,
     claimCoordinatorLeaderElection, claimCoordinatorResults, claimCoordinatorProcessing,
     claimCoordinatorLeadershipDuration]"

text \<open>The calls on the vectors, with the label values.\<close>

datatype metric_op =
    CounterInc metric_vec "string list"
  | GaugeAdd metric_vec "string list" real
  | GaugeSet metric_vec "string list" real
  | HistogramObserve metric_vec "string list" real

definition Seconds :: "Duration \<Rightarrow> real" where
  "Seconds d = of_int d / 10 ^ 9"

section \<open>Label values\<close>

type_synonym ReconciliationOutcome = string

definition ReconciliationOutcomeSuccess :: ReconciliationOutcome where [simp]: "ReconciliationOutcomeSuccess = ''success''"
definition ReconciliationOutcomeError :: ReconciliationOutcome where [simp]: "ReconciliationOutcomeError = ''error''"
definition ReconciliationOutcomeRequeue :: ReconciliationOutcome where [simp]: "ReconciliationOutcomeRequeue = ''requeue''"
definition ReconciliationOutcomeNotFound :: ReconciliationOutcome where [simp]: "ReconciliationOutcomeNotFound = ''not_found''"

type_synonym ErrorType = string

definition ErrorTypeTransient :: ErrorType where [simp]: "ErrorTypeTransient = ''transient''"
definition ErrorTypePermanent :: ErrorType where [simp]: "ErrorTypePermanent = ''permanent''"
definition ErrorTypeValidation :: ErrorType where [simp]: "ErrorTypeValidation = ''validation''"
definition ErrorTypeConnection :: ErrorType where [simp]: "ErrorTypeConnection = ''connection''"
definition ErrorTypeTimeout :: ErrorType where [simp]: "ErrorTypeTimeout = ''timeout''"
definition ErrorTypeQuery :: ErrorType where [simp]: "ErrorTypeQuery = ''query''"
definition ErrorTypeAddress :: ErrorType where [simp]: "ErrorTypeAddress = ''address''"
definition ErrorTypePower :: ErrorType where [simp]: "ErrorTypePower = ''power''"
definition ErrorTypeBoot :: ErrorType where [simp]: "ErrorTypeBoot = ''boot''"
definition ErrorTypeVirtualMedia :: ErrorType where [simp]: "ErrorTypeVirtualMedia = ''virtual_media''"
definition ErrorTypeUnknown :: ErrorType where [simp]: "ErrorTypeUnknown = ''unknown''"

type_synonym ProvisioningOutcome = string

definition ProvisioningOutcomeSuccess :: ProvisioningOutcome where [simp]: "ProvisioningOutcomeSuccess = ''success''"
definition ProvisioningOutcomeFailed :: ProvisioningOutcome where [simp]: "ProvisioningOutcomeFailed = ''failed''"
definition ProvisioningOutcomeRetry :: ProvisioningOutcome where [simp]: "ProvisioningOutcomeRetry = ''retry''"

type_synonym PowerOperation = string

definition PowerOperationOn :: PowerOperation where [simp]: "PowerOperationOn = ''power_on''"
definition PowerOperationOff :: PowerOperation where [simp]: "PowerOperationOff = ''power_off''"
definition PowerOperationReset :: PowerOperation where [simp]: "PowerOperationReset = ''power_reset''"

type_synonym ClaimOutcome = string

definition ClaimOutcomeSuccess :: ClaimOutcome where [simp]: "ClaimOutcomeSuccess = ''success''"
definition ClaimOutcomeConflict :: ClaimOutcome where [simp]: "ClaimOutcomeConflict = ''conflict''"
definition ClaimOutcomeNoHosts :: ClaimOutcome where [simp]: "ClaimOutcomeNoHosts = ''no_hosts''"
definition ClaimOutcomeError :: ClaimOutcome where [simp]: "ClaimOutcomeError = ''error''"

type_synonym ConflictReason = string

definition ConflictReasonOptimisticLock :: ConflictReason where [simp]: "ConflictReasonOptimisticLock = ''optimistic_lock''"
definition ConflictReasonAlreadyClaimed :: ConflictReason where [simp]: "ConflictReasonAlreadyClaimed = ''already_claimed''"
definition ConflictReasonInvalidState :: ConflictReason where [simp]: "ConflictReasonInvalidState = ''invalid_state''"
definition ConflictReasonNone :: ConflictReason where [simp]: "ConflictReasonNone = ''none''"


section \<open>Recording\<close>

definition RecordReconciliation :: "string \<Rightarrow> string \<Rightarrow> ReconciliationOutcome \<Rightarrow> Duration \<Rightarrow> metric_op list" where
  "RecordReconciliation controller namespace outcome duration =
     [CounterInc ControllerReconciliationTotal [controller, outcome, namespace],
      HistogramObserve ControllerReconciliationDuration [controller, outcome, namespace] (Seconds duration)]"

definition RecordError :: "string \<Rightarrow> string \<Rightarrow> ErrorType \<Rightarrow> metric_op list" where
  "RecordError controller namespace errorType = [CounterInc ControllerErrorsTotal [controller, errorType, namespace]]"

definition RecordRequeue :: "string \<Rightarrow> string \<Rightarrow> string \<Rightarrow> metric_op list" where
  "RecordRequeue controller namespace reason = [CounterInc ControllerRequeueTotal [controller, reason, namespace]]"

definition RecordPhysicalHostState :: "string \<Rightarrow> string \<Rightarrow> real \<Rightarrow> metric_op list" where
  "RecordPhysicalHostState state namespace delta = [GaugeAdd PhysicalHostStatesGauge [state, namespace] delta]"

definition error_label :: "ProvisioningOutcome \<Rightarrow> ErrorType \<Rightarrow> string" where
  "error_label outcome errorType = (if outcome = ProvisioningOutcomeFailed then errorType else '''')"

definition RecordPhysicalHostProvisioning :: "string \<Rightarrow> ProvisioningOutcome \<Rightarrow> ErrorType \<Rightarrow> metric_op list" where
  "RecordPhysicalHostProvisioning namespace outcome errorType =
     [CounterInc PhysicalHostProvisioningTotal [outcome, namespace, error_label outcome errorType]]"

definition RecordPhysicalHostPowerOperation :: "PowerOperation \<Rightarrow> string \<Rightarrow> ProvisioningOutcome \<Rightarrow> metric_op list" where
  "RecordPhysicalHostPowerOperation operation namespace outcome =
     [CounterInc PhysicalHostPowerOperationsTotal [operation, outcome, namespace]]"

definition RecordRedfishConnection :: "string \<Rightarrow> ProvisioningOutcome \<Rightarrow> ErrorType \<Rightarrow> metric_op list" where
  "RecordRedfishConnection namespace outcome errorType =
     [CounterInc PhysicalHostRedfishConnectionsTotal [outcome, namespace, error_label outcome errorType]]"

definition RecordBeskar7MachineState :: "string \<Rightarrow> string \<Rightarrow> real \<Rightarrow> metric_op list" where
  "RecordBeskar7MachineState phase namespace delta = [GaugeAdd Beskar7MachineStatesGauge [phase, namespace] delta]"

definition RecordBeskar7MachineProvisioning :: "string \<Rightarrow> ProvisioningOutcome \<Rightarrow> Duration \<Rightarrow> metric_op list" where
  "RecordBeskar7MachineProvisioning namespace outcome duration =
     [HistogramObserve Beskar7MachineProvisioningDuration [outcome, namespace] (Seconds duration)]"

definition RecordBootConfiguration :: "string \<Rightarrow> string \<Rightarrow> string \<Rightarrow> ProvisioningOutcome \<Rightarrow> metric_op list" where
  "RecordBootConfiguration mode osFamily namespace outcome =
     [CounterInc Beskar7MachineBootConfigurationsTotal [mode, osFamily, outcome, namespace]]"

definition RecordBeskar7ClusterState :: "bool \<Rightarrow> string \<Rightarrow> real \<Rightarrow> metric_op list" where
  "RecordBeskar7ClusterState ready namespace delta =
     [GaugeAdd Beskar7ClusterStatesGauge [if ready then ''true'' else ''false'', namespace] delta]"

definition RecordFailureDomains :: "string \<Rightarrow> string \<Rightarrow> real \<Rightarrow> metric_op list" where
  "RecordFailureDomains cluster namespace domains = [GaugeSet Beskar7ClusterFailureDomainsGauge [cluster, namespace] domains]"

definition RecordFailureDomainDiscovery :: "string \<Rightarrow> ProvisioningOutcome \<Rightarrow> metric_op list" where
  "RecordFailureDomainDiscovery namespace outcome =
     [CounterInc Beskar7ClusterFailureDomainDiscoveryTotal [outcome, namespace]]"

definition availability_ratio :: "goint \<Rightarrow> goint \<Rightarrow> real" where
  "availability_ratio availableCount totalCount =
     (if sint totalCount > 0 then of_int (sint availableCount) / of_int (sint totalCount) else 0)"

definition UpdatePhysicalHostAvailability :: "string \<Rightarrow> goint \<Rightarrow> goint \<Rightarrow> metric_op list" where
  "UpdatePhysicalHostAvailability namespace availableCount totalCount =
     [GaugeSet PhysicalHostAvailabilityGauge [namespace] (availability_ratio availableCount totalCount)]"

definition RecordPhysicalHostConsumerMapping :: "string \<Rightarrow> string \<Rightarrow> real \<Rightarrow> metric_op list" where
  "RecordPhysicalHostConsumerMapping consumerType namespace delta =
     [GaugeAdd PhysicalHostConsumerMappingsGauge [consumerType, namespace] delta]"

definition RecordRedfishQuery :: "string \<Rightarrow> ProvisioningOutcome \<Rightarrow> ErrorType \<Rightarrow> metric_op list" where
  "RecordRedfishQuery namespace outcome errorType =
     [CounterInc PhysicalHostRedfishConnectionsTotal [outcome, namespace, error_label outcome errorType]]"

definition RecordNetworkAddress :: "string \<Rightarrow> ProvisioningOutcome \<Rightarrow> ErrorType \<Rightarrow> metric_op list" where
  "RecordNetworkAddress namespace outcome errorType =
     [CounterInc PhysicalHostProvisioningTotal [outcome, namespace, error_label outcome errorType]]"

definition RecordPowerOperation :: "string \<Rightarrow> ProvisioningOutcome \<Rightarrow> ErrorType \<Rightarrow> metric_op list" where
  "RecordPowerOperation namespace outcome errorType =
     RecordPhysicalHostPowerOperation PowerOperationOn namespace outcome"

definition RecordVirtualMediaOperation :: "string \<Rightarrow> ProvisioningOutcome \<Rightarrow> ErrorType \<Rightarrow> metric_op list" where
  "RecordVirtualMediaOperation namespace outcome errorType =
     [CounterInc PhysicalHostProvisioningTotal [outcome, namespace, error_label outcome errorType]]"

definition RecordBootOperation :: "string \<Rightarrow> ProvisioningOutcome \<Rightarrow> ErrorType \<Rightarrow> metric_op list" where
  "RecordBootOperation namespace outcome errorType = RecordBootConfiguration ''iso'' ''unknown'' namespace outcome"

definition RecordDeprovisioningOperation :: "string \<Rightarrow> ProvisioningOutcome \<Rightarrow> ErrorType \<Rightarrow> metric_op list" where
  "RecordDeprovisioningOperation namespace outcome errorType =
     [CounterInc PhysicalHostProvisioningTotal [outcome, namespace, error_label outcome errorType]]"

definition RecordHostClaimAttempt :: "string \<Rightarrow> ClaimOutcome \<Rightarrow> ConflictReason \<Rightarrow> metric_op list" where
  "RecordHostClaimAttempt namespace outcome conflictReason =
     [CounterInc hostClaimAttempts [namespace, outcome, conflictReason]]"

definition RecordHostClaimDuration :: "string \<Rightarrow> ClaimOutcome \<Rightarrow> Duration \<Rightarrow> metric_op list" where
  "RecordHostClaimDuration namespace outcome duration =
     [HistogramObserve hostClaimDuration [namespace, outcome] (Seconds duration)]"

definition RecordProvisioningQueueStatus :: "string \<Rightarrow> goint \<Rightarrow> goint \<Rightarrow> metric_op list" where
  "RecordProvisioningQueueStatus namespace queueLength processingCount =
     [GaugeSet provisioningQueueLength [namespace] (of_int (sint queueLength)),
      GaugeSet provisioningQueueProcessingCount [namespace] (of_int (sint processingCount))]"

definition RecordConcurrentProvisioningOperation :: "string \<Rightarrow> string \<Rightarrow> ProvisioningOutcome \<Rightarrow> metric_op list" where
  "RecordConcurrentProvisioningOperation namespace operationType outcome =
     [CounterInc concurrentProvisioningOperations [namespace, operationType, outcome]]"

definition RecordBMCCooldownWait :: "string \<Rightarrow> string \<Rightarrow> metric_op list" where
  "RecordBMCCooldownWait namespace bmcAddress = [CounterInc bmcCooldownWaits [namespace, bmcAddress]]"

definition RecordHostSelectionDuration :: "string \<Rightarrow> string \<Rightarrow> Duration \<Rightarrow> metric_op list" where
  "RecordHostSelectionDuration namespace selectionMethod duration =
     [HistogramObserve hostSelectionDuration [namespace, selectionMethod] (Seconds duration)]"

definition RecordClaimCoordinatorLeaderElection :: "string \<Rightarrow> string \<Rightarrow> metric_op list" where
  "RecordClaimCoordinatorLeaderElection namespace eventType =
     [CounterInc claimCoordinatorLeaderElection [namespace, eventType]]"

definition RecordClaimCoordinatorResult :: "string \<Rightarrow> string \<Rightarrow> metric_op list" where
  "RecordClaimCoordinatorResult namespace resultType = [CounterInc claimCoordinatorResults [namespace, resultType]]"

definition RecordClaimCoordinatorProcessing :: "string \<Rightarrow> string \<Rightarrow> Duration \<Rightarrow> metric_op list" where
  "RecordClaimCoordinatorProcessing namespace resultType duration =
     [HistogramObserve claimCoordinatorProcessing [namespace, resultType] (Seconds duration)]"

definition RecordClaimCoordinatorLeadershipDuration :: "string \<Rightarrow> string \<Rightarrow> Duration \<Rightarrow> metric_op list" where
  "RecordClaimCoordinatorLeadershipDuration namespace identity duration =
     [GaugeSet claimCoordinatorLeadershipDuration [namespace, identity] (Seconds duration)]"

lemmas record_defs =
  RecordReconciliation_def RecordError_def RecordRequeue_def RecordPhysicalHostState_def
  RecordPhysicalHostProvisioning_def RecordPhysicalHostPowerOperation_def
  RecordRedfishConnection_def RecordBeskar7MachineState_def RecordBeskar7MachineProvisioning_def
  RecordBootConfiguration_def RecordBeskar7ClusterState_def RecordFailureDomains_def
  RecordFailureDomainDiscovery_def UpdatePhysicalHostAvailability_def
  RecordPhysicalHostConsumerMapping_def RecordRedfishQuery_def RecordNetworkAddress_def
  RecordPowerOperation_def RecordVirtualMediaOperation_def RecordBootOperation_def
  RecordDeprovisioningOperation_def RecordHostClaimAttempt_def RecordHostClaimDuration_def
  RecordProvisioningQueueStatus_def RecordConcurrentProvisioningOperation_def
  RecordBMCCooldownWait_def RecordHostSelectionDuration_def RecordClaimCoordinatorLeaderElection_def
  RecordClaimCoordinatorResult_def RecordClaimCoordinatorProcessing_def
  RecordClaimCoordinatorLeadershipDuration_def error_label_def

text \<open>A call of any of the recording functions for a namespace, with what it records.\<close>

inductive recorded :: "string \<Rightarrow> metric_op list \<Rightarrow> bool" where
  "recorded namespace (RecordReconciliation a namespace c d)"
| "recorded namespace (RecordError a namespace c)"
| "recorded namespace (RecordRequeue a namespace c)"
| "recorded namespace (RecordPhysicalHostState a namespace c)"
| "recorded namespace (RecordPhysicalHostProvisioning namespace b c)"
| "recorded namespace (RecordPhysicalHostPowerOperation a namespace c)"
| "recorded namespace (RecordRedfishConnection namespace b c)"
| "recorded namespace (RecordBeskar7MachineState a namespace c)"
| "recorded namespace (RecordBeskar7MachineProvisioning namespace b c)"
| "recorded namespace (RecordBootConfiguration a b namespace d)"
| "recorded namespace (RecordBeskar7ClusterState a namespace c)"
| "recorded namespace (RecordFailureDomains a namespace c)"
| "recorded namespace (RecordFailureDomainDiscovery namespace b)"
| "recorded namespace (UpdatePhysicalHostAvailability namespace b c)"
| "recorded namespace (RecordPhysicalHostConsumerMapping a namespace c)"
| "recorded namespace (RecordRedfishQuery namespace b c)"
| "recorded namespace (RecordNetworkAddress namespace b c)"
| "recorded namespace (RecordPowerOperation namespace b c)"
| "recorded namespace (RecordVirtualMediaOperation namespace b c)"
| "recorded namespace (RecordBootOperation namespace b c)"
| "recorded namespace (RecordDeprovisioningOperation namespace b c)"
| "recorded namespace (RecordHostClaimAttempt namespace b c)"
| "recorded namespace (RecordHostClaimDuration namespace b c)"
| "recorded namespace (RecordProvisioningQueueStatus namespace b c)"
| "recorded namespace (RecordConcurrentProvisioningOperation namespace b c)"
| "recorded namespace (RecordBMCCooldownWait namespace b)"
| "recorded namespace (RecordHostSelectionDuration namespace b c)"
| "recorded namespace (RecordClaimCoordinatorLeaderElection namespace b)"
| "recorded namespace (RecordClaimCoordinatorResult namespace b)"
| "recorded namespace (RecordClaimCoordinatorProcessing namespace b c)"
| "recorded namespace (RecordClaimCoordinatorLeadershipDuration namespace b c)"

inductive_cases recorded_cases: "recorded namespace ops"

section \<open>Labels\<close>

fun op_vec :: "metric_op \<Rightarrow> metric_vec" where
  "op_vec (CounterInc v _) = v"
| "op_vec (GaugeAdd v _ _) = v"
| "op_vec (GaugeSet v _ _) = v"
| "op_vec (HistogramObserve v _ _) = v"

fun op_values :: "metric_op \<Rightarrow> string list" where
  "op_values (CounterInc _ vs) = vs"
| "op_values (GaugeAdd _ vs _) = vs"
| "op_values (GaugeSet _ vs _) = vs"
| "op_values (HistogramObserve _ vs _) = vs"

fun op_kind :: "metric_op \<Rightarrow> metric_kind \<Rightarrow> bool" where
  "op_kind (CounterInc _ _) k = (k = CounterKind)"
| "op_kind (GaugeAdd _ _ _) k = (k = GaugeKind)"
| "op_kind (GaugeSet _ _ _) k = (k = GaugeKind)"
| "op_kind (HistogramObserve _ _ _) k = (\<exists>b. k = HistogramKind b)"

definition label_value :: "metric_op \<Rightarrow> string \<Rightarrow> string option" where
  "label_value op l = map_of (zip (mv_Labels (op_vec op)) (op_values op)) l"

definition op_ok :: "string \<Rightarrow> metric_op \<Rightarrow> bool" where
  "op_ok namespace op \<longleftrightarrow> op_kind op (mv_Kind (op_vec op)) \<and> length (op_values op) = length (mv_Labels (op_vec op)) \<and>
     label_value op ''namespace'' = Some namespace"

lemma op_ok_recorded:
  assumes "recorded namespace ops" and "op \<in> set ops"
  shows "op_ok namespace op"
  using assms by (elim recorded_cases) (auto simp: record_defs metric_vec_defs op_ok_def label_value_def)

lemma recorded_registered:
  assumes "recorded namespace ops" and "op \<in> set ops"
  shows "op_vec op \<in> set Init"
  using assms by (elim recorded_cases) (auto simp: record_defs Init_def)

lemma recorded_error_label:
  assumes "recorded namespace ops" and "op \<in> set ops"
    and "label_value op ''outcome'' = Some outcome" and "label_value op ''error_type'' = Some e" and "e \<noteq> ''''"
  shows "outcome = ProvisioningOutcomeFailed"
  using assms by (elim recorded_cases) (auto simp: record_defs metric_vec_defs label_value_def split: if_splits)

text \<open>
  C38. No recording function can make the Prometheus client panic or mislabel a sample: every call it
  makes is on a vector that \<open>Init\<close> registers, with an operation of the vector's kind, as many values as
  declared labels and the caller's namespace under the label \<open>namespace\<close>; an error type appears only
  beside the outcome \<open>failed\<close>.
\<close>

theorem recorded_labels:
  assumes "recorded namespace ops" and "op \<in> set ops"
  shows "op_vec op \<in> set Init \<and> op_kind op (mv_Kind (op_vec op)) \<and>
    length (op_values op) = length (mv_Labels (op_vec op)) \<and> label_value op ''namespace'' = Some namespace \<and>
    (\<forall>outcome e. label_value op ''outcome'' = Some outcome \<longrightarrow> label_value op ''error_type'' = Some e \<longrightarrow>
       e \<noteq> '''' \<longrightarrow> outcome = ProvisioningOutcomeFailed)"
  using recorded_registered [OF assms] op_ok_recorded [OF assms] recorded_error_label [OF assms]
  by (auto simp: op_ok_def)

theorem recorded_labels_witness:
  "op_vec (CounterInc PhysicalHostProvisioningTotal [''failed'', ''metal'', ''timeout'']) \<in> set Init \<and>
   label_value (CounterInc PhysicalHostProvisioningTotal [''failed'', ''metal'', ''timeout'']) ''namespace'' = Some ''metal''"
proof -
  have r: "recorded ''metal'' (RecordNetworkAddress ''metal'' ProvisioningOutcomeFailed ErrorTypeTimeout)"
    by (rule recorded.intros)
  have "CounterInc PhysicalHostProvisioningTotal [''failed'', ''metal'', ''timeout'']
      \<in> set (RecordNetworkAddress ''metal'' ProvisioningOutcomeFailed ErrorTypeTimeout)"
    by (simp add: RecordNetworkAddress_def error_label_def)
  from recorded_labels [OF r this] show ?thesis by blast
qed

text \<open>
  Registration cannot panic either: when the client joins namespace, subsystem and name with
  underscores, as it documents, the vectors \<open>Init\<close> registers have pairwise different fully qualified
  names.
\<close>

theorem Init_names_distinct:
  assumes "\<And>ns ss n. ns \<noteq> '''' \<Longrightarrow> ss \<noteq> '''' \<Longrightarrow> BuildFQName ns ss n = ns @ ''_'' @ ss @ ''_'' @ n"
    and "\<And>n. BuildFQName '''' '''' n = n"
  shows "distinct (map (\<lambda>v. BuildFQName (mv_Namespace v) (mv_Subsystem v) (mv_Name v)) Init)"
  by (simp add: Init_def metric_vec_defs assms)

theorem Init_names_distinct_witness:
  "distinct (map (\<lambda>v. if mv_Namespace v = [] then mv_Name v
     else mv_Namespace v @ ''_'' @ mv_Subsystem v @ ''_'' @ mv_Name v) Init)"
  using Init_names_distinct [of "\<lambda>ns ss n. if ns = [] then n else ns @ ''_'' @ ss @ ''_'' @ n"] by simp

text \<open>
  The availability of a namespace is a ratio: between 0 and 1, 0 exactly when no host is available,
  and 1 exactly when all of them are; an empty namespace has availability 0.
\<close>

theorem availability_is_ratio:
  assumes "0 \<le> sint availableCount" and "sint availableCount \<le> sint totalCount"
  shows "availability_ratio availableCount totalCount \<in> {0..1} \<and>
    (availability_ratio availableCount totalCount = 0 \<longleftrightarrow> sint availableCount = 0) \<and>
    (availability_ratio availableCount totalCount = 1 \<longleftrightarrow> sint availableCount = sint totalCount \<and> sint totalCount \<noteq> 0)"
  using assms by (auto simp: availability_ratio_def divide_simps simp del: of_int_sint)

theorem availability_is_ratio_witness:
  "0 \<le> sint (3 :: goint) \<and> sint (3 :: goint) \<le> sint (4 :: goint) \<and> availability_ratio 3 4 \<in> {0..1}"
  using availability_is_ratio [of 3 4] by simp

end
