(* ===== verification/Beskar7ClusterCtl.thy ===== *)
theory Beskar7ClusterCtl
  imports MemEnv Metrics
begin

text \<open>
  \<open>controllers/beskar7cluster_controller.go\<close>: the reconciler of \<open>Beskar7Cluster\<close> objects. It derives
  the failure domains from the zone labels of the physical hosts and the control plane endpoint from
  the addresses of the control plane machines.

  As for machines, the handlers return the object they mutate. The metrics the code records are an
  output of the model: the list of the calls on the Prometheus vectors, in order.
\<close>

definition Beskar7ClusterFinalizer :: string where
  [simp]: "Beskar7ClusterFinalizer = ''beskar7cluster.infrastructure.cluster.x-k8s.io''"

definition zoneLabelKey :: string where
  [simp]: "zoneLabelKey = ''topology.kubernetes.io/zone''"

text \<open>Constants of Cluster API.\<close>

abbreviation ClusterNameLabel :: string where "ClusterNameLabel \<equiv> ''cluster.x-k8s.io/cluster-name''"
abbreviation DeletingReason :: string where "DeletingReason \<equiv> ''Deleting''"
abbreviation MachineInfrastructureReady :: string where "MachineInfrastructureReady \<equiv> ''InfrastructureReady''"

section \<open>Failure domains\<close>

definition domain_count :: "FailureDomains option \<Rightarrow> nat" where
  "domain_count domains = (case domains of None \<Rightarrow> 0 | Some m \<Rightarrow> fcard (fmdom m))"

fun discover_zones :: "FailureDomains \<Rightarrow> PhysicalHost list \<Rightarrow> FailureDomains" where
  "discover_zones domains [] = domains"
| "discover_zones domains (ph # phs) =
     (case om_Labels (ph_meta ph) zoneLabelKey of
        Some zone \<Rightarrow>
          if zone \<noteq> '''' then discover_zones (fmupd zone \<lparr>fd_ControlPlane = True, fd_Attributes = None\<rparr> domains) phs
          else discover_zones domains phs
      | None \<Rightarrow> discover_zones domains phs)"

text \<open>A nil map and an empty one count as equal; otherwise \<open>reflect.DeepEqual\<close> compares the contents.\<close>

definition failureDomainsEqual :: "FailureDomains option \<Rightarrow> FailureDomains option \<Rightarrow> bool" where
  "failureDomainsEqual a b =
    (if a = None \<and> b = None then True
     else if (a = None \<and> domain_count b = 0) \<or> (b = None \<and> domain_count a = 0) then True
     else if a = None \<or> b = None then False
     else a = b)"

definition reconcileFailureDomains :: "'w env \<Rightarrow> Beskar7Cluster \<Rightarrow>
    ('w, Beskar7Cluster \<times> error option \<times> metric_op list) io" where
  "reconcileFailureDomains E b =
    (let ns = om_Namespace (bc_meta b); current = ct_FailureDomains (bc_Status b) in do {
     l \<leftarrow> List_PhysicalHosts E ns;
     State_Monad.return (case l of
         Inl err \<Rightarrow> (b, Some (wrap_error ''failed to list PhysicalHosts for failure domain discovery'' err),
           RecordFailureDomainDiscovery ns ProvisioningOutcomeFailed)
       | Inr items \<Rightarrow>
           if items = [] \<and> domain_count current = 0 then (b, None, RecordFailureDomainDiscovery ns ProvisioningOutcomeSuccess)
           else (let new = discover_zones fmempty items in
             if failureDomainsEqual current (Some new) then (b, None, RecordFailureDomainDiscovery ns ProvisioningOutcomeSuccess)
             else (b\<lparr>bc_Status := (bc_Status b)\<lparr>ct_FailureDomains := Some new\<rparr>\<rparr>, None,
               RecordFailureDomains (om_Name (bc_meta b)) ns (real (fcard (fmdom new))) @
               RecordFailureDomainDiscovery ns ProvisioningOutcomeSuccess)))
   })"

section \<open>Control plane endpoint\<close>

fun first_internal :: "MachineAddress list \<Rightarrow> string" where
  "first_internal [] = ''''"
| "first_internal (addr # addrs) = (if ma_Type addr = MachineInternalIP then ma_Address addr else first_internal addrs)"

fun find_endpoint :: "'w env \<Rightarrow> Machine list \<Rightarrow> APIEndpoint option" where
  "find_endpoint E [] = None"
| "find_endpoint E (machine # machines) =
     (if \<not> IsTrue E MachineInfrastructureReady (mc_Conditions machine) then find_endpoint E machines
      else if mc_Addresses machine = [] then find_endpoint E machines
      else (let selected = first_internal (mc_Addresses machine);
                address = (if selected = '''' then ma_Address (hd (mc_Addresses machine)) else selected)
            in Some \<lparr>ep_Host = address, ep_Port = 6443\<rparr>))"

definition findControlPlaneEndpoint :: "'w env \<Rightarrow> Cluster \<Rightarrow> ('w, error + APIEndpoint option) io" where
  "findControlPlaneEndpoint E cluster = do {
     l \<leftarrow> List_Machines E (om_Namespace (cl_meta cluster))
           [(ClusterNameLabel, om_Name (cl_meta cluster)), (''cluster.x-k8s.io/control-plane'', '''')];
     State_Monad.return (case l of
         Inl err \<Rightarrow> Inl err
       | Inr machines \<Rightarrow> if machines = [] then Inr None else Inr (find_endpoint E machines))
   }"

definition reconcileControlPlaneEndpoint :: "'w env \<Rightarrow> Cluster \<Rightarrow> Beskar7Cluster \<Rightarrow> ('w, Beskar7Cluster \<times> error option) io" where
  "reconcileControlPlaneEndpoint E cluster b = do {
     found \<leftarrow> findControlPlaneEndpoint E cluster;
     State_Monad.return (case found of
         Inl err \<Rightarrow> (b, Some (wrap_error (''failed to find control plane endpoint for cluster '' @
           om_Namespace (cl_meta cluster) @ ''/'' @ om_Name (cl_meta cluster)) err))
       | Inr None \<Rightarrow>
           (let b1 = bc_conditions (MarkFalse E ControlPlaneEndpointReady ControlPlaneEndpointNotSetReason
                  ConditionSeverityInfo ''Waiting for control plane Beskar7Machine(s) to have IP addresses'') b
            in (b1\<lparr>bc_Status := (bc_Status b1)\<lparr>ct_Ready := False\<rparr>\<rparr>, None))
       | Inr (Some endpoint) \<Rightarrow>
           (let b1 = b\<lparr>bc_Status := (bc_Status b)\<lparr>ct_ControlPlaneEndpoint := endpoint\<rparr>\<rparr>;
                b2 = bc_conditions (MarkTrue E ControlPlaneEndpointReady) b1
            in (b2\<lparr>bc_Status := (bc_Status b2)\<lparr>ct_Ready := True\<rparr>\<rparr>, None)))
   }"

section \<open>Reconciliation\<close>

definition bc_set_finalizers :: "string list \<Rightarrow> Beskar7Cluster \<Rightarrow> Beskar7Cluster" where
  "bc_set_finalizers fs b = b\<lparr>bc_meta := (bc_meta b)\<lparr>om_Finalizers := fs\<rparr>\<rparr>"

definition bc_reconcileNormal :: "'w env \<Rightarrow> Cluster \<Rightarrow> Beskar7Cluster \<Rightarrow>
    ('w, Beskar7Cluster \<times> Result \<times> error option \<times> metric_op list) io" where
  "bc_reconcileNormal E cluster b0 =
    (let (fs, added) = AddFinalizer E Beskar7ClusterFinalizer (om_Finalizers (bc_meta b0));
         b = bc_set_finalizers fs b0 in
     if added then State_Monad.return (b, requeue_now, None, [])
     else do {
       fd \<leftarrow> reconcileFailureDomains E b;
       (case fd of (b1, err, events) \<Rightarrow>
         (case err of
            Some e \<Rightarrow> State_Monad.return (b1, ResultZero, Some e, events)
          | None \<Rightarrow> do {
              ep \<leftarrow> reconcileControlPlaneEndpoint E cluster b1;
              State_Monad.return (case ep of (b2, err2) \<Rightarrow>
                (case err2 of
                   Some e \<Rightarrow> (b2, ResultZero, Some e, events)
                 | None \<Rightarrow> if \<not> ct_Ready (bc_Status b2) then (b2, requeue_after (30 * second), None, events)
                     else (b2, ResultZero, None, events)))
            }))
     })"

definition bc_reconcileDelete :: "'w env \<Rightarrow> Beskar7Cluster \<Rightarrow> Beskar7Cluster \<times> Result \<times> error option" where
  "bc_reconcileDelete E b =
    (let b1 = bc_conditions (MarkFalse E ControlPlaneEndpointReady DeletingReason ConditionSeverityInfo
            ''Beskar7Cluster is being deleted'') b
     in (bc_set_finalizers (fst (RemoveFinalizer E Beskar7ClusterFinalizer (om_Finalizers (bc_meta b1)))) b1,
         ResultZero, None))"

text \<open>
  \<open>bc_attempt\<close> is \<open>Reconcile\<close> up to the deferred recording of metrics: its result, its error, the
  outcome and error type the variables hold at the end, and the metrics recorded so far.
\<close>

definition bc_attempt :: "'w env \<Rightarrow> NamespacedName \<Rightarrow>
    ('w, Result \<times> error option \<times> string \<times> string \<times> metric_op list) io" where
  "bc_attempt E req = do {
     g \<leftarrow> Get_Beskar7Cluster E req;
     case g of
       Inl err \<Rightarrow> State_Monad.return (if IsNotFound err then (ResultZero, None, ReconciliationOutcomeNotFound, '''', [])
         else (ResultZero, Some err, ReconciliationOutcomeError, ErrorTypeUnknown, []))
     | Inr b \<Rightarrow>
         if isPaused E (bc_meta b) then State_Monad.return (ResultZero, None, ReconciliationOutcomeSuccess, '''', [])
         else do {
           owner \<leftarrow> GetOwnerCluster E (bc_meta b);
           case owner of
             Inl err \<Rightarrow> State_Monad.return (ResultZero, Some err, ReconciliationOutcomeError, ErrorTypeUnknown, [])
           | Inr None \<Rightarrow> State_Monad.return (requeue_after (10 * second), None, ReconciliationOutcomeSuccess, '''', [])
           | Inr (Some cluster) \<Rightarrow>
               if isClusterPaused E (Some cluster) then State_Monad.return (ResultZero, None, ReconciliationOutcomeSuccess, '''', [])
               else (case NewHelper_Beskar7Cluster E b of
                   Some err \<Rightarrow> State_Monad.return (ResultZero, Some err, ReconciliationOutcomeError, ErrorTypeUnknown, [])
                 | None \<Rightarrow> do {
                     done \<leftarrow> (if om_DeletionTimestamp (bc_meta b) \<noteq> None
                       then State_Monad.return (case bc_reconcileDelete E b of (b1, r, e) \<Rightarrow> (b1, r, e, []))
                       else bc_reconcileNormal E cluster b);
                     (case done of (b1, result, err, events) \<Rightarrow> do {
                        p \<leftarrow> Patch_Beskar7Cluster E b (bc_conditions (SetSummary E [ControlPlaneEndpointReady]) b1);
                        State_Monad.return (result, (case err of None \<Rightarrow> p | Some e \<Rightarrow> Some e), ReconciliationOutcomeSuccess, '''', events)
                      })
                   })
         }
   }"

definition bc_Reconcile :: "'w env \<Rightarrow> NamespacedName \<Rightarrow> ('w, ctrl_out \<times> metric_op list) io" where
  "bc_Reconcile E req = do {
     start \<leftarrow> Now E;
     a \<leftarrow> bc_attempt E req;
     now \<leftarrow> Now E;
     State_Monad.return (case a of (result, err, outcome, errorType, events) \<Rightarrow>
       (Return result err, events @ RecordReconciliation ''beskar7cluster'' (nn_Namespace req) outcome (time_Sub now start) @
          (case err of None \<Rightarrow> [] | Some _ \<Rightarrow> RecordError ''beskar7cluster'' (nn_Namespace req) errorType)))
   }"

section \<open>Watch on hosts\<close>

definition cluster_key :: "Beskar7Cluster \<Rightarrow> NamespacedName" where
  "cluster_key c = \<lparr>nn_Namespace = om_Namespace (bc_meta c), nn_Name = om_Name (bc_meta c)\<rparr>"

definition PhysicalHostToBeskar7Clusters :: "'w env \<Rightarrow> PhysicalHost option \<Rightarrow> ('w, NamespacedName list) io" where
  "PhysicalHostToBeskar7Clusters E obj = (case obj of
       None \<Rightarrow> State_Monad.return []
     | Some host \<Rightarrow> do {
         l \<leftarrow> List_Beskar7Clusters E (om_Namespace (ph_meta host));
         State_Monad.return (case l of Inl err \<Rightarrow> [] | Inr items \<Rightarrow> map cluster_key items)
       })"

section \<open>Failure domains are the zones\<close>

definition zones :: "PhysicalHost list \<Rightarrow> string set" where
  "zones hosts = {z. z \<noteq> '''' \<and> (\<exists>h \<in> set hosts. om_Labels (ph_meta h) zoneLabelKey = Some z)}"

definition zone_spec :: FailureDomainSpec where
  "zone_spec = \<lparr>fd_ControlPlane = True, fd_Attributes = None\<rparr>"

definition domain_of :: "Beskar7Cluster \<Rightarrow> string \<Rightarrow> FailureDomainSpec option" where
  "domain_of b z = (case ct_FailureDomains (bc_Status b) of None \<Rightarrow> None | Some m \<Rightarrow> fmlookup m z)"

lemma discover_zones_lookup:
  "fmlookup (discover_zones domains hosts) z = (if z \<in> zones hosts then Some zone_spec else fmlookup domains z)"
  by (induction domains hosts rule: discover_zones.induct) (auto simp: zones_def zone_spec_def split: option.splits)

lemma domain_count_0: "domain_count domains = 0 \<longleftrightarrow> domains = None \<or> domains = Some fmempty"
proof (cases domains)
  case (Some m)
  have "fcard (fmdom m) = 0 \<longleftrightarrow> m = fmempty"
    by (metis fcard_0_eq fmdom_empty fmrestrict_fset_dom fmrestrict_fset_null)
  with Some show ?thesis by (simp add: domain_count_def)
qed (simp add: domain_count_def)

lemma failureDomainsEqual_lookup:
  "failureDomainsEqual a (Some b) \<Longrightarrow> (case a of None \<Rightarrow> None | Some m \<Rightarrow> fmlookup m z) = fmlookup b z"
  by (auto simp: failureDomainsEqual_def domain_count_0 split: if_splits option.splits)

lemma failureDomainsEqual_refl: "failureDomainsEqual (Some m) (Some m)"
  by (simp add: failureDomainsEqual_def)

lemma reconcileFailureDomains_exact:
  assumes "run_state (List_PhysicalHosts E (om_Namespace (bc_meta b))) w = (Inr items, w')"
  shows "\<exists>b' ops. run_state (reconcileFailureDomains E b) w = ((b', None, ops), w') \<and>
    (\<forall>z. domain_of b' z = (if z \<in> zones items then Some zone_spec else None)) \<and>
    b' = b\<lparr>bc_Status := (bc_Status b)\<lparr>ct_FailureDomains := ct_FailureDomains (bc_Status b')\<rparr>\<rparr> \<and>
    (\<forall>v. run_state (List_PhysicalHosts E (om_Namespace (bc_meta b))) v = (Inr items, v) \<longrightarrow>
       run_state (reconcileFailureDomains E b') v =
         ((b', None, RecordFailureDomainDiscovery (om_Namespace (bc_meta b)) ProvisioningOutcomeSuccess), v))"
proof -
  let ?cur = "ct_FailureDomains (bc_Status b)" and ?new = "discover_zones fmempty items"
  let ?quiet = "RecordFailureDomainDiscovery (om_Namespace (bc_meta b)) ProvisioningOutcomeSuccess"
  consider (none) "items = []" "domain_count ?cur = 0" | (same) "\<not> (items = [] \<and> domain_count ?cur = 0)" "failureDomainsEqual ?cur (Some ?new)"
    | (changed) "\<not> (items = [] \<and> domain_count ?cur = 0)" "\<not> failureDomainsEqual ?cur (Some ?new)" by metis
  then show ?thesis
  proof cases
    case none
    then have "\<forall>z. domain_of b z = (if z \<in> zones items then Some zone_spec else None)"
      by (auto simp: domain_of_def domain_count_0 zones_def split: option.splits)
    with none assms show ?thesis by (intro exI [of _ b]) (simp add: reconcileFailureDomains_def)
  next
    case same
    then have "\<forall>z. domain_of b z = (if z \<in> zones items then Some zone_spec else None)"
      using failureDomainsEqual_lookup [OF same(2)] by (simp add: domain_of_def discover_zones_lookup)
    with same assms show ?thesis by (intro exI [of _ b]) (auto simp: reconcileFailureDomains_def Let_def)
  next
    case changed
    let ?b = "b\<lparr>bc_Status := (bc_Status b)\<lparr>ct_FailureDomains := Some ?new\<rparr>\<rparr>"
    have "\<forall>z. domain_of ?b z = (if z \<in> zones items then Some zone_spec else None)"
      by (simp add: domain_of_def discover_zones_lookup)
    with changed assms show ?thesis
      by (intro exI [of _ ?b]) (auto simp: reconcileFailureDomains_def Let_def failureDomainsEqual_refl)
  qed
qed

text \<open>
  C32. Failure domains follow the hosts: after a successful pass the failure domains of the cluster are
  exactly the non-empty zone labels of the listed hosts, each open for control plane machines; no
  other part of the object changes. A second pass over the same hosts changes nothing and does not
  touch the gauge.
\<close>

theorem failure_domains_exact:
  assumes "run_state (List_PhysicalHosts E (om_Namespace (bc_meta b))) w = (Inr items, w')"
  shows "\<exists>b' ops. run_state (reconcileFailureDomains E b) w = ((b', None, ops), w') \<and>
    (\<forall>z. domain_of b' z = (if z \<in> zones items then Some zone_spec else None)) \<and>
    b' = b\<lparr>bc_Status := (bc_Status b)\<lparr>ct_FailureDomains := ct_FailureDomains (bc_Status b')\<rparr>\<rparr> \<and>
    (\<forall>v. run_state (List_PhysicalHosts E (om_Namespace (bc_meta b))) v = (Inr items, v) \<longrightarrow>
       run_state (reconcileFailureDomains E b') v =
         ((b', None, RecordFailureDomainDiscovery (om_Namespace (bc_meta b)) ProvisioningOutcomeSuccess), v))"
  by (rule reconcileFailureDomains_exact [OF assms])

section \<open>The endpoint is the first suitable machine's\<close>

definition suitable :: "'w env \<Rightarrow> Machine \<Rightarrow> bool" where
  "suitable E m \<longleftrightarrow> IsTrue E MachineInfrastructureReady (mc_Conditions m) \<and> mc_Addresses m \<noteq> []"

definition endpoint_address :: "Machine \<Rightarrow> string" where
  "endpoint_address m =
     (case filter (\<lambda>a. ma_Type a = MachineInternalIP) (mc_Addresses m) of
        a # _ \<Rightarrow> if ma_Address a \<noteq> '''' then ma_Address a else ma_Address (hd (mc_Addresses m))
      | [] \<Rightarrow> ma_Address (hd (mc_Addresses m)))"

lemma first_internal_filter:
  "first_internal addrs = (case filter (\<lambda>a. ma_Type a = MachineInternalIP) addrs of [] \<Rightarrow> '''' | a # _ \<Rightarrow> ma_Address a)"
  by (induction addrs) auto

lemma find_endpoint_suitable:
  "find_endpoint E machines = map_option (\<lambda>m. \<lparr>ep_Host = endpoint_address m, ep_Port = 6443\<rparr>) (List.find (suitable E) machines)"
  by (induction machines)
    (auto simp: suitable_def Let_def endpoint_address_def first_internal_filter split: list.splits)

lemma reconcileControlPlaneEndpoint_exact:
  assumes "conditions_ok E"
    and "run_state (List_Machines E (om_Namespace (cl_meta cluster))
      [(ClusterNameLabel, om_Name (cl_meta cluster)), (''cluster.x-k8s.io/control-plane'', '''')]) w = (Inr machines, w')"
  shows "\<exists>b'. run_state (reconcileControlPlaneEndpoint E cluster b) w = ((b', None), w') \<and>
    (case List.find (suitable E) machines of
       Some m \<Rightarrow> ct_ControlPlaneEndpoint (bc_Status b') = \<lparr>ep_Host = endpoint_address m, ep_Port = 6443\<rparr> \<and>
         ct_Ready (bc_Status b') \<and> IsTrue E ControlPlaneEndpointReady (ct_Conditions (bc_Status b'))
     | None \<Rightarrow> ct_ControlPlaneEndpoint (bc_Status b') = ct_ControlPlaneEndpoint (bc_Status b) \<and>
         \<not> ct_Ready (bc_Status b') \<and> \<not> IsTrue E ControlPlaneEndpointReady (ct_Conditions (bc_Status b'))) \<and>
    ct_FailureDomains (bc_Status b') = ct_FailureDomains (bc_Status b) \<and> bc_meta b' = bc_meta b \<and> bc_Spec b' = bc_Spec b"
proof -
  have "(if machines = [] then Inr None else Inr (find_endpoint E machines)) = (Inr (find_endpoint E machines) :: error + APIEndpoint option)"
    by simp
  then show ?thesis
    using assms(2) conditions_okD(1,2,5) [OF assms(1)]
    by (cases "List.find (suitable E) machines")
      (auto simp: reconcileControlPlaneEndpoint_def findControlPlaneEndpoint_def find_endpoint_suitable Let_def)
qed

section \<open>What the metrics say\<close>

definition counted :: "metric_vec \<Rightarrow> metric_op list \<Rightarrow> metric_op list" where
  "counted v ops = filter (\<lambda>op. op_vec op = v) ops"

definition only_domains :: "metric_op list \<Rightarrow> bool" where
  "only_domains ops \<longleftrightarrow> (\<forall>op \<in> set ops. op_vec op \<in> {Beskar7ClusterFailureDomainsGauge, Beskar7ClusterFailureDomainDiscoveryTotal})"

lemma only_domains_simps [simp]:
  "only_domains []" "only_domains (RecordFailureDomains c ns x)" "only_domains (RecordFailureDomainDiscovery ns outcome)"
  "only_domains (xs @ ys) \<longleftrightarrow> only_domains xs \<and> only_domains ys"
  by (auto simp: only_domains_def RecordFailureDomains_def RecordFailureDomainDiscovery_def)

lemma only_domains_counted:
  "only_domains ops \<Longrightarrow> counted ControllerReconciliationTotal ops = [] \<and> counted ControllerErrorsTotal ops = []"
  by (auto simp: only_domains_def counted_def filter_empty_conv metric_vec_defs)

lemma reconcileFailureDomains_only_domains: "yields (\<lambda>(b', err, ops). only_domains ops) (reconcileFailureDomains E b)"
  unfolding reconcileFailureDomains_def Let_def
  by (intro yields_bind yields_return) (auto split: sum.splits)

lemma bc_reconcileNormal_only_domains: "yields (\<lambda>(b', result, err, ops). only_domains ops) (bc_reconcileNormal E cluster b)"
  unfolding bc_reconcileNormal_def Let_def
  by (cases "AddFinalizer E Beskar7ClusterFinalizer (om_Finalizers (bc_meta b))")
    (auto intro!: yields_return yields_bind yields_bind_on [OF reconcileFailureDomains_only_domains]
      split: prod.splits option.splits if_splits)

text \<open>The error type is set beside the outcome \<open>error\<close> only, so every other error is recorded without one.\<close>

lemma bc_attempt_outcome:
  "yields (\<lambda>(result, err, outcome, errorType, ops). only_domains ops \<and>
     (outcome, errorType) \<in> {(ReconciliationOutcomeSuccess, ''''), (ReconciliationOutcomeNotFound, ''''),
       (ReconciliationOutcomeError, ErrorTypeUnknown)} \<and>
     (outcome = ReconciliationOutcomeError \<longrightarrow> err \<noteq> None) \<and> (outcome = ReconciliationOutcomeNotFound \<longrightarrow> err = None))
   (bc_attempt E req)"
proof -
  have a: "yields (\<lambda>(b', result, err, ops). only_domains ops)
      (if om_DeletionTimestamp (bc_meta b) \<noteq> None
       then State_Monad.return (case bc_reconcileDelete E b of (b1, r, e) \<Rightarrow> (b1, r, e, []))
       else bc_reconcileNormal E cluster b)" for b cluster
    by (auto intro!: yields_return bc_reconcileNormal_only_domains split: prod.splits)
  show ?thesis
    unfolding bc_attempt_def
    by (intro yields_bind yields_bind_on [OF a] yields_case_sum yields_if yields_case_option yields_return)
      (auto intro!: yields_bind yields_return split: prod.splits)
qed

text \<open>
  Every reconciliation of a cluster is counted once, under the outcome \<open>success\<close>, \<open>error\<close> or
  \<open>not_found\<close>, and an error is counted exactly when one is returned. The outcome \<open>error\<close> is only
  recorded for an error, but not the other way round: an error recorded without a type is counted as a
  success.
\<close>

theorem bc_Reconcile_metrics:
  assumes "run_state (bc_Reconcile E req) w = ((out, ops), w')"
  shows "\<exists>result err outcome errorType. out = Return result err \<and>
    counted ControllerReconciliationTotal ops =
      [CounterInc ControllerReconciliationTotal [''beskar7cluster'', outcome, nn_Namespace req]] \<and>
    counted ControllerErrorsTotal ops =
      (if err = None then [] else [CounterInc ControllerErrorsTotal [''beskar7cluster'', errorType, nn_Namespace req]]) \<and>
    (outcome, errorType) \<in> {(ReconciliationOutcomeSuccess, ''''), (ReconciliationOutcomeNotFound, ''''),
      (ReconciliationOutcomeError, ErrorTypeUnknown)} \<and>
    (outcome = ReconciliationOutcomeError \<longrightarrow> err \<noteq> None) \<and> (outcome = ReconciliationOutcomeNotFound \<longrightarrow> err = None)"
proof -
  obtain start w1 where 1: "run_state (Now E) w = (start, w1)" by fastforce
  obtain result err outcome errorType evs w2 where 2: "run_state (bc_attempt E req) w1 = ((result, err, outcome, errorType, evs), w2)"
    by (metis prod.exhaust)
  obtain stop w3 where 3: "run_state (Now E) w2 = (stop, w3)" by fastforce
  note ok = yieldsD [OF bc_attempt_outcome 2, simplified prod.case]
  note none = only_domains_counted [OF conjunct1 [OF ok]]
  have "counted ControllerReconciliationTotal ops =
      [CounterInc ControllerReconciliationTotal [''beskar7cluster'', outcome, nn_Namespace req]] \<and>
    counted ControllerErrorsTotal ops =
      (if err = None then [] else [CounterInc ControllerErrorsTotal [''beskar7cluster'', errorType, nn_Namespace req]])"
    using assms 1 2 3 none
    by (auto simp: bc_Reconcile_def counted_def RecordReconciliation_def RecordError_def metric_vec_defs split: option.splits)
  moreover have "out = Return result err" using assms 1 2 3 by (simp add: bc_Reconcile_def)
  ultimately show ?thesis using ok by blast
qed


text \<open>
  A pass that fails is counted as a success: when the hosts cannot be listed, the reconciliation
  returns the error, increments the counter of successful reconciliations and counts an error with an
  empty type.
\<close>

theorem failed_pass_counted_as_success:
  assumes "finalizers_ok E" and "run_state (Now E) w = (start, w0)"
    and "run_state (Get_Beskar7Cluster E req) w0 = (Inr b, w1)" and "\<not> isPaused E (bc_meta b)"
    and "run_state (GetOwnerCluster E (bc_meta b)) w1 = (Inr (Some cluster), w2)" and "\<not> isClusterPaused E (Some cluster)"
    and "NewHelper_Beskar7Cluster E b = None" and "om_DeletionTimestamp (bc_meta b) = None"
    and "Beskar7ClusterFinalizer \<in> set (om_Finalizers (bc_meta b))"
    and "run_state (List_PhysicalHosts E (om_Namespace (bc_meta b))) w2 = (Inl err, w3)"
  shows "case fst (run_state (bc_Reconcile E req) w) of (out, ops) \<Rightarrow>
    (\<exists>e. out = Return ResultZero (Some e)) \<and>
    counted ControllerReconciliationTotal ops =
      [CounterInc ControllerReconciliationTotal [''beskar7cluster'', ReconciliationOutcomeSuccess, nn_Namespace req]] \<and>
    counted ControllerErrorsTotal ops = [CounterInc ControllerErrorsTotal [''beskar7cluster'', '''', nn_Namespace req]]"
proof -
  have "bc_set_finalizers (om_Finalizers (bc_meta b)) b = b" by (simp add: bc_set_finalizers_def)
  then have n: "run_state (bc_reconcileNormal E cluster b) w2 =
      ((b, ResultZero, Some (wrap_error ''failed to list PhysicalHosts for failure domain discovery'' err),
        RecordFailureDomainDiscovery (om_Namespace (bc_meta b)) ProvisioningOutcomeFailed), w3)"
    using assms(9,10) by (simp add: bc_reconcileNormal_def reconcileFailureDomains_def finalizers_okD [OF assms(1)])
  have "\<exists>p w4. run_state (bc_attempt E req) w0 =
      ((ResultZero, Some (wrap_error ''failed to list PhysicalHosts for failure domain discovery'' err),
        ReconciliationOutcomeSuccess, '''', RecordFailureDomainDiscovery (om_Namespace (bc_meta b)) ProvisioningOutcomeFailed), w4)"
    using assms(3-8) n by (simp add: bc_attempt_def split: prod.splits)
  then show ?thesis
    using assms(2)
    by (auto simp: bc_Reconcile_def counted_def RecordReconciliation_def RecordError_def RecordFailureDomainDiscovery_def
        metric_vec_defs split: prod.splits)
qed

section \<open>Concrete runs\<close>

definition sample_cluster :: "string list \<Rightarrow> Beskar7Cluster" where
  "sample_cluster fs = \<lparr>bc_type = \<lparr>tm_Kind = ''Beskar7Cluster'', tm_APIVersion = ''infrastructure.cluster.x-k8s.io/v1beta1''\<rparr>,
     bc_meta = sample_meta ''c1'' fs, bc_Spec = \<lparr>cs_ControlPlaneEndpoint = \<lparr>ep_Host = '''', ep_Port = 0\<rparr>\<rparr>,
     bc_Status = \<lparr>ct_Ready = False, ct_ControlPlaneEndpoint = \<lparr>ep_Host = '''', ep_Port = 0\<rparr>,
       ct_FailureDomains = None, ct_Conditions = []\<rparr>\<rparr>"

definition zoned_host :: "string \<Rightarrow> string \<Rightarrow> PhysicalHost" where
  "zoned_host name zone = (sample_host name [] None StateAvailable)
     \<lparr>ph_meta := (sample_meta name [])\<lparr>om_Labels := [zoneLabelKey \<mapsto> zone]\<rparr>\<rparr>"

definition sample_control_plane :: "string \<Rightarrow> Machine" where
  "sample_control_plane addr = \<lparr>mc_meta = sample_meta ''cp'' [], mc_Addresses = [\<lparr>ma_Type = ''ExternalIP'', ma_Address = ''198.51.100.1''\<rparr>,
      \<lparr>ma_Type = MachineInternalIP, ma_Address = addr\<rparr>],
     mc_Conditions = [\<lparr>co_Type = MachineInfrastructureReady, co_Status = ''True'', co_Severity = '''', co_Reason = '''', co_Message = ''''\<rparr>]\<rparr>"

definition cluster_env :: "Beskar7Cluster \<Rightarrow> Machine list \<Rightarrow> (error + PhysicalHost list) option \<Rightarrow> mem_world env" where
  "cluster_env b machines listing = mem_env
     \<lparr>Get_Beskar7Cluster := (\<lambda>k. State_Monad.return (Inr b)), List_Machines := (\<lambda>ns ls. State_Monad.return (Inr machines)),
      List_PhysicalHosts := (case listing of None \<Rightarrow> List_PhysicalHosts mem_env | Some l \<Rightarrow> (\<lambda>ns. State_Monad.return l)),
      GetOwnerCluster := (\<lambda>m. State_Monad.return (Inr (Some \<lparr>cl_meta = sample_meta ''capi'' []\<rparr>)))\<rparr>"

lemma cluster_env_ok: "conditions_ok (cluster_env b machines listing)" "finalizers_ok (cluster_env b machines listing)"
  using mem_conditions_ok mem_finalizers_ok by (simp_all add: cluster_env_def conditions_ok_def finalizers_ok_def)

theorem failure_domains_exact_witness:
  "\<exists>b' ops. run_state (reconcileFailureDomains mem_env (sample_cluster []))
      (sample_world [zoned_host ''h1'' ''z1'', zoned_host ''h2'' '''', zoned_host ''h3'' ''z1''] []) =
      ((b', None, ops), sample_world [zoned_host ''h1'' ''z1'', zoned_host ''h2'' '''', zoned_host ''h3'' ''z1''] []) \<and>
    domain_of b' ''z1'' = Some zone_spec \<and> domain_of b' '''' = None"
proof -
  let ?hs = "[zoned_host ''h1'' ''z1'', zoned_host ''h2'' '''', zoned_host ''h3'' ''z1'']"
  have l: "run_state (List_PhysicalHosts mem_env (om_Namespace (bc_meta (sample_cluster [])))) (sample_world ?hs []) = (Inr ?hs, sample_world ?hs [])"
    by (simp add: sample_defs mem_eval sample_cluster_def zoned_host_def)
  have z: "''z1'' \<in> zones ?hs" "'''' \<notin> zones ?hs"
    by (simp_all add: zones_def zoned_host_def)
  from failure_domains_exact [OF l] obtain b' ops where
    r: "run_state (reconcileFailureDomains mem_env (sample_cluster [])) (sample_world ?hs []) = ((b', None, ops), sample_world ?hs [])"
      "\<forall>z. domain_of b' z = (if z \<in> zones ?hs then Some zone_spec else None)" by blast
  with z show ?thesis by (intro exI [of _ b'] exI [of _ ops]) simp
qed


theorem bc_Reconcile_metrics_witness:
  "\<exists>out ops w'. run_state (bc_Reconcile mem_env (sample_key ''gone'')) (sample_world [] []) = ((out, ops), w') \<and>
     (\<exists>outcome. counted ControllerReconciliationTotal ops = [CounterInc ControllerReconciliationTotal [''beskar7cluster'', outcome, ''metal'']])"
proof -
  obtain out ops w' where r: "run_state (bc_Reconcile mem_env (sample_key ''gone'')) (sample_world [] []) = ((out, ops), w')"
    by (metis prod.exhaust)
  have "nn_Namespace (sample_key ''gone'') = ''metal''" by (simp add: sample_key_def)
  with bc_Reconcile_metrics [OF r] r show ?thesis by auto
qed

theorem failed_pass_counted_as_success_witness:
  "case fst (run_state (bc_Reconcile (cluster_env (sample_cluster [Beskar7ClusterFinalizer]) [] (Some (Inl (Err ''timeout''))))
      (sample_key ''c1'')) (sample_world [] [])) of (out, ops) \<Rightarrow>
    counted ControllerReconciliationTotal ops =
      [CounterInc ControllerReconciliationTotal [''beskar7cluster'', ReconciliationOutcomeSuccess, nn_Namespace (sample_key ''c1'')]]"
proof -
  let ?b = "sample_cluster [Beskar7ClusterFinalizer]" and ?c = "\<lparr>cl_meta = sample_meta ''capi'' []\<rparr>" and ?w = "sample_world [] []"
  let ?E = "cluster_env ?b [] (Some (Inl (Err ''timeout'')))"
  have "run_state (Now ?E) ?w = (0, ?w)" "run_state (Get_Beskar7Cluster ?E (sample_key ''c1'')) ?w = (Inr ?b, ?w)"
    "\<not> isPaused ?E (bc_meta ?b)" "run_state (GetOwnerCluster ?E (bc_meta ?b)) ?w = (Inr (Some ?c), ?w)" "\<not> isClusterPaused ?E (Some ?c)"
    "NewHelper_Beskar7Cluster ?E ?b = None" "om_DeletionTimestamp (bc_meta ?b) = None"
    "Beskar7ClusterFinalizer \<in> set (om_Finalizers (bc_meta ?b))"
    "run_state (List_PhysicalHosts ?E (om_Namespace (bc_meta ?b))) ?w = (Inl (Err ''timeout''), ?w)"
    by (simp_all add: cluster_env_def mem_env_def isPaused_def isClusterPaused_def sample_cluster_def sample_defs)
  from failed_pass_counted_as_success [OF cluster_env_ok(2) this] show ?thesis by (auto split: prod.splits)
qed

end
