(* ===== verification/InspectionHandler.thy ===== *)
theory InspectionHandler
  imports MemEnv
begin

text \<open>
  \<open>controllers/inspection_handler.go\<close>: the HTTP endpoint the inspection image reports to. The
  handler takes the request method and the outcome of decoding the body (\<open>Inl\<close> the decoder's
  error), and returns the response it writes. \<open>http.Error\<close> ends its text with a newline, and the
  JSON encoder prints the keys of a map in order.
\<close>

record CPUData =
  cd_ID :: string
  cd_Vendor :: string
  cd_Model :: string
  cd_Cores :: goint
  cd_Threads :: goint
  cd_Frequency :: string

record MemData =
  md_ID :: string
  md_Type :: string
  md_Capacity :: string
  md_Speed :: string

record DiskData =
  dd_Name :: string
  dd_Model :: string
  dd_SizeGB :: goint
  dd_Type :: string
  dd_SerialNumber :: string

record NICData =
  nd_Name :: string
  nd_MACAddress :: string
  nd_Driver :: string
  nd_Speed :: string
  nd_IPAddresses :: "string list"

record InspectionReportRequest =
  rq_Namespace :: string
  rq_HostName :: string
  rq_Manufacturer :: string
  rq_Model :: string
  rq_SerialNumber :: string
  rq_CPUs :: "CPUData list"
  rq_Memory :: "MemData list"
  rq_Disks :: "DiskData list"
  rq_NICs :: "NICData list"
  rq_BootModeDetected :: string
  rq_FirmwareVersion :: string

record http_response =
  hp_Code :: nat
  hp_Body :: string

definition http_Error :: "string \<Rightarrow> nat \<Rightarrow> http_response" where
  "http_Error msg code = \<lparr>hp_Code = code, hp_Body = msg @ ''\<newline>''\<rparr>"

section \<open>The report\<close>

text \<open>Each loop appends one converted entry per entry of the request.\<close>

fun convert_CPUs :: "CPUInfo list \<Rightarrow> CPUData list \<Rightarrow> CPUInfo list" where
  "convert_CPUs acc [] = acc"
| "convert_CPUs acc (cpu # cpus) = convert_CPUs (acc @ [\<lparr>ci_ID = cd_ID cpu, ci_Vendor = cd_Vendor cpu,
     ci_Model = cd_Model cpu, ci_Cores = cd_Cores cpu, ci_Threads = cd_Threads cpu, ci_Frequency = cd_Frequency cpu\<rparr>]) cpus"

fun convert_Memory :: "MemoryInfo list \<Rightarrow> MemData list \<Rightarrow> MemoryInfo list" where
  "convert_Memory acc [] = acc"
| "convert_Memory acc (mem # mems) = convert_Memory (acc @ [\<lparr>mi_ID = md_ID mem, mi_Type = md_Type mem,
     mi_Capacity = md_Capacity mem, mi_Speed = md_Speed mem\<rparr>]) mems"

fun convert_Disks :: "DiskInfo list \<Rightarrow> DiskData list \<Rightarrow> DiskInfo list" where
  "convert_Disks acc [] = acc"
| "convert_Disks acc (disk # disks) = convert_Disks (acc @ [\<lparr>di_Name = dd_Name disk, di_Model = dd_Model disk,
     di_SizeGB = dd_SizeGB disk, di_Type = dd_Type disk, di_SerialNumber = dd_SerialNumber disk\<rparr>]) disks"

fun convert_NICs :: "NICInfo list \<Rightarrow> NICData list \<Rightarrow> NICInfo list" where
  "convert_NICs acc [] = acc"
| "convert_NICs acc (nic # nics) = convert_NICs (acc @ [\<lparr>ni_Name = nd_Name nic, ni_MACAddress = nd_MACAddress nic,
     ni_Driver = nd_Driver nic, ni_Speed = nd_Speed nic, ni_IPAddresses = nd_IPAddresses nic\<rparr>]) nics"

definition to_report :: "Time \<Rightarrow> InspectionReportRequest \<Rightarrow> InspectionReport" where
  "to_report now req =
     \<lparr>ir_Timestamp = now, ir_Manufacturer = rq_Manufacturer req, ir_Model = rq_Model req,
      ir_SerialNumber = rq_SerialNumber req, ir_BootModeDetected = rq_BootModeDetected req,
      ir_FirmwareVersion = rq_FirmwareVersion req,
      ir_CPUs = convert_CPUs [] (rq_CPUs req), ir_Memory = convert_Memory [] (rq_Memory req),
      ir_Disks = convert_Disks [] (rq_Disks req), ir_NICs = convert_NICs [] (rq_NICs req)\<rparr>"

definition set_report :: "InspectionReport \<Rightarrow> PhysicalHost \<Rightarrow> PhysicalHost" where
  "set_report report ph = ph\<lparr>ph_Status := (ph_Status ph)
     \<lparr>st_InspectionReport := Some report, st_InspectionPhase := InspectionComplete\<rparr>\<rparr>"

definition updatePhysicalHost :: "'w env \<Rightarrow> InspectionReportRequest \<Rightarrow> ('w, error option) io" where
  "updatePhysicalHost E req = do {
     g \<leftarrow> Get_PhysicalHost E \<lparr>nn_Namespace = rq_Namespace req, nn_Name = rq_HostName req\<rparr>;
     case g of
       Inl err \<Rightarrow> State_Monad.return (Some (if IsNotFound err
         then Err (''PhysicalHost '' @ rq_Namespace req @ ''/'' @ rq_HostName req @ '' not found'')
         else wrap_error ''failed to get PhysicalHost'' err))
     | Inr physicalHost \<Rightarrow> do {
         now \<leftarrow> Now E;
         u \<leftarrow> StatusUpdate_PhysicalHost E (set_report (to_report now req) physicalHost);
         State_Monad.return (case u of
             Inl err \<Rightarrow> Some (wrap_error ''failed to update PhysicalHost status'' err)
           | Inr _ \<Rightarrow> None)
       }
   }"

definition quoted :: "string \<Rightarrow> string" where
  "quoted s = CHR 0x22 # s @ [CHR 0x22]"

definition success_body :: string where
  "success_body = ''{'' @ quoted ''message'' @ '':'' @ quoted ''Inspection report received and processed'' @ '','' @
     quoted ''status'' @ '':'' @ quoted ''success'' @ ''}\<newline>''"

definition ServeHTTP :: "'w env \<Rightarrow> string \<Rightarrow> error + InspectionReportRequest \<Rightarrow> ('w, http_response) io" where
  "ServeHTTP E method body =
    (if method \<noteq> ''POST'' then State_Monad.return (http_Error ''Method not allowed'' 405)
     else (case body of
       Inl err \<Rightarrow> State_Monad.return (http_Error (''Invalid JSON: '' @ Error err) 400)
     | Inr req \<Rightarrow>
         if rq_Namespace req = '''' \<or> rq_HostName req = '''' then
           State_Monad.return (http_Error ''namespace and hostName are required'' 400)
         else do {
           failed \<leftarrow> updatePhysicalHost E req;
           State_Monad.return (case failed of
               Some err \<Rightarrow> http_Error (''Failed to update PhysicalHost: '' @ Error err) 500
             | None \<Rightarrow> \<lparr>hp_Code = 200, hp_Body = success_body\<rparr>)
         }))"

section \<open>Properties\<close>

lemma convert_CPUs_map: "convert_CPUs acc xs = acc @ map (\<lambda>c. \<lparr>ci_ID = cd_ID c, ci_Vendor = cd_Vendor c,
    ci_Model = cd_Model c, ci_Cores = cd_Cores c, ci_Threads = cd_Threads c, ci_Frequency = cd_Frequency c\<rparr>) xs"
  by (induction xs arbitrary: acc) auto

lemma convert_Memory_map: "convert_Memory acc xs = acc @ map (\<lambda>m. \<lparr>mi_ID = md_ID m, mi_Type = md_Type m,
    mi_Capacity = md_Capacity m, mi_Speed = md_Speed m\<rparr>) xs"
  by (induction xs arbitrary: acc) auto

lemma convert_Disks_map: "convert_Disks acc xs = acc @ map (\<lambda>d. \<lparr>di_Name = dd_Name d, di_Model = dd_Model d,
    di_SizeGB = dd_SizeGB d, di_Type = dd_Type d, di_SerialNumber = dd_SerialNumber d\<rparr>) xs"
  by (induction xs arbitrary: acc) auto

lemma convert_NICs_map: "convert_NICs acc xs = acc @ map (\<lambda>n. \<lparr>ni_Name = nd_Name n, ni_MACAddress = nd_MACAddress n,
    ni_Driver = nd_Driver n, ni_Speed = nd_Speed n, ni_IPAddresses = nd_IPAddresses n\<rparr>) xs"
  by (induction xs arbitrary: acc) auto

lemmas convert_maps = convert_CPUs_map convert_Memory_map convert_Disks_map convert_NICs_map

text \<open>Reading a request back from a report: nothing of the hardware data is lost.\<close>

definition of_report :: "string \<Rightarrow> string \<Rightarrow> InspectionReport \<Rightarrow> InspectionReportRequest" where
  "of_report ns host r =
     \<lparr>rq_Namespace = ns, rq_HostName = host, rq_Manufacturer = ir_Manufacturer r, rq_Model = ir_Model r,
      rq_SerialNumber = ir_SerialNumber r,
      rq_CPUs = map (\<lambda>c. \<lparr>cd_ID = ci_ID c, cd_Vendor = ci_Vendor c, cd_Model = ci_Model c, cd_Cores = ci_Cores c,
        cd_Threads = ci_Threads c, cd_Frequency = ci_Frequency c\<rparr>) (ir_CPUs r),
      rq_Memory = map (\<lambda>m. \<lparr>md_ID = mi_ID m, md_Type = mi_Type m, md_Capacity = mi_Capacity m, md_Speed = mi_Speed m\<rparr>)
        (ir_Memory r),
      rq_Disks = map (\<lambda>d. \<lparr>dd_Name = di_Name d, dd_Model = di_Model d, dd_SizeGB = di_SizeGB d, dd_Type = di_Type d,
        dd_SerialNumber = di_SerialNumber d\<rparr>) (ir_Disks r),
      rq_NICs = map (\<lambda>n. \<lparr>nd_Name = ni_Name n, nd_MACAddress = ni_MACAddress n, nd_Driver = ni_Driver n,
        nd_Speed = ni_Speed n, nd_IPAddresses = ni_IPAddresses n\<rparr>) (ir_NICs r),
      rq_BootModeDetected = ir_BootModeDetected r, rq_FirmwareVersion = ir_FirmwareVersion r\<rparr>"

lemma data_eta [simp]:
  "\<lparr>cd_ID = cd_ID c, cd_Vendor = cd_Vendor c, cd_Model = cd_Model c, cd_Cores = cd_Cores c, cd_Threads = cd_Threads c,
    cd_Frequency = cd_Frequency c\<rparr> = c"
  "\<lparr>md_ID = md_ID m, md_Type = md_Type m, md_Capacity = md_Capacity m, md_Speed = md_Speed m\<rparr> = m"
  "\<lparr>dd_Name = dd_Name d, dd_Model = dd_Model d, dd_SizeGB = dd_SizeGB d, dd_Type = dd_Type d,
    dd_SerialNumber = dd_SerialNumber d\<rparr> = d"
  "\<lparr>nd_Name = nd_Name n, nd_MACAddress = nd_MACAddress n, nd_Driver = nd_Driver n, nd_Speed = nd_Speed n,
    nd_IPAddresses = nd_IPAddresses n\<rparr> = n"
  by (cases c, simp) (cases m, simp, cases d, simp, cases n, simp)

lemma of_report_to_report: "of_report (rq_Namespace req) (rq_HostName req) (to_report now req) = req"
  by (cases req) (simp add: of_report_def to_report_def convert_maps comp_def)

lemma accepted_report_stored:
  assumes "store_ok E hosts seen" and "\<And>h. keeps (seen h) (Now E)"
    and "run_state (ServeHTTP E method (Inr req)) w = (resp, w')" and "hp_Code resp = 200"
  shows "\<exists>h h' now. hosts w' \<lparr>nn_Namespace = rq_Namespace req, nn_Name = rq_HostName req\<rparr> = Some h' \<and>
     fst (run_state (Get_PhysicalHost E \<lparr>nn_Namespace = rq_Namespace req, nn_Name = rq_HostName req\<rparr>) w) = Inr h \<and>
     ph_Spec h' = ph_Spec h \<and> ph_Status h' = ph_Status (set_report (to_report now req) h)"
proof -
  let ?k = "\<lparr>nn_Namespace = rq_Namespace req, nn_Name = rq_HostName req\<rparr>"
  from assms(3,4) obtain h w1 now w2 h' where g: "run_state (Get_PhysicalHost E ?k) w = (Inr h, w1)"
      and n: "run_state (Now E) w1 = (now, w2)"
      and u: "run_state (StatusUpdate_PhysicalHost E (set_report (to_report now req) h)) w2 = (Inr h', w')"
    by (auto simp: ServeHTTP_def updatePhysicalHost_def http_Error_def
        split: if_splits sum.splits option.splits prod.splits)
  from store_ok_get [OF assms(1) g] have k: "ph_key h = ?k" and gen: "seen h w1" by auto
  from keepsD [OF assms(2) n gen]
  have "hosts w' (ph_key h) = Some h' \<and> ph_Spec h' = ph_Spec h \<and> ph_Status h' = ph_Status (set_report (to_report now req) h)"
    by (rule status_write_on_read [OF assms(1) _ _ u]) (simp add: set_report_def)
  with g k show ?thesis by auto
qed

text \<open>
  C13. A report that is answered with 200 is stored completely: the host it names then carries a
  report from which the request can be read back, in phase \<open>Complete\<close>; its state and its spec are
  what they were when it was read. The handler does not ask whether the host is being inspected.
\<close>

theorem ServeHTTP_stores_report:
  assumes "store_ok E hosts seen" and "\<And>h. keeps (seen h) (Now E)"
    and "run_state (ServeHTTP E method (Inr req)) w = (resp, w')" and "hp_Code resp = 200"
  shows "\<exists>h h' r. hosts w' \<lparr>nn_Namespace = rq_Namespace req, nn_Name = rq_HostName req\<rparr> = Some h' \<and>
     st_InspectionReport (ph_Status h') = Some r \<and> of_report (rq_Namespace req) (rq_HostName req) r = req \<and>
     st_InspectionPhase (ph_Status h') = InspectionPhaseComplete \<and>
     fst (run_state (Get_PhysicalHost E \<lparr>nn_Namespace = rq_Namespace req, nn_Name = rq_HostName req\<rparr>) w) = Inr h \<and>
     st_State (ph_Status h') = st_State (ph_Status h) \<and> ph_Spec h' = ph_Spec h"
  using accepted_report_stored [OF assms] of_report_to_report by (fastforce simp: set_report_def)

definition sample_request :: InspectionReportRequest where
  "sample_request = \<lparr>rq_Namespace = ''metal'', rq_HostName = ''h1'', rq_Manufacturer = ''ACME'', rq_Model = '''',
     rq_SerialNumber = '''', rq_CPUs = [\<lparr>cd_ID = ''0'', cd_Vendor = '''', cd_Model = '''', cd_Cores = 8, cd_Threads = 16,
       cd_Frequency = ''''\<rparr>], rq_Memory = [], rq_Disks = [], rq_NICs = [], rq_BootModeDetected = ''UEFI'',
     rq_FirmwareVersion = ''''\<rparr>"

lemmas handler_eval = ServeHTTP_def updatePhysicalHost_def http_Error_def set_report_def to_report_def convert_maps
  sample_request_def

theorem ServeHTTP_stores_report_witness:
  "\<exists>h' r. mem_hosts (snd (run_state (ServeHTTP mem_env ''POST'' (Inr sample_request))
       (sample_world [sample_host ''h1'' [] None StateAvailable] []))) (sample_key ''h1'') = Some h' \<and>
     st_InspectionReport (ph_Status h') = Some r \<and> of_report ''metal'' ''h1'' r = sample_request \<and>
     st_State (ph_Status h') = StateAvailable"
proof -
  let ?w = "sample_world [sample_host ''h1'' [] None StateAvailable] []"
  obtain resp w' where r: "run_state (ServeHTTP mem_env ''POST'' (Inr sample_request)) ?w = (resp, w')"
    by (metis prod.collapse)
  have "hp_Code (fst (run_state (ServeHTTP mem_env ''POST'' (Inr sample_request)) ?w)) = 200"
    by (simp add: handler_eval sample_defs mem_eval)
  then have "hp_Code resp = 200" using r by simp
  from ServeHTTP_stores_report [OF mem_store_ok _ r this] r show ?thesis
    by (auto simp: keeps_def sample_request_def sample_defs mem_eval)
qed

text \<open>
  The handler answers every request with one of 405, 400, 500 and 200, and a request it refuses
  itself reaches no object: anything but a POST is 405, a body that is no report or names no host is
  400, and neither touches the API server.
\<close>

theorem ServeHTTP_codes:
  "hp_Code (fst (run_state (ServeHTTP E method body) w)) =
     (if method \<noteq> ''POST'' then 405
      else case body of Inl _ \<Rightarrow> 400
        | Inr req \<Rightarrow> if rq_Namespace req = '''' \<or> rq_HostName req = '''' then 400
            else if fst (run_state (updatePhysicalHost E req) w) = None then 200 else 500) \<and>
   (hp_Code (fst (run_state (ServeHTTP E method body) w)) \<in> {405, 400} \<longrightarrow>
      snd (run_state (ServeHTTP E method body) w) = w)"
  by (auto simp: ServeHTTP_def http_Error_def split: sum.splits option.splits prod.splits)

theorem ServeHTTP_codes_witness:
  "snd (run_state (ServeHTTP mem_env ''GET'' (Inr sample_request)) (sample_world [] [])) = (sample_world [] [])"
  using ServeHTTP_codes [of mem_env "''GET''" "Inr sample_request" "sample_world [] []"] by simp

end
