(* ===== verification/ProvisioningQueue.thy ===== *)
theory ProvisioningQueue
  imports MemEnv
begin

text \<open>
  \<open>internal/coordination/provisioning_queue.go\<close>: the queue that bounds concurrent BMC operations.

  Requests are shared objects: the queue, the table of hosts in processing and the workers hold
  pointers to them. The model keeps them in a heap indexed by references. Each section of the code
  under the mutex is one function on the queue's state, so a run of the program is a sequence of
  such steps of the workers and the callers; the clock readings a section makes are arguments.
\<close>

section \<open>State\<close>

type_synonym ref = nat

definition OperationClaim :: string where [simp]: "OperationClaim = ''claim''"
definition OperationProvision :: string where [simp]: "OperationProvision = ''provision''"
definition OperationDeprovision :: string where [simp]: "OperationDeprovision = ''deprovision''"
definition OperationRelease :: string where [simp]: "OperationRelease = ''release''"

record ProvisioningResult =
  rr_Success :: bool
  rr_Error :: "error option"
  rr_Host :: "PhysicalHost option"
  rr_Duration :: Duration
  rr_Retryable :: bool

text \<open>
  A result channel has room for one result: \<open>pv_ResultCh\<close> is \<open>None\<close> for a nil channel, else the
  buffered result if there is one. The context of a request is its deadline and whether its cancel
  function was called; a nil context and a nil cancel function belong to a permit.
\<close>

record ProvisioningRequest =
  pv_ID :: string
  pv_Host :: PhysicalHost
  pv_Machine :: "Beskar7Machine option"
  pv_Operation :: string
  pv_SubmittedAt :: Time
  pv_StartedAt :: "Time option"
  pv_CompletedAt :: "Time option"
  pv_Error :: "error option"
  pv_ResultCh :: "ProvisioningResult option option"
  pv_Deadline :: "Time option"
  pv_Cancelled :: bool
  pv_CancelFunc :: bool

record ProvisioningQueue =
  pq_queue :: "ref list"
  pq_processing :: "(string, ref) fmap"
  pq_maxConcurrentOps :: goint
  pq_maxQueueSize :: goint
  pq_operationTimeout :: Duration
  pq_bmcCooldownPeriod :: Duration
  pq_lastBMCOperation :: "string \<rightharpoonup> Time"
  pq_stopped :: bool
  pq_heap :: "ref \<Rightarrow> ProvisioningRequest"
  pq_next :: ref

definition NewProvisioningQueue :: "(ref \<Rightarrow> ProvisioningRequest) \<Rightarrow> goint \<Rightarrow> goint \<Rightarrow> ProvisioningQueue" where
  "NewProvisioningQueue h maxConcurrent maxQueueSize =
     \<lparr>pq_queue = [], pq_processing = fmempty, pq_maxConcurrentOps = maxConcurrent, pq_maxQueueSize = maxQueueSize,
      pq_operationTimeout = 5 * minute, pq_bmcCooldownPeriod = 10 * second, pq_lastBMCOperation = Map.empty,
      pq_stopped = False, pq_heap = h, pq_next = 0\<rparr>"

definition hostName :: "PhysicalHost \<Rightarrow> string" where
  "hostName host = om_Name (ph_meta host)"

definition bmcAddress :: "PhysicalHost \<Rightarrow> string" where
  "bmcAddress host = rc_Address (ps_RedfishConnection (ph_Spec host))"

definition processing_count :: "ProvisioningQueue \<Rightarrow> nat" where
  "processing_count pq = fcard (fmdom (pq_processing pq))"

definition alloc :: "ProvisioningRequest \<Rightarrow> ProvisioningQueue \<Rightarrow> ref \<times> ProvisioningQueue" where
  "alloc req pq = (pq_next pq, pq\<lparr>pq_heap := (pq_heap pq)(pq_next pq := req), pq_next := pq_next pq + 1\<rparr>)"

definition heap_update :: "ref \<Rightarrow> (ProvisioningRequest \<Rightarrow> ProvisioningRequest) \<Rightarrow> ProvisioningQueue \<Rightarrow> ProvisioningQueue" where
  "heap_update r f pq = pq\<lparr>pq_heap := (pq_heap pq)(r := f (pq_heap pq r))\<rparr>"

section \<open>Permits\<close>

text \<open>
  The cooldown test of a BMC address at the time \<open>now\<close>. \<open>acquire_try\<close> is one pass of the loop of
  \<open>AcquireBMCPermit\<close>; the caller repeats it every 100 ms until it succeeds or its context ends.
\<close>

definition cooled_down :: "ProvisioningQueue \<Rightarrow> string \<Rightarrow> Time \<Rightarrow> bool" where
  "cooled_down pq addr now = (case pq_lastBMCOperation pq addr of
     None \<Rightarrow> True | Some last_op \<Rightarrow> time_Sub now last_op \<ge> pq_bmcCooldownPeriod pq)"

definition permit_request :: "PhysicalHost \<Rightarrow> ProvisioningRequest" where
  "permit_request host = \<lparr>pv_ID = '''', pv_Host = host, pv_Machine = None, pv_Operation = '''', pv_SubmittedAt = 0,
     pv_StartedAt = None, pv_CompletedAt = None, pv_Error = None, pv_ResultCh = None, pv_Deadline = None,
     pv_Cancelled = False, pv_CancelFunc = False\<rparr>"

definition acquire_try :: "PhysicalHost \<Rightarrow> Time \<Rightarrow> ProvisioningQueue \<Rightarrow> bool \<times> ProvisioningQueue" where
  "acquire_try host now pq =
    (if fmlookup (pq_processing pq) (hostName host) \<noteq> None then (True, pq)
     else if int (processing_count pq) < sint (pq_maxConcurrentOps pq) then
       if cooled_down pq (bmcAddress host) now then
         (let (r, pq') = alloc (permit_request host) pq
          in (True, pq'\<lparr>pq_processing := fmupd (hostName host) r (pq_processing pq')\<rparr>))
       else (False, pq)
     else (False, pq))"

text \<open>
  The whole loop, against the passes it makes: each element is the clock reading of a pass, the
  state of the queue it meets and whether the context ends before the next tick. \<open>None\<close> is a call
  still waiting when the passes are used up.
\<close>

fun AcquireBMCPermit :: "PhysicalHost \<Rightarrow> (Time \<times> ProvisioningQueue \<times> error option) list \<Rightarrow> (error option) option" where
  "AcquireBMCPermit host [] = None"
| "AcquireBMCPermit host ((now, pq, ended) # passes) =
     (if fst (acquire_try host now pq) then Some None
      else case ended of Some err \<Rightarrow> Some (Some err) | None \<Rightarrow> AcquireBMCPermit host passes)"

definition ReleaseBMCPermit :: "PhysicalHost \<Rightarrow> Time \<Rightarrow> ProvisioningQueue \<Rightarrow> ProvisioningQueue" where
  "ReleaseBMCPermit host now pq =
     pq\<lparr>pq_processing := fmdrop (hostName host) (pq_processing pq),
        pq_lastBMCOperation := (pq_lastBMCOperation pq)(bmcAddress host \<mapsto> now)\<rparr>"

text \<open>Closing a closed channel panics.\<close>

definition Stop :: "ProvisioningQueue \<Rightarrow> string + ProvisioningQueue" where
  "Stop pq = (if pq_stopped pq then Inl ''close of closed channel'' else Inr (pq\<lparr>pq_stopped := True\<rparr>))"

section \<open>Requests\<close>

definition new_request :: "ProvisioningQueue \<Rightarrow> PhysicalHost \<Rightarrow> Beskar7Machine option \<Rightarrow> string \<Rightarrow> Time \<Rightarrow> Time \<Rightarrow> Time \<Rightarrow>
    ProvisioningRequest" where
  "new_request pq host machine operation now1 now2 now3 =
     \<lparr>pv_ID = hostName host @ ''-'' @ operation @ ''-'' @ show_int now2, pv_Host = host, pv_Machine = machine,
      pv_Operation = operation, pv_SubmittedAt = now3, pv_StartedAt = None, pv_CompletedAt = None, pv_Error = None,
      pv_ResultCh = Some None, pv_Deadline = Some (now1 + pq_operationTimeout pq), pv_Cancelled = False,
      pv_CancelFunc = True\<rparr>"

definition SubmitRequest :: "PhysicalHost \<Rightarrow> Beskar7Machine option \<Rightarrow> string \<Rightarrow> Time \<Rightarrow> Time \<Rightarrow> Time \<Rightarrow> ProvisioningQueue \<Rightarrow>
    (ref option \<times> error option) \<times> ProvisioningQueue" where
  "SubmitRequest host machine operation now1 now2 now3 pq =
    (if int (length (pq_queue pq)) \<ge> sint (pq_maxQueueSize pq) then
       ((None, Some (Err (''provisioning queue is full (max: '' @ show_int (sint (pq_maxQueueSize pq)) @ '')''))), pq)
     else (case fmlookup (pq_processing pq) (hostName host) of
       Some existing \<Rightarrow> ((Some existing, Some (Err (''host '' @ hostName host @ '' already has operation '' @
           pv_Operation (pq_heap pq existing) @ '' in progress''))), pq)
     | None \<Rightarrow>
         (let (r, pq') = alloc (new_request pq host machine operation now1 now2 now3) pq
          in ((Some r, None), pq'\<lparr>pq_queue := pq_queue pq' @ [r]\<rparr>))))"

definition GetQueueStatus :: "ProvisioningQueue \<Rightarrow> nat \<times> nat" where
  "GetQueueStatus pq = (length (pq_queue pq), processing_count pq)"

text \<open>
  The scan of the queue for an eligible request: \<open>before\<close> are the entries passed over, and \<open>clock i\<close>
  is the clock reading at entry \<open>i\<close>.
\<close>

fun next_scan :: "ProvisioningQueue \<Rightarrow> (nat \<Rightarrow> Time) \<Rightarrow> ref list \<Rightarrow> ref list \<Rightarrow> (ref \<times> ref list) option" where
  "next_scan pq clock before [] = None"
| "next_scan pq clock before (r # rs) =
     (if \<not> cooled_down pq (bmcAddress (pv_Host (pq_heap pq r))) (clock (length before))
      then next_scan pq clock (before @ [r]) rs
      else Some (r, before @ rs))"

definition getNextRequest :: "(nat \<Rightarrow> Time) \<Rightarrow> Time \<Rightarrow> ProvisioningQueue \<Rightarrow> ref option \<times> ProvisioningQueue" where
  "getNextRequest clock now pq =
    (if int (processing_count pq) \<ge> sint (pq_maxConcurrentOps pq) then (None, pq)
     else (case next_scan pq clock [] (pq_queue pq) of
       None \<Rightarrow> (None, pq)
     | Some (r, rest) \<Rightarrow>
         (Some r, heap_update r (\<lambda>req. req\<lparr>pv_StartedAt := Some now\<rparr>)
            (pq\<lparr>pq_queue := rest, pq_processing := fmupd (hostName (pv_Host (pq_heap pq r))) r (pq_processing pq)\<rparr>))))"

section \<open>Processing\<close>

text \<open>The simulated operations only sleep; their results depend on the kind of operation.\<close>

definition succeeded :: "ProvisioningRequest \<Rightarrow> bool \<Rightarrow> ProvisioningResult" where
  "succeeded req retryable = \<lparr>rr_Success = True, rr_Error = None, rr_Host = Some (pv_Host req), rr_Duration = 0,
     rr_Retryable = retryable\<rparr>"

definition processClaim :: "ProvisioningRequest \<Rightarrow> ProvisioningResult" where
  "processClaim req = succeeded req False"

definition processProvision :: "ProvisioningRequest \<Rightarrow> ProvisioningResult" where
  "processProvision req = succeeded req True"

definition processDeprovision :: "ProvisioningRequest \<Rightarrow> ProvisioningResult" where
  "processDeprovision req = succeeded req True"

definition processRelease :: "ProvisioningRequest \<Rightarrow> ProvisioningResult" where
  "processRelease req = succeeded req False"

definition process_operation :: "ProvisioningRequest \<Rightarrow> ProvisioningResult" where
  "process_operation req =
    (if pv_Operation req = OperationClaim then processClaim req
     else if pv_Operation req = OperationProvision then processProvision req
     else if pv_Operation req = OperationDeprovision then processDeprovision req
     else if pv_Operation req = OperationRelease then processRelease req
     else \<lparr>rr_Success = False, rr_Error = Some (Err (''unknown operation: '' @ pv_Operation req)), rr_Host = None,
           rr_Duration = 0, rr_Retryable = False\<rparr>)"

text \<open>
  \<open>processRequest\<close> in its three parts: the operation with its duration, the section under the mutex,
  and the completion of the request object. The final \<open>select\<close> takes any ready branch, so the
  completion takes the branch as an argument; \<open>send_ready\<close> says which branches are ready.
\<close>

datatype send_branch = Sent | ContextDone | Blocked

definition process_result :: "ProvisioningRequest \<Rightarrow> Time \<Rightarrow> Time \<Rightarrow> ProvisioningResult" where
  "process_result req started ended = (process_operation req)\<lparr>rr_Duration := time_Sub ended started\<rparr>"

definition finish_section :: "ref \<Rightarrow> Time \<Rightarrow> ProvisioningQueue \<Rightarrow> ProvisioningQueue" where
  "finish_section r now pq =
    (let host = pv_Host (pq_heap pq r) in
     pq\<lparr>pq_lastBMCOperation := (pq_lastBMCOperation pq)(bmcAddress host \<mapsto> now),
        pq_processing := fmdrop (hostName host) (pq_processing pq)\<rparr>)"

definition context_done :: "ProvisioningRequest \<Rightarrow> bool \<Rightarrow> Time \<Rightarrow> bool" where
  "context_done req parent_done now \<longleftrightarrow> parent_done \<or> pv_Cancelled req \<or>
     (case pv_Deadline req of None \<Rightarrow> False | Some d \<Rightarrow> d \<le> now)"

definition send_ready :: "ProvisioningRequest \<Rightarrow> bool \<Rightarrow> send_branch list" where
  "send_ready req ctx_done =
    (let ready = (if pv_ResultCh req = Some None then [Sent] else []) @ (if ctx_done then [ContextDone] else [])
     in if ready = [] then [Blocked] else ready)"

definition complete_request :: "ref \<Rightarrow> ProvisioningResult \<Rightarrow> Time \<Rightarrow> send_branch \<Rightarrow> ProvisioningQueue \<Rightarrow> ProvisioningQueue" where
  "complete_request r result now branch pq =
     heap_update r (\<lambda>req. req\<lparr>pv_CompletedAt := Some now, pv_Error := rr_Error result,
         pv_ResultCh := (if branch = Sent then Some (Some result) else pv_ResultCh req), pv_Cancelled := True\<rparr>) pq"

text \<open>
  \<open>WaitForResult\<close> returns through any ready branch; receiving empties the channel. The list holds
  the possible outcomes; it is empty while the caller has to wait.
\<close>

definition WaitForResult :: "ref \<Rightarrow> Duration \<Rightarrow> bool \<Rightarrow> error \<Rightarrow> bool \<Rightarrow> ProvisioningQueue \<Rightarrow>
    ((error + ProvisioningResult) \<times> ProvisioningQueue) list" where
  "WaitForResult r timeout ctx_done ctx_err timed_out pq =
     (case pv_ResultCh (pq_heap pq r) of
        Some (Some result) \<Rightarrow> [(Inr result, heap_update r (\<lambda>req. req\<lparr>pv_ResultCh := Some None\<rparr>) pq)]
      | _ \<Rightarrow> []) @
     (if ctx_done then [(Inl ctx_err, pq)] else []) @
     (if timed_out then [(Inl (Err (''timeout waiting for provisioning result after '' @ Duration_String timeout)), pq)] else [])"

section \<open>Cancelling and status\<close>

text \<open>Calling a nil cancel function panics, which \<open>Inl\<close> stands for.\<close>

definition call_cancel :: "ref \<Rightarrow> ProvisioningQueue \<Rightarrow> string + ProvisioningQueue" where
  "call_cancel r pq = (if pv_CancelFunc (pq_heap pq r) then Inr (heap_update r (\<lambda>req. req\<lparr>pv_Cancelled := True\<rparr>) pq)
     else Inl ''runtime error: invalid memory address or nil pointer dereference'')"

fun cancel_queued :: "string \<Rightarrow> ref list \<Rightarrow> ref list \<Rightarrow> ProvisioningQueue \<Rightarrow> (string + ProvisioningQueue) option" where
  "cancel_queued i before [] pq = None"
| "cancel_queued i before (r # rs) pq =
     (if pv_ID (pq_heap pq r) = i
      then Some (case call_cancel r pq of Inl p \<Rightarrow> Inl p | Inr pq' \<Rightarrow> Inr (pq'\<lparr>pq_queue := before @ rs\<rparr>))
      else cancel_queued i (before @ [r]) rs pq)"

fun cancel_processing :: "string \<Rightarrow> ref list \<Rightarrow> ProvisioningQueue \<Rightarrow> (string + ProvisioningQueue) option" where
  "cancel_processing i [] pq = None"
| "cancel_processing i (r # rs) pq =
     (if pv_ID (pq_heap pq r) = i then Some (call_cancel r pq) else cancel_processing i rs pq)"

text \<open>\<open>order\<close> is the order in which the iteration meets the requests in processing; Go leaves it open.\<close>

definition CancelRequest :: "string \<Rightarrow> ref list \<Rightarrow> ProvisioningQueue \<Rightarrow> string + (bool \<times> ProvisioningQueue)" where
  "CancelRequest i order pq =
    (case cancel_queued i [] (pq_queue pq) pq of
       Some (Inl p) \<Rightarrow> Inl p
     | Some (Inr pq') \<Rightarrow> Inr (True, pq')
     | None \<Rightarrow>
         (case cancel_processing i order pq of
            Some (Inl p) \<Rightarrow> Inl p
          | Some (Inr pq') \<Rightarrow> Inr (True, pq')
          | None \<Rightarrow> Inr (False, pq)))"

definition GetRequestStatus :: "string \<Rightarrow> ref list \<Rightarrow> ProvisioningQueue \<Rightarrow> string \<times> bool" where
  "GetRequestStatus i order pq =
    (if list_ex (\<lambda>r. pv_ID (pq_heap pq r) = i) (pq_queue pq) then (''queued'', True)
     else if list_ex (\<lambda>r. pv_ID (pq_heap pq r) = i) order then (''processing'', True)
     else ('''', False))"

section \<open>Runs\<close>

text \<open>
  A worker is idle, processes a request, completes one whose slot it has already given back, or has
  returned. A run interleaves the workers (the loop of \<open>worker\<close>: \<open>take\<close>, \<open>finish\<close>, \<open>complete\<close>, \<open>quit\<close>),
  cancellations, waiting callers and the passing of time (\<open>worker_step\<close>) with callers that submit requests
  and take or give back permits (\<open>pq_step\<close>). A stopped queue does not keep an idle worker from
  one more request: its \<open>select\<close> may still choose the ticker.
\<close>

datatype worker_state = Idle | Processing ref | Completing ref ProvisioningResult | Exited

record system =
  sy_pq :: ProvisioningQueue
  sy_workers :: "worker_state list"
  sy_now :: Time

inductive worker_step :: "system \<Rightarrow> system \<Rightarrow> bool" where
  tick: "sy_now s \<le> t \<Longrightarrow> worker_step s (s\<lparr>sy_now := t\<rparr>)"
| take: "i < length (sy_workers s) \<Longrightarrow> sy_workers s ! i = Idle \<Longrightarrow>
    getNextRequest (\<lambda>_. sy_now s) (sy_now s) (sy_pq s) = (Some r, pq') \<Longrightarrow>
    worker_step s (s\<lparr>sy_pq := pq', sy_workers := (sy_workers s)[i := Processing r]\<rparr>)"
| finish: "i < length (sy_workers s) \<Longrightarrow> sy_workers s ! i = Processing r \<Longrightarrow>
    result = process_result (pq_heap (sy_pq s) r) started (sy_now s) \<Longrightarrow>
    worker_step s (s\<lparr>sy_pq := finish_section r (sy_now s) (sy_pq s), sy_workers := (sy_workers s)[i := Completing r result]\<rparr>)"
| complete: "i < length (sy_workers s) \<Longrightarrow> sy_workers s ! i = Completing r result \<Longrightarrow>
    branch \<in> set (send_ready (pq_heap (sy_pq s) r) (context_done (pq_heap (sy_pq s) r) parent_done (sy_now s))) \<Longrightarrow>
    worker_step s (s\<lparr>sy_pq := complete_request r result (sy_now s) branch (sy_pq s), sy_workers := (sy_workers s)[i := Idle]\<rparr>)"
| cancel: "CancelRequest i order (sy_pq s) = Inr (found, pq') \<Longrightarrow> worker_step s (s\<lparr>sy_pq := pq'\<rparr>)"
| wait: "(res, pq') \<in> set (WaitForResult r timeout ctx_done ctx_err timed_out (sy_pq s)) \<Longrightarrow> worker_step s (s\<lparr>sy_pq := pq'\<rparr>)"
| stop: "Stop (sy_pq s) = Inr pq' \<Longrightarrow> worker_step s (s\<lparr>sy_pq := pq'\<rparr>)"
| quit: "i < length (sy_workers s) \<Longrightarrow> sy_workers s ! i = Idle \<Longrightarrow> pq_stopped (sy_pq s) \<or> ctx_done \<Longrightarrow>
    worker_step s (s\<lparr>sy_workers := (sy_workers s)[i := Exited]\<rparr>)"

inductive pq_step :: "system \<Rightarrow> system \<Rightarrow> bool" where
  internal: "worker_step s s' \<Longrightarrow> pq_step s s'"
| submit: "SubmitRequest host machine operation (sy_now s) (sy_now s) (sy_now s) (sy_pq s) = (res, pq') \<Longrightarrow>
    pq_step s (s\<lparr>sy_pq := pq'\<rparr>)"
| acquire: "acquire_try host (sy_now s) (sy_pq s) = (granted, pq') \<Longrightarrow> pq_step s (s\<lparr>sy_pq := pq'\<rparr>)"
| release: "pq_step s (s\<lparr>sy_pq := ReleaseBMCPermit host (sy_now s) (sy_pq s)\<rparr>)"

inductive_cases worker_step_cases: "worker_step s s'"
inductive_cases pq_step_cases: "pq_step s s'"

definition initial :: "(ref \<Rightarrow> ProvisioningRequest) \<Rightarrow> goint \<Rightarrow> goint \<Rightarrow> nat \<Rightarrow> Time \<Rightarrow> system" where
  "initial h maxConcurrent maxQueueSize workers now =
     \<lparr>sy_pq = NewProvisioningQueue h maxConcurrent maxQueueSize, sy_workers = replicate workers Idle, sy_now = now\<rparr>"

section \<open>Bounds\<close>

definition same_limits :: "ProvisioningQueue \<Rightarrow> ProvisioningQueue \<Rightarrow> bool" where
  "same_limits p q \<longleftrightarrow> pq_maxConcurrentOps q = pq_maxConcurrentOps p \<and> pq_maxQueueSize q = pq_maxQueueSize p \<and>
     pq_bmcCooldownPeriod q = pq_bmcCooldownPeriod p \<and> pq_operationTimeout q = pq_operationTimeout p"

definition bounded :: "ProvisioningQueue \<Rightarrow> bool" where
  "bounded pq \<longleftrightarrow> int (processing_count pq) \<le> max 0 (sint (pq_maxConcurrentOps pq)) \<and>
     int (length (pq_queue pq)) \<le> max 0 (sint (pq_maxQueueSize pq))"

lemma fcard_fmupd: "fcard (fmdom (fmupd k v m)) \<le> Suc (fcard (fmdom m))"
  by (simp add: fcard_finsert_if)

lemma fcard_fmdrop: "fcard (fmdom (fmdrop k m)) \<le> fcard (fmdom m)"
  by (intro fcard_mono) auto

lemma heap_update_frame [simp]:
  "pq_queue (heap_update r f pq) = pq_queue pq" "pq_processing (heap_update r f pq) = pq_processing pq"
  "pq_lastBMCOperation (heap_update r f pq) = pq_lastBMCOperation pq" "pq_stopped (heap_update r f pq) = pq_stopped pq"
  "pq_next (heap_update r f pq) = pq_next pq" "processing_count (heap_update r f pq) = processing_count pq"
  "same_limits p (heap_update r f pq) \<longleftrightarrow> same_limits p pq"
  "pq_maxConcurrentOps (heap_update r f pq) = pq_maxConcurrentOps pq" "pq_maxQueueSize (heap_update r f pq) = pq_maxQueueSize pq"
  "pq_bmcCooldownPeriod (heap_update r f pq) = pq_bmcCooldownPeriod pq" "pq_operationTimeout (heap_update r f pq) = pq_operationTimeout pq"
  by (simp_all add: heap_update_def processing_count_def same_limits_def)

lemma next_scan_split:
  "next_scan pq clock before rs = Some (r, rest) \<Longrightarrow>
     \<exists>skipped after. rs = skipped @ r # after \<and> rest = before @ skipped @ after \<and>
       (\<forall>j < length skipped. \<not> cooled_down pq (bmcAddress (pv_Host (pq_heap pq (skipped ! j)))) (clock (length before + j))) \<and>
       cooled_down pq (bmcAddress (pv_Host (pq_heap pq r))) (clock (length before + length skipped))"
proof (induction rs arbitrary: before)
  case (Cons x xs)
  show ?case
  proof (cases "cooled_down pq (bmcAddress (pv_Host (pq_heap pq x))) (clock (length before))")
    case True
    with Cons.prems show ?thesis by (intro exI [of _ "[]"] exI [of _ xs]) auto
  next
    case False
    with Cons.prems have "next_scan pq clock (before @ [x]) xs = Some (r, rest)" by simp
    from Cons.IH [OF this] obtain skipped after where *: "xs = skipped @ r # after" "rest = (before @ [x]) @ skipped @ after"
        "\<forall>j < length skipped. \<not> cooled_down pq (bmcAddress (pv_Host (pq_heap pq (skipped ! j)))) (clock (length (before @ [x]) + j))"
        "cooled_down pq (bmcAddress (pv_Host (pq_heap pq r))) (clock (length (before @ [x]) + length skipped))"
      by blast
    have "\<forall>j < length (x # skipped). \<not> cooled_down pq (bmcAddress (pv_Host (pq_heap pq ((x # skipped) ! j)))) (clock (length before + j))"
      using False *(3) by (auto simp: nth_Cons split: nat.splits)
    with * show ?thesis by (intro exI [of _ "x # skipped"] exI [of _ after]) auto
  qed
qed simp

lemma next_scan_None:
  "next_scan pq clock before rs = None \<longleftrightarrow>
     (\<forall>j < length rs. \<not> cooled_down pq (bmcAddress (pv_Host (pq_heap pq (rs ! j)))) (clock (length before + j)))"
  by (induction rs arbitrary: before) (auto simp: All_less_Suc2)

lemma cancel_queued_frame:
  "cancel_queued i before rs pq = Some (Inr pq') \<Longrightarrow>
     \<exists>r after skipped. rs = skipped @ r # after \<and> pq_queue pq' = before @ skipped @ after \<and>
       pq_processing pq' = pq_processing pq \<and> same_limits pq pq' \<and> pq_lastBMCOperation pq' = pq_lastBMCOperation pq"
proof (induction rs arbitrary: before)
  case (Cons x xs)
  show ?case
  proof (cases "pv_ID (pq_heap pq x) = i")
    case True
    with Cons.prems show ?thesis
      by (intro exI [of _ x] exI [of _ xs] exI [of _ "[]"])
        (auto simp: call_cancel_def same_limits_def heap_update_def split: if_splits)
  next
    case False
    with Cons.prems have "cancel_queued i (before @ [x]) xs pq = Some (Inr pq')" by simp
    from Cons.IH [OF this] obtain r after skipped where "xs = skipped @ r # after" "pq_queue pq' = (before @ [x]) @ skipped @ after"
      "pq_processing pq' = pq_processing pq" "same_limits pq pq'" "pq_lastBMCOperation pq' = pq_lastBMCOperation pq" by blast
    then show ?thesis by (intro exI [of _ r] exI [of _ after] exI [of _ "x # skipped"]) auto
  qed
qed simp

lemma cancel_processing_frame:
  "cancel_processing i rs pq = Some (Inr pq') \<Longrightarrow>
     pq_queue pq' = pq_queue pq \<and> pq_processing pq' = pq_processing pq \<and> same_limits pq pq' \<and>
     pq_lastBMCOperation pq' = pq_lastBMCOperation pq"
  by (induction rs) (auto simp: call_cancel_def same_limits_def heap_update_def split: if_splits)

text \<open>What each operation does to the bounded quantities.\<close>

lemma alloc_frame [simp]:
  "pq_queue (snd (alloc req pq)) = pq_queue pq" "pq_processing (snd (alloc req pq)) = pq_processing pq"
  "processing_count (snd (alloc req pq)) = processing_count pq" "same_limits p (snd (alloc req pq)) \<longleftrightarrow> same_limits p pq"
  "pq_lastBMCOperation (snd (alloc req pq)) = pq_lastBMCOperation pq"
  by (simp_all add: alloc_def processing_count_def same_limits_def)

lemma same_limits_refl [simp]: "same_limits pq pq"
  by (simp add: same_limits_def)

lemma SubmitRequest_bounded:
  assumes "SubmitRequest host machine operation t1 t2 t3 pq = (res, pq')" and "bounded pq"
  shows "bounded pq' \<and> same_limits pq pq'"
  using assms by (auto simp: SubmitRequest_def bounded_def alloc_def same_limits_def processing_count_def Let_def
      split: if_splits option.splits)

lemma acquire_try_bounded:
  assumes "acquire_try host now pq = (granted, pq')" and "bounded pq"
  shows "bounded pq' \<and> same_limits pq pq'"
  using assms fcard_fmupd [of "hostName host" "pq_next pq" "pq_processing pq"]
  by (auto simp: acquire_try_def bounded_def alloc_def same_limits_def processing_count_def Let_def split: if_splits)

lemma getNextRequest_bounded:
  assumes "getNextRequest clock now pq = (Some r, pq')" and "bounded pq"
  shows "bounded pq' \<and> same_limits pq pq'"
proof -
  from assms(1) obtain rest where room: "int (processing_count pq) < sint (pq_maxConcurrentOps pq)"
      and n: "next_scan pq clock [] (pq_queue pq) = Some (r, rest)"
      and pq': "pq' = heap_update r (\<lambda>req. req\<lparr>pv_StartedAt := Some now\<rparr>)
            (pq\<lparr>pq_queue := rest, pq_processing := fmupd (hostName (pv_Host (pq_heap pq r))) r (pq_processing pq)\<rparr>)"
    by (auto simp: getNextRequest_def split: if_splits option.splits)
  from next_scan_split [OF n] have "length rest \<le> length (pq_queue pq)" by auto
  moreover have "processing_count pq' \<le> Suc (processing_count pq)"
    unfolding pq' heap_update_frame by (simp add: processing_count_def fcard_finsert_if)
  ultimately show ?thesis using assms(2) room by (auto simp: bounded_def pq' same_limits_def)
qed

lemma drop_bounded:
  "bounded pq \<Longrightarrow> bounded (finish_section r now pq) \<and> same_limits pq (finish_section r now pq)"
  "bounded pq \<Longrightarrow> bounded (ReleaseBMCPermit host now pq) \<and> same_limits pq (ReleaseBMCPermit host now pq)"
  using fcard_fmdrop [of "hostName (pv_Host (pq_heap pq r))" "pq_processing pq"]
    fcard_fmdrop [of "hostName host" "pq_processing pq"]
  by (auto simp: finish_section_def ReleaseBMCPermit_def bounded_def same_limits_def processing_count_def Let_def)

lemma CancelRequest_frame:
  assumes "CancelRequest i order pq = Inr (found, pq')"
  shows "length (pq_queue pq') \<le> length (pq_queue pq) \<and> pq_processing pq' = pq_processing pq \<and> same_limits pq pq' \<and>
    pq_lastBMCOperation pq' = pq_lastBMCOperation pq"
proof (cases "cancel_queued i [] (pq_queue pq) pq")
  case None
  with assms cancel_processing_frame [of i order pq pq'] show ?thesis
    by (auto simp: CancelRequest_def split: option.splits sum.splits)
next
  case (Some c)
  with assms cancel_queued_frame [of i "[]" "pq_queue pq" pq pq'] show ?thesis
    by (auto simp: CancelRequest_def split: option.splits sum.splits)
qed

lemma CancelRequest_bounded:
  "CancelRequest i order pq = Inr (found, pq') \<Longrightarrow> bounded pq \<Longrightarrow> bounded pq' \<and> same_limits pq pq'"
  by (frule CancelRequest_frame) (auto simp: bounded_def same_limits_def processing_count_def)

lemma request_bounded:
  "bounded (complete_request r result now branch pq) \<longleftrightarrow> bounded pq"
  "same_limits pq (complete_request r result now branch pq)"
  "(res, pq') \<in> set (WaitForResult r timeout ctx_done ctx_err timed_out pq) \<Longrightarrow> bounded pq \<Longrightarrow> bounded pq' \<and> same_limits pq pq'"
  "Stop pq = Inr pq' \<Longrightarrow> bounded pq \<Longrightarrow> bounded pq' \<and> same_limits pq pq'"
  by (auto simp: complete_request_def WaitForResult_def Stop_def bounded_def processing_count_def same_limits_def
      split: option.splits if_splits)

lemmas operations_bounded = SubmitRequest_bounded acquire_try_bounded getNextRequest_bounded drop_bounded
  CancelRequest_bounded

lemma worker_step_bounded:
  assumes "worker_step s s'" and "bounded (sy_pq s)"
  shows "bounded (sy_pq s') \<and> same_limits (sy_pq s) (sy_pq s')"
  using assms by (induction rule: worker_step.induct)
    (auto dest: operations_bounded request_bounded(3,4) simp: drop_bounded request_bounded)

lemma pq_step_bounded:
  assumes "pq_step s s'" and "bounded (sy_pq s)"
  shows "bounded (sy_pq s') \<and> same_limits (sy_pq s) (sy_pq s')"
  using assms by (induction rule: pq_step.induct)
    (auto dest: operations_bounded simp: drop_bounded worker_step_bounded)

lemma initial_bounded: "bounded (sy_pq (initial h c q n t))"
  by (simp add: initial_def NewProvisioningQueue_def bounded_def processing_count_def fcard.rep_eq)

lemma same_limits_trans: "same_limits p q \<Longrightarrow> same_limits q r \<Longrightarrow> same_limits p r"
  by (simp add: same_limits_def)

text \<open>
  C9. However workers, submitters, permit holders and cancellations interleave, a queue created for
  \<open>c\<close> concurrent operations and \<open>q\<close> waiting requests never has more than \<open>c\<close> hosts in processing
  nor more than \<open>q\<close> requests waiting, and its limits never change.
\<close>

theorem queue_limits_hold:
  assumes "pq_step\<^sup>*\<^sup>* (initial h c q n t) s"
  shows "int (snd (GetQueueStatus (sy_pq s))) \<le> max 0 (sint c) \<and> int (fst (GetQueueStatus (sy_pq s))) \<le> max 0 (sint q)"
proof -
  from assms have "bounded (sy_pq s) \<and> same_limits (sy_pq (initial h c q n t)) (sy_pq s)"
  proof (induction rule: rtranclp_induct)
    case (step y z)
    then show ?case using pq_step_bounded same_limits_trans by blast
  qed (simp add: initial_bounded)
  then show ?thesis
    by (auto simp: bounded_def same_limits_def initial_def NewProvisioningQueue_def GetQueueStatus_def)
qed

definition sample_heap :: "ref \<Rightarrow> ProvisioningRequest" where
  "sample_heap r = permit_request (sample_host ''h0'' [] None StateNone)"

definition sample_submit :: "system \<Rightarrow> system" where
  "sample_submit s = s\<lparr>sy_pq := snd (SubmitRequest (sample_host ''h1'' [] None StateInUse) None OperationProvision
     (sy_now s) (sy_now s) (sy_now s) (sy_pq s))\<rparr>"

definition sample_take :: "nat \<Rightarrow> system \<Rightarrow> system" where
  "sample_take i s = (case getNextRequest (\<lambda>_. sy_now s) (sy_now s) (sy_pq s) of
     (Some r, pq') \<Rightarrow> s\<lparr>sy_pq := pq', sy_workers := (sy_workers s)[i := Processing r]\<rparr> | _ \<Rightarrow> s)"

lemma sample_submit_step: "pq_step s (sample_submit s)"
  unfolding sample_submit_def by (rule pq_step.submit) (rule prod.collapse [symmetric])

lemma sample_take_step:
  assumes "i < length (sy_workers s)" and "sy_workers s ! i = Idle"
    and "fst (getNextRequest (\<lambda>_. sy_now s) (sy_now s) (sy_pq s)) \<noteq> None"
  shows "pq_step s (sample_take i s)"
proof -
  obtain r pq' where "getNextRequest (\<lambda>_. sy_now s) (sy_now s) (sy_pq s) = (Some r, pq')"
    using assms(3) by (metis not_None_eq prod.collapse)
  with pq_step.internal [OF worker_step.take [OF assms(1,2) this]] show ?thesis by (simp add: sample_take_def)
qed

theorem queue_limits_hold_witness:
  "let s = sample_submit (initial sample_heap 2 10 1 0)
   in GetQueueStatus (sy_pq s) = (1, 0) \<and>
      int (snd (GetQueueStatus (sy_pq s))) \<le> max 0 (sint (2 :: goint)) \<and> int (fst (GetQueueStatus (sy_pq s))) \<le> max 0 (sint (10 :: goint))"
proof -
  let ?s = "sample_submit (initial sample_heap 2 10 1 0)"
  have "GetQueueStatus (sy_pq ?s) = (1, 0)"
    by (simp add: sample_submit_def initial_def NewProvisioningQueue_def SubmitRequest_def alloc_def GetQueueStatus_def
        processing_count_def fcard.rep_eq)
  moreover have "pq_step\<^sup>*\<^sup>* (initial sample_heap 2 10 1 0) ?s"
    by (rule r_into_rtranclp) (rule sample_submit_step)
  note queue_limits_hold [OF this]
  ultimately show ?thesis by (simp only: Let_def simp_thms)
qed

lemma sample_take_first:
  assumes "pq_queue (sy_pq s) = r # rs" and "pq_lastBMCOperation (sy_pq s) = Map.empty"
    and "int (processing_count (sy_pq s)) < sint (pq_maxConcurrentOps (sy_pq s))"
  shows "fst (getNextRequest (\<lambda>_. sy_now s) (sy_now s) (sy_pq s)) = Some r"
    "pq_queue (sy_pq (sample_take i s)) = rs" "pq_lastBMCOperation (sy_pq (sample_take i s)) = Map.empty"
    "pq_processing (sy_pq (sample_take i s)) = fmupd (hostName (pv_Host (pq_heap (sy_pq s) r))) r (pq_processing (sy_pq s))"
    "pq_maxConcurrentOps (sy_pq (sample_take i s)) = pq_maxConcurrentOps (sy_pq s)"
    "sy_workers (sample_take i s) = (sy_workers s)[i := Processing r]"
    "pv_Host (pq_heap (sy_pq (sample_take i s)) x) = pv_Host (pq_heap (sy_pq s) x)"
  using assms by (simp_all add: sample_take_def getNextRequest_def cooled_down_def heap_update_def)

text \<open>
  C25. What is bounded is the number of hosts in processing, not the number of operations. Requests for
  one host can wait side by side, and taking the second overwrites the entry of the first: a queue
  for two concurrent operations can have three workers operating on the same BMC at once.
\<close>

theorem operations_exceed_limit:
  "\<exists>s. pq_step\<^sup>*\<^sup>* (initial sample_heap 2 10 3 0) s \<and>
     sy_workers s = [Processing 0, Processing 1, Processing 2] \<and> processing_count (sy_pq s) = 1 \<and>
     map (\<lambda>r. bmcAddress (pv_Host (pq_heap (sy_pq s) r))) [0, 1, 2] =
       [''https://10.0.0.9'', ''https://10.0.0.9'', ''https://10.0.0.9'']"
proof -
  let ?h1 = "sample_host ''h1'' [] None StateInUse"
  define s0 where "s0 = initial sample_heap 2 10 3 0"
  define s1 where "s1 = sample_submit (sample_submit (sample_submit s0))"
  define s2 where "s2 = sample_take 0 s1"
  define s3 where "s3 = sample_take 1 s2"
  define s4 where "s4 = sample_take 2 s3"
  have n: "hostName ?h1 = ''h1''" "bmcAddress ?h1 = ''https://10.0.0.9''"
    by (simp_all add: hostName_def bmcAddress_def sample_host_def sample_meta_def)
  have e1: "sy_workers s1 = [Idle, Idle, Idle]" "pq_queue (sy_pq s1) = [0, 1, 2]" "pq_processing (sy_pq s1) = fmempty"
      "pq_lastBMCOperation (sy_pq s1) = Map.empty" "pq_maxConcurrentOps (sy_pq s1) = 2"
      "\<forall>r \<in> {0, 1, 2}. pv_Host (pq_heap (sy_pq s1) r) = ?h1"
    by (simp_all add: s1_def s0_def sample_submit_def initial_def NewProvisioningQueue_def SubmitRequest_def alloc_def
        new_request_def numeral_3_eq_3)
  then have c1: "int (processing_count (sy_pq s1)) < sint (pq_maxConcurrentOps (sy_pq s1))"
    by (simp add: processing_count_def fcard.rep_eq)
  note t2 = sample_take_first [OF e1(2,4) c1]
  have e2: "pq_queue (sy_pq s2) = [1, 2]" "pq_lastBMCOperation (sy_pq s2) = Map.empty" "sy_workers s2 = [Processing 0, Idle, Idle]"
      "pq_maxConcurrentOps (sy_pq s2) = 2" "pq_processing (sy_pq s2) = fmupd ''h1'' 0 fmempty"
      "\<forall>r \<in> {0, 1, 2}. pv_Host (pq_heap (sy_pq s2) r) = ?h1"
    using t2 e1 n by (simp_all add: s2_def)
  then have c2: "int (processing_count (sy_pq s2)) < sint (pq_maxConcurrentOps (sy_pq s2))"
    by (simp add: processing_count_def fcard.rep_eq)
  note t3 = sample_take_first [OF e2(1,2) c2]
  have e3: "pq_queue (sy_pq s3) = [2]" "pq_lastBMCOperation (sy_pq s3) = Map.empty" "sy_workers s3 = [Processing 0, Processing 1, Idle]"
      "pq_maxConcurrentOps (sy_pq s3) = 2" "pq_processing (sy_pq s3) = fmupd ''h1'' 1 (fmupd ''h1'' 0 fmempty)"
      "\<forall>r \<in> {0, 1, 2}. pv_Host (pq_heap (sy_pq s3) r) = ?h1"
    using t3 e2 n by (simp_all add: s3_def)
  then have c3: "int (processing_count (sy_pq s3)) < sint (pq_maxConcurrentOps (sy_pq s3))"
    by (simp add: processing_count_def fcard.rep_eq)
  note t4 = sample_take_first [OF e3(1,2) c3]
  have e4: "sy_workers s4 = [Processing 0, Processing 1, Processing 2]"
      "pq_processing (sy_pq s4) = fmupd ''h1'' 2 (fmupd ''h1'' 1 (fmupd ''h1'' 0 fmempty))"
      "\<forall>r \<in> {0, 1, 2}. pv_Host (pq_heap (sy_pq s4) r) = ?h1"
    using t4 e3 n by (simp_all add: s4_def numeral_2_eq_2)
  have "pq_step s1 s2" "pq_step s2 s3" "pq_step s3 s4"
    unfolding s2_def s3_def s4_def using e1(1) e2(3) e3(3) t2(1) t3(1) t4(1)
    by (auto intro!: sample_take_step simp: s2_def s3_def numeral_2_eq_2)
  moreover have "pq_step\<^sup>*\<^sup>* s0 s1"
    unfolding s1_def by (meson rtranclp.rtrancl_into_rtrancl rtranclp.rtrancl_refl sample_submit_step)
  ultimately have "pq_step\<^sup>*\<^sup>* s0 s4" by (meson rtranclp.rtrancl_into_rtrancl)
  moreover have "processing_count (sy_pq s4) = 1"
    by (simp add: processing_count_def e4 fcard.rep_eq)
  ultimately show ?thesis using e4 n unfolding s0_def by (intro exI [of _ s4]) auto
qed

section \<open>Disciplined callers\<close>

text \<open>
  When callers never submit a request for a host that is waiting already, take permits only for
  hosts with nothing waiting or in processing, and give back only permits, the limit does bound the
  operations.
\<close>

definition request_name :: "ProvisioningQueue \<Rightarrow> ref \<Rightarrow> string" where
  "request_name pq r = hostName (pv_Host (pq_heap pq r))"

definition queued_names :: "ProvisioningQueue \<Rightarrow> string list" where
  "queued_names pq = map (request_name pq) (pq_queue pq)"

inductive tidy_step :: "system \<Rightarrow> system \<Rightarrow> bool" where
  tidy_internal: "worker_step s s' \<Longrightarrow> tidy_step s s'"
| tidy_submit: "hostName host \<notin> set (queued_names (sy_pq s)) \<Longrightarrow>
    SubmitRequest host machine operation (sy_now s) (sy_now s) (sy_now s) (sy_pq s) = (res, pq') \<Longrightarrow>
    tidy_step s (s\<lparr>sy_pq := pq'\<rparr>)"
| tidy_acquire: "hostName host \<notin> set (queued_names (sy_pq s)) \<Longrightarrow>
    fmlookup (pq_processing (sy_pq s)) (hostName host) = None \<Longrightarrow>
    acquire_try host (sy_now s) (sy_pq s) = (granted, pq') \<Longrightarrow> tidy_step s (s\<lparr>sy_pq := pq'\<rparr>)"
| tidy_release: "fmlookup (pq_processing (sy_pq s)) (hostName host) = Some r \<Longrightarrow> \<not> pv_CancelFunc (pq_heap (sy_pq s) r) \<Longrightarrow>
    tidy_step s (s\<lparr>sy_pq := ReleaseBMCPermit host (sy_now s) (sy_pq s)\<rparr>)"

definition in_work :: "worker_state list \<Rightarrow> ref set" where
  "in_work ws = {r. Processing r \<in> set ws}"

definition operations :: "worker_state list \<Rightarrow> nat" where
  "operations ws = length (filter (\<lambda>x. case x of Processing r \<Rightarrow> True | _ \<Rightarrow> False) ws)"

text \<open>
  The invariant: waiting requests belong to different hosts, none of which is in processing; every
  operation has the entry of its host; different workers work on different requests; what waits or
  is worked on is a submitted request and allocated.
\<close>

definition distinct_work :: "worker_state list \<Rightarrow> bool" where
  "distinct_work ws \<longleftrightarrow> (\<forall>i < length ws. \<forall>j < length ws. \<forall>r. ws ! i = Processing r \<and> ws ! j = Processing r \<longrightarrow> i = j)"

definition tidy :: "system \<Rightarrow> bool" where
  "tidy s \<longleftrightarrow> (let pq = sy_pq s in
     distinct (queued_names pq) \<and> (\<forall>n \<in> set (queued_names pq). fmlookup (pq_processing pq) n = None) \<and>
     (\<forall>r \<in> in_work (sy_workers s). fmlookup (pq_processing pq) (request_name pq r) = Some r) \<and>
     distinct_work (sy_workers s) \<and>
     (\<forall>r \<in> set (pq_queue pq) \<union> in_work (sy_workers s). pv_CancelFunc (pq_heap pq r) \<and> r < pq_next pq))"

text \<open>Steps that keep the names and kinds of the allocated requests.\<close>

definition same_requests :: "ProvisioningQueue \<Rightarrow> ProvisioningQueue \<Rightarrow> bool" where
  "same_requests p q \<longleftrightarrow> pq_next p \<le> pq_next q \<and>
     (\<forall>r < pq_next p. pv_Host (pq_heap q r) = pv_Host (pq_heap p r) \<and> pv_CancelFunc (pq_heap q r) = pv_CancelFunc (pq_heap p r))"

lemma same_requests_update:
  "(\<And>req. pv_Host (f req) = pv_Host req \<and> pv_CancelFunc (f req) = pv_CancelFunc req) \<Longrightarrow> same_requests p (heap_update r f p)"
  by (simp add: same_requests_def heap_update_def)

lemma same_requests_alloc: "same_requests p (snd (alloc req p))"
  by (simp add: same_requests_def alloc_def)

text \<open>
  A shrinking queue and a table that keeps the entries of the workers keep the invariant.
\<close>

lemma tidy_keep:
  assumes "tidy s" and "same_requests (sy_pq s) pq'"
    and "\<exists>as bs cs. pq_queue (sy_pq s) = as @ bs @ cs \<and> pq_queue pq' = as @ cs"
    and "\<And>n. fmlookup (pq_processing (sy_pq s)) n = None \<Longrightarrow> fmlookup (pq_processing pq') n = None"
    and "\<And>r. r \<in> in_work ws \<Longrightarrow> r \<in> in_work (sy_workers s) \<and>
      fmlookup (pq_processing pq') (request_name (sy_pq s) r) = fmlookup (pq_processing (sy_pq s)) (request_name (sy_pq s) r)"
    and "distinct_work ws"
  shows "tidy (s\<lparr>sy_pq := pq', sy_workers := ws\<rparr>)"
proof -
  from assms(3) obtain as bs cs where q: "pq_queue (sy_pq s) = as @ bs @ cs" "pq_queue pq' = as @ cs" by blast
  have alloc: "r < pq_next (sy_pq s)" if "r \<in> set (pq_queue (sy_pq s)) \<union> in_work (sy_workers s)" for r
    using assms(1) that by (auto simp: tidy_def Let_def)
  then have name: "request_name pq' r = request_name (sy_pq s) r" "pv_CancelFunc (pq_heap pq' r) = pv_CancelFunc (pq_heap (sy_pq s) r)"
      "r < pq_next pq'" if "r \<in> set (pq_queue (sy_pq s)) \<union> in_work (sy_workers s)" for r
    using assms(2) that by (auto simp: same_requests_def request_name_def intro: less_le_trans)
  have names: "queued_names pq' = map (request_name (sy_pq s)) (as @ cs)"
    unfolding queued_names_def q(2) using name(1) q(1) by simp
  have "distinct (map (request_name (sy_pq s)) (as @ bs @ cs))"
    using assms(1) q(1) by (simp add: tidy_def queued_names_def Let_def)
  then have "distinct (queued_names pq')" unfolding names by auto
  moreover have "fmlookup (pq_processing pq') n = None" if "n \<in> set (queued_names pq')" for n
  proof (rule assms(4))
    from that names have "n \<in> set (map (request_name (sy_pq s)) (as @ cs))" by simp
    then have "n \<in> set (queued_names (sy_pq s))" by (auto simp: queued_names_def q(1))
    with assms(1) show "fmlookup (pq_processing (sy_pq s)) n = None" by (simp add: tidy_def Let_def)
  qed
  moreover have "fmlookup (pq_processing pq') (request_name pq' r) = Some r" if "r \<in> in_work ws" for r
    using assms(1) assms(5) [of r] that name(1) [of r] by (auto simp: tidy_def Let_def)
  moreover have "pv_CancelFunc (pq_heap pq' r) \<and> r < pq_next pq'" if "r \<in> set (pq_queue pq') \<union> in_work ws" for r
  proof -
    from that assms(5) q have r: "r \<in> set (pq_queue (sy_pq s)) \<union> in_work (sy_workers s)" by auto
    then have "pv_CancelFunc (pq_heap (sy_pq s) r)" using assms(1) by (auto simp: tidy_def Let_def)
    with name(2,3) [OF r] show ?thesis by simp
  qed
  ultimately show ?thesis using assms(6) by (simp add: tidy_def Let_def)
qed

lemma nth_upd: "(xs[i := x]) ! j = (if i = j \<and> j < length xs then x else xs ! j)"
  by (cases "i < length xs") (auto simp: nth_list_update list_update_beyond)

lemma in_work_update:
  assumes "\<And>r. x \<noteq> Processing r"
  shows "in_work (ws[i := x]) \<subseteq> in_work ws"
  using assms by (auto simp: in_work_def in_set_conv_nth nth_upd split: if_splits)

lemma distinct_work_update: "distinct_work ws \<Longrightarrow> (\<And>r. x \<noteq> Processing r) \<Longrightarrow> distinct_work (ws[i := x])"
  by (auto simp: distinct_work_def nth_upd split: if_splits)

lemma in_work_removed:
  assumes "distinct_work ws" and "i < length ws" and "ws ! i = Processing r" and "\<And>r. x \<noteq> Processing r"
  shows "r \<notin> in_work (ws[i := x])"
  using assms by (auto simp: in_work_def distinct_work_def in_set_conv_nth nth_upd split: if_splits)

lemma in_work_added: "i < length ws \<Longrightarrow> in_work (ws[i := Processing r]) \<subseteq> insert r (in_work ws)"
  by (auto simp: in_work_def in_set_conv_nth nth_upd split: if_splits)

lemma distinct_work_added:
  assumes "distinct_work ws" and "r \<notin> in_work ws"
  shows "distinct_work (ws[i := Processing r])"
proof -
  have "ws ! j \<noteq> Processing r" if "j < length ws" for j using assms(2) that by (auto simp: in_work_def in_set_conv_nth)
  with assms(1) show ?thesis by (auto simp: distinct_work_def nth_upd split: if_splits)
qed

lemmas work_updates = in_work_update distinct_work_update in_work_removed

lemma tidy_parts:
  assumes "tidy s"
  shows "distinct (queued_names (sy_pq s))"
    and "n \<in> set (queued_names (sy_pq s)) \<Longrightarrow> fmlookup (pq_processing (sy_pq s)) n = None"
    and "r \<in> in_work (sy_workers s) \<Longrightarrow> fmlookup (pq_processing (sy_pq s)) (request_name (sy_pq s) r) = Some r"
    and "distinct_work (sy_workers s)"
    and "r \<in> set (pq_queue (sy_pq s)) \<union> in_work (sy_workers s) \<Longrightarrow> pv_CancelFunc (pq_heap (sy_pq s) r) \<and> r < pq_next (sy_pq s)"
  using assms by (auto simp: tidy_def Let_def)

text \<open>Only the requests and the queue change: cancelling, waiting, completing, stopping.\<close>

lemma tidy_keep_table:
  assumes "tidy s" and "same_requests (sy_pq s) pq'" and "pq_processing pq' = pq_processing (sy_pq s)"
    and "\<exists>as bs cs. pq_queue (sy_pq s) = as @ bs @ cs \<and> pq_queue pq' = as @ cs"
    and "in_work ws \<subseteq> in_work (sy_workers s)" and "distinct_work ws"
  shows "tidy (s\<lparr>sy_pq := pq', sy_workers := ws\<rparr>)"
  by (rule tidy_keep [OF assms(1,2,4)]) (use assms(3,5,6) in auto)

lemma queue_same: "\<exists>as bs cs. q = as @ bs @ cs \<and> q = as @ cs"
  by (rule exI [of _ q], rule exI [of _ "[]"], rule exI [of _ "[]"]) simp

lemma same_requests_refl: "same_requests p p"
  by (simp add: same_requests_def)

lemma call_cancel_same: "call_cancel r pq = Inr pq' \<Longrightarrow> same_requests pq pq' \<and> pq_processing pq' = pq_processing pq \<and> pq_queue pq' = pq_queue pq"
  by (auto simp: call_cancel_def intro!: same_requests_update split: if_splits)

lemma cancel_queued_same:
  "cancel_queued i before rs pq = Some (Inr pq') \<Longrightarrow> same_requests pq pq'"
  by (induction rs arbitrary: before)
    (auto dest!: call_cancel_same simp: same_requests_def split: if_splits sum.splits)

lemma cancel_processing_same:
  "cancel_processing i rs pq = Some (Inr pq') \<Longrightarrow> same_requests pq pq'"
  by (induction rs) (auto dest: call_cancel_same split: if_splits)

lemma CancelRequest_same:
  assumes "CancelRequest i order pq = Inr (found, pq')"
  shows "same_requests pq pq' \<and> pq_processing pq' = pq_processing pq \<and>
    (\<exists>as bs cs. pq_queue pq = as @ bs @ cs \<and> pq_queue pq' = as @ cs)"
proof (cases "cancel_queued i [] (pq_queue pq) pq")
  case None
  with assms have "pq' = pq \<or> cancel_processing i order pq = Some (Inr pq')"
    by (auto simp: CancelRequest_def split: option.splits sum.splits)
  then show ?thesis
    using cancel_processing_same cancel_processing_frame same_requests_refl queue_same by metis
next
  case (Some c)
  with assms have c: "cancel_queued i [] (pq_queue pq) pq = Some (Inr pq')"
    by (auto simp: CancelRequest_def split: option.splits sum.splits)
  from cancel_queued_frame [OF this] obtain r after skipped where "pq_queue pq = skipped @ [r] @ after"
      "pq_queue pq' = skipped @ after" "pq_processing pq' = pq_processing pq" by auto
  with cancel_queued_same [OF c] show ?thesis by blast
qed

lemma tidy_take:
  assumes t: "tidy s" and i: "i < length (sy_workers s)"
    and g: "getNextRequest clock now (sy_pq s) = (Some r, pq')"
  shows "tidy (s\<lparr>sy_pq := pq', sy_workers := (sy_workers s)[i := Processing r]\<rparr>)"
proof -
  let ?pq = "sy_pq s" and ?n = "request_name (sy_pq s) r" and ?ws = "(sy_workers s)[i := Processing r]"
  from g obtain rest where n: "next_scan ?pq clock [] (pq_queue ?pq) = Some (r, rest)"
      and pq': "pq' = heap_update r (\<lambda>req. req\<lparr>pv_StartedAt := Some now\<rparr>)
            (?pq\<lparr>pq_queue := rest, pq_processing := fmupd ?n r (pq_processing ?pq)\<rparr>)"
    by (auto simp: getNextRequest_def request_name_def split: if_splits option.splits)
  from next_scan_split [OF n] obtain before after where q: "pq_queue ?pq = before @ r # after" "rest = before @ after"
    by auto
  have name: "request_name pq' x = request_name ?pq x" "pv_CancelFunc (pq_heap pq' x) = pv_CancelFunc (pq_heap ?pq x)" for x
    by (simp_all add: pq' request_name_def heap_update_def)
  have queue: "pq_queue pq' = before @ after" and table: "pq_processing pq' = fmupd ?n r (pq_processing ?pq)"
      and next_ref: "pq_next pq' = pq_next ?pq"
    by (simp_all add: pq' q)
  have names: "queued_names ?pq = map (request_name ?pq) before @ ?n # map (request_name ?pq) after"
      "queued_names pq' = map (request_name ?pq) (before @ after)"
    by (simp_all add: queued_names_def q(1) queue name)
  from tidy_parts(1,2) [OF t] names have d: "distinct (queued_names pq')" "?n \<notin> set (queued_names pq')"
      "\<And>m. m \<in> set (queued_names pq') \<Longrightarrow> fmlookup (pq_processing ?pq) m = None" "fmlookup (pq_processing ?pq) ?n = None"
    by auto
  have new: "r \<notin> in_work (sy_workers s)" using tidy_parts(3) [OF t, of r] d(4) by auto
  have "fmlookup (pq_processing pq') (request_name pq' x) = Some x" if "x \<in> in_work ?ws" for x
  proof (cases "x = r")
    case False
    with that in_work_added [OF i] have "x \<in> in_work (sy_workers s)" by auto
    with tidy_parts(3) [OF t this] d(4) show ?thesis by (auto simp: table name)
  qed (simp add: table name)
  moreover have "pv_CancelFunc (pq_heap pq' x) \<and> x < pq_next pq'" if "x \<in> set (pq_queue pq') \<union> in_work ?ws" for x
  proof -
    have "x \<in> set (pq_queue ?pq) \<union> in_work (sy_workers s)"
      using that in_work_added [OF i, of r] q by (auto simp: queue)
    from tidy_parts(5) [OF t this] show ?thesis by (simp add: name next_ref)
  qed
  moreover have "fmlookup (pq_processing pq') m = None" if "m \<in> set (queued_names pq')" for m
    using d(2,3) that by (auto simp: table)
  ultimately show ?thesis
    using d(1) distinct_work_added [OF tidy_parts(4) [OF t] new] by (simp add: tidy_def Let_def)
qed

lemma tidy_finish:
  assumes t: "tidy s" and i: "i < length (sy_workers s)" and p: "sy_workers s ! i = Processing r"
  shows "tidy (s\<lparr>sy_pq := finish_section r now (sy_pq s), sy_workers := (sy_workers s)[i := Completing r result]\<rparr>)"
proof (rule tidy_keep [OF t])
  let ?ws = "(sy_workers s)[i := Completing r result]"
  have r: "r \<in> in_work (sy_workers s)" using i p by (auto simp: in_work_def in_set_conv_nth)
  show "same_requests (sy_pq s) (finish_section r now (sy_pq s))"
    by (simp add: same_requests_def finish_section_def Let_def)
  show "distinct_work ?ws" by (rule distinct_work_update [OF tidy_parts(4) [OF t]]) simp
  fix x assume "x \<in> in_work ?ws"
  moreover have "r \<notin> in_work ?ws" by (rule in_work_removed [OF tidy_parts(4) [OF t] i p]) simp
  ultimately have x: "x \<in> in_work (sy_workers s)" "x \<noteq> r" using in_work_update [of "Completing r result" "sy_workers s" i] by auto
  then have "request_name (sy_pq s) x \<noteq> request_name (sy_pq s) r"
    using tidy_parts(3) [OF t x(1)] tidy_parts(3) [OF t r] by auto
  with x show "x \<in> in_work (sy_workers s) \<and> fmlookup (pq_processing (finish_section r now (sy_pq s))) (request_name (sy_pq s) x) =
      fmlookup (pq_processing (sy_pq s)) (request_name (sy_pq s) x)"
    by (simp add: finish_section_def request_name_def Let_def)
qed (auto simp: finish_section_def Let_def intro: queue_same)

lemma tidy_worker_step: "worker_step s s' \<Longrightarrow> tidy s \<Longrightarrow> tidy s'"
proof (induction rule: worker_step.induct)
  case (tick s t)
  then show ?case by (simp add: tidy_def)
next
  case (quit i s ctx_done)
  then have "tidy (s\<lparr>sy_pq := sy_pq s, sy_workers := (sy_workers s)[i := Exited]\<rparr>)"
    by (intro tidy_keep_table same_requests_refl queue_same in_work_update distinct_work_update tidy_parts(4)) auto
  then show ?case by simp
next
  case (complete i s r result branch parent_done)
  then show ?case
    by (intro tidy_keep_table in_work_update distinct_work_update tidy_parts(4))
      (auto simp: complete_request_def intro!: same_requests_update queue_same)
next
  case (cancel i order s found pq')
  from CancelRequest_same [OF cancel(1)] tidy_keep_table [OF cancel(2), of pq' "sy_workers s"] tidy_parts(4) [OF cancel(2)]
  show ?case by auto
next
  case (wait res pq' r timeout ctx_done ctx_err timed_out s)
  then have "same_requests (sy_pq s) pq' \<and> pq_processing pq' = pq_processing (sy_pq s) \<and> pq_queue pq' = pq_queue (sy_pq s)"
    by (auto simp: WaitForResult_def intro!: same_requests_update same_requests_refl split: option.splits if_splits)
  with tidy_keep_table [OF wait(2), of pq' "sy_workers s"] tidy_parts(4) [OF wait(2)] queue_same [of "pq_queue (sy_pq s)"]
  show ?case by auto
next
  case (stop s pq')
  then have "same_requests (sy_pq s) pq' \<and> pq_processing pq' = pq_processing (sy_pq s) \<and> pq_queue pq' = pq_queue (sy_pq s)"
    by (auto simp: Stop_def same_requests_def split: if_splits)
  with tidy_keep_table [OF stop(2), of pq' "sy_workers s"] tidy_parts(4) [OF stop(2)] queue_same [of "pq_queue (sy_pq s)"]
  show ?case by auto
qed (auto intro: tidy_take tidy_finish)

lemma tidy_submitted:
  assumes t: "tidy s" and fresh: "hostName host \<notin> set (queued_names (sy_pq s))"
    and sub: "SubmitRequest host machine operation t1 t2 t3 (sy_pq s) = (res, pq')"
  shows "tidy (s\<lparr>sy_pq := pq'\<rparr>)"
proof (cases "pq' = sy_pq s")
  case False
  let ?pq = "sy_pq s" and ?req = "new_request (sy_pq s) host machine operation t1 t2 t3"
  from sub False have idle: "fmlookup (pq_processing ?pq) (hostName host) = None"
      and pq': "pq' = ?pq\<lparr>pq_heap := (pq_heap ?pq)(pq_next ?pq := ?req), pq_next := pq_next ?pq + 1, pq_queue := pq_queue ?pq @ [pq_next ?pq]\<rparr>"
    by (auto simp: SubmitRequest_def alloc_def Let_def split: if_splits option.splits)
  have old: "request_name pq' x = request_name ?pq x" "pq_heap pq' x = pq_heap ?pq x" if "x < pq_next ?pq" for x
    using that by (simp_all add: pq' request_name_def)
  have new: "request_name pq' (pq_next ?pq) = hostName host" "pv_CancelFunc (pq_heap pq' (pq_next ?pq))"
    by (simp_all add: pq' request_name_def new_request_def)
  have queue: "pq_queue pq' = pq_queue ?pq @ [pq_next ?pq]" by (simp add: pq')
  have "map (request_name pq') (pq_queue ?pq) = queued_names ?pq"
    using old(1) tidy_parts(5) [OF t] by (auto simp: queued_names_def)
  then have names: "queued_names pq' = queued_names ?pq @ [hostName host]"
    by (simp add: queued_names_def [of pq'] queue new(1))
  have "\<forall>r \<in> in_work (sy_workers s). fmlookup (pq_processing pq') (request_name pq' r) = Some r"
    using tidy_parts(3,5) [OF t] old(1) by (auto simp: pq')
  moreover have "\<forall>r \<in> set (pq_queue pq') \<union> in_work (sy_workers s). pv_CancelFunc (pq_heap pq' r) \<and> r < pq_next pq'"
    using tidy_parts(5) [OF t] new(2) by (auto simp: pq' less_Suc_eq)
  ultimately show ?thesis
    using tidy_parts(1,2,4) [OF t] fresh idle names by (auto simp: tidy_def Let_def pq')
qed (use t in simp)

lemma tidy_acquired:
  assumes t: "tidy s" and fresh: "hostName host \<notin> set (queued_names (sy_pq s))"
    and idle: "fmlookup (pq_processing (sy_pq s)) (hostName host) = None"
    and acq: "acquire_try host now (sy_pq s) = (granted, pq')"
  shows "tidy (s\<lparr>sy_pq := pq'\<rparr>)"
proof (cases "pq' = sy_pq s")
  case False
  let ?pq = "sy_pq s"
  from acq False idle have pq': "pq' = ?pq\<lparr>pq_heap := (pq_heap ?pq)(pq_next ?pq := permit_request host), pq_next := pq_next ?pq + 1,
      pq_processing := fmupd (hostName host) (pq_next ?pq) (pq_processing ?pq)\<rparr>"
    by (auto simp: acquire_try_def alloc_def Let_def split: if_splits)
  have old: "request_name pq' x = request_name ?pq x" "pq_heap pq' x = pq_heap ?pq x" if "x < pq_next ?pq" for x
    using that by (simp_all add: pq' request_name_def)
  have names: "queued_names pq' = queued_names ?pq"
    using old(1) tidy_parts(5) [OF t] by (auto simp: queued_names_def pq')
  have table: "pq_processing pq' = fmupd (hostName host) (pq_next ?pq) (pq_processing ?pq)" by (simp add: pq')
  have "fmlookup (pq_processing pq') (request_name pq' r) = Some r" if "r \<in> in_work (sy_workers s)" for r
    using tidy_parts(3) [OF t that] tidy_parts(5) [OF t, of r] that old(1) [of r] idle by (auto simp: table)
  moreover have "pv_CancelFunc (pq_heap pq' r) \<and> r < pq_next pq'" if "r \<in> set (pq_queue pq') \<union> in_work (sy_workers s)" for r
    using tidy_parts(5) [OF t, of r] that old(2) [of r] by (auto simp: pq')
  moreover have "fmlookup (pq_processing pq') n = None" if "n \<in> set (queued_names pq')" for n
    using tidy_parts(2) [OF t, of n] that fresh by (auto simp: names table)
  ultimately show ?thesis
    using tidy_parts(1,4) [OF t] by (simp add: tidy_def Let_def names)
qed (use t in simp)

lemma tidy_released:
  assumes t: "tidy s" and "fmlookup (pq_processing (sy_pq s)) (hostName host) = Some r" "\<not> pv_CancelFunc (pq_heap (sy_pq s) r)"
  shows "tidy (s\<lparr>sy_pq := ReleaseBMCPermit host now (sy_pq s)\<rparr>)"
proof -
  have "tidy (s\<lparr>sy_pq := ReleaseBMCPermit host now (sy_pq s), sy_workers := sy_workers s\<rparr>)"
  proof (rule tidy_keep [OF t])
    fix x assume x: "x \<in> in_work (sy_workers s)"
    have "request_name (sy_pq s) x \<noteq> hostName host"
      using tidy_parts(3) [OF t x] tidy_parts(5) [OF t, of x] x assms(2,3) by auto
    with x show "x \<in> in_work (sy_workers s) \<and> fmlookup (pq_processing (ReleaseBMCPermit host now (sy_pq s))) (request_name (sy_pq s) x) =
        fmlookup (pq_processing (sy_pq s)) (request_name (sy_pq s) x)"
      by (simp add: ReleaseBMCPermit_def)
  qed (auto simp: ReleaseBMCPermit_def same_requests_def intro: queue_same tidy_parts(4) [OF t])
  then show ?thesis by simp
qed

lemma tidy_tidy_step: "tidy_step s s' \<Longrightarrow> tidy s \<Longrightarrow> tidy s'"
  by (induction rule: tidy_step.induct) (blast intro: tidy_worker_step tidy_submitted tidy_acquired tidy_released)+

lemma tidy_step_pq_step: "tidy_step s s' \<Longrightarrow> pq_step s s'"
  by (induction rule: tidy_step.induct) (blast intro: pq_step.intros)+

lemma tidy_initial: "tidy (initial h c q n t)"
  by (auto simp: tidy_def initial_def NewProvisioningQueue_def queued_names_def in_work_def distinct_work_def Let_def)

lemma operations_le_in_work:
  assumes "distinct_work ws"
  shows "operations ws \<le> card (in_work ws)"
proof -
  let ?I = "{i. i < length ws \<and> (case ws ! i of Processing r \<Rightarrow> True | _ \<Rightarrow> False)}"
  let ?f = "\<lambda>i. case ws ! i of Processing r \<Rightarrow> r | _ \<Rightarrow> 0"
  have fin: "finite (in_work ws)"
    by (rule finite_subset [of _ "(\<lambda>x. case x of Processing r \<Rightarrow> r | _ \<Rightarrow> 0) ` set ws"])
      (force simp: in_work_def image_iff)+
  have "inj_on ?f ?I"
    using assms by (auto simp: inj_on_def distinct_work_def split: worker_state.splits)
  moreover have "?f ` ?I \<subseteq> in_work ws"
    by (force simp: in_work_def in_set_conv_nth split: worker_state.splits)
  ultimately have "card ?I \<le> card (in_work ws)" using fin by (rule card_inj_on_le)
  then show ?thesis by (simp add: operations_def length_filter_conv_card)
qed

lemma tidy_operations:
  assumes "tidy s"
  shows "operations (sy_workers s) \<le> processing_count (sy_pq s)"
proof -
  let ?name = "request_name (sy_pq s)"
  have "inj_on ?name (in_work (sy_workers s))"
    using tidy_parts(3) [OF assms] by (metis (no_types, lifting) inj_onI option.inject)
  moreover have "?name ` in_work (sy_workers s) \<subseteq> fset (fmdom (pq_processing (sy_pq s)))"
    using tidy_parts(3) [OF assms] by (auto intro: fmdomI)
  ultimately have "card (in_work (sy_workers s)) \<le> card (fset (fmdom (pq_processing (sy_pq s))))"
    by (rule card_inj_on_le) simp
  with operations_le_in_work [OF tidy_parts(4) [OF assms]] show ?thesis
    by (simp add: processing_count_def fcard.rep_eq)
qed

text \<open>
  C10. With disciplined callers the limit holds for the operations themselves. If callers never submit a request
  for a host that has one waiting, take a permit only for a host with nothing waiting and no entry in
  processing, and give back a permit only for a host whose entry is a permit and not a submitted request, then at
  most \<open>c\<close> workers operate at the same time, however the steps of the callers and workers interleave.
\<close>

theorem disciplined_operations_bounded:
  assumes "tidy_step\<^sup>*\<^sup>* (initial h c q n t) s"
  shows "int (operations (sy_workers s)) \<le> max 0 (sint c)"
proof -
  from assms have "tidy s \<and> bounded (sy_pq s) \<and> same_limits (sy_pq (initial h c q n t)) (sy_pq s)"
  proof (induction rule: rtranclp_induct)
    case (step y z)
    then show ?case using tidy_tidy_step tidy_step_pq_step pq_step_bounded same_limits_trans by blast
  qed (simp add: tidy_initial initial_bounded)
  then have "tidy s" "bounded (sy_pq s)" "pq_maxConcurrentOps (sy_pq s) = c"
    by (auto simp: same_limits_def initial_def NewProvisioningQueue_def)
  with tidy_operations [of s] show ?thesis by (auto simp: bounded_def)
qed

theorem disciplined_operations_bounded_witness:
  "let s1 = sample_submit (initial sample_heap 1 10 2 0); s2 = sample_take 0 s1
   in operations (sy_workers s2) = 1 \<and> int (operations (sy_workers s2)) \<le> max 0 (sint (1 :: goint))"
proof -
  define s0 where "s0 = initial sample_heap 1 10 2 0"
  define s1 where "s1 = sample_submit s0"
  define s2 where "s2 = sample_take 0 s1"
  have e1: "sy_workers s1 = [Idle, Idle]" "pq_queue (sy_pq s1) = [0]" "pq_lastBMCOperation (sy_pq s1) = Map.empty"
      "int (processing_count (sy_pq s1)) < sint (pq_maxConcurrentOps (sy_pq s1))"
    by (simp_all add: s1_def s0_def sample_submit_def initial_def NewProvisioningQueue_def SubmitRequest_def alloc_def
        processing_count_def fcard.rep_eq numeral_2_eq_2)
  note t2 = sample_take_first [OF e1(2-4)]
  obtain pq' where "getNextRequest (\<lambda>_. sy_now s1) (sy_now s1) (sy_pq s1) = (Some 0, pq')"
    using t2(1) by (metis prod.collapse)
  then have "worker_step s1 s2"
    using worker_step.take [of 0 s1] e1(1) by (simp add: s2_def sample_take_def)
  moreover have "tidy_step s0 s1"
    unfolding s1_def sample_submit_def
    by (rule tidy_submit [OF _ prod.collapse [symmetric]]) (simp add: s0_def initial_def NewProvisioningQueue_def queued_names_def)
  ultimately have "tidy_step\<^sup>*\<^sup>* (initial sample_heap 1 10 2 0) s2"
    unfolding s0_def [symmetric] by (meson rtranclp.rtrancl_into_rtrancl rtranclp.rtrancl_refl tidy_internal)
  note disciplined_operations_bounded [OF this]
  moreover have "operations (sy_workers s2) = 1"
    using t2(6) [of 0] e1(1) by (simp add: s2_def operations_def)
  ultimately show ?thesis unfolding s2_def s1_def s0_def by (simp only: Let_def simp_thms)
qed

section \<open>Order and cooldown\<close>

text \<open>
  C24. The next request is the first one whose BMC has cooled down: the requests before it are all
  cooling down and stay where they are, the entry of its host points to it and it is marked started.
  Nothing is returned exactly when the table is full or every waiting request is cooling down, and
  then nothing changes.
\<close>

theorem getNextRequest_first_eligible:
  "case getNextRequest clock now pq of
     (Some r, pq') \<Rightarrow> int (processing_count pq) < sint (pq_maxConcurrentOps pq) \<and>
       (\<exists>before after. pq_queue pq = before @ r # after \<and> pq_queue pq' = before @ after \<and>
          (\<forall>j < length before. \<not> cooled_down pq (bmcAddress (pv_Host (pq_heap pq (before ! j)))) (clock j)) \<and>
          cooled_down pq (bmcAddress (pv_Host (pq_heap pq r))) (clock (length before))) \<and>
       pq_processing pq' = fmupd (hostName (pv_Host (pq_heap pq r))) r (pq_processing pq) \<and>
       pv_StartedAt (pq_heap pq' r) = Some now
   | (None, pq') \<Rightarrow> pq' = pq \<and> (int (processing_count pq) \<ge> sint (pq_maxConcurrentOps pq) \<or>
       (\<forall>j < length (pq_queue pq). \<not> cooled_down pq (bmcAddress (pv_Host (pq_heap pq (pq_queue pq ! j)))) (clock j)))"
proof (cases "int (processing_count pq) \<ge> sint (pq_maxConcurrentOps pq)")
  case True
  then show ?thesis by (simp add: getNextRequest_def)
next
  case False
  show ?thesis
  proof (cases "next_scan pq clock [] (pq_queue pq)")
    case None
    then have "\<forall>j < length (pq_queue pq). \<not> cooled_down pq (bmcAddress (pv_Host (pq_heap pq (pq_queue pq ! j)))) (clock j)"
      by (simp add: next_scan_None)
    with False None show ?thesis by (simp add: getNextRequest_def)
  next
    case (Some x)
    obtain r rest where x: "x = (r, rest)" by (cases x)
    from next_scan_split [OF Some [unfolded x]] False Some x show ?thesis
      by (auto simp: getNextRequest_def heap_update_def)
  qed
qed

theorem getNextRequest_first_eligible_witness:
  "fst (getNextRequest (\<lambda>_. 0) 0 (sy_pq (sample_submit (initial sample_heap 1 10 2 0)))) = Some 0"
proof -
  define pq where "pq = sy_pq (sample_submit (initial sample_heap 1 10 2 0))"
  have e: "pq_queue pq = [0]" "pq_lastBMCOperation pq = Map.empty" "\<not> int (processing_count pq) \<ge> sint (pq_maxConcurrentOps pq)"
    by (simp_all add: pq_def sample_submit_def initial_def NewProvisioningQueue_def SubmitRequest_def alloc_def
        processing_count_def fcard.rep_eq)
  obtain x pq' where g: "getNextRequest (\<lambda>_. 0) 0 pq = (x, pq')" by (cases "getNextRequest (\<lambda>_. 0) 0 pq")
  from getNextRequest_first_eligible [where clock = "\<lambda>_. 0" and now = 0 and pq = pq] e g have "x = Some 0"
    by (cases x) (auto simp: cooled_down_def Cons_eq_append_conv)
  with g show ?thesis by (simp add: pq_def)
qed

lemma cooled_down_exact:
  assumes "pq_bmcCooldownPeriod pq = 10 * second"
  shows "cooled_down pq addr now \<longleftrightarrow> (\<forall>t. pq_lastBMCOperation pq addr = Some t \<longrightarrow> now - t \<ge> 10 * second)"
proof -
  have "10 * second \<le> time_Sub now t \<longleftrightarrow> 10 * second \<le> now - t" for t
    using time_Sub_lt [of "10 * second" now t] by (auto simp: minDuration_def maxDuration_def not_less [symmetric])
  with assms show ?thesis by (auto simp: cooled_down_def split: option.splits)
qed

lemma runs_keep_cooldown:
  "pq_step\<^sup>*\<^sup>* (initial h c q n t) s \<Longrightarrow> bounded (sy_pq s) \<and> pq_bmcCooldownPeriod (sy_pq s) = 10 * second"
proof (induction rule: rtranclp_induct)
  case (step y z)
  then show ?case using pq_step_bounded [of y z] by (auto simp: same_limits_def)
qed (simp add: initial_bounded, simp add: initial_def NewProvisioningQueue_def)

text \<open>
  The end of a use of the BMC at an address: a worker gives back the slot of a request, or a caller a permit.
\<close>

definition use_ended :: "string \<Rightarrow> system \<Rightarrow> system \<Rightarrow> bool" where
  "use_ended addr s s' \<longleftrightarrow>
     (\<exists>i < length (sy_workers s). \<exists>r result. sy_workers s ! i = Processing r \<and> sy_workers s' ! i = Completing r result \<and>
        pq_step s s' \<and> bmcAddress (pv_Host (pq_heap (sy_pq s) r)) = addr) \<or>
     (\<exists>host. bmcAddress host = addr \<and> s' = s\<lparr>sy_pq := ReleaseBMCPermit host (sy_now s) (sy_pq s)\<rparr>)"

text \<open>The recorded time of the last operation is never forgotten and never earlier than a time recorded before.\<close>

definition last_use_from :: "string \<Rightarrow> Time \<Rightarrow> system \<Rightarrow> bool" where
  "last_use_from addr t s \<longleftrightarrow> t \<le> sy_now s \<and> (\<exists>u \<ge> t. pq_lastBMCOperation (sy_pq s) addr = Some u)"

lemma use_ended_recorded:
  assumes "use_ended addr s s'"
  shows "last_use_from addr (sy_now s) s'"
  using assms unfolding use_ended_def
proof (elim disjE exE conjE)
  fix i r result
  assume "i < length (sy_workers s)" "sy_workers s ! i = Processing r" "sy_workers s' ! i = Completing r result" "pq_step s s'"
    "bmcAddress (pv_Host (pq_heap (sy_pq s) r)) = addr"
  then show ?thesis
    by (elim pq_step_cases worker_step_cases) (auto simp: nth_upd last_use_from_def finish_section_def Let_def split: if_splits)
qed (auto simp: last_use_from_def ReleaseBMCPermit_def)

lemma last_use_kept:
  "getNextRequest clock now pq = (x, pq') \<Longrightarrow> pq_lastBMCOperation pq' = pq_lastBMCOperation pq"
  "SubmitRequest host machine operation t1 t2 t3 pq = (res, pq') \<Longrightarrow> pq_lastBMCOperation pq' = pq_lastBMCOperation pq"
  "acquire_try host now pq = (granted, pq') \<Longrightarrow> pq_lastBMCOperation pq' = pq_lastBMCOperation pq"
  "pq_lastBMCOperation (complete_request r result now branch pq) = pq_lastBMCOperation pq"
  "Stop pq = Inr pq' \<Longrightarrow> pq_lastBMCOperation pq' = pq_lastBMCOperation pq"
  "(res', pq') \<in> set (WaitForResult r timeout ctx_done ctx_err timed_out pq) \<Longrightarrow> pq_lastBMCOperation pq' = pq_lastBMCOperation pq"
  by (auto simp: getNextRequest_def SubmitRequest_def acquire_try_def alloc_def complete_request_def Stop_def WaitForResult_def Let_def
      split: if_splits option.splits prod.splits send_branch.splits)

lemma last_use_cancel: "CancelRequest i order pq = Inr (found, pq') \<Longrightarrow> pq_lastBMCOperation pq' = pq_lastBMCOperation pq"
  using CancelRequest_frame by blast

lemma last_use_step:
  assumes "pq_step s s'" and "last_use_from addr t s"
  shows "last_use_from addr t s'"
  using assms
  by (elim pq_step_cases worker_step_cases)
    (auto simp: last_use_from_def last_use_kept(4) finish_section_def ReleaseBMCPermit_def Let_def
      dest!: last_use_kept(1-3,5,6) last_use_cancel)

lemma last_use_run: "pq_step\<^sup>*\<^sup>* s s' \<Longrightarrow> last_use_from addr t s \<Longrightarrow> last_use_from addr t s'"
  by (induction rule: rtranclp_induct) (auto intro: last_use_step)

lemma taken_cooled_down:
  assumes "pq_step s s'" and "i < length (sy_workers s)" and "sy_workers s ! i = Idle" and "sy_workers s' ! i = Processing r"
  shows "cooled_down (sy_pq s) (bmcAddress (pv_Host (pq_heap (sy_pq s) r))) (sy_now s)"
proof -
  have "\<exists>pq'. getNextRequest (\<lambda>_. sy_now s) (sy_now s) (sy_pq s) = (Some r, pq')"
    using assms by (elim pq_step_cases worker_step_cases) (auto simp: nth_upd split: if_splits)
  then obtain pq' where "getNextRequest (\<lambda>_. sy_now s) (sy_now s) (sy_pq s) = (Some r, pq')" ..
  then obtain rest where "next_scan (sy_pq s) (\<lambda>_. sy_now s) [] (pq_queue (sy_pq s)) = Some (r, rest)"
    by (auto simp: getNextRequest_def split: if_splits option.splits)
  from next_scan_split [OF this] show ?thesis by auto
qed

text \<open>
  C23. Workers keep the cooldown after every use of a BMC that has ended: in every run, when a worker takes up a request at
  least ten seconds have passed since any worker gave back the slot of a request for the same BMC address, and since
  any caller gave back a permit for it. Uses that have not ended are not covered: requests of several hosts behind one BMC, or
  submitted repeatedly for one host, may run at once.
\<close>

theorem workers_respect_cooldown:
  assumes "pq_step\<^sup>*\<^sup>* (initial h c q n t) s0" and "use_ended addr s0 s1" and "pq_step\<^sup>*\<^sup>* s1 s"
    and "pq_step s s'" and "i < length (sy_workers s)" and "sy_workers s ! i = Idle" and "sy_workers s' ! i = Processing r"
    and "bmcAddress (pv_Host (pq_heap (sy_pq s) r)) = addr"
  shows "sy_now s - sy_now s0 \<ge> 10 * second"
proof -
  have "pq_step s0 s1" using assms(2) by (auto simp: use_ended_def intro: pq_step.release)
  with assms(1,3) have "pq_step\<^sup>*\<^sup>* (initial h c q n t) s" by (meson rtranclp.rtrancl_into_rtrancl rtranclp_trans)
  from cooled_down_exact [OF conjunct2 [OF runs_keep_cooldown [OF this]], of addr "sy_now s"] taken_cooled_down [OF assms(4-7)] assms(8)
  have "pq_lastBMCOperation (sy_pq s) addr = Some u \<Longrightarrow> sy_now s - u \<ge> 10 * second" for u by simp
  with last_use_run [OF assms(3) use_ended_recorded [OF assms(2)]] show ?thesis by (force simp: last_use_from_def)
qed

theorem workers_respect_cooldown_witness:
  "let host = sample_host ''h1'' [] None StateInUse; s0 = initial sample_heap 1 10 1 0;
       s1 = s0\<lparr>sy_pq := ReleaseBMCPermit host (sy_now s0) (sy_pq s0)\<rparr>; s2 = s1\<lparr>sy_now := 12 * second\<rparr>; s3 = sample_submit s2
   in sy_workers (sample_take 0 s3) = [Processing 0] \<and> sy_now s3 - 0 \<ge> 10 * second"
proof -
  let ?host = "sample_host ''h1'' [] None StateInUse"
  define s0 where "s0 = initial sample_heap 1 10 1 0"
  define s1 where "s1 = s0\<lparr>sy_pq := ReleaseBMCPermit ?host (sy_now s0) (sy_pq s0)\<rparr>"
  define s2 where "s2 = s1\<lparr>sy_now := 12 * second\<rparr>"
  define s3 where "s3 = sample_submit s2"
  have now: "sy_now s2 = 12 * second" by (simp add: s2_def)
  have "pq_step s0 s1" "pq_step s1 s2" "pq_step s2 s3"
    unfolding s1_def s2_def s3_def
    by (rule pq_step.release, rule pq_step.internal, rule worker_step.tick)
      (simp_all add: s0_def initial_def sample_submit_step)
  then have run: "pq_step\<^sup>*\<^sup>* s1 s3" by (meson rtranclp.rtrancl_into_rtrancl rtranclp.rtrancl_refl)
  have e: "sy_workers s3 = [Idle]" "pq_queue (sy_pq s3) = [0]" "pv_Host (pq_heap (sy_pq s3) 0) = ?host"
      "pq_lastBMCOperation (sy_pq s3) (bmcAddress ?host) = Some 0" "sy_now s3 = 12 * second"
      "int (processing_count (sy_pq s3)) < sint (pq_maxConcurrentOps (sy_pq s3))" "pq_bmcCooldownPeriod (sy_pq s3) = 10 * second"
    by (simp_all add: s3_def s2_def s1_def s0_def sample_submit_def initial_def NewProvisioningQueue_def SubmitRequest_def
        ReleaseBMCPermit_def alloc_def new_request_def processing_count_def fcard.rep_eq)
  have "cooled_down (sy_pq s3) (bmcAddress ?host) (sy_now s3)"
    using cooled_down_exact [OF e(7)] e(4,5) by simp
  with e have g: "fst (getNextRequest (\<lambda>_. sy_now s3) (sy_now s3) (sy_pq s3)) = Some 0"
    by (simp add: getNextRequest_def)
  then have w: "sy_workers (sample_take 0 s3) = [Processing 0]"
    using e(1) by (cases "getNextRequest (\<lambda>_. sy_now s3) (sy_now s3) (sy_pq s3)") (simp add: sample_take_def)
  have take: "pq_step s3 (sample_take 0 s3)" by (rule sample_take_step) (use e(1) g in simp_all)
  have ended: "use_ended (bmcAddress ?host) s0 s1" unfolding use_ended_def s1_def by blast
  have "pq_step\<^sup>*\<^sup>* (initial sample_heap 1 10 1 0) s0" by (simp add: s0_def)
  from workers_respect_cooldown [OF this ended run take, of 0 0] e w have "sy_now s3 - sy_now s0 \<ge> 10 * second" by simp
  then have "sy_now s3 - 0 \<ge> 10 * second" by (simp add: s0_def initial_def)
  with w show ?thesis unfolding s3_def s2_def s1_def s0_def Let_def by blast
qed

text \<open>
  A permit is granted exactly when the host already has an entry, or there is room and its BMC
  has rested; a granted permit stays granted: asking again for the same host succeeds at once, from
  any caller, and one release ends it for all of them and starts the cooldown.
\<close>

theorem permit_is_reentrant:
  assumes "pq_bmcCooldownPeriod pq = 10 * second"
  shows "(fst (acquire_try host now pq) \<longleftrightarrow> fmlookup (pq_processing pq) (hostName host) \<noteq> None \<or>
      (int (processing_count pq) < sint (pq_maxConcurrentOps pq) \<and>
       (\<forall>t. pq_lastBMCOperation pq (bmcAddress host) = Some t \<longrightarrow> now - t \<ge> 10 * second))) \<and>
    (fst (acquire_try host now pq) \<longrightarrow> acquire_try host later (snd (acquire_try host now pq)) = (True, snd (acquire_try host now pq))) \<and>
    (let pq' = ReleaseBMCPermit host later pq in fmlookup (pq_processing pq') (hostName host) = None \<and>
       pq_lastBMCOperation pq' (bmcAddress host) = Some later)"
  using cooled_down_exact [OF assms, of "bmcAddress host" now]
  by (auto simp: acquire_try_def alloc_def ReleaseBMCPermit_def Let_def)

theorem permit_is_reentrant_witness:
  "let pq = NewProvisioningQueue sample_heap 1 10; host = sample_host ''h1'' [] None StateNone; pq1 = snd (acquire_try host 0 pq)
   in acquire_try host 1 pq1 = (True, pq1)"
  using permit_is_reentrant [of "NewProvisioningQueue sample_heap 1 10" "sample_host ''h1'' [] None StateNone" 0 1]
  by (simp add: NewProvisioningQueue_def processing_count_def fcard.rep_eq Let_def)

text \<open>
  While a permit is held, cancelling the empty request ID brings the process down: the entry of
  a permit has no ID and no cancel function, and \<open>CancelRequest\<close> calls it.
\<close>

theorem cancel_panics_on_permit:
  assumes "0 < sint c"
  shows "CancelRequest '''' [0] (snd (acquire_try host now (NewProvisioningQueue h c q))) =
    Inl ''runtime error: invalid memory address or nil pointer dereference''"
  using assms
  by (simp add: acquire_try_def NewProvisioningQueue_def processing_count_def fcard.rep_eq cooled_down_def alloc_def
      CancelRequest_def call_cancel_def permit_request_def)

theorem cancel_panics_on_permit_witness:
  "CancelRequest '''' [0] (snd (acquire_try (sample_host ''h1'' [] None StateNone) 0 (NewProvisioningQueue sample_heap 1 10))) =
    Inl ''runtime error: invalid memory address or nil pointer dereference''"
  by (rule cancel_panics_on_permit) simp

text \<open>
  Submitting: a full queue refuses; a host in processing is refused with the request that occupies
  it; otherwise the request waits at the end of the queue, is found as queued under its ID, and its
  deadline is five minutes after submission. A refusal changes nothing.
\<close>

theorem SubmitRequest_behaviour:
  "case SubmitRequest host machine operation t1 t2 t3 pq of ((r, err), pq') \<Rightarrow>
     (if int (length (pq_queue pq)) \<ge> sint (pq_maxQueueSize pq) then r = None \<and> err \<noteq> None \<and> pq' = pq
      else case fmlookup (pq_processing pq) (hostName host) of
        Some existing \<Rightarrow> r = Some existing \<and> err \<noteq> None \<and> pq' = pq
      | None \<Rightarrow> \<exists>x. r = Some x \<and> err = None \<and> pq_queue pq' = pq_queue pq @ [x] \<and> pq_processing pq' = pq_processing pq \<and>
          pv_Host (pq_heap pq' x) = host \<and> pv_Operation (pq_heap pq' x) = operation \<and>
          pv_Deadline (pq_heap pq' x) = Some (t1 + pq_operationTimeout pq) \<and>
          GetRequestStatus (pv_ID (pq_heap pq' x)) order pq' = (''queued'', True))"
  by (auto simp: SubmitRequest_def alloc_def new_request_def GetRequestStatus_def split: option.splits)

end
