(* ===== verification/ClusterWebhook.thy ===== *)
theory ClusterWebhook
  imports MemEnv
begin

text \<open>
  \<open>api/v1beta1/webhooks/beskar7cluster_webhook.go\<close>: the admission webhook of \<open>Beskar7Cluster\<close>. A
  validation returns its warnings and, when it refuses the object, the arguments of
  \<open>apierrors.NewInvalid\<close>. The field paths are written out.

  The label check ranges over the runes of a label. A byte outside ASCII belongs to a rune outside
  ASCII and fails the test either way, so the model looks at the bytes.
\<close>

section \<open>Validation\<close>

datatype field_error =
    field_Required string string
  | field_InvalidString string string string
  | field_InvalidInt string int string

record invalid_error =
  ie_Kind :: string
  ie_Name :: string
  ie_Errs :: "field_error list"

definition label_byte_ok :: "nat \<Rightarrow> nat \<Rightarrow> char \<Rightarrow> bool" where
  "label_byte_ok len i r \<longleftrightarrow> \<not> ((byte r < 97 \<or> byte r > 122) \<and> (byte r < 65 \<or> byte r > 90) \<and>
     (byte r < 48 \<or> byte r > 57) \<and> (r \<noteq> CHR ''-'' \<or> i = 0 \<or> i = len - 1))"

fun label_loop :: "nat \<Rightarrow> nat \<Rightarrow> string \<Rightarrow> bool" where
  "label_loop len i [] = True"
| "label_loop len i (r # rs) = (if \<not> label_byte_ok len i r then False else label_loop len (Suc i) rs)"

definition isValidHostnameLabel :: "string \<Rightarrow> bool" where
  "isValidHostnameLabel label =
    (if label = '''' \<or> length label > 63 then False else label_loop (length label) 0 label)"

fun labels_loop :: "string list \<Rightarrow> bool" where
  "labels_loop [] = True"
| "labels_loop (label # labels) = (if \<not> isValidHostnameLabel label then False else labels_loop labels)"

definition isValidHostname :: "string \<Rightarrow> bool" where
  "isValidHostname hostname =
    (if hostname = '''' \<or> length hostname > 253 then False
     else if strings_Contains hostname ''..'' then False
     else labels_loop (strings_Split CHR ''.'' hostname))"

definition validateHost :: "string \<Rightarrow> string \<Rightarrow> field_error list" where
  "validateHost host fieldPath =
    (if ParseIP host \<noteq> None then []
     else if \<not> isValidHostname host
     then [field_InvalidString fieldPath host ''must be a valid IP address or hostname''] else [])"

definition validatePort :: "32 word \<Rightarrow> string \<Rightarrow> field_error list" where
  "validatePort port fieldPath =
    (if sint port < 1 \<or> sint port > 65535
     then [field_InvalidInt fieldPath (sint port) ''port must be between 1 and 65535''] else [])"

definition validateControlPlaneEndpoint :: "APIEndpoint \<Rightarrow> field_error list" where
  "validateControlPlaneEndpoint endpoint =
     (if ep_Host endpoint = ''''
      then [field_Required ''spec.controlPlaneEndpoint.host'' ''host is required when controlPlaneEndpoint is specified'']
      else validateHost (ep_Host endpoint) ''spec.controlPlaneEndpoint.host'') @
     (if ep_Port endpoint \<noteq> 0 then validatePort (ep_Port endpoint) ''spec.controlPlaneEndpoint.port''
      else [field_Required ''spec.controlPlaneEndpoint.port'' ''port is required when controlPlaneEndpoint is specified''])"

definition validateBeskar7Cluster :: "Beskar7Cluster \<Rightarrow> string list \<times> invalid_error option" where
  "validateBeskar7Cluster cluster =
    (let endpoint = cs_ControlPlaneEndpoint (bc_Spec cluster);
         allErrs = (if ep_Host endpoint \<noteq> '''' \<or> ep_Port endpoint \<noteq> 0 then validateControlPlaneEndpoint endpoint else [])
     in if allErrs \<noteq> []
        then ([], Some \<lparr>ie_Kind = tm_Kind (bc_type cluster), ie_Name = om_Name (bc_meta cluster), ie_Errs = allErrs\<rparr>)
        else ([], None))"

definition ValidateCreate :: "Beskar7Cluster \<Rightarrow> string list \<times> invalid_error option" where
  "ValidateCreate obj = (case validateBeskar7Cluster obj of
     (warnings, Some err) \<Rightarrow> (warnings, Some err) | (warnings, None) \<Rightarrow> (warnings, None))"

definition ValidateUpdate :: "Beskar7Cluster \<Rightarrow> Beskar7Cluster \<Rightarrow> string list \<times> invalid_error option" where
  "ValidateUpdate oldObj newObj = (case validateBeskar7Cluster newObj of
     (warnings, Some err) \<Rightarrow> (warnings, Some err) | (warnings, None) \<Rightarrow> (warnings, None))"

definition ValidateDelete :: "Beskar7Cluster \<Rightarrow> string list \<times> invalid_error option" where
  "ValidateDelete obj = ([], None)"

section \<open>Defaulting\<close>

definition defaultBeskar7Cluster :: "Beskar7Cluster \<Rightarrow> Beskar7Cluster" where
  "defaultBeskar7Cluster cluster =
    (let endpoint = cs_ControlPlaneEndpoint (bc_Spec cluster) in
     if ep_Host endpoint \<noteq> '''' \<and> ep_Port endpoint = 0
     then cluster\<lparr>bc_Spec := (bc_Spec cluster)\<lparr>cs_ControlPlaneEndpoint := endpoint\<lparr>ep_Port := 6443\<rparr>\<rparr>\<rparr>
     else cluster)"

definition Default :: "Beskar7Cluster \<Rightarrow> Beskar7Cluster \<times> error option" where
  "Default obj = (defaultBeskar7Cluster obj, None)"

section \<open>Hostnames\<close>

text \<open>The grammar of hostnames: labels of letters, digits and inner hyphens, joined with dots.\<close>

definition alnum :: "char \<Rightarrow> bool" where
  "alnum c \<longleftrightarrow> byte c \<in> {48..57} \<or> byte c \<in> {65..90} \<or> byte c \<in> {97..122}"

definition hostname_label :: "string \<Rightarrow> bool" where
  "hostname_label l \<longleftrightarrow> l \<noteq> [] \<and> length l \<le> 63 \<and> (\<forall>c \<in> set l. alnum c \<or> c = CHR ''-'') \<and>
     hd l \<noteq> CHR ''-'' \<and> last l \<noteq> CHR ''-''"

definition hostname :: "string \<Rightarrow> bool" where
  "hostname h \<longleftrightarrow> length h \<le> 253 \<and> (\<exists>ls. ls \<noteq> [] \<and> h = strings_Join ''.'' ls \<and> (\<forall>l \<in> set ls. hostname_label l))"

lemma label_byte_ok_iff: "label_byte_ok len i r \<longleftrightarrow> alnum r \<or> r = CHR ''-'' \<and> i \<noteq> 0 \<and> i \<noteq> len - 1"
  by (auto simp: label_byte_ok_def alnum_def)

lemma label_loop_nth: "label_loop len i rs \<longleftrightarrow> (\<forall>j < length rs. label_byte_ok len (i + j) (rs ! j))"
  by (induction len i rs rule: label_loop.induct) (auto simp: All_less_Suc2)

lemma isValidHostnameLabel_iff: "isValidHostnameLabel l \<longleftrightarrow> hostname_label l"
proof (cases "l = []")
  case False
  have a: "\<not> alnum CHR ''-''" by (simp add: alnum_def)
  have "(\<forall>j < length l. label_byte_ok (length l) j (l ! j)) \<longleftrightarrow>
      (\<forall>c \<in> set l. alnum c \<or> c = CHR ''-'') \<and> hd l \<noteq> CHR ''-'' \<and> last l \<noteq> CHR ''-''" (is "?A \<longleftrightarrow> ?B")
  proof
    assume A: ?A
    from A have "\<forall>c \<in> set l. alnum c \<or> c = CHR ''-''" by (auto simp: in_set_conv_nth label_byte_ok_iff)
    moreover from A False have "label_byte_ok (length l) 0 (l ! 0)" "label_byte_ok (length l) (length l - 1) (l ! (length l - 1))" by auto
    then have "hd l \<noteq> CHR ''-''" "last l \<noteq> CHR ''-''"
      using a False by (auto simp: label_byte_ok_iff hd_conv_nth last_conv_nth)
    ultimately show ?B by simp
  next
    assume B: ?B
    show ?A
    proof (intro allI impI)
      fix j assume j: "j < length l"
      from B False have e: "l ! 0 \<noteq> CHR ''-''" "l ! (length l - 1) \<noteq> CHR ''-''"
        by (auto simp: hd_conv_nth last_conv_nth)
      from B j have "alnum (l ! j) \<or> l ! j = CHR ''-''" by simp
      moreover have "l ! j \<noteq> CHR ''-''" if "j = 0 \<or> j = length l - 1" using that e by auto
      ultimately show "label_byte_ok (length l) j (l ! j)" unfolding label_byte_ok_iff by metis
    qed
  qed
  with False show ?thesis by (simp add: isValidHostnameLabel_def hostname_label_def label_loop_nth)
qed (simp add: isValidHostnameLabel_def hostname_label_def)

lemma labels_loop_iff: "labels_loop ls \<longleftrightarrow> (\<forall>l \<in> set ls. hostname_label l)"
  by (induction ls) (auto simp: isValidHostnameLabel_iff)

lemma hostname_label_no_dot: "hostname_label l \<Longrightarrow> CHR ''.'' \<notin> set l"
  by (auto simp: hostname_label_def alnum_def)

text \<open>The test for consecutive dots is implied by the test of the labels: an empty label is no label.\<close>

lemma split_consecutive_dots: "[] \<in> set (strings_Split CHR ''.'' (pre @ ''..'' @ post))"
proof -
  have "[] \<in> set (tl (strings_Split CHR ''.'' (pre @ ''..'' @ post)))"
  proof (induction pre)
    case (Cons c pre)
    obtain l ls where "strings_Split CHR ''.'' (pre @ ''..'' @ post) = l # ls" by (meson list.exhaust strings_Split_nonempty)
    with Cons.IH show ?case by simp
  qed simp
  then show ?thesis by (meson list.set_sel(2) strings_Split_nonempty)
qed

lemma hostname_split:
  "(\<exists>ls. ls \<noteq> [] \<and> h = strings_Join ''.'' ls \<and> (\<forall>l \<in> set ls. hostname_label l)) \<longleftrightarrow>
     (\<forall>l \<in> set (strings_Split CHR ''.'' h). hostname_label l)" (is "?A \<longleftrightarrow> ?B")
proof
  assume ?A
  then obtain ls where ls: "ls \<noteq> []" "h = strings_Join ''.'' ls" "\<forall>l \<in> set ls. hostname_label l" by blast
  then have "\<forall>l \<in> set ls. CHR ''.'' \<notin> set l" using hostname_label_no_dot by blast
  from strings_Split_Join [OF ls(1) this] ls show ?B by simp
next
  assume B: ?B
  show ?A by (rule exI [of _ "strings_Split CHR ''.'' h"]) (use B in simp)
qed

lemma not_hostname_label_Nil: "\<not> hostname_label []"
  by (simp add: hostname_label_def)

lemma isValidHostname_iff: "isValidHostname h \<longleftrightarrow> hostname h"
proof -
  let ?ok = "\<forall>l \<in> set (strings_Split CHR ''.'' h). hostname_label l"
  have dots: "\<not> strings_Contains h ''..''" if ?ok
  proof
    assume "strings_Contains h ''..''"
    then obtain pre post where "h = pre @ ''..'' @ post" unfolding strings_Contains_iff by blast
    with split_consecutive_dots [of pre post] that have "hostname_label []" by blast
    with not_hostname_label_Nil show False ..
  qed
  have "h \<noteq> []" if ?ok
  proof
    assume "h = []"
    with that have "hostname_label []" by simp
    with not_hostname_label_Nil show False ..
  qed
  with dots show ?thesis
    unfolding isValidHostname_def hostname_def labels_loop_iff hostname_split by (metis linorder_not_le)
qed

section \<open>Admission\<close>

definition valid_endpoint :: "APIEndpoint \<Rightarrow> bool" where
  "valid_endpoint e \<longleftrightarrow> (ParseIP (ep_Host e) \<noteq> None \<or> hostname (ep_Host e)) \<and> 1 \<le> sint (ep_Port e) \<and> sint (ep_Port e) \<le> 65535"

lemma ParseIP_Nil: "ParseIP [] = None"
  by code_simp

lemma not_hostname_Nil: "\<not> hostname []"
  by (simp add: isValidHostname_iff [symmetric] isValidHostname_def)

lemma validateControlPlaneEndpoint_iff: "validateControlPlaneEndpoint e = [] \<longleftrightarrow> valid_endpoint e"
  using ParseIP_Nil not_hostname_Nil
  by (auto simp: validateControlPlaneEndpoint_def validateHost_def validatePort_def valid_endpoint_def isValidHostname_iff)

lemma validateBeskar7Cluster_iff:
  "snd (validateBeskar7Cluster c) = None \<longleftrightarrow>
     cs_ControlPlaneEndpoint (bc_Spec c) = \<lparr>ep_Host = '''', ep_Port = 0\<rparr> \<or> valid_endpoint (cs_ControlPlaneEndpoint (bc_Spec c))"
  by (cases "cs_ControlPlaneEndpoint (bc_Spec c)")
    (auto simp: validateBeskar7Cluster_def Let_def validateControlPlaneEndpoint_iff)

text \<open>
  C34. The webhook admits exactly the clusters without a control plane endpoint and those whose endpoint
  has an IP address or a hostname and a port from 1 to 65535, on creation and on update alike. A
  hostname has at most 253 bytes and consists of labels joined with dots; a label has 1 to 63 letters,
  digits and hyphens and neither starts nor ends with a hyphen.
\<close>

theorem webhook_admits_exactly:
  "(snd (ValidateCreate c) = None \<longleftrightarrow>
      cs_ControlPlaneEndpoint (bc_Spec c) = \<lparr>ep_Host = '''', ep_Port = 0\<rparr> \<or>
      (let e = cs_ControlPlaneEndpoint (bc_Spec c) in
        ((\<exists>ip. ParseIP (ep_Host e) = Some ip) \<or>
         (length (ep_Host e) \<le> 253 \<and> (\<exists>ls. ls \<noteq> [] \<and> ep_Host e = strings_Join ''.'' ls \<and> list_all hostname_label ls))) \<and>
        sint (ep_Port e) \<in> {1..65535})) \<and>
   ValidateUpdate old c = ValidateCreate c"
proof -
  have "snd (ValidateCreate c) = snd (validateBeskar7Cluster c)" "ValidateUpdate old c = ValidateCreate c"
    by (simp_all add: ValidateCreate_def ValidateUpdate_def split: prod.splits option.splits)
  then show ?thesis
    by (simp add: validateBeskar7Cluster_iff valid_endpoint_def hostname_def list_all_iff Let_def)
qed

text \<open>
  Defaulting makes an endpoint with a host and no port admissible when its host is: the webhook
  fills in port 6443, changes nothing else, and a second pass changes nothing. What it leaves alone it
  does not make admissible.
\<close>

theorem default_completes_endpoint:
  "case Default c of (c', err) \<Rightarrow> err = None \<and> Default c' = (c', None) \<and>
     c' = c\<lparr>bc_Spec := bc_Spec c'\<rparr> \<and> ep_Host (cs_ControlPlaneEndpoint (bc_Spec c')) = ep_Host (cs_ControlPlaneEndpoint (bc_Spec c)) \<and>
     (snd (ValidateCreate c') = None \<longleftrightarrow> snd (ValidateCreate c) = None \<or>
        ep_Port (cs_ControlPlaneEndpoint (bc_Spec c)) = 0 \<and>
        ((\<exists>ip. ParseIP (ep_Host (cs_ControlPlaneEndpoint (bc_Spec c))) = Some ip) \<or> hostname (ep_Host (cs_ControlPlaneEndpoint (bc_Spec c)))))"
proof -
  let ?e = "cs_ControlPlaneEndpoint (bc_Spec c)"
  have v: "snd (ValidateCreate d) = snd (validateBeskar7Cluster d)" for d
    by (simp add: ValidateCreate_def split: prod.splits option.splits)
  show ?thesis
  proof (cases "ep_Host ?e \<noteq> [] \<and> ep_Port ?e = 0")
    case True
    then show ?thesis
      by (cases ?e) (auto simp: Default_def defaultBeskar7Cluster_def Let_def v validateBeskar7Cluster_iff valid_endpoint_def)
  next
    case False
    then show ?thesis using ParseIP_Nil not_hostname_Nil
      by (auto simp: Default_def defaultBeskar7Cluster_def Let_def v)
  qed
qed

end
