(* ===== verification/GoURL.thy ===== *)
theory GoURL
  imports GoNet
begin

text \<open>
  The part of Go's \<open>net/url\<close> the program relies on (as of Go 1.25.0, the version in \<open>go.mod\<close>):
  \<open>url.Parse\<close>, \<open>URL.String\<close>, \<open>URL.Hostname\<close> and \<open>URL.Port\<close>, translated from the standard library's
  algorithms, and \<open>net.JoinHostPort\<close>. The lemmas follow plain host names and addresses through
  parsing and printing.
\<close>

section \<open>Escaping\<close>

datatype url_mode = encodePath | encodeHost | encodeZone | encodeUserPassword | encodeFragment

definition ascii_alnum :: "char \<Rightarrow> bool" where
  "ascii_alnum c \<longleftrightarrow> 97 \<le> byte c \<and> byte c \<le> 122 \<or> 65 \<le> byte c \<and> byte c \<le> 90 \<or> 48 \<le> byte c \<and> byte c \<le> 57"

definition shouldEscape :: "char \<Rightarrow> url_mode \<Rightarrow> bool" where
  "shouldEscape c mode =
    (if ascii_alnum c then False
     else if mode \<in> {encodeHost, encodeZone} \<and> c \<in> set (''!$&()*+,;=:[]<>'' @ [CHR 0x22, CHR 0x27]) then False
     else if c \<in> set ''-_.~'' then False
     else if c \<in> set ''$&+,/:;=?@'' \<and> mode = encodePath then c = CHR ''?''
     else if c \<in> set ''$&+,/:;=?@'' \<and> mode = encodeUserPassword then c \<in> set ''@/?:''
     else if c \<in> set ''$&+,/:;=?@'' \<and> mode = encodeFragment then False
     else if mode = encodeFragment \<and> c \<in> set ''!()*'' then False
     else True)"

definition EscapeError :: "string \<Rightarrow> error" where
  "EscapeError s = Err (''invalid URL escape '' @ Quote s)"

definition InvalidHostError :: "char \<Rightarrow> error" where
  "InvalidHostError c = Err (''invalid character '' @ Quote [c] @ '' in host name'')"

fun unescape :: "url_mode \<Rightarrow> string \<Rightarrow> error + string" where
  "unescape mode [] = Inr []"
| "unescape mode (c # cs) =
    (if c = CHR ''%'' then
       case cs of
         a # b # rest \<Rightarrow>
           if \<not> is_hex a \<or> \<not> is_hex b then Inl (EscapeError [c, a, b])
           else if mode = encodeHost \<and> hex_val a < 8 \<and> [a, b] \<noteq> ''25'' then Inl (EscapeError [c, a, b])
           else if mode = encodeZone \<and> [a, b] \<noteq> ''25'' \<and> hex_val a * 16 + hex_val b \<noteq> 32 \<and>
             shouldEscape (char_of (hex_val a * 16 + hex_val b)) encodeHost then Inl (EscapeError [c, a, b])
           else (case unescape mode rest of Inl e \<Rightarrow> Inl e | Inr s \<Rightarrow> Inr (char_of (hex_val a * 16 + hex_val b) # s))
       | _ \<Rightarrow> Inl (EscapeError (c # cs))
     else if mode \<in> {encodeHost, encodeZone} \<and> byte c < 128 \<and> shouldEscape c mode then Inl (InvalidHostError c)
     else (case unescape mode cs of Inl e \<Rightarrow> Inl e | Inr s \<Rightarrow> Inr (c # s)))"

definition upper_hex :: "nat \<Rightarrow> char" where
  "upper_hex d = (if d < 10 then char_of (48 + d) else char_of (55 + d))"

definition escape :: "url_mode \<Rightarrow> string \<Rightarrow> string" where
  "escape mode s = concat (map (\<lambda>c. if shouldEscape c mode
     then [CHR ''%'', upper_hex (byte c div 16), upper_hex (byte c mod 16)] else [c]) s)"

section \<open>Parsing\<close>

record Userinfo =
  ui_username :: string
  ui_password :: "string option"

record URL =
  ur_Scheme :: string
  ur_Opaque :: string
  ur_User :: "Userinfo option"
  ur_Host :: string
  ur_Path :: string
  ur_RawPath :: string
  ur_OmitHost :: bool
  ur_ForceQuery :: bool
  ur_RawQuery :: string
  ur_Fragment :: string
  ur_RawFragment :: string

definition emptyURL :: URL where
  "emptyURL = \<lparr>ur_Scheme = '''', ur_Opaque = '''', ur_User = None, ur_Host = '''', ur_Path = '''', ur_RawPath = '''',
     ur_OmitHost = False, ur_ForceQuery = False, ur_RawQuery = '''', ur_Fragment = '''', ur_RawFragment = ''''\<rparr>"

text \<open>\<open>getScheme\<close>, with the bytes read so far.\<close>

fun getScheme :: "string \<Rightarrow> string \<Rightarrow> string \<Rightarrow> error + string \<times> string" where
  "getScheme rawURL done [] = Inr ('''', rawURL)"
| "getScheme rawURL done (c # cs) =
    (if 97 \<le> byte c \<and> byte c \<le> 122 \<or> 65 \<le> byte c \<and> byte c \<le> 90 then getScheme rawURL (done @ [c]) cs
     else if 48 \<le> byte c \<and> byte c \<le> 57 \<or> c \<in> set ''+-.'' then
       if done = [] then Inr ('''', rawURL) else getScheme rawURL (done @ [c]) cs
     else if c = CHR '':'' then
       if done = [] then Inl (Err ''missing protocol scheme'') else Inr (done, cs)
     else Inr ('''', rawURL))"

text \<open>\<open>strings.LastIndex\<close> for one byte: the parts around its last occurrence.\<close>

definition split_last :: "char \<Rightarrow> string \<Rightarrow> (string \<times> string) option" where
  "split_last c s = (if c \<in> set s
     then Some (rev (drop 1 (dropWhile (\<lambda>d. d \<noteq> c) (rev s))), rev (takeWhile (\<lambda>d. d \<noteq> c) (rev s))) else None)"

definition validOptionalPort :: "string \<Rightarrow> bool" where
  "validOptionalPort port = (case port of [] \<Rightarrow> True | c # cs \<Rightarrow> c = CHR '':'' \<and> list_all is_digit cs)"

fun cut_zone :: "string \<Rightarrow> string \<Rightarrow> (string \<times> string) option" where
  "cut_zone done [] = None"
| "cut_zone done (c # cs) = (if has_prefix ''%25'' (c # cs) then Some (done, c # cs) else cut_zone (done @ [c]) cs)"

definition parseHost :: "string \<Rightarrow> error + string" where
  "parseHost host =
    (if has_prefix ''['' host then
       case split_last CHR '']'' host of
         None \<Rightarrow> Inl (Err (''missing '' @ [CHR 0x27] @ '']'' @ [CHR 0x27] @ '' in host''))
       | Some (inside, colonPort) \<Rightarrow>
           if \<not> validOptionalPort colonPort then Inl (Err (''invalid port '' @ Quote colonPort @ '' after host''))
           else (case cut_zone [] inside of
               Some (before, zone) \<Rightarrow>
                 (case unescape encodeHost before of Inl e \<Rightarrow> Inl e
                  | Inr host1 \<Rightarrow> (case unescape encodeZone zone of Inl e \<Rightarrow> Inl e
                    | Inr host2 \<Rightarrow> (case unescape encodeHost ('']'' @ colonPort) of Inl e \<Rightarrow> Inl e
                      | Inr host3 \<Rightarrow> Inr (host1 @ host2 @ host3))))
             | None \<Rightarrow> unescape encodeHost host)
     else case split_last CHR '':'' host of
         Some (_, port) \<Rightarrow> if \<not> validOptionalPort ('':'' @ port) then Inl (Err (''invalid port '' @ Quote ('':'' @ port) @ '' after host''))
           else unescape encodeHost host
       | None \<Rightarrow> unescape encodeHost host)"

definition validUserinfo :: "string \<Rightarrow> bool" where
  "validUserinfo s = list_all (\<lambda>c. ascii_alnum c \<or> c \<in> set (''-._:~!$&()*+,;=%@'' @ [CHR 0x27])) s"

definition parseAuthority :: "string \<Rightarrow> error + Userinfo option \<times> string" where
  "parseAuthority authority =
    (case split_last CHR ''@'' authority of
       None \<Rightarrow> (case parseHost authority of Inl e \<Rightarrow> Inl e | Inr host \<Rightarrow> Inr (None, host))
     | Some (userinfo, hostpart) \<Rightarrow>
         (case parseHost hostpart of Inl e \<Rightarrow> Inl e
          | Inr host \<Rightarrow>
              if \<not> validUserinfo userinfo then Inl (Err ''net/url: invalid userinfo'')
              else if CHR '':'' \<notin> set userinfo then
                (case unescape encodeUserPassword userinfo of Inl e \<Rightarrow> Inl e
                 | Inr user \<Rightarrow> Inr (Some \<lparr>ui_username = user, ui_password = None\<rparr>, host))
              else (case strings_Cut CHR '':'' userinfo of (username, password) \<Rightarrow>
                (case unescape encodeUserPassword username of Inl e \<Rightarrow> Inl e
                 | Inr user \<Rightarrow> (case unescape encodeUserPassword password of Inl e \<Rightarrow> Inl e
                   | Inr pw \<Rightarrow> Inr (Some \<lparr>ui_username = user, ui_password = Some pw\<rparr>, host))))))"

definition setPath :: "string \<Rightarrow> URL \<Rightarrow> error + URL" where
  "setPath p u = (case unescape encodePath p of Inl e \<Rightarrow> Inl e
     | Inr path \<Rightarrow> Inr (u\<lparr>ur_Path := path, ur_RawPath := (if p = escape encodePath path then '''' else p)\<rparr>))"

definition setFragment :: "string \<Rightarrow> URL \<Rightarrow> error + URL" where
  "setFragment f u = (case unescape encodeFragment f of Inl e \<Rightarrow> Inl e
     | Inr frag \<Rightarrow> Inr (u\<lparr>ur_Fragment := frag, ur_RawFragment := (if f = escape encodeFragment frag then '''' else f)\<rparr>))"

text \<open>\<open>parse(rawURL, false)\<close>: behind the scheme and the query, the hierarchical part.\<close>

definition parse_rest :: "URL \<Rightarrow> string \<Rightarrow> error + URL" where
  "parse_rest u rest =
    (if \<not> has_prefix ''/'' rest \<and> ur_Scheme u \<noteq> '''' then Inr (u\<lparr>ur_Opaque := rest\<rparr>)
     else if \<not> has_prefix ''/'' rest \<and> CHR '':'' \<in> set (fst (strings_Cut CHR ''/'' rest))
     then Inl (Err ''first path segment in URL cannot contain colon'')
     else if (ur_Scheme u \<noteq> '''' \<or> \<not> has_prefix ''///'' rest) \<and> has_prefix ''//'' rest then
       (let authority = takeWhile (\<lambda>c. c \<noteq> CHR ''/'') (drop 2 rest); rest' = dropWhile (\<lambda>c. c \<noteq> CHR ''/'') (drop 2 rest)
        in case parseAuthority authority of Inl e \<Rightarrow> Inl e
           | Inr (user, host) \<Rightarrow> setPath rest' (u\<lparr>ur_User := user, ur_Host := host\<rparr>))
     else setPath rest (if ur_Scheme u \<noteq> '''' \<and> has_prefix ''/'' rest then u\<lparr>ur_OmitHost := True\<rparr> else u))"

definition parse_url :: "string \<Rightarrow> error + URL" where
  "parse_url rawURL =
    (if list_ex (\<lambda>c. byte c < 32 \<or> byte c = 127) rawURL then Inl (Err ''net/url: invalid control character in URL'')
     else if rawURL = ''*'' then Inr (emptyURL\<lparr>ur_Path := ''*''\<rparr>)
     else (case getScheme rawURL [] rawURL of Inl e \<Rightarrow> Inl e
       | Inr (scheme, rest) \<Rightarrow>
           (let u = emptyURL\<lparr>ur_Scheme := map lower_byte scheme\<rparr> in
            if rest \<noteq> [] \<and> last rest = CHR ''?'' \<and> CHR ''?'' \<notin> set (butlast rest)
            then parse_rest (u\<lparr>ur_ForceQuery := True\<rparr>) (butlast rest)
            else (case strings_Cut CHR ''?'' rest of (before, query) \<Rightarrow> parse_rest (u\<lparr>ur_RawQuery := query\<rparr>) before))))"

definition url_Error :: "string \<Rightarrow> error \<Rightarrow> error" where
  "url_Error u e = Err (''parse '' @ Quote u @ '': '' @ Error e)"

definition url_Parse :: "string \<Rightarrow> error + URL" where
  "url_Parse rawURL =
    (case strings_Cut CHR ''#'' rawURL of (u, frag) \<Rightarrow>
       (case parse_url u of Inl e \<Rightarrow> Inl (url_Error u e)
        | Inr url \<Rightarrow> if frag = '''' then Inr url
            else (case setFragment frag url of Inl e \<Rightarrow> Inl (url_Error rawURL e) | Inr url' \<Rightarrow> Inr url')))"

section \<open>Printing\<close>

definition validEncoded :: "string \<Rightarrow> url_mode \<Rightarrow> bool" where
  "validEncoded s mode = list_all (\<lambda>c. c \<in> set (''!$&()*+,;=:@[]%'' @ [CHR 0x27]) \<or> \<not> shouldEscape c mode) s"

definition EscapedPath :: "URL \<Rightarrow> string" where
  "EscapedPath u =
    (if ur_RawPath u \<noteq> '''' \<and> validEncoded (ur_RawPath u) encodePath \<and> unescape encodePath (ur_RawPath u) = Inr (ur_Path u)
     then ur_RawPath u else if ur_Path u = ''*'' then ''*'' else escape encodePath (ur_Path u))"

definition EscapedFragment :: "URL \<Rightarrow> string" where
  "EscapedFragment u =
    (if ur_RawFragment u \<noteq> '''' \<and> validEncoded (ur_RawFragment u) encodeFragment \<and>
        unescape encodeFragment (ur_RawFragment u) = Inr (ur_Fragment u)
     then ur_RawFragment u else escape encodeFragment (ur_Fragment u))"

definition Userinfo_String :: "Userinfo \<Rightarrow> string" where
  "Userinfo_String ui =
    (if ui_username ui \<noteq> '''' \<or> (case ui_password ui of None \<Rightarrow> False | Some p \<Rightarrow> p \<noteq> '''') then
       escape encodeUserPassword (ui_username ui) @
       (case ui_password ui of None \<Rightarrow> '''' | Some p \<Rightarrow> '':'' @ escape encodeUserPassword p)
     else '''')"

definition authority_String :: "URL \<Rightarrow> string" where
  "authority_String u =
    (if (ur_Scheme u \<noteq> '''' \<or> ur_Host u \<noteq> '''' \<or> ur_User u \<noteq> None) \<and> \<not> (ur_OmitHost u \<and> ur_Host u = '''' \<and> ur_User u = None) then
       (if ur_Host u \<noteq> '''' \<or> ur_Path u \<noteq> '''' \<or> ur_User u \<noteq> None then ''//'' else '''') @
       (case ur_User u of None \<Rightarrow> '''' | Some ui \<Rightarrow> Userinfo_String ui @ ''@'') @
       (if ur_Host u \<noteq> '''' then escape encodeHost (ur_Host u) else '''')
     else '''')"

definition URL_String :: "URL \<Rightarrow> string" where
  "URL_String u =
    (let front = (if ur_Scheme u \<noteq> '''' then ur_Scheme u @ '':'' else '''');
         hier = (if ur_Opaque u \<noteq> '''' then ur_Opaque u
           else (let authority = authority_String u; path = EscapedPath u;
                     slash = (if path \<noteq> '''' \<and> hd path \<noteq> CHR ''/'' \<and> ur_Host u \<noteq> '''' then ''/'' else '''');
                     dot = (if front @ authority @ slash = '''' \<and> CHR '':'' \<in> set (fst (strings_Cut CHR ''/'' path)) then ''./'' else '''')
                 in authority @ slash @ dot @ path))
     in front @ hier @ (if ur_ForceQuery u \<or> ur_RawQuery u \<noteq> '''' then ''?'' @ ur_RawQuery u else '''') @
        (if ur_Fragment u \<noteq> '''' then ''#'' @ EscapedFragment u else ''''))"

text \<open>\<open>Hostname\<close> and \<open>Port\<close> are the two halves of \<open>splitHostPort\<close>.\<close>

definition splitHostPort :: "string \<Rightarrow> string \<times> string" where
  "splitHostPort hostPort =
    (let (host, port) = (case split_last CHR '':'' hostPort of
           Some (h, p) \<Rightarrow> if validOptionalPort ('':'' @ p) then (h, p) else (hostPort, '''')
         | None \<Rightarrow> (hostPort, ''''))
     in (if has_prefix ''['' host \<and> last host = CHR '']'' then butlast (tl host) else host, port))"

definition Hostname :: "URL \<Rightarrow> string" where
  "Hostname u = fst (splitHostPort (ur_Host u))"

definition Port :: "URL \<Rightarrow> string" where
  "Port u = snd (splitHostPort (ur_Host u))"

definition JoinHostPort :: "string \<Rightarrow> string \<Rightarrow> string" where
  "JoinHostPort host port = (if CHR '':'' \<in> set host then ''['' @ host @ '']:'' @ port else host @ '':'' @ port)"

section \<open>Plain addresses\<close>

text \<open>
  Letters, digits, hyphens and dots: the bytes of host names and IPv4 addresses. They need no escaping
  anywhere, and all of them may occur in a scheme.
\<close>

definition plain_byte :: "char \<Rightarrow> bool" where
  "plain_byte c \<longleftrightarrow> ascii_alnum c \<or> c = CHR ''-'' \<or> c = CHR ''.''"

definition plain :: "string \<Rightarrow> bool" where
  "plain s \<longleftrightarrow> s \<noteq> [] \<and> list_all plain_byte s"

definition letter :: "char \<Rightarrow> bool" where
  "letter c \<longleftrightarrow> 97 \<le> byte c \<and> byte c \<le> 122 \<or> 65 \<le> byte c \<and> byte c \<le> 90"

lemma plain_byte_not:
  "plain_byte c \<Longrightarrow> c \<notin> {CHR ''%'', CHR ''/'', CHR ''?'', CHR ''#'', CHR '':'', CHR ''@'', CHR ''['', CHR ''*''}"
  by (auto simp: plain_byte_def ascii_alnum_def)

lemma plain_byte_range: "plain_byte c \<Longrightarrow> 32 \<le> byte c \<and> byte c \<noteq> 127"
  by (auto simp: plain_byte_def ascii_alnum_def)

lemma shouldEscape_plain [simp]: "plain_byte c \<Longrightarrow> \<not> shouldEscape c mode"
  by (auto simp: plain_byte_def shouldEscape_def)

lemma shouldEscape_colon_host [simp]: "\<not> shouldEscape CHR '':'' encodeHost"
  by (simp add: shouldEscape_def ascii_alnum_def)

lemma unescape_plain: "list_all plain_byte s \<Longrightarrow> unescape mode s = Inr s"
  by (induction s) (auto dest: plain_byte_not)

lemma unescape_host_port:
  "list_all (\<lambda>c. plain_byte c \<or> c = CHR '':'') s \<Longrightarrow> unescape encodeHost s = Inr s"
  by (induction s) (auto dest: plain_byte_not)

lemma escape_plain: "list_all plain_byte s \<Longrightarrow> escape mode s = s"
  by (induction s) (auto simp: escape_def)

lemma escape_host_port: "list_all (\<lambda>c. plain_byte c \<or> c = CHR '':'') s \<Longrightarrow> escape encodeHost s = s"
  by (induction s) (auto simp: escape_def)

lemma getScheme_plain: "list_all plain_byte s \<Longrightarrow> getScheme raw done s = Inr ([], raw)"
proof (induction s arbitrary: "done")
  case (Cons c cs)
  then have "plain_byte c" by simp
  then have "letter c \<or> 48 \<le> byte c \<and> byte c \<le> 57 \<or> c \<in> set ''+-.''"
    by (auto simp: plain_byte_def ascii_alnum_def letter_def)
  with Cons show ?case by (auto simp: letter_def)
qed simp

lemma getScheme_colon:
  "list_all plain_byte s \<Longrightarrow> done \<noteq> [] \<Longrightarrow> getScheme raw done (s @ CHR '':'' # rest) = Inr (done @ s, rest)"
proof (induction s arbitrary: "done")
  case (Cons c cs)
  then have "plain_byte c" by simp
  then have "letter c \<or> 48 \<le> byte c \<and> byte c \<le> 57 \<or> c \<in> set ''+-.''"
    by (auto simp: plain_byte_def ascii_alnum_def letter_def)
  with Cons show ?case by (auto simp: letter_def)
qed simp

lemma getScheme_named:
  assumes "plain s" and "letter (hd s)"
  shows "getScheme raw [] (s @ CHR '':'' # rest) = Inr (s, rest)"
proof -
  from assms obtain c cs where s: "s = c # cs" "letter c" "list_all plain_byte cs" by (cases s) (auto simp: plain_def)
  then have "getScheme raw [] (s @ CHR '':'' # rest) = getScheme raw [c] (cs @ CHR '':'' # rest)" by (simp add: letter_def)
  also have "\<dots> = Inr (s, rest)" using getScheme_colon [OF s(3), of "[c]"] s by simp
  finally show ?thesis .
qed

lemma getScheme_unnamed:
  assumes "plain s" and "\<not> letter (hd s)"
  shows "getScheme raw [] (s @ rest) = Inr ([], raw)"
proof -
  from assms obtain c cs where s: "s = c # cs" "plain_byte c" "\<not> letter c" by (cases s) (auto simp: plain_def)
  then have "48 \<le> byte c \<and> byte c \<le> 57 \<or> c \<in> set ''+-.''" by (auto simp: plain_byte_def ascii_alnum_def letter_def)
  with s show ?thesis by (auto simp: letter_def)
qed

lemma cut_other: "c \<notin> set s \<Longrightarrow> strings_Cut c s = (s, [])"
  by (rule strings_Cut_absent)

lemma split_last_absent: "c \<notin> set s \<Longrightarrow> split_last c s = None"
  by (simp add: split_last_def)

lemma split_last_append: "c \<notin> set b \<Longrightarrow> split_last c (a @ c # b) = Some (a, b)"
  by (auto simp: split_last_def takeWhile_append dropWhile_append)

text \<open>A host with an optional port.\<close>

definition host_port :: "string \<Rightarrow> string option \<Rightarrow> string" where
  "host_port h port = h @ (case port of None \<Rightarrow> [] | Some p \<Rightarrow> '':'' @ p)"

definition digits_opt :: "string option \<Rightarrow> bool" where
  "digits_opt port = (case port of None \<Rightarrow> True | Some p \<Rightarrow> list_all is_digit p)"

definition authority_byte :: "char \<Rightarrow> bool" where
  "authority_byte c \<longleftrightarrow> plain_byte c \<or> c = CHR '':''"

lemma is_digit_plain: "is_digit c \<Longrightarrow> plain_byte c"
  by (auto simp: is_digit_def plain_byte_def ascii_alnum_def)

lemma host_port_bytes: "plain h \<Longrightarrow> digits_opt port \<Longrightarrow> list_all authority_byte (host_port h port)"
  by (auto simp: plain_def digits_opt_def host_port_def authority_byte_def list_all_iff is_digit_plain split: option.splits)

lemma authority_not: "list_all authority_byte s \<Longrightarrow> c \<in> {CHR ''%'', CHR ''/'', CHR ''?'', CHR ''#'', CHR ''@'', CHR ''['', CHR ''*''} \<Longrightarrow> c \<notin> set s"
  using plain_byte_not by (fastforce simp: authority_byte_def list_all_iff)

lemma digits_no_colon: "list_all is_digit p \<Longrightarrow> CHR '':'' \<notin> set p"
  by (auto simp: list_all_iff is_digit_def)

lemma plain_no_colon: "plain h \<Longrightarrow> CHR '':'' \<notin> set h"
  using plain_byte_not by (fastforce simp: plain_def list_all_iff)

lemma parseHost_host_port:
  assumes "plain h" and "digits_opt port"
  shows "parseHost (host_port h port) = Inr (host_port h port)"
proof -
  note bytes = host_port_bytes [OF assms]
  have u: "unescape encodeHost (host_port h port) = Inr (host_port h port)"
    using bytes by (intro unescape_host_port) (simp add: authority_byte_def [abs_def])
  from assms(1) authority_not [OF bytes, of "CHR ''[''"] have "\<not> has_prefix ''['' (host_port h port)"
    by (cases h) (auto simp: plain_def host_port_def)
  moreover have "case split_last CHR '':'' (host_port h port) of Some (x, p) \<Rightarrow> validOptionalPort ('':'' @ p) | None \<Rightarrow> True"
    using assms(2) by (auto simp: host_port_def digits_opt_def split_last_absent [OF plain_no_colon [OF assms(1)]]
        split_last_append [OF digits_no_colon] validOptionalPort_def split: option.splits)
  ultimately show ?thesis using u by (auto simp: parseHost_def split: option.splits)
qed

definition https_url :: "string \<Rightarrow> URL" where
  "https_url authority = emptyURL\<lparr>ur_Scheme := ''https'', ur_Host := authority\<rparr>"

lemma takeWhile_all: "c \<notin> set s \<Longrightarrow> takeWhile (\<lambda>d. d \<noteq> c) s = s"
  by (induction s) auto

lemma dropWhile_all: "c \<notin> set s \<Longrightarrow> dropWhile (\<lambda>d. d \<noteq> c) s = []"
  by (induction s) auto

lemma parse_rest_https:
  assumes "plain h" and "digits_opt port"
  shows "parse_rest (emptyURL\<lparr>ur_Scheme := ''https'', ur_RawQuery := []\<rparr>) (''//'' @ host_port h port) = Inr (https_url (host_port h port))"
proof -
  note bytes = host_port_bytes [OF assms]
  have s: "CHR ''/'' \<notin> set (host_port h port)" "CHR ''@'' \<notin> set (host_port h port)"
    using authority_not [OF bytes] by blast+
  have "parseAuthority (host_port h port) = Inr (None, host_port h port)"
    by (simp add: parseAuthority_def split_last_absent [OF s(2)] parseHost_host_port [OF assms])
  then show ?thesis
    by (simp add: parse_rest_def Let_def takeWhile_all [OF s(1)] dropWhile_all [OF s(1)] setPath_def escape_def https_url_def emptyURL_def)
qed

lemma url_Parse_https:
  assumes "plain h" and "digits_opt port"
  shows "url_Parse (''https://'' @ host_port h port) = Inr (https_url (host_port h port))"
proof -
  let ?a = "host_port h port"
  note bytes = host_port_bytes [OF assms]
  have n: "CHR ''#'' \<notin> set (''https://'' @ ?a)" "CHR ''?'' \<notin> set (''//'' @ ?a)"
    using authority_not [OF bytes] by auto
  have ctl: "\<not> list_ex (\<lambda>c. byte c < 32 \<or> byte c = 127) (''https://'' @ ?a)"
    using bytes plain_byte_range by (fastforce simp: list_ex_iff list_all_iff authority_byte_def)
  have scheme: "getScheme (''https://'' @ ?a) [] (''https://'' @ ?a) = Inr (''https'', ''//'' @ ?a)"
    using getScheme_named [of "''https''" "''https://'' @ ?a" "''//'' @ ?a"]
    by (simp add: plain_def plain_byte_def ascii_alnum_def letter_def)
  have last: "last (''//'' @ ?a) \<noteq> CHR ''?''" using n(2) by (metis append_is_Nil_conv last_in_set list.distinct(1))
  have lower: "map lower_byte ''https'' = ''https''" by (simp add: lower_byte_def)
  have "parse_url (''https://'' @ ?a) = Inr (https_url ?a)"
    unfolding parse_url_def scheme
    using ctl last strings_Cut_absent [OF n(2)] parse_rest_https [OF assms] lower
    by (simp add: Let_def)
  then show ?thesis unfolding url_Parse_def strings_Cut_absent [OF n(1)] by simp
qed

lemma URL_String_https:
  assumes "plain h" and "digits_opt port"
  shows "URL_String (https_url (host_port h port)) = ''https://'' @ host_port h port"
proof -
  have "escape encodeHost (host_port h port) = host_port h port"
    using host_port_bytes [OF assms] by (intro escape_host_port) (simp add: authority_byte_def [abs_def])
  moreover have "host_port h port \<noteq> []" using assms(1) by (simp add: plain_def host_port_def)
  ultimately show ?thesis
    by (simp add: URL_String_def https_url_def emptyURL_def authority_String_def EscapedPath_def escape_def Let_def)
qed

end
