(* ===== verification/GofishClient.thy ===== *)
theory GofishClient
  imports Redfish GoURL
begin

text \<open>
  \<open>internal/redfish/gofish_client.go\<close>: the implementation of \<open>Client\<close> on top of the gofish library. The
  library and the BMC behind it are not part of the repository: they are the argument \<open>L\<close>, a record of
  calls on a world \<open>'w\<close>. The client objects themselves are mutable (closing one clears its
  connection), so they live on a heap beside that world, and a client is a reference into it.
\<close>

section \<open>The library\<close>

type_synonym APIClient = nat

record ClientConfig =
  cf_Endpoint :: string
  cf_Username :: string
  cf_Password :: string
  cf_Insecure :: bool
  cf_BasicAuth :: bool

record ComputerSystem =
  sys_ID :: string
  sys_Manufacturer :: string
  sys_Model :: string
  sys_SerialNumber :: string
  sys_Status :: Status
  sys_PowerState :: string

record Boot =
  bo_BootSourceOverrideTarget :: string
  bo_BootSourceOverrideEnabled :: string

record IPv4Address =
  v4_Address :: string
  v4_Gateway :: string

record IPv6Address =
  v6_Address :: string

record EthernetInterface =
  ei_Name :: string
  ei_MACAddress :: string
  ei_IPv4Addresses :: "IPv4Address list"
  ei_IPv6Addresses :: "IPv6Address list"
  ei_IPv6DefaultGateway :: string

record NetworkInterface =
  ni_ID :: string
  ni_Name :: string

record 'w gofish =
  ConnectContext :: "ClientConfig \<Rightarrow> ('w, error + APIClient) io"
  Logout :: "APIClient \<Rightarrow> ('w, unit) io"
  Systems :: "APIClient \<Rightarrow> ('w, error + ComputerSystem list) io"
  system_Reset :: "ComputerSystem \<Rightarrow> string \<Rightarrow> ('w, error option) io"
  system_SetBoot :: "ComputerSystem \<Rightarrow> Boot \<Rightarrow> ('w, error option) io"
  EthernetInterfaces :: "ComputerSystem \<Rightarrow> ('w, error + EthernetInterface list) io"
  NetworkInterfaces :: "ComputerSystem \<Rightarrow> ('w, error + NetworkInterface list) io"
  NetworkPorts :: "NetworkInterface \<Rightarrow> ('w, error + string list) io"
  NetworkDeviceFunctions :: "NetworkInterface \<Rightarrow> ('w, error + string list) io"

text \<open>Reset types and boot settings of gofish.\<close>

abbreviation OnResetType :: string where "OnResetType \<equiv> ''On''"
abbreviation ForceOffResetType :: string where "ForceOffResetType \<equiv> ''ForceOff''"
abbreviation ForceRestartResetType :: string where "ForceRestartResetType \<equiv> ''ForceRestart''"
abbreviation PxeBootSourceOverrideTarget :: string where "PxeBootSourceOverrideTarget \<equiv> ''Pxe''"
abbreviation OnceBootSourceOverrideEnabled :: string where "OnceBootSourceOverrideEnabled \<equiv> ''Once''"

definition reset_types :: "string list" where
  "reset_types = [OnResetType, ForceOffResetType, ''GracefulShutdown'', ''GracefulRestart'', ForceRestartResetType, ''Nmi'',
     ''ForceOn'', ''PushPowerButton'', ''PowerCycle'']"

section \<open>Client objects\<close>

record gofishClient =
  gc_gofishClient :: "APIClient option"
  gc_apiEndpoint :: string

record gofish_heap =
  gh_next :: nat
  gh_obj :: "nat \<Rightarrow> gofishClient"

type_synonym 'w gofish_world = "'w \<times> gofish_heap"

definition on_lib :: "('w, 'a) io \<Rightarrow> ('w gofish_world, 'a) io" where
  "on_lib f = State (\<lambda>(w, h). let (a, w') = run_state f w in (a, (w', h)))"

definition read_client :: "nat \<Rightarrow> ('w gofish_world, gofishClient) io" where
  "read_client c = State (\<lambda>(w, h). (gh_obj h c, (w, h)))"

definition write_client :: "nat \<Rightarrow> gofishClient \<Rightarrow> ('w gofish_world, unit) io" where
  "write_client c v = State (\<lambda>(w, h). ((), (w, h\<lparr>gh_obj := (gh_obj h)(c := v)\<rparr>)))"

definition new_object :: "gofishClient \<Rightarrow> ('w gofish_world, nat) io" where
  "new_object v = State (\<lambda>(w, h). (gh_next h, (w, h\<lparr>gh_next := Suc (gh_next h), gh_obj := (gh_obj h)(gh_next h := v)\<rparr>)))"

section \<open>Connecting\<close>

definition parse_address :: "string \<Rightarrow> error + URL" where
  "parse_address address =
    (case url_Parse address of
       Inr u \<Rightarrow> Inr u
     | Inl _ \<Rightarrow> (case url_Parse (''https://'' @ address) of
           Inr u \<Rightarrow> Inr u
         | Inl err \<Rightarrow> Inl (wrap_error (''invalid Redfish address format: '' @ address) err)))"

definition endpoint_url :: "string \<Rightarrow> error + string" where
  "endpoint_url address =
    (case parse_address address of
       Inl err \<Rightarrow> Inl err
     | Inr parsedURL \<Rightarrow>
         Inr (URL_String (if ur_Scheme parsedURL = '''' then parsedURL\<lparr>ur_Scheme := ''https''\<rparr> else parsedURL)))"

definition NewClient :: "'w gofish \<Rightarrow> string \<Rightarrow> string \<Rightarrow> string \<Rightarrow> bool \<Rightarrow> ('w gofish_world, error + nat) io" where
  "NewClient L address username password insecure =
    (case endpoint_url address of
       Inl err \<Rightarrow> State_Monad.return (Inl err)
     | Inr endpointURL \<Rightarrow> do {
         c \<leftarrow> on_lib (ConnectContext L \<lparr>cf_Endpoint = endpointURL, cf_Username = username, cf_Password = password,
           cf_Insecure = insecure, cf_BasicAuth = True\<rparr>);
         case c of
           Inl err \<Rightarrow> State_Monad.return (Inl (wrap_error (''failed to connect to Redfish endpoint '' @ endpointURL) err))
         | Inr api \<Rightarrow> do {
             p \<leftarrow> new_object \<lparr>gc_gofishClient = Some api, gc_apiEndpoint = endpointURL\<rparr>;
             State_Monad.return (Inr p)
           }
       })"

definition NewClientWithHTTPClient :: "'w gofish \<Rightarrow> string \<Rightarrow> string \<Rightarrow> string \<Rightarrow> bool \<Rightarrow> 'h \<Rightarrow> ('w gofish_world, error + nat) io" where
  "NewClientWithHTTPClient L address username password insecure httpClient = NewClient L address username password insecure"

definition gofish_Close :: "'w gofish \<Rightarrow> nat \<Rightarrow> ('w gofish_world, unit) io" where
  "gofish_Close L c = do {
     this \<leftarrow> read_client c;
     case gc_gofishClient this of
       None \<Rightarrow> State_Monad.return ()
     | Some api \<Rightarrow> do {
         _ \<leftarrow> on_lib (Logout L api);
         write_client c (this\<lparr>gc_gofishClient := None\<rparr>)
       }
   }"

section \<open>Operations\<close>

definition getSystemService :: "'w gofish \<Rightarrow> nat \<Rightarrow> ('w gofish_world, error + ComputerSystem) io" where
  "getSystemService L c = do {
     this \<leftarrow> read_client c;
     case gc_gofishClient this of
       None \<Rightarrow> State_Monad.return (Inl (Err ''redfish client is not connected''))
     | Some api \<Rightarrow> do {
         s \<leftarrow> on_lib (Systems L api);
         State_Monad.return (case s of
             Inl err \<Rightarrow> Inl (wrap_error ''failed to retrieve systems'' err)
           | Inr [] \<Rightarrow> Inl (Err ''no systems found'')
           | Inr (system # _) \<Rightarrow> Inr system)
       }
   }"

definition gofish_GetSystemInfo :: "'w gofish \<Rightarrow> nat \<Rightarrow> ('w gofish_world, error + SystemInfo option) io" where
  "gofish_GetSystemInfo L c = do {
     s \<leftarrow> getSystemService L c;
     State_Monad.return (case s of
         Inl err \<Rightarrow> Inl err
       | Inr system \<Rightarrow> Inr (Some \<lparr>si_Manufacturer = sys_Manufacturer system, si_Model = sys_Model system,
           si_SerialNumber = sys_SerialNumber system, si_Status = sys_Status system\<rparr>))
   }"

definition gofish_GetPowerState :: "'w gofish \<Rightarrow> nat \<Rightarrow> ('w gofish_world, error + string) io" where
  "gofish_GetPowerState L c = do {
     s \<leftarrow> getSystemService L c;
     State_Monad.return (case s of
         Inl err \<Rightarrow> Inl (wrap_error ''failed to get system for power state check'' err)
       | Inr system \<Rightarrow> Inr (sys_PowerState system))
   }"

definition reset_type :: "string \<Rightarrow> string option" where
  "reset_type state =
    (if state = OnPowerState then Some OnResetType
     else if state = OffPowerState then Some ForceOffResetType
     else if state \<in> set reset_types then Some state
     else None)"

definition gofish_SetPowerState :: "'w gofish \<Rightarrow> nat \<Rightarrow> string \<Rightarrow> ('w gofish_world, error option) io" where
  "gofish_SetPowerState L c state = do {
     s \<leftarrow> getSystemService L c;
     case s of
       Inl err \<Rightarrow> State_Monad.return (Some (wrap_error ''failed to get system for setting power state'' err))
     | Inr system \<Rightarrow>
         (case reset_type state of
            None \<Rightarrow> State_Monad.return (Some (Err (''unsupported power state or reset type for SetPowerState: '' @ state)))
          | Some resetType \<Rightarrow> do {
              r \<leftarrow> on_lib (system_Reset L system resetType);
              State_Monad.return (map_option (wrap_error (''failed to set power state to '' @ state)) r)
            })
   }"

definition gofish_SetBootSourcePXE :: "'w gofish \<Rightarrow> nat \<Rightarrow> ('w gofish_world, error option) io" where
  "gofish_SetBootSourcePXE L c = do {
     s \<leftarrow> getSystemService L c;
     case s of
       Inl err \<Rightarrow> State_Monad.return (Some (wrap_error ''failed to get system to set PXE boot'' err))
     | Inr system \<Rightarrow> do {
         r \<leftarrow> on_lib (system_SetBoot L system \<lparr>bo_BootSourceOverrideTarget = PxeBootSourceOverrideTarget,
           bo_BootSourceOverrideEnabled = OnceBootSourceOverrideEnabled\<rparr>);
         State_Monad.return (map_option (wrap_error ''failed to set boot source override to PXE'') r)
       }
   }"

definition gofish_Reset :: "'w gofish \<Rightarrow> nat \<Rightarrow> ('w gofish_world, error option) io" where
  "gofish_Reset L c = do {
     s \<leftarrow> getSystemService L c;
     case s of
       Inl err \<Rightarrow> State_Monad.return (Some (wrap_error ''failed to get system for reset'' err))
     | Inr system \<Rightarrow> do {
         r \<leftarrow> on_lib (system_Reset L system ForceRestartResetType);
         State_Monad.return (map_option (wrap_error ''failed to reset system'') r)
       }
   }"

section \<open>Addresses\<close>

fun ipv4_addresses :: "EthernetInterface \<Rightarrow> IPv4Address list \<Rightarrow> NetworkAddress list" where
  "ipv4_addresses ethIntf [] = []"
| "ipv4_addresses ethIntf (ipv4 # rest) =
    (if v4_Address ipv4 \<noteq> '''' then
       \<lparr>na_Type = IPv4AddressType, na_Address = v4_Address ipv4, na_Gateway = v4_Gateway ipv4,
        na_InterfaceName = ei_Name ethIntf, na_MACAddress = ei_MACAddress ethIntf\<rparr> # ipv4_addresses ethIntf rest
     else ipv4_addresses ethIntf rest)"

fun ipv6_addresses :: "EthernetInterface \<Rightarrow> IPv6Address list \<Rightarrow> NetworkAddress list" where
  "ipv6_addresses ethIntf [] = []"
| "ipv6_addresses ethIntf (ipv6 # rest) =
    (if v6_Address ipv6 \<noteq> '''' then
       \<lparr>na_Type = IPv6AddressType, na_Address = v6_Address ipv6, na_Gateway = ei_IPv6DefaultGateway ethIntf,
        na_InterfaceName = ei_Name ethIntf, na_MACAddress = ei_MACAddress ethIntf\<rparr> # ipv6_addresses ethIntf rest
     else ipv6_addresses ethIntf rest)"

definition extractAddressesFromEthernetInterface :: "EthernetInterface \<Rightarrow> NetworkAddress list" where
  "extractAddressesFromEthernetInterface ethIntf =
     ipv4_addresses ethIntf (ei_IPv4Addresses ethIntf) @ ipv6_addresses ethIntf (ei_IPv6Addresses ethIntf)"

text \<open>The calls behind a network interface only feed the log; no address is ever extracted.\<close>

definition extractAddressesFromNetworkInterface :: "'w gofish \<Rightarrow> NetworkInterface \<Rightarrow> ('w gofish_world, NetworkAddress list) io" where
  "extractAddressesFromNetworkInterface L netIntf = do {
     _ \<leftarrow> on_lib (NetworkPorts L netIntf);
     _ \<leftarrow> on_lib (NetworkDeviceFunctions L netIntf);
     State_Monad.return []
   }"

fun network_interfaces_loop :: "'w gofish \<Rightarrow> NetworkInterface list \<Rightarrow> NetworkAddress list \<Rightarrow> ('w gofish_world, NetworkAddress list) io" where
  "network_interfaces_loop L [] addresses = State_Monad.return addresses"
| "network_interfaces_loop L (netIntf # rest) addresses = do {
     found \<leftarrow> extractAddressesFromNetworkInterface L netIntf;
     network_interfaces_loop L rest (addresses @ found)
   }"

definition gofish_GetNetworkAddresses :: "'w gofish \<Rightarrow> nat \<Rightarrow> ('w gofish_world, error + NetworkAddress list) io" where
  "gofish_GetNetworkAddresses L c = do {
     s \<leftarrow> getSystemService L c;
     case s of
       Inl err \<Rightarrow> State_Monad.return (Inl (wrap_error ''failed to get system for network address discovery'' err))
     | Inr system \<Rightarrow> do {
         e \<leftarrow> on_lib (EthernetInterfaces L system);
         let addresses = (case e of Inl _ \<Rightarrow> [] | Inr ethernetInterfaces \<Rightarrow>
           concat (map extractAddressesFromEthernetInterface ethernetInterfaces));
         if addresses = [] then do {
           n \<leftarrow> on_lib (NetworkInterfaces L system);
           case n of
             Inl err \<Rightarrow> State_Monad.return (Inl (wrap_error ''failed to retrieve both ethernet and network interfaces'' err))
           | Inr networkInterfaces \<Rightarrow> do {
               found \<leftarrow> network_interfaces_loop L networkInterfaces addresses;
               State_Monad.return (Inr found)
             }
         }
         else State_Monad.return (Inr addresses)
       }
   }"

section \<open>The client as an implementation of the interface\<close>

definition gofish_client :: "'w gofish \<Rightarrow> nat \<Rightarrow> 'w gofish_world Client" where
  "gofish_client L c =
    \<lparr>Close = gofish_Close L c, GetSystemInfo = gofish_GetSystemInfo L c, GetPowerState = gofish_GetPowerState L c,
     SetPowerState = gofish_SetPowerState L c, SetBootSourcePXE = gofish_SetBootSourcePXE L c, Reset = gofish_Reset L c,
     GetNetworkAddresses = gofish_GetNetworkAddresses L c\<rparr>"

text \<open>\<open>NewClient\<close> as the factory the reconcilers take.\<close>

definition gofish_factory :: "'w gofish \<Rightarrow> 'w gofish_world RedfishClientFactory" where
  "gofish_factory L address username password insecure = do {
     c \<leftarrow> NewClient L address username password insecure;
     State_Monad.return (case c of Inl err \<Rightarrow> Inl err | Inr p \<Rightarrow> Inr (gofish_client L p))
   }"

section \<open>Which endpoint is connected to\<close>

lemma no_ctl: "list_all authority_byte s \<Longrightarrow> \<not> list_ex (\<lambda>c. byte c < 32 \<or> byte c = 127) s"
  using plain_byte_range by (fastforce simp: list_ex_iff list_all_iff authority_byte_def)

lemma plain_authority: "plain h \<Longrightarrow> list_all authority_byte h"
  by (simp add: plain_def authority_byte_def [abs_def] list_all_iff)

lemma parse_url_split:
  assumes "list_all authority_byte s" and "getScheme s [] s = Inr (scheme, rest)" and "set rest \<subseteq> set s"
  shows "parse_url s = parse_rest (emptyURL\<lparr>ur_Scheme := map lower_byte scheme, ur_RawQuery := []\<rparr>) rest"
    and "url_Parse s = (case parse_url s of Inl e \<Rightarrow> Inl (url_Error s e) | Inr u \<Rightarrow> Inr u)"
proof -
  have n: "CHR ''#'' \<notin> set s" "CHR ''?'' \<notin> set rest" "s \<noteq> ''*''"
    using authority_not [OF assms(1), of "CHR ''#''"] authority_not [OF assms(1), of "CHR ''?''"]
      authority_not [OF assms(1), of "CHR ''*''"] assms(3) by auto
  have "\<not> (rest \<noteq> [] \<and> last rest = CHR ''?'' \<and> CHR ''?'' \<notin> set (butlast rest))" using n(2) by (metis last_in_set)
  with n no_ctl [OF assms(1)] assms(2) strings_Cut_absent [OF n(2)]
  show "parse_url s = parse_rest (emptyURL\<lparr>ur_Scheme := map lower_byte scheme, ur_RawQuery := []\<rparr>) rest"
    by (auto simp: parse_url_def Let_def)
  show "url_Parse s = (case parse_url s of Inl e \<Rightarrow> Inl (url_Error s e) | Inr u \<Rightarrow> Inr u)"
    unfolding url_Parse_def strings_Cut_absent [OF n(1)] by (simp split: sum.splits)
qed

lemma no_slash_prefix: "list_all authority_byte s \<Longrightarrow> \<not> has_prefix (CHR ''/'' # p) s"
  using authority_not [of s "CHR ''/''"] by (cases s) auto

lemma endpoint_url_bare:
  assumes "plain h"
  shows "endpoint_url h = Inr (''https://'' @ h)"
proof -
  note bytes = plain_authority [OF assms]
  have all: "list_all plain_byte h" using assms by (simp add: plain_def)
  have "parse_url h = Inr (emptyURL\<lparr>ur_Path := h\<rparr>)"
    unfolding parse_url_split(1) [OF bytes getScheme_plain [OF all] subset_refl]
    using no_slash_prefix [OF bytes] plain_no_colon [OF assms] authority_not [OF bytes, of "CHR ''/''"]
    by (auto simp: parse_rest_def emptyURL_def setPath_def unescape_plain [OF all] escape_plain [OF all] strings_Cut_absent)
  then have "parse_address h = Inr (emptyURL\<lparr>ur_Path := h\<rparr>)"
    using parse_url_split(2) [OF bytes getScheme_plain [OF all] subset_refl] by (simp add: parse_address_def)
  moreover have "h \<noteq> ''*''" "h \<noteq> []" using authority_not [OF bytes, of "CHR ''*''"] assms by (auto simp: plain_def)
  ultimately show ?thesis
    by (simp add: endpoint_url_def emptyURL_def URL_String_def authority_String_def EscapedPath_def escape_plain [OF all] Let_def)
qed

lemma endpoint_url_https:
  assumes "plain h" and "digits_opt port"
  shows "endpoint_url (''https://'' @ host_port h port) = Inr (''https://'' @ host_port h port)"
proof -
  have "ur_Scheme (https_url (host_port h port)) = ''https''" by (simp add: https_url_def)
  then show ?thesis
    unfolding endpoint_url_def parse_address_def url_Parse_https [OF assms] by (simp add: URL_String_https [OF assms])
qed

lemma endpoint_url_unnamed_port:
  assumes "plain h" and "list_all is_digit p" and "\<not> letter (hd h)"
  shows "endpoint_url (h @ '':'' @ p) = Inr (''https://'' @ h @ '':'' @ p)"
proof -
  let ?a = "h @ '':'' @ p"
  have a: "?a = host_port h (Some p)" and d: "digits_opt (Some p)" using assms(2) by (simp_all add: host_port_def digits_opt_def)
  have bytes: "list_all authority_byte ?a" unfolding a by (rule host_port_bytes [OF assms(1) d])
  have g: "getScheme ?a [] ?a = Inr ([], ?a)" by (rule getScheme_unnamed [OF assms(1,3)])
  have "CHR ''/'' \<notin> set ?a" using authority_not [OF bytes] by blast
  then have "parse_url ?a = Inl (Err ''first path segment in URL cannot contain colon'')"
    unfolding parse_url_split(1) [OF bytes g subset_refl]
    using no_slash_prefix [OF bytes] strings_Cut_absent [of "CHR ''/''" ?a] by (simp add: parse_rest_def emptyURL_def)
  then have "\<exists>e. url_Parse ?a = Inl e" using parse_url_split(2) [OF bytes g subset_refl] by simp
  then obtain e where "url_Parse ?a = Inl e" ..
  moreover have "url_Parse (''https://'' @ ?a) = Inr (https_url ?a)" unfolding a by (rule url_Parse_https [OF assms(1) d])
  moreover have "URL_String (https_url ?a) = ''https://'' @ ?a" unfolding a by (rule URL_String_https [OF assms(1) d])
  moreover have "ur_Scheme (https_url ?a) = ''https''" by (simp add: https_url_def)
  ultimately show ?thesis by (simp add: endpoint_url_def parse_address_def)
qed

lemma endpoint_url_named_port:
  assumes "plain h" and "list_all is_digit p" and "letter (hd h)"
  shows "endpoint_url (h @ '':'' @ p) = Inr (map lower_byte h @ '':'' @ p)"
proof -
  let ?a = "h @ '':'' @ p"
  have a: "?a = host_port h (Some p)" and d: "digits_opt (Some p)" using assms(2) by (simp_all add: host_port_def digits_opt_def)
  have bytes: "list_all authority_byte ?a" unfolding a by (rule host_port_bytes [OF assms(1) d])
  have g: "getScheme ?a [] ?a = Inr (h, p)" using getScheme_named [OF assms(1,3), of ?a p] by simp
  have sub: "set p \<subseteq> set ?a" by auto
  have "\<not> has_prefix ''/'' p" using no_slash_prefix [of p "[]"] assms(2)
    by (simp add: list_all_iff authority_byte_def is_digit_plain)
  moreover have "map lower_byte h \<noteq> []" using assms(1) by (simp add: plain_def)
  ultimately have "parse_url ?a = Inr (emptyURL\<lparr>ur_Scheme := map lower_byte h, ur_Opaque := p\<rparr>)"
    unfolding parse_url_split(1) [OF bytes g sub] by (simp add: parse_rest_def emptyURL_def)
  then have "parse_address ?a = Inr (emptyURL\<lparr>ur_Scheme := map lower_byte h, ur_Opaque := p\<rparr>)"
    using parse_url_split(2) [OF bytes g sub] by (simp add: parse_address_def)
  with \<open>map lower_byte h \<noteq> []\<close> show ?thesis
    by (cases "p = []") (simp_all add: endpoint_url_def emptyURL_def URL_String_def authority_String_def EscapedPath_def escape_def Let_def)
qed

section \<open>Sessions\<close>

lemma run_on_lib [simp]:
  "run_state (on_lib f) w = (fst (run_state f (fst w)), (snd (run_state f (fst w)), snd w))"
  by (simp add: on_lib_def split: prod.splits)

lemma run_heap [simp]:
  "run_state (read_client c) w = (gh_obj (snd w) c, w)"
  "run_state (write_client c v) w = ((), (fst w, (snd w)\<lparr>gh_obj := (gh_obj (snd w))(c := v)\<rparr>))"
  "run_state (new_object v) w = (gh_next (snd w),
     (fst w, (snd w)\<lparr>gh_next := Suc (gh_next (snd w)), gh_obj := (gh_obj (snd w))(gh_next (snd w) := v)\<rparr>))"
  by (simp_all add: read_client_def write_client_def new_object_def split: prod.splits)

lemma gofish_client_simps [simp]:
  "Close (gofish_client L c) = gofish_Close L c" "GetSystemInfo (gofish_client L c) = gofish_GetSystemInfo L c"
  "GetPowerState (gofish_client L c) = gofish_GetPowerState L c" "SetPowerState (gofish_client L c) = gofish_SetPowerState L c"
  "SetBootSourcePXE (gofish_client L c) = gofish_SetBootSourcePXE L c" "Reset (gofish_client L c) = gofish_Reset L c"
  "GetNetworkAddresses (gofish_client L c) = gofish_GetNetworkAddresses L c"
  by (simp_all add: gofish_client_def)

text \<open>\<open>NewClient\<close> hands an endpoint with the credentials to the library and wraps what it gets.\<close>

definition connects_to :: "'w gofish \<Rightarrow> string \<Rightarrow> string \<Rightarrow> bool" where
  "connects_to L address endpoint \<longleftrightarrow> (\<forall>username password insecure w.
     case run_state (ConnectContext L \<lparr>cf_Endpoint = endpoint, cf_Username = username, cf_Password = password,
         cf_Insecure = insecure, cf_BasicAuth = True\<rparr>) (fst w) of
       (Inl err, v) \<Rightarrow> run_state (NewClient L address username password insecure) w =
         (Inl (wrap_error (''failed to connect to Redfish endpoint '' @ endpoint) err), (v, snd w))
     | (Inr api, v) \<Rightarrow> (\<exists>c h. run_state (NewClient L address username password insecure) w = (Inr c, (v, h)) \<and>
         gh_obj h c = \<lparr>gc_gofishClient = Some api, gc_apiEndpoint = endpoint\<rparr> \<and> (\<forall>d. d \<noteq> c \<longrightarrow> gh_obj h d = gh_obj (snd w) d)))"

lemma connects_to_endpoint: "endpoint_url address = Inr endpoint \<Longrightarrow> connects_to L address endpoint"
  by (auto simp: connects_to_def NewClient_def split: prod.splits sum.splits)

text \<open>
  C30. Which endpoint \<open>NewClient\<close> connects to, with the credentials it is given and basic authentication. Let \<open>h\<close> be a
  non-empty host of ASCII letters, digits, dots and hyphens, and \<open>p\<close> a possibly empty string of digits. The address \<open>h\<close> leads to
  \<open>https://h\<close>; the addresses \<open>https://h\<close> and \<open>https://h:p\<close> are used as they are; \<open>h:p\<close> leads to \<open>https://h:p\<close> when \<open>h\<close> does
  not start with a letter. When it does, \<open>h\<close> is read as a scheme: the client connects to no \<open>https\<close> URL but to the text
  itself, with \<open>h\<close> in lower case.
\<close>

theorem NewClient_endpoint:
  assumes "plain h" and "list_all is_digit p"
  shows "connects_to L h (''https://'' @ h) \<and>
    connects_to L (''https://'' @ h) (''https://'' @ h) \<and>
    connects_to L (''https://'' @ h @ '':'' @ p) (''https://'' @ h @ '':'' @ p) \<and>
    connects_to L (h @ '':'' @ p) (if letter (hd h) then map lower_byte h @ '':'' @ p else ''https://'' @ h @ '':'' @ p)"
  using endpoint_url_bare [OF assms(1)] endpoint_url_https [OF assms(1), of None] endpoint_url_https [OF assms(1), of "Some p"]
    endpoint_url_unnamed_port [OF assms] endpoint_url_named_port [OF assms] assms(2)
  by (simp add: host_port_def digits_opt_def connects_to_endpoint)

definition connected :: "gofish_heap \<Rightarrow> nat \<Rightarrow> bool" where
  "connected h c \<longleftrightarrow> gc_gofishClient (gh_obj h c) \<noteq> None"

lemma getSystemService_closed:
  "\<not> connected (snd w) c \<Longrightarrow> run_state (getSystemService L c) w = (Inl (Err ''redfish client is not connected''), w)"
  by (simp add: getSystemService_def connected_def)

lemmas gofish_op_defs = gofish_GetSystemInfo_def gofish_GetPowerState_def gofish_SetPowerState_def gofish_SetBootSourcePXE_def
  gofish_Reset_def gofish_GetNetworkAddresses_def

text \<open>
  A closed client is dead and harmless. Closing logs out once: afterwards the object has no
  connection, closing it again does nothing, every operation on it fails and none of them reaches the
  library; other clients keep their connections.
\<close>

theorem closed_client_is_dead:
  assumes "run_state (Close (gofish_client L c)) w = ((), w')"
  shows "\<not> connected (snd w') c \<and> (\<forall>d. d \<noteq> c \<longrightarrow> gh_obj (snd w') d = gh_obj (snd w) d) \<and>
    fst w' = (case gc_gofishClient (gh_obj (snd w) c) of None \<Rightarrow> fst w | Some api \<Rightarrow> snd (run_state (Logout L api) (fst w))) \<and>
    run_state (Close (gofish_client L c)) w' = ((), w') \<and>
    (\<exists>e. run_state (GetSystemInfo (gofish_client L c)) w' = (Inl e, w')) \<and>
    (\<exists>e. run_state (GetPowerState (gofish_client L c)) w' = (Inl e, w')) \<and>
    (\<exists>e. run_state (SetPowerState (gofish_client L c) p) w' = (Some e, w')) \<and>
    (\<exists>e. run_state (SetBootSourcePXE (gofish_client L c)) w' = (Some e, w')) \<and>
    (\<exists>e. run_state (Reset (gofish_client L c)) w' = (Some e, w')) \<and>
    (\<exists>e. run_state (GetNetworkAddresses (gofish_client L c)) w' = (Inl e, w'))"
proof -
  have c: "\<not> connected (snd w') c"
    and r: "\<forall>d. d \<noteq> c \<longrightarrow> gh_obj (snd w') d = gh_obj (snd w) d"
      "fst w' = (case gc_gofishClient (gh_obj (snd w) c) of None \<Rightarrow> fst w | Some api \<Rightarrow> snd (run_state (Logout L api) (fst w)))"
    using assms by (auto simp: gofish_Close_def connected_def split: option.splits)
  moreover have "run_state (Close (gofish_client L c)) w' = ((), w')"
    using c by (simp add: gofish_Close_def connected_def)
  ultimately show ?thesis by (simp add: gofish_op_defs getSystemService_closed [OF c])
qed

section \<open>Addresses\<close>

lemma ipv4_addresses_map:
  "ipv4_addresses e as = map (\<lambda>a. \<lparr>na_Type = IPv4AddressType, na_Address = v4_Address a, na_Gateway = v4_Gateway a,
     na_InterfaceName = ei_Name e, na_MACAddress = ei_MACAddress e\<rparr>) (filter (\<lambda>a. v4_Address a \<noteq> []) as)"
  by (induction as) auto

lemma ipv6_addresses_map:
  "ipv6_addresses e as = map (\<lambda>a. \<lparr>na_Type = IPv6AddressType, na_Address = v6_Address a, na_Gateway = ei_IPv6DefaultGateway e,
     na_InterfaceName = ei_Name e, na_MACAddress = ei_MACAddress e\<rparr>) (filter (\<lambda>a. v6_Address a \<noteq> []) as)"
  by (induction as) auto

lemma network_interfaces_loop_result: "fst (run_state (network_interfaces_loop L ns addresses) w) = addresses"
  by (induction ns arbitrary: w) (simp_all add: extractAddressesFromNetworkInterface_def)

definition interface_addresses :: "EthernetInterface \<Rightarrow> string list" where
  "interface_addresses e = filter (\<lambda>a. a \<noteq> []) (map v4_Address (ei_IPv4Addresses e)) @
     filter (\<lambda>a. a \<noteq> []) (map v6_Address (ei_IPv6Addresses e))"

lemma extract_addresses: "map na_Address (extractAddressesFromEthernetInterface e) = interface_addresses e"
  by (simp add: extractAddressesFromEthernetInterface_def interface_addresses_def ipv4_addresses_map ipv6_addresses_map
      filter_map comp_def)

text \<open>
  C31. The addresses of a host are exactly the non-empty addresses of its ethernet interfaces, in the
  order of the interfaces and with IPv4 before IPv6. The fallback to network interfaces never finds
  one: when the ethernet interfaces give nothing the result is empty, or an error when the network
  interfaces cannot be read either.
\<close>

theorem GetNetworkAddresses_exact:
  assumes "run_state (getSystemService L c) w = (Inr system, w1)"
    and "run_state (EthernetInterfaces L system) (fst w1) = (eth, v)"
  shows "let found = concat (map interface_addresses (case eth of Inl _ \<Rightarrow> [] | Inr es \<Rightarrow> es)) in
    case fst (run_state (GetNetworkAddresses (gofish_client L c)) w) of
      Inr addresses \<Rightarrow> map na_Address addresses = found
    | Inl err \<Rightarrow> found = [] \<and> (\<exists>e. fst (run_state (NetworkInterfaces L system) v) = Inl e)"
proof -
  let ?a = "concat (map extractAddressesFromEthernetInterface (case eth of Inl _ \<Rightarrow> [] | Inr es \<Rightarrow> es))"
  let ?f = "concat (map interface_addresses (case eth of Inl _ \<Rightarrow> [] | Inr es \<Rightarrow> es))"
  have found: "map na_Address ?a = ?f" by (simp add: map_concat comp_def extract_addresses)
  have a: "(case eth of Inl _ \<Rightarrow> [] | Inr es \<Rightarrow> concat (map extractAddressesFromEthernetInterface es)) = ?a"
    by (cases eth) simp_all
  show ?thesis
  proof (cases "?a = []")
    case True
    have e: "?f = []" unfolding found [symmetric] True by simp
    have z: "(case eth of Inl _ \<Rightarrow> [] | Inr es \<Rightarrow> concat (map extractAddressesFromEthernetInterface es)) = []"
      unfolding a by (rule True)
    obtain n v' where n: "run_state (NetworkInterfaces L system) v = (n, v')" by fastforce
    show ?thesis
    proof (cases n)
      case (Inl err)
      then show ?thesis unfolding Let_def e using assms n z by (simp add: gofish_GetNetworkAddresses_def)
    next
      case (Inr ns)
      obtain u where "run_state (network_interfaces_loop L ns []) (v', snd w1) = ([], u)"
        using network_interfaces_loop_result [of L ns "[]" "(v', snd w1)"] by (metis prod.collapse)
      with Inr show ?thesis unfolding Let_def e using assms n z by (simp add: gofish_GetNetworkAddresses_def)
    qed
  next
    case False
    then have "run_state (GetNetworkAddresses (gofish_client L c)) w = (Inr ?a, (v, snd w1))"
      using assms by (cases eth) (auto simp: gofish_GetNetworkAddresses_def Let_def)
    with found show ?thesis by (simp add: Let_def)
  qed
qed

section \<open>The contract of a device behind the library\<close>

definition no_command :: "('w \<Rightarrow> (string \<times> bmc_command) list) \<Rightarrow> 'w gofish_world \<Rightarrow> 'w gofish_world \<Rightarrow> bool" where
  "no_command commands w w' \<longleftrightarrow> commands (fst w') = commands (fst w)"

text \<open>
  A Redfish service in front of the BMC at the address \<open>a\<close>: an accepted reset of type \<open>On\<close> or \<open>ForceOff\<close> is an
  accepted power request, an accepted boot override to the network is an accepted request to boot from it, and the calls
  that only read are no commands.
\<close>

locale gofish_device =
  fixes L :: "'w gofish" and commands :: "'w \<Rightarrow> (string \<times> bmc_command) list" and a :: string
  assumes systems: "run_state (Systems L api) w = (r, w') \<Longrightarrow> commands w' = commands w"
    and reset: "run_state (system_Reset L s t) w = (None, w') \<Longrightarrow>
      (t = OnResetType \<longrightarrow> commands w' = commands w @ [(a, PowerRequest OnPowerState)]) \<and>
      (t = ForceOffResetType \<longrightarrow> commands w' = commands w @ [(a, PowerRequest OffPowerState)])"
    and set_boot: "run_state (system_SetBoot L s b) w = (None, w') \<Longrightarrow> bo_BootSourceOverrideTarget b = PxeBootSourceOverrideTarget \<Longrightarrow>
      commands w' = commands w @ [(a, BootFromPXE)]"
    and logout: "run_state (Logout L api) w = (u, w') \<Longrightarrow> commands w' = commands w"
    and ethernet: "run_state (EthernetInterfaces L s) w = (e, w') \<Longrightarrow> commands w' = commands w"
    and network: "run_state (NetworkInterfaces L s) w = (n, w') \<Longrightarrow> commands w' = commands w"
    and ports: "run_state (NetworkPorts L i) w = (q, w') \<Longrightarrow> commands w' = commands w"
    and device_functions: "run_state (NetworkDeviceFunctions L i) w = (q, w') \<Longrightarrow> commands w' = commands w"
begin

lemma system_device:
  assumes "run_state (getSystemService L c) w = (r, w')"
  shows "no_command commands w w'"
proof (cases "gc_gofishClient (gh_obj (snd w) c)")
  case (Some api)
  obtain l v where l: "run_state (Systems L api) (fst w) = (l, v)" by fastforce
  from systems [OF l] assms Some l show ?thesis
    by (auto simp: getSystemService_def no_command_def split: sum.splits list.splits)
qed (use assms in \<open>auto simp: getSystemService_def no_command_def\<close>)

lemma interfaces_loop_device: "run_state (network_interfaces_loop L ns as) w = (r, w') \<Longrightarrow> no_command commands w w'"
proof (induction ns arbitrary: w as)
  case (Cons n ns)
  obtain q1 v1 where p: "run_state (NetworkPorts L n) (fst w) = (q1, v1)" by fastforce
  obtain q2 v2 where f: "run_state (NetworkDeviceFunctions L n) v1 = (q2, v2)" by fastforce
  from Cons.prems p f have "run_state (network_interfaces_loop L ns as) (v2, snd w) = (r, w')"
    by (simp add: extractAddressesFromNetworkInterface_def)
  from Cons.IH [OF this] ports [OF p] device_functions [OF f] show ?case by (simp add: no_command_def)
qed (simp add: no_command_def)

lemma addresses_device:
  assumes "run_state (gofish_GetNetworkAddresses L c) w = (r, w')"
  shows "no_command commands w w'"
proof -
  obtain s w1 where s: "run_state (getSystemService L c) w = (s, w1)" by (rule prod.exhaust)
  note d1 = system_device [OF s]
  show ?thesis
  proof (cases s)
    case (Inl e)
    with assms s d1 show ?thesis by (simp add: gofish_GetNetworkAddresses_def)
  next
    case (Inr system)
    obtain e v where e: "run_state (EthernetInterfaces L system) (fst w1) = (e, v)" by fastforce
    obtain n v2 where n: "run_state (NetworkInterfaces L system) v = (n, v2)" by fastforce
    have "no_command commands w1 w'"
    proof (cases "(case e of Inl _ \<Rightarrow> [] | Inr es \<Rightarrow> concat (map extractAddressesFromEthernetInterface es)) = []")
      case True
      with assms s Inr e n ethernet [OF e] network [OF n] show ?thesis
        by (cases n) (auto simp: gofish_GetNetworkAddresses_def no_command_def Let_def split: prod.splits dest!: interfaces_loop_device)
    next
      case False
      with assms s Inr e ethernet [OF e] show ?thesis
        by (auto simp: gofish_GetNetworkAddresses_def no_command_def Let_def)
    qed
    with d1 show ?thesis by (simp add: no_command_def)
  qed
qed

end

text \<open>One session on the device keeps the contract the controllers rely on.\<close>

locale gofish_session = gofish_device L commands a
  for L :: "'w gofish" and commands a +
  fixes c :: nat

sublocale gofish_session \<subseteq> client: bmc_session "gofish_client L c" "\<lambda>w. commands (fst w)" a
proof unfold_locales
  fix w w' :: "'w gofish_world" and q
  assume run: "run_state (GetPowerState (gofish_client L c)) w = (q, w')"
  obtain s w1 where s: "run_state (getSystemService L c) w = (s, w1)" by (rule prod.exhaust)
  from run s system_device [OF s] show "commands (fst w') = commands (fst w)"
    by (auto simp: gofish_GetPowerState_def no_command_def split: sum.splits)
next
  fix w w' :: "'w gofish_world" and p
  assume p: "p = OnPowerState \<or> p = OffPowerState" and run: "run_state (SetPowerState (gofish_client L c) p) w = (None, w')"
  obtain s w1 where s: "run_state (getSystemService L c) w = (s, w1)" by (rule prod.exhaust)
  from run s obtain system where system: "s = Inr system" by (cases s) (auto simp: gofish_SetPowerState_def)
  obtain t where t: "reset_type p = Some t" "p = OnPowerState \<and> t = OnResetType \<or> p = OffPowerState \<and> t = ForceOffResetType"
    using p by (auto simp: reset_type_def)
  obtain res v where r: "run_state (system_Reset L system t) (fst w1) = (res, v)" by fastforce
  with run s system t have "res = None" "fst w' = v" by (auto simp: gofish_SetPowerState_def split: option.splits)
  with r t(2) reset [of system t "fst w1" v] system_device [OF s]
  show "commands (fst w') = commands (fst w) @ [(a, PowerRequest p)]" by (auto simp: no_command_def)
next
  fix w w' :: "'w gofish_world"
  assume run: "run_state (SetBootSourcePXE (gofish_client L c)) w = (None, w')"
  let ?b = "\<lparr>bo_BootSourceOverrideTarget = PxeBootSourceOverrideTarget, bo_BootSourceOverrideEnabled = OnceBootSourceOverrideEnabled\<rparr>"
  obtain s w1 where s: "run_state (getSystemService L c) w = (s, w1)" by (rule prod.exhaust)
  from run s obtain system where system: "s = Inr system" by (cases s) (auto simp: gofish_SetBootSourcePXE_def)
  obtain res v where b: "run_state (system_SetBoot L system ?b) (fst w1) = (res, v)" by fastforce
  with run s system have "res = None" "fst w' = v" by (auto simp: gofish_SetBootSourcePXE_def split: option.splits)
  with b set_boot [of system ?b "fst w1" v] system_device [OF s]
  show "commands (fst w') = commands (fst w) @ [(a, BootFromPXE)]" by (simp add: no_command_def)
next
  fix w w' :: "'w gofish_world" and i
  assume run: "run_state (GetSystemInfo (gofish_client L c)) w = (i, w')"
  obtain s w1 where s: "run_state (getSystemService L c) w = (s, w1)" by (rule prod.exhaust)
  from run s system_device [OF s] show "commands (fst w') = commands (fst w)"
    by (auto simp: gofish_GetSystemInfo_def no_command_def)
next
  fix w w' :: "'w gofish_world" and n
  assume "run_state (GetNetworkAddresses (gofish_client L c)) w = (n, w')"
  then show "commands (fst w') = commands (fst w)" using addresses_device by (simp add: no_command_def)
next
  fix w w' :: "'w gofish_world" and u
  assume run: "run_state (Close (gofish_client L c)) w = (u, w')"
  show "commands (fst w') = commands (fst w)"
  proof (cases "gc_gofishClient (gh_obj (snd w) c)")
    case (Some api)
    obtain u v where l: "run_state (Logout L api) (fst w) = (u, v)" by (rule prod.exhaust)
    from run Some l logout [OF l] show ?thesis by (auto simp: gofish_Close_def)
  qed (use run in \<open>simp add: gofish_Close_def\<close>)
qed

section \<open>A device in memory\<close>

text \<open>A BMC that follows its commands at once, to run the client against.\<close>

record bmc =
  bmc_power :: string
  bmc_commands :: "(string \<times> bmc_command) list"
  bmc_systems :: "ComputerSystem list"
  bmc_ethernet :: "EthernetInterface list"

definition mem_gofish :: "bmc gofish" where
  "mem_gofish =
    \<lparr>ConnectContext = (\<lambda>cf. State_Monad.return (if has_prefix ''http'' (cf_Endpoint cf) then Inr 1
        else Inl (Err ''endpoint must starts with http or https''))),
     Logout = (\<lambda>api. State_Monad.return ()),
     Systems = (\<lambda>api. State (\<lambda>b. (Inr (map (\<lambda>s. s\<lparr>sys_PowerState := bmc_power b\<rparr>) (bmc_systems b)), b))),
     system_Reset = (\<lambda>s t. State (\<lambda>b. let p = (if t = ForceOffResetType then OffPowerState else OnPowerState)
       in (None, b\<lparr>bmc_power := p, bmc_commands := bmc_commands b @ [(''https://10.0.0.9'', PowerRequest p)]\<rparr>))),
     system_SetBoot = (\<lambda>s boot. State (\<lambda>b. (None, if bo_BootSourceOverrideTarget boot = PxeBootSourceOverrideTarget
       then b\<lparr>bmc_commands := bmc_commands b @ [(''https://10.0.0.9'', BootFromPXE)]\<rparr> else b))),
     EthernetInterfaces = (\<lambda>s. State (\<lambda>b. (Inr (bmc_ethernet b), b))),
     NetworkInterfaces = (\<lambda>s. State_Monad.return (Inr [])),
     NetworkPorts = (\<lambda>i. State_Monad.return (Inr [])),
     NetworkDeviceFunctions = (\<lambda>i. State_Monad.return (Inr []))\<rparr>"

interpretation mem_device: gofish_device mem_gofish bmc_commands "''https://10.0.0.9''"
  by unfold_locales (auto simp: mem_gofish_def Let_def)

interpretation mem_session: gofish_session mem_gofish bmc_commands "''https://10.0.0.9''" c for c
  by unfold_locales

definition sample_system :: ComputerSystem where
  "sample_system = \<lparr>sys_ID = ''1'', sys_Manufacturer = ''Acme'', sys_Model = ''R1'', sys_SerialNumber = ''S1'',
     sys_Status = \<lparr>rs_Health = ''OK'', rs_HealthRollup = ''OK'', rs_State = ''Enabled''\<rparr>, sys_PowerState = ''''\<rparr>"

definition sample_bmc :: "bmc gofish_world" where
  "sample_bmc = (\<lparr>bmc_power = OffPowerState, bmc_commands = [], bmc_systems = [sample_system],
     bmc_ethernet = [\<lparr>ei_Name = ''eth0'', ei_MACAddress = ''02:00:00:00:00:01'',
       ei_IPv4Addresses = [\<lparr>v4_Address = '''', v4_Gateway = ''''\<rparr>, \<lparr>v4_Address = ''10.0.0.7'', v4_Gateway = ''10.0.0.1''\<rparr>],
       ei_IPv6Addresses = [\<lparr>v6_Address = ''fe80::1''\<rparr>], ei_IPv6DefaultGateway = ''''\<rparr>]\<rparr>,
     \<lparr>gh_next = 1, gh_obj = (\<lambda>_. \<lparr>gc_gofishClient = Some 1, gc_apiEndpoint = ''https://10.0.0.9''\<rparr>)\<rparr>)"

lemmas bmc_eval = mem_gofish_def sample_bmc_def sample_system_def

theorem closed_client_is_dead_witness:
  "\<exists>w' e. run_state (Close (gofish_client mem_gofish 0)) sample_bmc = ((), w') \<and>
     run_state (GetPowerState (gofish_client mem_gofish 0)) w' = (Inl e, w') \<and> connected (snd w') 1"
proof -
  obtain w' where r: "run_state (Close (gofish_client mem_gofish 0)) sample_bmc = ((), w')"
    by (metis old.unit.exhaust prod.exhaust)
  note d = closed_client_is_dead [OF r]
  then have "gh_obj (snd w') 1 = gh_obj (snd sample_bmc) 1" by simp
  then have "connected (snd w') 1" by (simp add: connected_def sample_bmc_def)
  with d r show ?thesis by blast
qed

theorem NewClient_endpoint_witness:
  "fst (run_state (NewClient mem_gofish ''10.0.0.9:8443'' ''admin'' ''pw'' False) sample_bmc) = Inr 1 \<and>
   (\<exists>err. fst (run_state (NewClient mem_gofish ''bmc1.example:8443'' ''admin'' ''pw'' False) sample_bmc) = Inl err)"
proof -
  have "plain ''10.0.0.9''" "plain ''bmc1.example''" "list_all is_digit ''8443''" "\<not> letter (hd ''10.0.0.9'')" "letter (hd ''bmc1.example'')"
    by (simp_all add: plain_def plain_byte_def ascii_alnum_def is_digit_def letter_def)
  moreover have "map lower_byte ''bmc1.example'' = ''bmc1.example''" by (simp add: lower_byte_def)
  ultimately have c: "connects_to mem_gofish ''10.0.0.9:8443'' ''https://10.0.0.9:8443''"
      "connects_to mem_gofish ''bmc1.example:8443'' ''bmc1.example:8443''"
    using NewClient_endpoint [of "''10.0.0.9''" "''8443''" mem_gofish] NewClient_endpoint [of "''bmc1.example''" "''8443''" mem_gofish] by simp_all
  have "\<exists>c. fst (run_state (NewClient mem_gofish ''10.0.0.9:8443'' ''admin'' ''pw'' False) sample_bmc) = Inr c"
    using c(1) [unfolded connects_to_def, rule_format, of "''admin''" "''pw''" False sample_bmc] by (auto simp: mem_gofish_def)
  then have "fst (run_state (NewClient mem_gofish ''10.0.0.9:8443'' ''admin'' ''pw'' False) sample_bmc) = Inr 1"
    by (auto simp: NewClient_def sample_bmc_def split: sum.splits prod.splits)
  moreover have "\<exists>err. fst (run_state (NewClient mem_gofish ''bmc1.example:8443'' ''admin'' ''pw'' False) sample_bmc) = Inl err"
    using c(2) [unfolded connects_to_def, rule_format, of "''admin''" "''pw''" False sample_bmc] by (simp add: mem_gofish_def)
  ultimately show ?thesis by blast
qed

theorem GetNetworkAddresses_exact_witness:
  "\<exists>addresses. fst (run_state (GetNetworkAddresses (gofish_client mem_gofish 0)) sample_bmc) = Inr addresses \<and>
     map na_Address addresses = [''10.0.0.7'', ''fe80::1'']"
proof -
  let ?s = "sample_system\<lparr>sys_PowerState := OffPowerState\<rparr>"
  have s: "run_state (getSystemService mem_gofish 0) sample_bmc = (Inr ?s, sample_bmc)"
    by (simp add: getSystemService_def bmc_eval)
  have e: "run_state (EthernetInterfaces mem_gofish ?s) (fst sample_bmc) = (Inr (bmc_ethernet (fst sample_bmc)), fst sample_bmc)"
    by (simp add: mem_gofish_def)
  have "concat (map interface_addresses (bmc_ethernet (fst sample_bmc))) = [''10.0.0.7'', ''fe80::1'']"
    by (simp add: interface_addresses_def sample_bmc_def)
  with GetNetworkAddresses_exact [OF s e] show ?thesis by (auto simp: Let_def split: sum.splits)
qed

end
