(* ===== verification/TLSValidator.thy ===== *)
theory TLSValidator
  imports GoURL
begin

unbundle bit_operations_syntax

text \<open>
  \<open>internal/security/tls_validator.go\<close>: the inspection of the certificate a BMC presents. What reaches
  the network is an argument of the model: the clock, and the TLS dial with the certificates it
  brings back. Of the standard library, \<open>x509.Certificate.VerifyHostname\<close> is translated; the wording of
  its error, the printed form of an address and the format of a time are arguments.
\<close>

section \<open>Certificates\<close>

text \<open>The fields of \<open>x509.Certificate\<close> the validator reads; the names are in their printed form.\<close>

record Certificate =
  ce_Subject :: string
  ce_Issuer :: string
  ce_SerialNumber :: string
  ce_NotBefore :: Time
  ce_NotAfter :: Time
  ce_KeyUsage :: goint
  ce_ExtKeyUsage :: "goint list"
  ce_IsCA :: bool
  ce_DNSNames :: "string list"
  ce_IPAddresses :: "IP list"

abbreviation KeyUsageDigitalSignature :: goint where "KeyUsageDigitalSignature \<equiv> 1"
abbreviation KeyUsageContentCommitment :: goint where "KeyUsageContentCommitment \<equiv> 2"
abbreviation KeyUsageKeyEncipherment :: goint where "KeyUsageKeyEncipherment \<equiv> 4"
abbreviation KeyUsageDataEncipherment :: goint where "KeyUsageDataEncipherment \<equiv> 8"
abbreviation KeyUsageKeyAgreement :: goint where "KeyUsageKeyAgreement \<equiv> 16"
abbreviation KeyUsageCertSign :: goint where "KeyUsageCertSign \<equiv> 32"
abbreviation KeyUsageCRLSign :: goint where "KeyUsageCRLSign \<equiv> 64"
abbreviation KeyUsageEncipherOnly :: goint where "KeyUsageEncipherOnly \<equiv> 128"
abbreviation KeyUsageDecipherOnly :: goint where "KeyUsageDecipherOnly \<equiv> 256"

abbreviation ExtKeyUsageServerAuth :: goint where "ExtKeyUsageServerAuth \<equiv> 1"
abbreviation ExtKeyUsageClientAuth :: goint where "ExtKeyUsageClientAuth \<equiv> 2"
abbreviation ExtKeyUsageCodeSigning :: goint where "ExtKeyUsageCodeSigning \<equiv> 3"
abbreviation ExtKeyUsageEmailProtection :: goint where "ExtKeyUsageEmailProtection \<equiv> 4"
abbreviation ExtKeyUsageTimeStamping :: goint where "ExtKeyUsageTimeStamping \<equiv> 8"
abbreviation ExtKeyUsageOCSPSigning :: goint where "ExtKeyUsageOCSPSigning \<equiv> 9"

text \<open>\<open>VerifyHostname\<close> of \<open>crypto/x509\<close>.\<close>

definition trim_dot :: "string \<Rightarrow> string" where
  "trim_dot host = (if host \<noteq> [] \<and> last host = CHR ''.'' then butlast host else host)"

definition part_ok :: "string \<Rightarrow> bool" where
  "part_ok part = list_all (\<lambda>(j, c). ascii_alnum c \<or> c = CHR ''-'' \<and> j \<noteq> 0 \<or> c = CHR ''_'') (enumerate 0 part)"

definition validHostname :: "bool \<Rightarrow> string \<Rightarrow> bool" where
  "validHostname isPattern host0 =
    (let host = (if isPattern then host0 else trim_dot host0) in
     host \<noteq> [] \<and> host \<noteq> ''*'' \<and>
     list_all (\<lambda>(i, part). part \<noteq> [] \<and> (isPattern \<and> i = 0 \<and> part = ''*'' \<or> part_ok part))
       (enumerate 0 (strings_Split CHR ''.'' host)))"

definition matchExactly :: "string \<Rightarrow> string \<Rightarrow> bool" where
  "matchExactly hostA hostB =
    (if hostA = [] \<or> hostA = ''.'' \<or> hostB = [] \<or> hostB = ''.'' then False else map lower_byte hostA = map lower_byte hostB)"

fun match_parts :: "nat \<Rightarrow> string list \<Rightarrow> string list \<Rightarrow> bool" where
  "match_parts i (p # ps) (h # hs) = ((i = 0 \<and> p = ''*'' \<or> p = h) \<and> match_parts (Suc i) ps hs)"
| "match_parts i [] [] = True"
| "match_parts i _ _ = False"

definition matchHostnames :: "string \<Rightarrow> string \<Rightarrow> bool" where
  "matchHostnames pattern0 host0 =
    (let pattern = map lower_byte pattern0; host = map lower_byte (trim_dot host0) in
     if pattern = [] \<or> host = [] then False
     else match_parts 0 (strings_Split CHR ''.'' pattern) (strings_Split CHR ''.'' host))"

definition IP_Equal :: "IP \<Rightarrow> IP \<Rightarrow> bool" where
  "IP_Equal ip x =
    (if length ip = length x then ip = x
     else if length ip = 4 \<and> length x = 16 then x = v4InV6Prefix @ ip
     else if length ip = 16 \<and> length x = 4 then ip = v4InV6Prefix @ x
     else False)"

definition hostname_verified :: "Certificate \<Rightarrow> string \<Rightarrow> bool" where
  "hostname_verified cert h =
    (let candidateIP = (if length h \<ge> 3 \<and> hd h = CHR ''['' \<and> last h = CHR '']'' then butlast (tl h) else h) in
     case ParseIP candidateIP of
       Some ip \<Rightarrow> list_ex (IP_Equal ip) (ce_IPAddresses cert)
     | None \<Rightarrow>
         (let candidateName = map lower_byte h; validCandidateName = validHostname False candidateName in
          list_ex (\<lambda>match. if validCandidateName \<and> validHostname True match then matchHostnames match candidateName
             else matchExactly match candidateName) (ce_DNSNames cert)))"

section \<open>The validator\<close>

record 'pool TLSConfig =
  tc_ServerName :: string
  tc_InsecureSkipVerify :: bool
  tc_RootCAs :: "'pool option"

record ('w, 'pool) tls_env =
  tls_Now :: "('w, Time) io"
  DialTLS :: "Duration \<Rightarrow> string \<Rightarrow> 'pool TLSConfig \<Rightarrow> ('w, error + nat) io"
  PeerCertificates :: "nat \<Rightarrow> ('w, Certificate list) io"
  Close_TLS :: "nat \<Rightarrow> ('w, unit) io"
  HostnameError :: "Certificate \<Rightarrow> string \<Rightarrow> string"
  IP_String :: "IP \<Rightarrow> string"
  Format_RFC3339 :: "Time \<Rightarrow> string"

record 'pool TLSValidator =
  tv_CustomCAs :: "'pool option"
  tv_Timeout :: Duration
  tv_AllowSelfSigned :: bool

definition NewTLSValidator :: "'pool TLSValidator" where
  "NewTLSValidator = \<lparr>tv_CustomCAs = None, tv_Timeout = 30 * second, tv_AllowSelfSigned = False\<rparr>"

record ValidationResult =
  vr_Valid :: bool
  vr_Warnings :: "string list"
  vr_Errors :: "string list"
  vr_Certificate :: "Certificate option"
  vr_CertChain :: "Certificate list"
  vr_Expiry :: "Time option"
  vr_IsSelfSigned :: bool
  vr_SANs :: "string list"

definition tls_error :: "string \<Rightarrow> ValidationResult \<Rightarrow> ValidationResult" where
  "tls_error m result = result\<lparr>vr_Errors := vr_Errors result @ [m]\<rparr>"

definition tls_warning :: "string \<Rightarrow> ValidationResult \<Rightarrow> ValidationResult" where
  "tls_warning m result = result\<lparr>vr_Warnings := vr_Warnings result @ [m]\<rparr>"

definition isSelfSigned :: "Certificate \<Rightarrow> bool" where
  "isSelfSigned cert = (ce_Issuer cert = ce_Subject cert)"

definition validateCertificate :: "'pool TLSValidator \<Rightarrow> Time \<Rightarrow> Certificate \<Rightarrow> ValidationResult \<Rightarrow> ValidationResult" where
  "validateCertificate v now cert r0 =
    (let r1 = (if now < ce_NotBefore cert then tls_error ''Certificate is not yet valid'' r0 else r0);
         r2 = (if now > ce_NotAfter cert then tls_error ''Certificate has expired'' r1 else r1);
         r3 = (if vr_IsSelfSigned r2 \<and> \<not> tv_AllowSelfSigned v then tls_error ''Self-signed certificates are not allowed'' r2
               else if vr_IsSelfSigned r2 then tls_warning ''Certificate is self-signed'' r2 else r2);
         r4 = (if ce_KeyUsage cert AND KeyUsageDigitalSignature = 0
               then tls_warning ''Certificate lacks digital signature key usage'' r3 else r3);
         r5 = (if ce_KeyUsage cert AND KeyUsageKeyEncipherment = 0 \<and> ce_KeyUsage cert AND KeyUsageKeyAgreement = 0
               then tls_warning ''Certificate lacks key encipherment or key agreement usage'' r4 else r4)
     in if \<not> list_ex (\<lambda>usage. usage = ExtKeyUsageServerAuth) (ce_ExtKeyUsage cert)
        then tls_warning ''Certificate lacks server authentication extended key usage'' r5 else r5)"

fun chain_loop :: "nat \<Rightarrow> Certificate list \<Rightarrow> ValidationResult \<Rightarrow> ValidationResult" where
  "chain_loop i [] r = r"
| "chain_loop i (cert # chain) r =
    (let r1 = (if ce_IsCA cert \<and> i = 0 then tls_error ''Leaf certificate incorrectly marked as CA'' r else r);
         r2 = (if \<not> ce_IsCA cert \<and> i > 0
               then tls_warning (''Intermediate certificate at position '' @ show_nat i @ '' not marked as CA'') r1 else r1)
     in chain_loop (Suc i) chain r2)"

definition validateCertificateChain :: "Certificate list \<Rightarrow> ValidationResult \<Rightarrow> ValidationResult" where
  "validateCertificateChain chain r =
     chain_loop 0 chain (if length chain = 1 \<and> \<not> vr_IsSelfSigned r
       then tls_warning ''Certificate chain contains only leaf certificate (missing intermediate CAs)'' r else r)"

definition validateExpiry :: "Time \<Rightarrow> Certificate \<Rightarrow> ValidationResult \<Rightarrow> ValidationResult" where
  "validateExpiry now cert r =
    (let r1 = (if time_Sub (ce_NotAfter cert) now < 30 * 24 * hour \<and> ce_NotAfter cert > now
               then tls_warning ''Certificate expires within 30 days'' r else r)
     in if time_Sub (ce_NotAfter cert) now < 7 * 24 * hour \<and> ce_NotAfter cert > now
        then tls_warning ''Certificate expires within 7 days'' r1 else r1)"

definition validateHostname :: "('w, 'pool) tls_env \<Rightarrow> Certificate \<Rightarrow> string \<Rightarrow> ValidationResult \<Rightarrow> ValidationResult" where
  "validateHostname T cert hostname r =
    (if hostname_verified cert hostname then r
     else let r1 = tls_error (''Certificate not valid for hostname '' @ hostname @ '': '' @ HostnameError T cert hostname) r;
              r2 = (if ce_DNSNames cert \<noteq> [] then tls_warning (''Certificate is valid for: '' @ strings_Join '', '' (ce_DNSNames cert)) r1 else r1)
          in if ce_IPAddresses cert \<noteq> []
             then tls_warning (''Certificate is valid for IPs: '' @ strings_Join '', '' (map (IP_String T) (ce_IPAddresses cert))) r2
             else r2)"

definition empty_validation :: ValidationResult where
  "empty_validation = \<lparr>vr_Valid = False, vr_Warnings = [], vr_Errors = [], vr_Certificate = None, vr_CertChain = [],
     vr_Expiry = None, vr_IsSelfSigned = False, vr_SANs = []\<rparr>"

definition ValidateTLSConnection :: "('w, 'pool) tls_env \<Rightarrow> 'pool TLSValidator \<Rightarrow> string \<Rightarrow> nat \<Rightarrow> ('w, ValidationResult) io" where
  "ValidateTLSConnection T v host conn = do {
     chain \<leftarrow> PeerCertificates T conn;
     case chain of
       [] \<Rightarrow> State_Monad.return (tls_error ''No certificates found'' empty_validation)
     | cert # rest \<Rightarrow> do {
         let r0 = empty_validation\<lparr>vr_Certificate := Some cert, vr_CertChain := chain, vr_Expiry := Some (ce_NotAfter cert),
           vr_SANs := ce_DNSNames cert, vr_IsSelfSigned := isSelfSigned cert\<rparr>;
         now \<leftarrow> tls_Now T;
         let r1 = validateCertificateChain chain (validateCertificate v now cert r0);
         now' \<leftarrow> tls_Now T;
         let r2 = validateHostname T cert host (validateExpiry now' cert r1);
         State_Monad.return (r2\<lparr>vr_Valid := vr_Errors r2 = []\<rparr>)
       }
   }"

text \<open>
  The connection is closed by a deferred call, whatever the certificates are. The error result of
  the Go function is always nil.
\<close>

definition ValidateTLSEndpoint :: "('w, 'pool) tls_env \<Rightarrow> 'pool TLSValidator \<Rightarrow> string \<Rightarrow> ('w, ValidationResult) io" where
  "ValidateTLSEndpoint T v endpoint =
    (case url_Parse endpoint of
       Inl err \<Rightarrow> State_Monad.return (tls_error (''Invalid URL: '' @ Error err) empty_validation)
     | Inr parsedURL \<Rightarrow>
         if ur_Scheme parsedURL \<noteq> ''https''
         then State_Monad.return (tls_error ''Only HTTPS endpoints can be validated'' empty_validation)
         else (let host = Hostname parsedURL; port = (if Port parsedURL = '''' then ''443'' else Port parsedURL) in do {
           dialled \<leftarrow> DialTLS T (tv_Timeout v) (JoinHostPort host port)
             \<lparr>tc_ServerName = host, tc_InsecureSkipVerify = True, tc_RootCAs = tv_CustomCAs v\<rparr>;
           case dialled of
             Inl err \<Rightarrow> State_Monad.return (tls_error (''Failed to connect: '' @ Error err) empty_validation)
           | Inr conn \<Rightarrow> do {
               result \<leftarrow> ValidateTLSConnection T v host conn;
               _ \<leftarrow> Close_TLS T conn;
               State_Monad.return result
             }
         }))"

section \<open>Certificate information\<close>

definition getKeyUsageStrings :: "goint \<Rightarrow> string list" where
  "getKeyUsageStrings usage =
     (if usage AND KeyUsageDigitalSignature \<noteq> 0 then [''Digital Signature''] else []) @
     (if usage AND KeyUsageContentCommitment \<noteq> 0 then [''Content Commitment''] else []) @
     (if usage AND KeyUsageKeyEncipherment \<noteq> 0 then [''Key Encipherment''] else []) @
     (if usage AND KeyUsageDataEncipherment \<noteq> 0 then [''Data Encipherment''] else []) @
     (if usage AND KeyUsageKeyAgreement \<noteq> 0 then [''Key Agreement''] else []) @
     (if usage AND KeyUsageCertSign \<noteq> 0 then [''Certificate Sign''] else []) @
     (if usage AND KeyUsageCRLSign \<noteq> 0 then [''CRL Sign''] else []) @
     (if usage AND KeyUsageEncipherOnly \<noteq> 0 then [''Encipher Only''] else []) @
     (if usage AND KeyUsageDecipherOnly \<noteq> 0 then [''Decipher Only''] else [])"

fun getExtKeyUsageStrings :: "goint list \<Rightarrow> string list" where
  "getExtKeyUsageStrings [] = []"
| "getExtKeyUsageStrings (u # usage) =
    (if u = ExtKeyUsageServerAuth then ''Server Authentication''
     else if u = ExtKeyUsageClientAuth then ''Client Authentication''
     else if u = ExtKeyUsageCodeSigning then ''Code Signing''
     else if u = ExtKeyUsageEmailProtection then ''Email Protection''
     else if u = ExtKeyUsageTimeStamping then ''Time Stamping''
     else if u = ExtKeyUsageOCSPSigning then ''OCSP Signing''
     else ''Unknown ('' @ show_int (sint u) @ '')'') # getExtKeyUsageStrings usage"

record certificate_info =
  info_subject :: string
  info_issuer :: string
  info_serial :: string
  info_not_before :: string
  info_not_after :: string
  info_dns_names :: "string list"
  info_ip_addresses :: "IP list"
  info_is_ca :: bool
  info_key_usage :: "string list"
  info_ext_key_usage :: "string list"

definition GetCertificateInfo :: "('w, 'pool) tls_env \<Rightarrow> Certificate \<Rightarrow> certificate_info" where
  "GetCertificateInfo T cert =
    \<lparr>info_subject = ce_Subject cert, info_issuer = ce_Issuer cert, info_serial = ce_SerialNumber cert,
     info_not_before = Format_RFC3339 T (ce_NotBefore cert), info_not_after = Format_RFC3339 T (ce_NotAfter cert),
     info_dns_names = ce_DNSNames cert, info_ip_addresses = ce_IPAddresses cert, info_is_ca = ce_IsCA cert,
     info_key_usage = getKeyUsageStrings (ce_KeyUsage cert), info_ext_key_usage = getExtKeyUsageStrings (ce_ExtKeyUsage cert)\<rparr>"

section \<open>Errors decide\<close>

lemma tls_error_fields [simp]:
  "vr_Errors (tls_error m r) = vr_Errors r @ [m]" "vr_Warnings (tls_error m r) = vr_Warnings r"
  "vr_IsSelfSigned (tls_error m r) = vr_IsSelfSigned r"
  by (simp_all add: tls_error_def)

lemma tls_warning_fields [simp]:
  "vr_Errors (tls_warning m r) = vr_Errors r" "vr_Warnings (tls_warning m r) = vr_Warnings r @ [m]"
  "vr_IsSelfSigned (tls_warning m r) = vr_IsSelfSigned r"
  by (simp_all add: tls_warning_def)

lemma self_signed_kept [simp]:
  "vr_IsSelfSigned (validateCertificate v now cert r) = vr_IsSelfSigned r"
  by (simp add: validateCertificate_def Let_def)

lemma validateCertificate_errors:
  "vr_Errors (validateCertificate v now cert r) = vr_Errors r
     @ (if now < ce_NotBefore cert then [''Certificate is not yet valid''] else [])
     @ (if now > ce_NotAfter cert then [''Certificate has expired''] else [])
     @ (if vr_IsSelfSigned r \<and> \<not> tv_AllowSelfSigned v then [''Self-signed certificates are not allowed''] else [])"
  by (simp add: validateCertificate_def Let_def)

lemma chain_loop_errors:
  "vr_Errors (chain_loop i chain r) =
     vr_Errors r @ (if i = 0 \<and> chain \<noteq> [] \<and> ce_IsCA (hd chain) then [''Leaf certificate incorrectly marked as CA''] else [])"
  by (induction i chain r rule: chain_loop.induct) (auto simp: Let_def)

lemma validateCertificateChain_errors:
  "vr_Errors (validateCertificateChain chain r) =
     vr_Errors r @ (if chain \<noteq> [] \<and> ce_IsCA (hd chain) then [''Leaf certificate incorrectly marked as CA''] else [])"
  by (simp add: validateCertificateChain_def chain_loop_errors)

lemma validateExpiry_errors [simp]: "vr_Errors (validateExpiry now cert r) = vr_Errors r"
  by (simp add: validateExpiry_def Let_def)

lemma validateHostname_errors:
  "vr_Errors (validateHostname T cert h r) = [] \<longleftrightarrow> vr_Errors r = [] \<and> hostname_verified cert h"
  by (simp add: validateHostname_def Let_def)

lemma certificate_errors:
  "vr_Errors (validateHostname T cert host (validateExpiry now' cert (validateCertificateChain (cert # rest)
       (validateCertificate v now cert (empty_validation\<lparr>vr_Certificate := c, vr_CertChain := cs, vr_Expiry := e,
          vr_SANs := sans, vr_IsSelfSigned := isSelfSigned cert\<rparr>))))) = [] \<longleftrightarrow>
   ce_NotBefore cert \<le> now \<and> now \<le> ce_NotAfter cert \<and> \<not> (isSelfSigned cert \<and> \<not> tv_AllowSelfSigned v)
     \<and> \<not> ce_IsCA cert \<and> hostname_verified cert host"
  by (auto simp: validateHostname_errors validateCertificateChain_errors validateCertificate_errors empty_validation_def)

lemma validation_errors [simp]: "\<not> vr_Valid empty_validation" "\<not> vr_Valid (tls_error m empty_validation)"
  by (simp_all add: empty_validation_def tls_error_def)

lemma ValidateTLSConnection_valid:
  "vr_Valid (fst (run_state (ValidateTLSConnection T v host conn) w)) \<longleftrightarrow>
    (\<exists>cert rest w2 now w3. run_state (PeerCertificates T conn) w = (cert # rest, w2) \<and> run_state (tls_Now T) w2 = (now, w3)
       \<and> ce_NotBefore cert \<le> now \<and> now \<le> ce_NotAfter cert \<and> \<not> (isSelfSigned cert \<and> \<not> tv_AllowSelfSigned v)
       \<and> \<not> ce_IsCA cert \<and> hostname_verified cert host)"
proof -
  obtain chain w2 where p: "run_state (PeerCertificates T conn) w = (chain, w2)" by (rule prod.exhaust)
  show ?thesis
  proof (cases chain)
    case Nil
    then show ?thesis by (simp add: ValidateTLSConnection_def bind_def p)
  next
    case (Cons cert rest)
    obtain now w3 where n: "run_state (tls_Now T) w2 = (now, w3)" by (rule prod.exhaust)
    obtain now' w4 where n': "run_state (tls_Now T) w3 = (now', w4)" by (rule prod.exhaust)
    show ?thesis
      by (simp add: ValidateTLSConnection_def bind_def p Cons n n' Let_def certificate_errors)
  qed
qed

text \<open>
  C29. When the validator accepts an endpoint. It must be an HTTPS URL that can be dialled and whose
  server presents a certificate; the certificate must be within its validity at the time of the
  check, must not be self-signed unless that is allowed, must not be marked as a CA and must be valid for the host
  of the URL. Nothing else is required: who issued the certificate, the rest of the chain and the
  configured pool of CAs play no part.
\<close>

theorem ValidateTLSEndpoint_exact:
  "vr_Valid (fst (run_state (ValidateTLSEndpoint T v endpoint) w)) \<longleftrightarrow>
    (\<exists>u conn w1 cert rest w2 now w3. url_Parse endpoint = Inr u \<and> ur_Scheme u = ''https''
       \<and> run_state (DialTLS T (tv_Timeout v) (JoinHostPort (Hostname u) (if Port u = '''' then ''443'' else Port u))
           \<lparr>tc_ServerName = Hostname u, tc_InsecureSkipVerify = True, tc_RootCAs = tv_CustomCAs v\<rparr>) w = (Inr conn, w1)
       \<and> run_state (PeerCertificates T conn) w1 = (cert # rest, w2) \<and> run_state (tls_Now T) w2 = (now, w3)
       \<and> ce_NotBefore cert \<le> now \<and> now \<le> ce_NotAfter cert \<and> \<not> (isSelfSigned cert \<and> \<not> tv_AllowSelfSigned v)
       \<and> \<not> ce_IsCA cert \<and> hostname_verified cert (Hostname u))"
proof (cases "url_Parse endpoint")
  case (Inl e)
  then show ?thesis by (simp add: ValidateTLSEndpoint_def)
next
  case (Inr u)
  show ?thesis
  proof (cases "ur_Scheme u = ''https''")
    case False
    then show ?thesis by (simp add: ValidateTLSEndpoint_def Inr)
  next
    case True
    obtain d w1 where d: "run_state (DialTLS T (tv_Timeout v) (JoinHostPort (Hostname u) (if Port u = '''' then ''443'' else Port u))
        \<lparr>tc_ServerName = Hostname u, tc_InsecureSkipVerify = True, tc_RootCAs = tv_CustomCAs v\<rparr>) w = (d, w1)" by (rule prod.exhaust)
    show ?thesis
    proof (cases d)
      case d': (Inl e)
      show ?thesis using d unfolding ValidateTLSEndpoint_def Inr Let_def by (simp add: True d')
    next
      case d': (Inr conn)
      have "fst (run_state (ValidateTLSEndpoint T v endpoint) w) = fst (run_state (ValidateTLSConnection T v (Hostname u) conn) w1)"
        using d unfolding ValidateTLSEndpoint_def Inr Let_def by (simp add: True d' split_beta)
      then have "vr_Valid (fst (run_state (ValidateTLSEndpoint T v endpoint) w)) \<longleftrightarrow>
          vr_Valid (fst (run_state (ValidateTLSConnection T v (Hostname u) conn) w1))" by simp
      then show ?thesis unfolding ValidateTLSConnection_valid by (simp add: Inr True d d' split del: if_split)
    qed
  qed
qed

text \<open>
  The expiry warnings are exact, also at the ends of the range of a duration: the first one is
  given when the certificate, not expired, has less than thirty days left, and the second one is
  added when it has less than seven.
\<close>

theorem validateExpiry_exact:
  "vr_Warnings (validateExpiry now cert r) = vr_Warnings r
     @ (if now < ce_NotAfter cert \<and> ce_NotAfter cert < now + 30 * 24 * hour then [''Certificate expires within 30 days''] else [])
     @ (if now < ce_NotAfter cert \<and> ce_NotAfter cert < now + 7 * 24 * hour then [''Certificate expires within 7 days''] else [])"
proof -
  have s: "time_Sub (ce_NotAfter cert) now < d \<longleftrightarrow> ce_NotAfter cert < now + d" if "0 < d" "d \<le> 30 * 24 * hour" for d
    using that by (subst time_Sub_lt) (auto simp: minDuration_def maxDuration_def)
  show ?thesis by (simp add: validateExpiry_def Let_def s)
qed

section \<open>Connections\<close>

text \<open>What \<open>crypto/tls\<close> promises about connections: a dial opens a new one, closing ends it, reading does neither.\<close>

locale tls_network =
  fixes T :: "('w, 'pool) tls_env" and open_conns :: "'w \<Rightarrow> nat set"
  assumes dial_fresh: "run_state (DialTLS T t a cfg) w = (Inr c, w') \<Longrightarrow> c \<notin> open_conns w \<and> open_conns w' = insert c (open_conns w)"
    and dial_fails: "run_state (DialTLS T t' a' cfg') w1 = (Inl e, w1') \<Longrightarrow> open_conns w1' = open_conns w1"
    and peer_keeps: "open_conns (snd (run_state (PeerCertificates T c1) w2)) = open_conns w2"
    and now_keeps: "open_conns (snd (run_state (tls_Now T) w3)) = open_conns w3"
    and close_ends: "open_conns (snd (run_state (Close_TLS T c2) w4)) = open_conns w4 - {c2}"
begin

lemma connection_keeps: "keeps (\<lambda>w. open_conns w = S) (ValidateTLSConnection T v host conn)"
proof -
  have k: "keeps (\<lambda>w. open_conns w = S) (PeerCertificates T conn)" "keeps (\<lambda>w. open_conns w = S) (tls_Now T)"
    by (simp_all add: keeps_def peer_keeps now_keeps)
  show ?thesis unfolding ValidateTLSConnection_def Let_def
    by (intro keeps_bind k) (auto split: list.split intro!: keeps_bind keeps_return k)
qed

lemma endpoint_closes: "keeps (\<lambda>w. open_conns w = S) (ValidateTLSEndpoint T v endpoint)"
proof -
  have dial: "triple (\<lambda>w. open_conns w = S) (DialTLS T t a cfg)
      (\<lambda>r w. case r of Inl e \<Rightarrow> open_conns w = S | Inr c \<Rightarrow> c \<notin> S \<and> open_conns w = insert c S)" for t a cfg
    by (rule tripleI) (auto dest: dial_fresh dial_fails split: sum.split)
  have close: "triple (\<lambda>w. open_conns w = insert c S) (Close_TLS T c) (\<lambda>r w. open_conns w = S)" if "c \<notin> S" for c
    using that close_ends [of c] by (auto simp: triple_def split_beta)
  have inner: "triple (\<lambda>w. c \<notin> S \<and> open_conns w = insert c S)
      (do {result \<leftarrow> ValidateTLSConnection T v host c; _ \<leftarrow> Close_TLS T c; State_Monad.return result}) (\<lambda>r w. open_conns w = S)" for c host
  proof (cases "c \<in> S")
    case False
    show ?thesis
      by (rule triple_weaken [of "\<lambda>w. open_conns w = insert c S"])
        (auto intro!: triple_keeps_bind connection_keeps triple_bind [OF close [OF False]] triple_return)
  qed (simp add: triple_def)
  have "triple (\<lambda>w. open_conns w = S) (ValidateTLSEndpoint T v endpoint) (\<lambda>r w. open_conns w = S)"
    unfolding ValidateTLSEndpoint_def Let_def
    by (intro triple_case_sum triple_if triple_return triple_bind [OF dial]) (auto split: sum.split intro: inner triple_return)
  then show ?thesis by (auto simp: keeps_def triple_def split_beta)
qed

end

text \<open>
  A network in memory: servers by their address, each with the certificates it presents, and the
  number of connections dialled so far.
\<close>

record tls_mem =
  tm_servers :: "(string \<times> Certificate list) list"
  tm_now :: Time
  tm_next :: nat
  tm_open :: "(nat \<times> Certificate list) list"

definition mem_dial :: "string \<Rightarrow> (tls_mem, error + nat) io" where
  "mem_dial a = State (\<lambda>w. case map_of (tm_servers w) a of
     None \<Rightarrow> (Inl (Err ''connection refused''), w)
   | Some chain \<Rightarrow> (Inr (tm_next w), w\<lparr>tm_next := Suc (tm_next w), tm_open := (tm_next w, chain) # filter (\<lambda>x. fst x < tm_next w) (tm_open w)\<rparr>))"

definition mem_tls :: "(tls_mem, unit) tls_env" where
  "mem_tls = \<lparr>tls_Now = State (\<lambda>w. (tm_now w, w)), DialTLS = (\<lambda>t a cfg. mem_dial a),
     PeerCertificates = (\<lambda>c. State (\<lambda>w. (case map_of (tm_open w) c of None \<Rightarrow> [] | Some chain \<Rightarrow> chain, w))),
     Close_TLS = (\<lambda>c. State (\<lambda>w. ((), w\<lparr>tm_open := filter (\<lambda>x. fst x \<noteq> c) (tm_open w)\<rparr>))),
     HostnameError = (\<lambda>c h. ''x509: certificate is not valid for '' @ h), IP_String = (\<lambda>ip. ''''), Format_RFC3339 = show_int\<rparr>"

definition mem_open :: "tls_mem \<Rightarrow> nat set" where
  "mem_open w = fst ` {x \<in> set (tm_open w). fst x < tm_next w}"

lemma mem_dial_cases:
  "run_state (mem_dial a) w = (r, w') \<Longrightarrow>
     (\<exists>e. r = Inl e \<and> w' = w) \<or> r = Inr (tm_next w) \<and> mem_open w' = insert (tm_next w) (mem_open w) \<and> tm_next w \<notin> mem_open w"
  by (auto simp: mem_dial_def mem_open_def less_Suc_eq image_iff split: option.splits)

interpretation mem_net: tls_network mem_tls mem_open
proof
  fix t a cfg w c w'
  assume "run_state (DialTLS mem_tls t a cfg) w = (Inr c, w')"
  then show "c \<notin> mem_open w \<and> mem_open w' = insert c (mem_open w)"
    by (auto simp: mem_tls_def dest!: mem_dial_cases)
next
  fix t a cfg w e w'
  assume "run_state (DialTLS mem_tls t a cfg) w = (Inl e, w')"
  then show "mem_open w' = mem_open w" by (auto simp: mem_tls_def dest!: mem_dial_cases)
qed (auto simp: mem_tls_def mem_open_def)

text \<open>Whatever the server presents, a validation leaves no connection open, and closes none of the others.\<close>

theorem ValidateTLSEndpoint_closes:
  assumes "tls_network T open_conns" and "run_state (ValidateTLSEndpoint T v endpoint) w = (r, w')"
  shows "open_conns w' = open_conns w"
  using keepsD [OF tls_network.endpoint_closes [OF assms(1)] assms(2)] by blast

definition sample_certificate :: Certificate where
  "sample_certificate = \<lparr>ce_Subject = ''CN=bmc'', ce_Issuer = ''CN=unknown'', ce_SerialNumber = ''1'', ce_NotBefore = 0, ce_NotAfter = 9 * hour,
     ce_KeyUsage = 5, ce_ExtKeyUsage = [1], ce_IsCA = False, ce_DNSNames = [''bmc''], ce_IPAddresses = []\<rparr>"

definition sample_network :: tls_mem where
  "sample_network = \<lparr>tm_servers = [(''bmc:443'', [sample_certificate])], tm_now = hour, tm_next = 3, tm_open = []\<rparr>"

theorem ValidateTLSEndpoint_closes_witness:
  "vr_Valid (fst (run_state (ValidateTLSEndpoint mem_tls NewTLSValidator ''https://bmc'') sample_network)) \<and>
   mem_open (snd (run_state (ValidateTLSEndpoint mem_tls NewTLSValidator ''https://bmc'') sample_network)) = {}"
proof -
  have n: "tls_network mem_tls mem_open" by unfold_locales
  have v: "vr_Valid (fst (run_state (ValidateTLSEndpoint mem_tls NewTLSValidator ''https://bmc'') sample_network))" by code_simp
  have "mem_open sample_network = {}" by (simp add: mem_open_def sample_network_def)
  with v show ?thesis
    using ValidateTLSEndpoint_closes [OF n surjective_pairing, of NewTLSValidator "''https://bmc''" sample_network] by simp
qed

end
