(* ===== verification/RBACValidator.thy ===== *)
theory RBACValidator
  imports GoStrings
begin

text \<open>
  \<open>internal/security/rbac_validator.go\<close>: the search for overly broad permissions in RBAC roles. The
  validator collects into a result that every check extends; the model threads it through.
\<close>

definition SeverityCritical :: string where [simp]: "SeverityCritical = ''CRITICAL''"
definition SeverityHigh :: string where [simp]: "SeverityHigh = ''HIGH''"
definition SeverityMedium :: string where [simp]: "SeverityMedium = ''MEDIUM''"
definition SeverityLow :: string where [simp]: "SeverityLow = ''LOW''"

text \<open>The objects of the RBAC API.\<close>

record PolicyRule =
  rl_APIGroups :: "string list"
  rl_Resources :: "string list"
  rl_Verbs :: "string list"

record ClusterRole =
  cr_Name :: string
  cr_Rules :: "PolicyRule list"

record Role =
  ro_Name :: string
  ro_Rules :: "PolicyRule list"

section \<open>Results\<close>

record OverlyBroadRule =
  ob_RuleName :: string
  ob_APIGroups :: "string list"
  ob_Resources :: "string list"
  ob_Verbs :: "string list"
  ob_Reason :: string
  ob_Severity :: string
  ob_Suggestions :: "string list"

record SecurityFinding =
  sf_Type :: string
  sf_Severity :: string
  sf_Description :: string
  sf_Resource :: string
  sf_Rule :: string
  sf_Remediation :: string

record RBACValidationResult =
  rv_Valid :: bool
  rv_Warnings :: "string list"
  rv_Errors :: "string list"
  rv_OverlyBroadRules :: "OverlyBroadRule list"
  rv_SecurityFindings :: "SecurityFinding list"

definition add_finding :: "SecurityFinding \<Rightarrow> RBACValidationResult \<Rightarrow> RBACValidationResult" where
  "add_finding f result = result\<lparr>rv_SecurityFindings := rv_SecurityFindings result @ [f]\<rparr>"

definition add_warning :: "string \<Rightarrow> RBACValidationResult \<Rightarrow> RBACValidationResult" where
  "add_warning m result = result\<lparr>rv_Warnings := rv_Warnings result @ [m]\<rparr>"

section \<open>Checks\<close>

fun containsString :: "string list \<Rightarrow> string \<Rightarrow> bool" where
  "containsString [] str = False"
| "containsString (item # items) str = (if item = str then True else containsString items str)"

definition containsWildcard :: "string list \<Rightarrow> bool" where
  "containsWildcard items = containsString items ''*''"

definition containsAPIGroup :: "string list \<Rightarrow> string \<Rightarrow> bool" where
  "containsAPIGroup items apiGroup = containsString items apiGroup"

definition containsResource :: "string list \<Rightarrow> string \<Rightarrow> bool" where
  "containsResource items resource = containsString items resource"

definition containsVerb :: "string list \<Rightarrow> string \<Rightarrow> bool" where
  "containsVerb items verb = containsString items verb"

definition isClusterAdminEquivalent :: "PolicyRule \<Rightarrow> bool" where
  "isClusterAdminEquivalent rule \<longleftrightarrow> containsWildcard (rl_APIGroups rule) \<and> containsWildcard (rl_Resources rule) \<and>
     containsWildcard (rl_Verbs rule)"

definition rule_name :: "nat \<Rightarrow> string" where
  "rule_name i = ''Rule '' @ show_nat i"

definition validateRule :: "string \<Rightarrow> PolicyRule \<Rightarrow> RBACValidationResult \<Rightarrow> RBACValidationResult" where
  "validateRule ruleName rule result0 =
    (let result1 = (if containsWildcard (rl_APIGroups rule) \<and> containsWildcard (rl_Resources rule) \<and> containsWildcard (rl_Verbs rule)
           then result0\<lparr>rv_OverlyBroadRules := rv_OverlyBroadRules result0 @ [
             \<lparr>ob_RuleName = ruleName, ob_APIGroups = rl_APIGroups rule, ob_Resources = rl_Resources rule, ob_Verbs = rl_Verbs rule,
              ob_Reason = ''Grants wildcard permissions (*) for all API groups, resources, and verbs'', ob_Severity = SeverityCritical,
              ob_Suggestions = [''Replace wildcard permissions with specific API groups, resources, and verbs'',
                ''Follow the principle of least privilege'', ''Create separate rules for different operational needs'']\<rparr>]\<rparr>
           else result0);
         result2 = (if containsVerb (rl_Verbs rule) ''*''
           then add_finding \<lparr>sf_Type = ''OverlyBroadVerbs'', sf_Severity = SeverityHigh,
             sf_Description = ''Rule grants wildcard verb permissions'', sf_Resource = strings_Join '','' (rl_Resources rule),
             sf_Rule = ruleName, sf_Remediation = ''Replace '' @ [CHR 0x27] @ ''*'' @ [CHR 0x27] @ '' with specific verbs needed for operation''\<rparr> result1
           else result1);
         result3 = (if (containsResource (rl_Resources rule) ''secrets'' \<or> containsWildcard (rl_Resources rule)) \<and>
             containsVerb (rl_Verbs rule) ''create'' \<and> containsVerb (rl_Verbs rule) ''delete'' \<and> containsVerb (rl_Verbs rule) ''patch''
           then add_finding \<lparr>sf_Type = ''SecretsFullAccess'', sf_Severity = SeverityHigh,
             sf_Description = ''Rule grants full access to secrets (create, delete, patch)'', sf_Resource = ''secrets'',
             sf_Rule = ruleName, sf_Remediation = ''Limit secret permissions to only what'' @ [CHR 0x27] @ ''s needed (e.g., get, list, watch for reading)''\<rparr> result2
           else result2);
         result4 = (if isClusterAdminEquivalent rule
           then add_finding \<lparr>sf_Type = ''ClusterAdminEquivalent'', sf_Severity = SeverityCritical,
             sf_Description = ''Rule grants cluster-admin equivalent permissions'', sf_Resource = strings_Join '','' (rl_Resources rule),
             sf_Rule = ruleName, sf_Remediation = ''Break down permissions into specific, minimal rules''\<rparr> result3
           else result3)
     in if (containsResource (rl_Resources rule) ''users'' \<or> containsResource (rl_Resources rule) ''groups'' \<or>
             containsResource (rl_Resources rule) ''serviceaccounts'') \<and> containsVerb (rl_Verbs rule) ''impersonate''
        then add_finding \<lparr>sf_Type = ''ImpersonationRisk'', sf_Severity = SeverityHigh,
          sf_Description = ''Rule grants impersonation permissions'', sf_Resource = strings_Join '','' (rl_Resources rule),
          sf_Rule = ruleName, sf_Remediation = ''Remove impersonation permissions unless absolutely necessary''\<rparr> result4
        else result4)"

text \<open>One pass of the loop of \<open>checkOverlyBroadPermissions\<close>: the flags and the result.\<close>

definition overly_broad_step :: "nat \<Rightarrow> PolicyRule \<Rightarrow> bool \<times> bool \<times> RBACValidationResult \<Rightarrow> bool \<times> bool \<times> RBACValidationResult" where
  "overly_broad_step i rule s = (case s of (core, rbac, result) \<Rightarrow>
     let ruleName = rule_name i;
         (core1, result1) =
           (if (containsAPIGroup (rl_APIGroups rule) '''' \<or> containsWildcard (rl_APIGroups rule)) \<and> containsWildcard (rl_Resources rule)
            then (True, add_warning (ruleName @ '' grants wildcard access to core Kubernetes resources'') result)
            else (core, result))
     in if (containsAPIGroup (rl_APIGroups rule) ''rbac.authorization.k8s.io'' \<or> containsWildcard (rl_APIGroups rule)) \<and>
           (containsWildcard (rl_Resources rule) \<or> containsResource (rl_Resources rule) ''*'')
        then (core1, True, add_finding \<lparr>sf_Type = ''RBACWildcardAccess'', sf_Severity = SeverityHigh,
            sf_Description = ''Rule grants wildcard access to RBAC resources'', sf_Resource = ''rbac.authorization.k8s.io/*'',
            sf_Rule = ruleName, sf_Remediation = ''Limit RBAC permissions to specific resources and operations''\<rparr> result1)
        else (core1, rbac, result1))"

fun overly_broad_loop :: "nat \<Rightarrow> PolicyRule list \<Rightarrow> bool \<times> bool \<times> RBACValidationResult \<Rightarrow> bool \<times> bool \<times> RBACValidationResult" where
  "overly_broad_loop i [] s = s"
| "overly_broad_loop i (rule # rules) s = overly_broad_loop (Suc i) rules (overly_broad_step i rule s)"

definition checkOverlyBroadPermissions :: "ClusterRole \<Rightarrow> RBACValidationResult \<Rightarrow> RBACValidationResult" where
  "checkOverlyBroadPermissions clusterRole result0 =
    (case overly_broad_loop 0 (cr_Rules clusterRole) (False, False, result0) of (core, rbac, result) \<Rightarrow>
       if core \<and> rbac
       then add_finding \<lparr>sf_Type = ''ExcessivePrivileges'', sf_Severity = SeverityCritical,
         sf_Description = ''ClusterRole has both core resource and RBAC wildcard access'', sf_Resource = cr_Name clusterRole,
         sf_Rule = ''Multiple rules'', sf_Remediation = ''Split into multiple roles with minimal required permissions''\<rparr> result
       else result)"

text \<open>One pass of the loop of \<open>checkDangerousPermissions\<close>.\<close>

definition dangerous_step :: "nat \<Rightarrow> PolicyRule \<Rightarrow> bool \<times> bool \<times> bool \<times> RBACValidationResult \<Rightarrow>
    bool \<times> bool \<times> bool \<times> RBACValidationResult" where
  "dangerous_step i rule s = (case s of (secret, node, exec, result) \<Rightarrow>
     let ruleName = rule_name i;
         secret1 = (if containsResource (rl_Resources rule) ''secrets'' \<or> containsWildcard (rl_Resources rule) then True else secret);
         node1 = (if containsResource (rl_Resources rule) ''nodes'' \<or> containsWildcard (rl_Resources rule) then True else node);
         (exec1, result1) =
           (if containsResource (rl_Resources rule) ''pods/exec'' \<or> containsResource (rl_Resources rule) ''pods/attach''
            then (True, add_finding \<lparr>sf_Type = ''PodExecAccess'', sf_Severity = ''MEDIUM'',
              sf_Description = ''Rule grants pod exec/attach permissions'', sf_Resource = ''pods/exec, pods/attach'',
              sf_Rule = ruleName, sf_Remediation = ''Remove exec/attach permissions unless required for debugging''\<rparr> result)
            else (exec, result))
     in if containsResource (rl_Resources rule) ''persistentvolumes'' \<and> containsVerb (rl_Verbs rule) ''create''
        then (secret1, node1, exec1,
          add_warning (ruleName @ '' can create PersistentVolumes, which may allow host filesystem access'') result1)
        else (secret1, node1, exec1, result1))"

fun dangerous_loop :: "nat \<Rightarrow> PolicyRule list \<Rightarrow> bool \<times> bool \<times> bool \<times> RBACValidationResult \<Rightarrow>
    bool \<times> bool \<times> bool \<times> RBACValidationResult" where
  "dangerous_loop i [] s = s"
| "dangerous_loop i (rule # rules) s = dangerous_loop (Suc i) rules (dangerous_step i rule s)"

definition checkDangerousPermissions :: "ClusterRole \<Rightarrow> RBACValidationResult \<Rightarrow> RBACValidationResult" where
  "checkDangerousPermissions clusterRole result0 =
    (case dangerous_loop 0 (cr_Rules clusterRole) (False, False, False, result0) of (secret, node, exec, result) \<Rightarrow>
       let result1 = (if secret \<and> node
             then add_finding \<lparr>sf_Type = ''SecretNodeAccess'', sf_Severity = SeverityHigh,
               sf_Description = ''ClusterRole has both secret and node access'', sf_Resource = cr_Name clusterRole,
               sf_Rule = ''Multiple rules'', sf_Remediation = ''Consider separating secret and node access into different roles''\<rparr> result
             else result)
       in if secret \<and> exec
          then add_finding \<lparr>sf_Type = ''SecretExecAccess'', sf_Severity = SeverityHigh,
            sf_Description = ''ClusterRole has both secret access and pod exec capabilities'', sf_Resource = cr_Name clusterRole,
            sf_Rule = ''Multiple rules'', sf_Remediation = ''Limit either secret access or exec capabilities''\<rparr> result1
          else result1)"

section \<open>Validation\<close>

definition empty_result :: RBACValidationResult where
  "empty_result = \<lparr>rv_Valid = False, rv_Warnings = [], rv_Errors = [], rv_OverlyBroadRules = [], rv_SecurityFindings = []\<rparr>"

fun validate_rules :: "nat \<Rightarrow> PolicyRule list \<Rightarrow> RBACValidationResult \<Rightarrow> RBACValidationResult" where
  "validate_rules i [] result = result"
| "validate_rules i (rule # rules) result = validate_rules (Suc i) rules (validateRule (rule_name i) rule result)"

definition ValidateClusterRole :: "ClusterRole \<Rightarrow> RBACValidationResult" where
  "ValidateClusterRole clusterRole =
    (let result1 = validate_rules 0 (cr_Rules clusterRole) empty_result;
         result2 = checkOverlyBroadPermissions clusterRole result1;
         result3 = checkDangerousPermissions clusterRole result2
     in result3\<lparr>rv_Valid := rv_Errors result3 = []\<rparr>)"

definition ValidateRole :: "Role \<Rightarrow> RBACValidationResult" where
  "ValidateRole role =
    (let result = validate_rules 0 (ro_Rules role) empty_result in result\<lparr>rv_Valid := rv_Errors result = []\<rparr>)"

section \<open>Recommended permissions\<close>

definition GetRecommendedPermissions :: "(string \<Rightarrow> string) \<Rightarrow> string \<Rightarrow> PolicyRule list" where
  "GetRecommendedPermissions unicode_lower useCase =
    (let u = strings_ToLower unicode_lower useCase in
     if u = ''beskar7-minimal'' then
       [\<lparr>rl_APIGroups = [''infrastructure.cluster.x-k8s.io''], rl_Resources = [''physicalhosts'', ''beskar7machines'', ''beskar7clusters''],
         rl_Verbs = [''get'', ''list'', ''watch'', ''create'', ''update'', ''patch'', ''delete'']\<rparr>,
        \<lparr>rl_APIGroups = [''infrastructure.cluster.x-k8s.io''],
         rl_Resources = [''physicalhosts/status'', ''beskar7machines/status'', ''beskar7clusters/status''],
         rl_Verbs = [''get'', ''update'', ''patch'']\<rparr>,
        \<lparr>rl_APIGroups = [''cluster.x-k8s.io''], rl_Resources = [''clusters'', ''machines''], rl_Verbs = [''get'', ''list'', ''watch'']\<rparr>,
        \<lparr>rl_APIGroups = [''''], rl_Resources = [''secrets''], rl_Verbs = [''get'', ''list'', ''watch'']\<rparr>,
        \<lparr>rl_APIGroups = [''''], rl_Resources = [''events''], rl_Verbs = [''create'', ''patch'']\<rparr>]
     else if u = ''read-only'' then
       [\<lparr>rl_APIGroups = [''*''], rl_Resources = [''*''], rl_Verbs = [''get'', ''list'', ''watch'']\<rparr>]
     else [])"

section \<open>What is found\<close>

text \<open>
  The specification: the kinds of finding a single rule deserves, and those the rules of a cluster
  role deserve together.
\<close>

definition grants :: "string list \<Rightarrow> string \<Rightarrow> bool" where
  "grants items x \<longleftrightarrow> x \<in> set items \<or> ''*'' \<in> set items"

definition admin_rule :: "PolicyRule \<Rightarrow> bool" where
  "admin_rule r \<longleftrightarrow> ''*'' \<in> set (rl_APIGroups r) \<and> ''*'' \<in> set (rl_Resources r) \<and> ''*'' \<in> set (rl_Verbs r)"

definition exec_rule :: "PolicyRule \<Rightarrow> bool" where
  "exec_rule r \<longleftrightarrow> ''pods/exec'' \<in> set (rl_Resources r) \<or> ''pods/attach'' \<in> set (rl_Resources r)"

definition rule_issues :: "PolicyRule \<Rightarrow> string set" where
  "rule_issues r =
     (if ''*'' \<in> set (rl_Verbs r) then {''OverlyBroadVerbs''} else {}) \<union>
     (if grants (rl_Resources r) ''secrets'' \<and> {''create'', ''delete'', ''patch''} \<subseteq> set (rl_Verbs r) then {''SecretsFullAccess''} else {}) \<union>
     (if admin_rule r then {''ClusterAdminEquivalent''} else {}) \<union>
     (if {''users'', ''groups'', ''serviceaccounts''} \<inter> set (rl_Resources r) \<noteq> {} \<and> ''impersonate'' \<in> set (rl_Verbs r)
      then {''ImpersonationRisk''} else {})"

definition role_rule_issues :: "PolicyRule \<Rightarrow> string set" where
  "role_rule_issues r = rule_issues r \<union>
     (if grants (rl_APIGroups r) ''rbac.authorization.k8s.io'' \<and> ''*'' \<in> set (rl_Resources r) then {''RBACWildcardAccess''} else {}) \<union>
     (if exec_rule r then {''PodExecAccess''} else {})"

definition some_rule :: "(PolicyRule \<Rightarrow> bool) \<Rightarrow> PolicyRule list \<Rightarrow> bool" where
  "some_rule P rules \<longleftrightarrow> (\<exists>r \<in> set rules. P r)"

definition role_issues :: "PolicyRule list \<Rightarrow> string set" where
  "role_issues rules =
     (if some_rule (\<lambda>r. grants (rl_APIGroups r) '''' \<and> ''*'' \<in> set (rl_Resources r)) rules \<and>
         some_rule (\<lambda>r. grants (rl_APIGroups r) ''rbac.authorization.k8s.io'' \<and> ''*'' \<in> set (rl_Resources r)) rules
      then {''ExcessivePrivileges''} else {}) \<union>
     (if some_rule (\<lambda>r. grants (rl_Resources r) ''secrets'') rules \<and> some_rule (\<lambda>r. grants (rl_Resources r) ''nodes'') rules
      then {''SecretNodeAccess''} else {}) \<union>
     (if some_rule (\<lambda>r. grants (rl_Resources r) ''secrets'') rules \<and> some_rule exec_rule rules then {''SecretExecAccess''} else {})"

definition issues :: "RBACValidationResult \<Rightarrow> (string \<times> string) set" where
  "issues result = (\<lambda>f. (sf_Type f, sf_Rule f)) ` set (rv_SecurityFindings result)"

lemma containsString_set [simp]: "containsString items x \<longleftrightarrow> x \<in> set items"
  by (induction items) auto

lemmas contains_defs [simp] = containsWildcard_def containsAPIGroup_def containsResource_def containsVerb_def

lemma issues_simps [simp]:
  "issues (add_finding f result) = insert (sf_Type f, sf_Rule f) (issues result)"
  "issues (add_warning m result) = issues result"
  "issues empty_result = {}"
  "issues (result\<lparr>rv_OverlyBroadRules := obs\<rparr>) = issues result"
  "issues (result\<lparr>rv_Valid := v\<rparr>) = issues result"
  by (auto simp: issues_def add_finding_def add_warning_def empty_result_def)

lemma errors_simps [simp]:
  "rv_Errors (add_finding f result) = rv_Errors result" "rv_Errors (add_warning m result) = rv_Errors result"
  "rv_OverlyBroadRules (add_finding f result) = rv_OverlyBroadRules result"
  "rv_OverlyBroadRules (add_warning m result) = rv_OverlyBroadRules result"
  by (simp_all add: add_finding_def add_warning_def)

lemma issues_if:
  "issues (if b then add_finding f result else result) = issues result \<union> (if b then {(sf_Type f, sf_Rule f)} else {})"
  "issues (if b then result\<lparr>rv_OverlyBroadRules := obs\<rparr> else result) = issues result"
  by simp_all

lemma image_if_single: "f ` (if b then {x} else {}) = (if b then {f x} else {})"
  by simp

lemma validateRule_issues: "issues (validateRule name rule result) = issues result \<union> (\<lambda>t. (t, name)) ` rule_issues rule"
proof -
  have sets: "{''create'', ''delete'', ''patch''} \<subseteq> set vs \<longleftrightarrow> ''create'' \<in> set vs \<and> ''delete'' \<in> set vs \<and> ''patch'' \<in> set vs"
    "{''users'', ''groups'', ''serviceaccounts''} \<inter> set vs \<noteq> {} \<longleftrightarrow> ''users'' \<in> set vs \<or> ''groups'' \<in> set vs \<or> ''serviceaccounts'' \<in> set vs"
    for vs by auto
  show ?thesis
    unfolding validateRule_def Let_def issues_if rule_issues_def image_Un image_if_single sets grants_def admin_rule_def
      isClusterAdminEquivalent_def contains_defs containsString_set SecurityFinding.simps
    by (simp add: Un_assoc split del: if_split)
qed

lemma result_if:
  "rv_Errors (if b then add_finding f result else result) = rv_Errors result"
  "rv_Errors (if b then result\<lparr>rv_OverlyBroadRules := obs\<rparr> else result) = rv_Errors result"
  "rv_OverlyBroadRules (if b then add_finding f result else result) = rv_OverlyBroadRules result"
  by simp_all

lemma validateRule_errors [simp]: "rv_Errors (validateRule name rule result) = rv_Errors result"
  unfolding validateRule_def Let_def result_if by (rule refl)

lemma validateRule_broad:
  "map ob_RuleName (rv_OverlyBroadRules (validateRule name rule result)) =
     map ob_RuleName (rv_OverlyBroadRules result) @ (if admin_rule rule then [name] else [])"
  unfolding validateRule_def Let_def result_if by (simp add: admin_rule_def)

lemma validate_rules_errors [simp]: "rv_Errors (validate_rules i rules result) = rv_Errors result"
  by (induction i rules result rule: validate_rules.induct) auto

definition tagged :: "nat \<Rightarrow> (PolicyRule \<Rightarrow> string set) \<Rightarrow> PolicyRule list \<Rightarrow> (string \<times> string) set" where
  "tagged i k rules = (\<Union>(j, r) \<in> set (enumerate i rules). (\<lambda>t. (t, rule_name j)) ` k r)"

lemma tagged_simps [simp]: "tagged i k [] = {}" "tagged i k (r # rules) = (\<lambda>t. (t, rule_name i)) ` k r \<union> tagged (Suc i) k rules"
  by (auto simp: tagged_def)

lemma tagged_union: "tagged i k rules \<union> tagged i l rules = tagged i (\<lambda>r. k r \<union> l r) rules"
  by (induction rules arbitrary: i) auto

lemma validate_rules_issues: "issues (validate_rules i rules result) = issues result \<union> tagged i rule_issues rules"
  by (induction i rules result rule: validate_rules.induct) (auto simp: validateRule_issues)

lemma some_rule_simps [simp]: "\<not> some_rule P []" "some_rule P (r # rules) \<longleftrightarrow> P r \<or> some_rule P rules"
  by (auto simp: some_rule_def)

lemma overly_broad_loop_spec:
  "overly_broad_loop i rules (core, rbac, result) = (core', rbac', result') \<Longrightarrow>
     core' = (core \<or> some_rule (\<lambda>r. grants (rl_APIGroups r) '''' \<and> ''*'' \<in> set (rl_Resources r)) rules) \<and>
     rbac' = (rbac \<or> some_rule (\<lambda>r. grants (rl_APIGroups r) ''rbac.authorization.k8s.io'' \<and> ''*'' \<in> set (rl_Resources r)) rules) \<and>
     rv_Errors result' = rv_Errors result \<and> rv_OverlyBroadRules result' = rv_OverlyBroadRules result \<and>
     issues result' = issues result \<union> tagged i (\<lambda>r. if grants (rl_APIGroups r) ''rbac.authorization.k8s.io'' \<and>
       ''*'' \<in> set (rl_Resources r) then {''RBACWildcardAccess''} else {}) rules"
proof (induction rules arbitrary: i core rbac result)
  case (Cons r rules)
  obtain c1 b1 r1 where s: "overly_broad_step i r (core, rbac, result) = (c1, b1, r1)" by (metis prod.exhaust)
  then have e: "c1 = (core \<or> grants (rl_APIGroups r) '''' \<and> ''*'' \<in> set (rl_Resources r))"
      "b1 = (rbac \<or> grants (rl_APIGroups r) ''rbac.authorization.k8s.io'' \<and> ''*'' \<in> set (rl_Resources r))"
      "rv_Errors r1 = rv_Errors result" "rv_OverlyBroadRules r1 = rv_OverlyBroadRules result"
      "issues r1 = issues result \<union> (if grants (rl_APIGroups r) ''rbac.authorization.k8s.io'' \<and> ''*'' \<in> set (rl_Resources r)
         then {(''RBACWildcardAccess'', rule_name i)} else {})"
    by (auto simp: overly_broad_step_def Let_def grants_def split: if_splits)
  from Cons.prems s have "overly_broad_loop (Suc i) rules (c1, b1, r1) = (core', rbac', result')" by simp
  from Cons.IH [OF this] e show ?case by auto
qed simp

lemma dangerous_step_spec:
  "fst (dangerous_step i r (secret, node, exec, result)) = (secret \<or> grants (rl_Resources r) ''secrets'')"
  "fst (snd (dangerous_step i r (secret, node, exec, result))) = (node \<or> grants (rl_Resources r) ''nodes'')"
  "fst (snd (snd (dangerous_step i r (secret, node, exec, result)))) = (exec \<or> exec_rule r)"
  "rv_Errors (snd (snd (snd (dangerous_step i r (secret, node, exec, result))))) = rv_Errors result"
  "rv_OverlyBroadRules (snd (snd (snd (dangerous_step i r (secret, node, exec, result))))) = rv_OverlyBroadRules result"
  "issues (snd (snd (snd (dangerous_step i r (secret, node, exec, result))))) =
     issues result \<union> (if exec_rule r then {(''PodExecAccess'', rule_name i)} else {})"
  by (simp_all add: dangerous_step_def Let_def grants_def exec_rule_def)

lemma dangerous_loop_spec:
  "dangerous_loop i rules (secret, node, exec, result) = (secret', node', exec', result') \<Longrightarrow>
     secret' = (secret \<or> some_rule (\<lambda>r. grants (rl_Resources r) ''secrets'') rules) \<and>
     node' = (node \<or> some_rule (\<lambda>r. grants (rl_Resources r) ''nodes'') rules) \<and>
     exec' = (exec \<or> some_rule exec_rule rules) \<and>
     rv_Errors result' = rv_Errors result \<and> rv_OverlyBroadRules result' = rv_OverlyBroadRules result \<and>
     issues result' = issues result \<union> tagged i (\<lambda>r. if exec_rule r then {''PodExecAccess''} else {}) rules"
proof (induction rules arbitrary: i secret node exec result)
  case (Cons r rules)
  obtain s1 n1 e1 r1 where s: "dangerous_step i r (secret, node, exec, result) = (s1, n1, e1, r1)" by (metis prod.exhaust)
  have e: "s1 = (secret \<or> grants (rl_Resources r) ''secrets'')" "n1 = (node \<or> grants (rl_Resources r) ''nodes'')"
      "e1 = (exec \<or> exec_rule r)" "rv_Errors r1 = rv_Errors result" "rv_OverlyBroadRules r1 = rv_OverlyBroadRules result"
      "issues r1 = issues result \<union> (if exec_rule r then {(''PodExecAccess'', rule_name i)} else {})"
    using dangerous_step_spec [of i r secret node exec result] unfolding s by simp_all
  from Cons.prems s have "dangerous_loop (Suc i) rules (s1, n1, e1, r1) = (secret', node', exec', result')" by simp
  from Cons.IH [OF this] e show ?case by auto
qed simp

lemma validate_rules_broad:
  "map ob_RuleName (rv_OverlyBroadRules (validate_rules i rules result)) =
     map ob_RuleName (rv_OverlyBroadRules result) @ concat (map (\<lambda>(j, r). if admin_rule r then [rule_name j] else []) (enumerate i rules))"
  by (induction i rules result rule: validate_rules.induct) (auto simp: validateRule_broad)

lemma checkOverlyBroadPermissions_spec:
  "rv_Errors (checkOverlyBroadPermissions c result) = rv_Errors result"
  "rv_OverlyBroadRules (checkOverlyBroadPermissions c result) = rv_OverlyBroadRules result"
  "issues (checkOverlyBroadPermissions c result) = issues result \<union>
     tagged 0 (\<lambda>r. if grants (rl_APIGroups r) ''rbac.authorization.k8s.io'' \<and> ''*'' \<in> set (rl_Resources r) then {''RBACWildcardAccess''} else {}) (cr_Rules c) \<union>
     (if some_rule (\<lambda>r. grants (rl_APIGroups r) '''' \<and> ''*'' \<in> set (rl_Resources r)) (cr_Rules c) \<and>
         some_rule (\<lambda>r. grants (rl_APIGroups r) ''rbac.authorization.k8s.io'' \<and> ''*'' \<in> set (rl_Resources r)) (cr_Rules c)
      then {(''ExcessivePrivileges'', ''Multiple rules'')} else {})"
proof -
  obtain core rbac res where l: "overly_broad_loop 0 (cr_Rules c) (False, False, result) = (core, rbac, res)" by (metis prod.exhaust)
  note spec = overly_broad_loop_spec [OF l]
  show "rv_Errors (checkOverlyBroadPermissions c result) = rv_Errors result"
    "rv_OverlyBroadRules (checkOverlyBroadPermissions c result) = rv_OverlyBroadRules result"
    "issues (checkOverlyBroadPermissions c result) = issues result \<union>
     tagged 0 (\<lambda>r. if grants (rl_APIGroups r) ''rbac.authorization.k8s.io'' \<and> ''*'' \<in> set (rl_Resources r) then {''RBACWildcardAccess''} else {}) (cr_Rules c) \<union>
     (if some_rule (\<lambda>r. grants (rl_APIGroups r) '''' \<and> ''*'' \<in> set (rl_Resources r)) (cr_Rules c) \<and>
         some_rule (\<lambda>r. grants (rl_APIGroups r) ''rbac.authorization.k8s.io'' \<and> ''*'' \<in> set (rl_Resources r)) (cr_Rules c)
      then {(''ExcessivePrivileges'', ''Multiple rules'')} else {})"
    using spec by (simp_all add: checkOverlyBroadPermissions_def l)
qed

lemma checkDangerousPermissions_spec:
  "rv_Errors (checkDangerousPermissions c result) = rv_Errors result"
  "rv_OverlyBroadRules (checkDangerousPermissions c result) = rv_OverlyBroadRules result"
  "issues (checkDangerousPermissions c result) = issues result \<union>
     tagged 0 (\<lambda>r. if exec_rule r then {''PodExecAccess''} else {}) (cr_Rules c) \<union>
     (if some_rule (\<lambda>r. grants (rl_Resources r) ''secrets'') (cr_Rules c) \<and> some_rule (\<lambda>r. grants (rl_Resources r) ''nodes'') (cr_Rules c)
      then {(''SecretNodeAccess'', ''Multiple rules'')} else {}) \<union>
     (if some_rule (\<lambda>r. grants (rl_Resources r) ''secrets'') (cr_Rules c) \<and> some_rule exec_rule (cr_Rules c)
      then {(''SecretExecAccess'', ''Multiple rules'')} else {})"
proof -
  obtain secret node exec res where l: "dangerous_loop 0 (cr_Rules c) (False, False, False, result) = (secret, node, exec, res)"
    by (metis prod.exhaust)
  note spec = dangerous_loop_spec [OF l]
  show "rv_Errors (checkDangerousPermissions c result) = rv_Errors result"
    "rv_OverlyBroadRules (checkDangerousPermissions c result) = rv_OverlyBroadRules result"
    using spec by (simp_all add: checkDangerousPermissions_def l Let_def)
  have "issues (checkDangerousPermissions c result) = issues res \<union> (if secret \<and> node then {(''SecretNodeAccess'', ''Multiple rules'')} else {}) \<union>
      (if secret \<and> exec then {(''SecretExecAccess'', ''Multiple rules'')} else {})"
    by (simp add: checkDangerousPermissions_def l Let_def)
  with spec show "issues (checkDangerousPermissions c result) = issues result \<union>
     tagged 0 (\<lambda>r. if exec_rule r then {''PodExecAccess''} else {}) (cr_Rules c) \<union>
     (if some_rule (\<lambda>r. grants (rl_Resources r) ''secrets'') (cr_Rules c) \<and> some_rule (\<lambda>r. grants (rl_Resources r) ''nodes'') (cr_Rules c)
      then {(''SecretNodeAccess'', ''Multiple rules'')} else {}) \<union>
     (if some_rule (\<lambda>r. grants (rl_Resources r) ''secrets'') (cr_Rules c) \<and> some_rule exec_rule (cr_Rules c)
      then {(''SecretExecAccess'', ''Multiple rules'')} else {})"
    by (simp split del: if_split)
qed

text \<open>
  C35. The findings on a cluster role are exact: rule \<open>i\<close> is reported with a kind exactly when it
  deserves it by itself, and the role as a whole exactly when its rules deserve it together, whichever
  rules the permissions come from and in whatever order. The rules reported as overly broad are those
  with wildcards everywhere, in order.
\<close>

theorem ValidateClusterRole_exact:
  "issues (ValidateClusterRole c) =
     (\<Union>(i, r) \<in> set (enumerate 0 (cr_Rules c)). (\<lambda>t. (t, rule_name i)) ` role_rule_issues r) \<union>
     (\<lambda>t. (t, ''Multiple rules'')) ` role_issues (cr_Rules c) \<and>
   map ob_RuleName (rv_OverlyBroadRules (ValidateClusterRole c)) =
     concat (map (\<lambda>(i, r). if admin_rule r then [rule_name i] else []) (enumerate 0 (cr_Rules c)))"
proof
  have union: "tagged 0 role_rule_issues (cr_Rules c) = tagged 0 rule_issues (cr_Rules c) \<union>
     tagged 0 (\<lambda>r. if grants (rl_APIGroups r) ''rbac.authorization.k8s.io'' \<and> ''*'' \<in> set (rl_Resources r) then {''RBACWildcardAccess''} else {}) (cr_Rules c) \<union>
     tagged 0 (\<lambda>r. if exec_rule r then {''PodExecAccess''} else {}) (cr_Rules c)"
    by (simp add: tagged_union role_rule_issues_def [abs_def] Un_assoc)
  have roles: "(\<lambda>t. (t, ''Multiple rules'')) ` role_issues (cr_Rules c) =
     (if some_rule (\<lambda>r. grants (rl_APIGroups r) '''' \<and> ''*'' \<in> set (rl_Resources r)) (cr_Rules c) \<and>
         some_rule (\<lambda>r. grants (rl_APIGroups r) ''rbac.authorization.k8s.io'' \<and> ''*'' \<in> set (rl_Resources r)) (cr_Rules c)
      then {(''ExcessivePrivileges'', ''Multiple rules'')} else {}) \<union>
     (if some_rule (\<lambda>r. grants (rl_Resources r) ''secrets'') (cr_Rules c) \<and> some_rule (\<lambda>r. grants (rl_Resources r) ''nodes'') (cr_Rules c)
      then {(''SecretNodeAccess'', ''Multiple rules'')} else {}) \<union>
     (if some_rule (\<lambda>r. grants (rl_Resources r) ''secrets'') (cr_Rules c) \<and> some_rule exec_rule (cr_Rules c)
      then {(''SecretExecAccess'', ''Multiple rules'')} else {})"
    unfolding role_issues_def image_Un image_if_single ..
  show "issues (ValidateClusterRole c) =
     (\<Union>(i, r) \<in> set (enumerate 0 (cr_Rules c)). (\<lambda>t. (t, rule_name i)) ` role_rule_issues r) \<union>
     (\<lambda>t. (t, ''Multiple rules'')) ` role_issues (cr_Rules c)"
    unfolding tagged_def [symmetric] union roles
    by (simp add: ValidateClusterRole_def Let_def checkOverlyBroadPermissions_spec checkDangerousPermissions_spec
        validate_rules_issues Un_ac split del: if_split)
  show "map ob_RuleName (rv_OverlyBroadRules (ValidateClusterRole c)) =
     concat (map (\<lambda>(i, r). if admin_rule r then [rule_name i] else []) (enumerate 0 (cr_Rules c)))"
    by (simp add: ValidateClusterRole_def Let_def checkOverlyBroadPermissions_spec checkDangerousPermissions_spec
        validate_rules_broad empty_result_def)
qed

text \<open>
  The verdict says nothing: no check ever records an error, so every cluster role and every role is
  valid, also one with every permission there is, whose findings are critical.
\<close>

theorem every_role_valid:
  "rv_Valid (ValidateClusterRole c) \<and> rv_Valid (ValidateRole r) \<and> rv_Errors (ValidateClusterRole c) = [] \<and>
   (let everything = \<lparr>cr_Name = n, cr_Rules = [\<lparr>rl_APIGroups = [''*''], rl_Resources = [''*''], rl_Verbs = [''*'']\<rparr>]\<rparr>
    in rv_Valid (ValidateClusterRole everything) \<and>
       (''ClusterAdminEquivalent'', rule_name 0) \<in> issues (ValidateClusterRole everything))"
proof -
  have v: "rv_Valid (ValidateClusterRole d)" "rv_Errors (ValidateClusterRole d) = []" for d
    by (simp_all add: ValidateClusterRole_def Let_def checkOverlyBroadPermissions_spec checkDangerousPermissions_spec empty_result_def)
  have "rv_Valid (ValidateRole r)" by (simp add: ValidateRole_def Let_def empty_result_def)
  moreover have "(''ClusterAdminEquivalent'', rule_name 0) \<in> issues (ValidateClusterRole
      \<lparr>cr_Name = n, cr_Rules = [\<lparr>rl_APIGroups = [''*''], rl_Resources = [''*''], rl_Verbs = [''*'']\<rparr>]\<rparr>)"
    by (simp add: ValidateClusterRole_def Let_def checkOverlyBroadPermissions_spec checkDangerousPermissions_spec
        validateRule_issues rule_issues_def admin_rule_def)
  ultimately show ?thesis using v by (simp add: Let_def)
qed

text \<open>
  The validator agrees with one of its two recommendations. The minimal role for the provider has no
  finding, no warning and no overly broad rule. The recommended read-only role is reported for wildcard
  access to RBAC resources and as excessive privileges, which is critical.
\<close>

theorem recommendations_validated:
  "(let minimal = ValidateClusterRole \<lparr>cr_Name = n, cr_Rules = GetRecommendedPermissions ul ''Beskar7-Minimal''\<rparr>
    in rv_SecurityFindings minimal = [] \<and> rv_Warnings minimal = [] \<and> rv_OverlyBroadRules minimal = []) \<and>
   issues (ValidateClusterRole \<lparr>cr_Name = n, cr_Rules = GetRecommendedPermissions ul ''read-only''\<rparr>) =
     {(''RBACWildcardAccess'', rule_name 0), (''ExcessivePrivileges'', ''Multiple rules''), (''SecretNodeAccess'', ''Multiple rules'')}"
proof -
  have c: "char_of (98 :: nat) = CHR ''b''" "char_of (109 :: nat) = CHR ''m''" by code_simp+
  have l: "strings_ToLower ul ''Beskar7-Minimal'' = ''beskar7-minimal''" "strings_ToLower ul ''read-only'' = ''read-only''"
    by (simp_all add: strings_ToLower_def lower_byte_def c)
  show ?thesis
    by (simp add: GetRecommendedPermissions_def l Let_def ValidateClusterRole_def validateRule_def isClusterAdminEquivalent_def
        checkOverlyBroadPermissions_def checkDangerousPermissions_def overly_broad_step_def dangerous_step_def empty_result_def
        issues_def add_finding_def add_warning_def)
qed

end
