(* ===== verification/SecurityMonitor.thy ===== *)
theory SecurityMonitor
  imports TLSValidator RBACValidator ApiTypes
begin

text \<open>
  \<open>internal/security/monitor.go\<close>: the periodic scan of hosts, cluster roles and secrets that
  reports its findings as Kubernetes events. The API server and the clock are the argument \<open>M\<close>.
\<close>

section \<open>Reports\<close>

record TLSSecurityFinding =
  tf_Severity :: string
  tf_Type :: string
  tf_Resource :: string
  tf_Description :: string
  tf_Details :: string
  tf_Remediation :: string
  tf_Expiry :: "Time option"

record RBACSecurityFinding =
  rf_Severity :: string
  rf_Type :: string
  rf_Resource :: string
  rf_Description :: string
  rf_OverlyBroad :: bool
  rf_Permissions :: "string list"
  rf_Remediation :: string

record SecretSecurityFinding =
  xf_Severity :: string
  xf_Type :: string
  xf_Resource :: string
  xf_Description :: string
  xf_Age :: Duration
  xf_LastRotated :: "Time option"
  xf_Remediation :: string

record GeneralSecurityFinding =
  gf_Severity :: string
  gf_Type :: string
  gf_Resource :: string
  gf_Description :: string
  gf_Remediation :: string

record SecurityRecommendation =
  rc_Priority :: string
  rc_Title :: string
  rc_Description :: string
  rc_Action :: string
  rc_Impact :: string
  rc_Effort :: string

record SecurityReport =
  rp_Timestamp :: Time
  rp_TotalIssues :: goint
  rp_CriticalIssues :: goint
  rp_HighIssues :: goint
  rp_MediumIssues :: goint
  rp_LowIssues :: goint
  rp_TLSFindings :: "TLSSecurityFinding list"
  rp_RBACFindings :: "RBACSecurityFinding list"
  rp_SecretFindings :: "SecretSecurityFinding list"
  rp_GeneralFindings :: "GeneralSecurityFinding list"
  rp_Recommendations :: "SecurityRecommendation list"

section \<open>The environment\<close>

record Event =
  ev_Name :: string
  ev_Namespace :: string
  ev_InvolvedKind :: string
  ev_InvolvedName :: string
  ev_InvolvedNamespace :: string
  ev_Reason :: string
  ev_Message :: string
  ev_Type :: string
  ev_Component :: string
  ev_FirstTimestamp :: Time
  ev_LastTimestamp :: Time
  ev_Count :: goint

record ('w, 'pool) monitor_env =
  mo_Now :: "('w, Time) io"
  mo_List_PhysicalHosts :: "string \<Rightarrow> ('w, error + PhysicalHost list) io"
  mo_List_Secrets :: "string \<Rightarrow> ('w, error + Secret list) io"
  mo_List_ClusterRoles :: "('w, error + ClusterRole list) io"
  mo_Create_Event :: "Event \<Rightarrow> ('w, error option) io"
  mo_tls :: "('w, 'pool) tls_env"
  mo_unicode_lower :: "string \<Rightarrow> string"

record 'pool SecurityMonitor =
  sm_TLSValidator :: "'pool TLSValidator"
  sm_Interval :: Duration
  sm_Namespace :: string

definition NewSecurityMonitor :: "string \<Rightarrow> 'pool SecurityMonitor" where
  "NewSecurityMonitor namespace = \<lparr>sm_TLSValidator = NewTLSValidator, sm_Interval = 1 * hour, sm_Namespace = namespace\<rparr>"

section \<open>Scans\<close>

definition insecure_finding :: "PhysicalHost \<Rightarrow> TLSSecurityFinding list" where
  "insecure_finding host =
    (if rc_InsecureSkipVerify (ps_RedfishConnection (ph_Spec host)) = Some True
     then [\<lparr>tf_Severity = ''MEDIUM'', tf_Type = ''InsecureSkipVerify'', tf_Resource = ''PhysicalHost/'' @ om_Name (ph_meta host),
            tf_Description = ''TLS certificate verification is disabled'', tf_Details = ''insecureSkipVerify is set to true'',
            tf_Remediation = ''Configure proper TLS certificates or use a custom CA bundle'', tf_Expiry = None\<rparr>]
     else [])"

definition tls_findings :: "PhysicalHost \<Rightarrow> ValidationResult \<Rightarrow> TLSSecurityFinding list" where
  "tls_findings host result =
    (let resource = ''PhysicalHost/'' @ om_Name (ph_meta host);
         details = ''Endpoint: '' @ rc_Address (ps_RedfishConnection (ph_Spec host));
         severity = (if vr_IsSelfSigned result then SeverityMedium else SeverityHigh)
     in map (\<lambda>warning. \<lparr>tf_Severity = ''LOW'', tf_Type = ''TLSWarning'', tf_Resource = resource, tf_Description = warning,
          tf_Details = details, tf_Remediation = ''Review certificate configuration'', tf_Expiry = vr_Expiry result\<rparr>) (vr_Warnings result)
      @ map (\<lambda>err. \<lparr>tf_Severity = severity, tf_Type = ''TLSError'', tf_Resource = resource, tf_Description = err,
          tf_Details = details, tf_Remediation = ''Fix certificate configuration or use proper CA-signed certificates'',
          tf_Expiry = vr_Expiry result\<rparr>) (vr_Errors result))"

fun tls_hosts_loop :: "('w, 'pool) monitor_env \<Rightarrow> 'pool SecurityMonitor \<Rightarrow> PhysicalHost list \<Rightarrow> SecurityReport \<Rightarrow> ('w, SecurityReport) io" where
  "tls_hosts_loop M m [] report = State_Monad.return report"
| "tls_hosts_loop M m (host # hosts) report = do {
     let report1 = report\<lparr>rp_TLSFindings := rp_TLSFindings report @ insecure_finding host\<rparr>;
     report2 \<leftarrow> (if rc_Address (ps_RedfishConnection (ph_Spec host)) \<noteq> '''' then do {
         result \<leftarrow> ValidateTLSEndpoint (mo_tls M) (sm_TLSValidator m) (rc_Address (ps_RedfishConnection (ph_Spec host)));
         State_Monad.return (report1\<lparr>rp_TLSFindings := rp_TLSFindings report1 @ tls_findings host result\<rparr>)
       } else State_Monad.return report1);
     tls_hosts_loop M m hosts report2
   }"

definition scanPhysicalHostsTLS :: "('w, 'pool) monitor_env \<Rightarrow> 'pool SecurityMonitor \<Rightarrow> SecurityReport \<Rightarrow> ('w, error option \<times> SecurityReport) io" where
  "scanPhysicalHostsTLS M m report = do {
     listed \<leftarrow> mo_List_PhysicalHosts M (sm_Namespace m);
     case listed of
       Inl err \<Rightarrow> State_Monad.return (Some (wrap_error ''failed to list PhysicalHosts'' err), report)
     | Inr hosts \<Rightarrow> do {
         report' \<leftarrow> tls_hosts_loop M m hosts report;
         State_Monad.return (None, report')
       }
   }"

definition name_matches :: "(string \<Rightarrow> string) \<Rightarrow> string list \<Rightarrow> string \<Rightarrow> bool" where
  "name_matches unicode_lower patterns name =
    (let lowerName = strings_ToLower unicode_lower name in list_ex (\<lambda>pattern. strings_Contains lowerName pattern) patterns)"

definition isBeskar7Related :: "(string \<Rightarrow> string) \<Rightarrow> string \<Rightarrow> bool" where
  "isBeskar7Related unicode_lower name =
     name_matches unicode_lower [''beskar7'', ''manager-role'', ''controller'', ''infrastructure.cluster.x-k8s.io''] name"

definition isCredentialSecret :: "(string \<Rightarrow> string) \<Rightarrow> Secret \<Rightarrow> bool" where
  "isCredentialSecret unicode_lower secret =
    (if se_Data secret ''username'' \<noteq> None then True
     else if se_Data secret ''password'' \<noteq> None then True
     else name_matches unicode_lower [''credential'', ''cred'', ''bmc'', ''redfish'', ''auth''] (om_Name (se_meta secret)))"

definition extractPermissions :: "ClusterRole \<Rightarrow> string list" where
  "extractPermissions clusterRole =
     concat (map (\<lambda>rule. concat (map (\<lambda>verb. map (\<lambda>resource. verb @ '':'' @ resource) (rl_Resources rule)) (rl_Verbs rule)))
       (cr_Rules clusterRole))"

definition rbac_findings :: "ClusterRole \<Rightarrow> RBACSecurityFinding list" where
  "rbac_findings clusterRole =
    (let result = ValidateClusterRole clusterRole; resource = ''ClusterRole/'' @ cr_Name clusterRole in
     map (\<lambda>finding. \<lparr>rf_Severity = sf_Severity finding, rf_Type = sf_Type finding, rf_Resource = resource,
        rf_Description = sf_Description finding,
        rf_OverlyBroad = (sf_Type finding = ''ClusterAdminEquivalent'' \<or> sf_Type finding = ''OverlyBroadVerbs''),
        rf_Permissions = extractPermissions clusterRole, rf_Remediation = sf_Remediation finding\<rparr>) (rv_SecurityFindings result)
     @ map (\<lambda>rule. \<lparr>rf_Severity = ob_Severity rule, rf_Type = ''OverlyBroadRule'', rf_Resource = resource, rf_Description = ob_Reason rule,
        rf_OverlyBroad = True, rf_Permissions = (ob_APIGroups rule @ ob_Resources rule) @ ob_Verbs rule,
        rf_Remediation = ''Apply principle of least privilege''\<rparr>) (rv_OverlyBroadRules result))"

fun rbac_roles_loop :: "(string \<Rightarrow> string) \<Rightarrow> ClusterRole list \<Rightarrow> SecurityReport \<Rightarrow> SecurityReport" where
  "rbac_roles_loop unicode_lower [] report = report"
| "rbac_roles_loop unicode_lower (clusterRole # roles) report =
    (if \<not> isBeskar7Related unicode_lower (cr_Name clusterRole) then rbac_roles_loop unicode_lower roles report
     else rbac_roles_loop unicode_lower roles (report\<lparr>rp_RBACFindings := rp_RBACFindings report @ rbac_findings clusterRole\<rparr>))"

definition scanRBACConfigurations :: "('w, 'pool) monitor_env \<Rightarrow> SecurityReport \<Rightarrow> ('w, error option \<times> SecurityReport) io" where
  "scanRBACConfigurations M report = do {
     listed \<leftarrow> mo_List_ClusterRoles M;
     case listed of
       Inl err \<Rightarrow> State_Monad.return (Some (wrap_error ''failed to list ClusterRoles'' err), report)
     | Inr roles \<Rightarrow> State_Monad.return (None, rbac_roles_loop (mo_unicode_lower M) roles report)
   }"

definition secret_findings :: "Secret \<Rightarrow> Duration \<Rightarrow> SecretSecurityFinding list" where
  "secret_findings s age =
    (let resource = ''Secret/'' @ om_Name (se_meta s); created = Some (se_CreationTimestamp s) in
     (if age > 90 * 24 * hour
      then [\<lparr>xf_Severity = ''MEDIUM'', xf_Type = ''OldCredentials'', xf_Resource = resource,
             xf_Description = ''Credential secret is older than 90 days'', xf_Age = age, xf_LastRotated = created,
             xf_Remediation = ''Rotate credentials regularly (recommended: every 90 days)''\<rparr>] else []) @
     (if age > 365 * 24 * hour
      then [\<lparr>xf_Severity = SeverityHigh, xf_Type = ''VeryOldCredentials'', xf_Resource = resource,
             xf_Description = ''Credential secret is older than 1 year'', xf_Age = age, xf_LastRotated = created,
             xf_Remediation = ''Rotate credentials immediately''\<rparr>] else []) @
     (if se_Data s ''username'' = None
      then [\<lparr>xf_Severity = SeverityHigh, xf_Type = ''MissingUsername'', xf_Resource = resource,
             xf_Description = ''Credential secret missing username field'', xf_Age = age, xf_LastRotated = None,
             xf_Remediation = ''Ensure secret contains required '' @ [CHR 0x27] @ ''username'' @ [CHR 0x27] @ '' field''\<rparr>] else []) @
     (if se_Data s ''password'' = None
      then [\<lparr>xf_Severity = SeverityHigh, xf_Type = ''MissingPassword'', xf_Resource = resource,
             xf_Description = ''Credential secret missing password field'', xf_Age = age, xf_LastRotated = None,
             xf_Remediation = ''Ensure secret contains required '' @ [CHR 0x27] @ ''password'' @ [CHR 0x27] @ '' field''\<rparr>] else []))"

fun secrets_loop :: "('w, 'pool) monitor_env \<Rightarrow> Secret list \<Rightarrow> SecurityReport \<Rightarrow> ('w, SecurityReport) io" where
  "secrets_loop M [] report = State_Monad.return report"
| "secrets_loop M (s # secrets) report =
    (if \<not> isCredentialSecret (mo_unicode_lower M) s then secrets_loop M secrets report
     else do {
       now \<leftarrow> mo_Now M;
       let age = time_Sub now (se_CreationTimestamp s);
       secrets_loop M secrets (report\<lparr>rp_SecretFindings := rp_SecretFindings report @ secret_findings s age\<rparr>)
     })"

definition scanSecrets :: "('w, 'pool) monitor_env \<Rightarrow> 'pool SecurityMonitor \<Rightarrow> SecurityReport \<Rightarrow> ('w, error option \<times> SecurityReport) io" where
  "scanSecrets M m report = do {
     listed \<leftarrow> mo_List_Secrets M (sm_Namespace m);
     case listed of
       Inl err \<Rightarrow> State_Monad.return (Some (wrap_error ''failed to list secrets'' err), report)
     | Inr secrets \<Rightarrow> do {
         report' \<leftarrow> secrets_loop M secrets report;
         State_Monad.return (None, report')
       }
   }"

section \<open>Recommendations and totals\<close>

definition add_recommendation :: "bool \<Rightarrow> SecurityRecommendation \<Rightarrow> SecurityReport \<Rightarrow> SecurityReport" where
  "add_recommendation b r report =
     (if b then report\<lparr>rp_Recommendations := rp_Recommendations report @ [r]\<rparr> else report)"

definition generateRecommendations :: "SecurityReport \<Rightarrow> SecurityReport" where
  "generateRecommendations report0 =
    (let hasInsecureSkipVerify = list_ex (\<lambda>finding. tf_Type finding = ''InsecureSkipVerify'') (rp_TLSFindings report0);
         hasTLSErrors = list_ex (\<lambda>finding. tf_Type finding = ''TLSError'') (rp_TLSFindings report0);
         hasOverlyBroad = list_ex rf_OverlyBroad (rp_RBACFindings report0);
         hasOldSecrets = list_ex (\<lambda>finding. xf_Type finding = ''OldCredentials'' \<or> xf_Type finding = ''VeryOldCredentials'') (rp_SecretFindings report0);
         report1 = add_recommendation hasInsecureSkipVerify
           \<lparr>rc_Priority = SeverityHigh, rc_Title = ''Disable insecureSkipVerify'',
            rc_Description = ''Multiple PhysicalHosts have TLS certificate verification disabled'',
            rc_Action = ''Configure proper TLS certificates or implement a custom CA bundle'',
            rc_Impact = ''Improves protection against man-in-the-middle attacks'', rc_Effort = ''Medium''\<rparr> report0;
         report2 = add_recommendation hasTLSErrors
           \<lparr>rc_Priority = SeverityHigh, rc_Title = ''Fix TLS Certificate Issues'',
            rc_Description = ''TLS certificate validation errors found'',
            rc_Action = ''Review and fix certificate configuration for BMC endpoints'',
            rc_Impact = ''Ensures secure communication with hardware BMCs'', rc_Effort = ''Medium''\<rparr> report1;
         report3 = add_recommendation hasOverlyBroad
           \<lparr>rc_Priority = SeverityCritical, rc_Title = ''Reduce RBAC Permissions'',
            rc_Description = ''Overly broad RBAC permissions detected'',
            rc_Action = ''Apply principle of least privilege to RBAC configurations'',
            rc_Impact = ''Significantly reduces attack surface and improves security posture'', rc_Effort = ''High''\<rparr> report2
     in add_recommendation hasOldSecrets
           \<lparr>rc_Priority = ''MEDIUM'', rc_Title = ''Implement Credential Rotation'',
            rc_Description = ''Old credential secrets found that should be rotated'',
            rc_Action = ''Establish a regular credential rotation schedule (every 90 days)'',
            rc_Impact = ''Reduces risk from compromised credentials'', rc_Effort = ''Medium''\<rparr> report3)"

text \<open>The map of counts; a severity outside the four gets an entry of its own.\<close>

fun count_severities :: "string list \<Rightarrow> (string \<Rightarrow> goint) \<Rightarrow> string \<Rightarrow> goint" where
  "count_severities [] counts = counts"
| "count_severities (s # ss) counts = count_severities ss (counts(s := counts s + 1))"

definition calculateTotals :: "SecurityReport \<Rightarrow> SecurityReport" where
  "calculateTotals report =
    (let severityCounts = count_severities (map gf_Severity (rp_GeneralFindings report))
           (count_severities (map xf_Severity (rp_SecretFindings report))
             (count_severities (map rf_Severity (rp_RBACFindings report))
               (count_severities (map tf_Severity (rp_TLSFindings report)) (\<lambda>s. 0))))
     in report\<lparr>rp_CriticalIssues := severityCounts SeverityCritical, rp_HighIssues := severityCounts SeverityHigh,
          rp_MediumIssues := severityCounts SeverityMedium, rp_LowIssues := severityCounts SeverityLow,
          rp_TotalIssues := severityCounts SeverityCritical + severityCounts SeverityHigh + severityCounts SeverityMedium
            + severityCounts SeverityLow\<rparr>)"

section \<open>Events\<close>

definition event_name :: "(string \<Rightarrow> string) \<Rightarrow> string \<Rightarrow> Time \<Rightarrow> string" where
  "event_name unicode_lower reason now = ''security-'' @ strings_ToLower unicode_lower reason @ ''-'' @ show_int (now div second)"

definition createSecurityEvent :: "('w, 'pool) monitor_env \<Rightarrow> 'pool SecurityMonitor \<Rightarrow> string \<Rightarrow> string \<Rightarrow> string \<Rightarrow> string \<Rightarrow> ('w, unit) io" where
  "createSecurityEvent M m reason severity resource message = do {
     now \<leftarrow> mo_Now M;
     first_now \<leftarrow> mo_Now M;
     last_now \<leftarrow> mo_Now M;
     err \<leftarrow> mo_Create_Event M
       \<lparr>ev_Name = event_name (mo_unicode_lower M) reason now, ev_Namespace = sm_Namespace m,
        ev_InvolvedKind = ''SecurityMonitor'', ev_InvolvedName = ''beskar7-security-monitor'', ev_InvolvedNamespace = sm_Namespace m,
        ev_Reason = reason, ev_Message = ''['' @ severity @ ''] '' @ resource @ '': '' @ message, ev_Type = ''Warning'',
        ev_Component = ''beskar7-security-monitor'', ev_FirstTimestamp = first_now, ev_LastTimestamp = last_now, ev_Count = 1\<rparr>;
     State_Monad.return ()
   }"

definition serious :: "string \<Rightarrow> bool" where
  "serious severity \<longleftrightarrow> severity = SeverityCritical \<or> severity = SeverityHigh"

fun report_loop :: "('w, 'pool) monitor_env \<Rightarrow> 'pool SecurityMonitor \<Rightarrow> string \<Rightarrow> (string \<times> string \<times> string) list \<Rightarrow> ('w, unit) io" where
  "report_loop M m reason [] = State_Monad.return ()"
| "report_loop M m reason ((severity, resource, description) # findings) = do {
     _ \<leftarrow> (if serious severity then createSecurityEvent M m reason severity resource description else State_Monad.return ());
     report_loop M m reason findings
   }"

definition reportFindings :: "('w, 'pool) monitor_env \<Rightarrow> 'pool SecurityMonitor \<Rightarrow> SecurityReport \<Rightarrow> ('w, unit) io" where
  "reportFindings M m report = do {
     _ \<leftarrow> report_loop M m ''TLSSecurityIssue'' (map (\<lambda>f. (tf_Severity f, tf_Resource f, tf_Description f)) (rp_TLSFindings report));
     _ \<leftarrow> report_loop M m ''RBACSecurityIssue'' (map (\<lambda>f. (rf_Severity f, rf_Resource f, rf_Description f)) (rp_RBACFindings report));
     report_loop M m ''SecretSecurityIssue'' (map (\<lambda>f. (xf_Severity f, xf_Resource f, xf_Description f)) (rp_SecretFindings report))
   }"

section \<open>The scan and its repetition\<close>

definition empty_report :: "Time \<Rightarrow> SecurityReport" where
  "empty_report now = \<lparr>rp_Timestamp = now, rp_TotalIssues = 0, rp_CriticalIssues = 0, rp_HighIssues = 0, rp_MediumIssues = 0, rp_LowIssues = 0,
     rp_TLSFindings = [], rp_RBACFindings = [], rp_SecretFindings = [], rp_GeneralFindings = [], rp_Recommendations = []\<rparr>"

text \<open>The scan logs a failed part and goes on with the next. It returns nothing; the model returns the report.\<close>

definition runSecurityScan :: "('w, 'pool) monitor_env \<Rightarrow> 'pool SecurityMonitor \<Rightarrow> ('w, SecurityReport) io" where
  "runSecurityScan M m = do {
     now \<leftarrow> mo_Now M;
     (tls_err, report1) \<leftarrow> scanPhysicalHostsTLS M m (empty_report now);
     (rbac_err, report2) \<leftarrow> scanRBACConfigurations M report1;
     (secret_err, report3) \<leftarrow> scanSecrets M m report2;
     let report = calculateTotals (generateRecommendations report3);
     _ \<leftarrow> reportFindings M m report;
     State_Monad.return report
   }"

text \<open>
  \<open>StartMonitoring\<close> scans once and then waits in a \<open>select\<close>. The argument lists what the select
  receives; at the end of the list the monitor is still waiting, and there is no result yet.
\<close>

datatype select_case = Tick | CtxDone error

fun monitor_loop :: "('w, 'pool) monitor_env \<Rightarrow> 'pool SecurityMonitor \<Rightarrow> select_case list \<Rightarrow> ('w, error option) io" where
  "monitor_loop M m [] = State_Monad.return None"
| "monitor_loop M m (CtxDone err # cs) = State_Monad.return (Some err)"
| "monitor_loop M m (Tick # cs) = do {_ \<leftarrow> runSecurityScan M m; monitor_loop M m cs}"

definition StartMonitoring :: "('w, 'pool) monitor_env \<Rightarrow> 'pool SecurityMonitor \<Rightarrow> select_case list \<Rightarrow> ('w, error option) io" where
  "StartMonitoring M m cs = do {_ \<leftarrow> runSecurityScan M m; monitor_loop M m cs}"

section \<open>Nothing is lost in the totals\<close>

definition severities :: "string set" where
  "severities = {SeverityCritical, SeverityHigh, SeverityMedium, SeverityLow}"

lemma count_severities_count: "count_severities ss counts s = counts s + of_nat (count_list ss s)"
  by (induction ss arbitrary: counts) auto

lemma count_list_severities:
  "set ss \<subseteq> severities \<Longrightarrow>
     count_list ss SeverityCritical + count_list ss SeverityHigh + count_list ss SeverityMedium + count_list ss SeverityLow = length ss"
  by (induction ss) (auto simp: severities_def)

definition graded_rbac :: "RBACValidationResult \<Rightarrow> bool" where
  "graded_rbac r \<longleftrightarrow> sf_Severity ` set (rv_SecurityFindings r) \<subseteq> severities \<and> ob_Severity ` set (rv_OverlyBroadRules r) \<subseteq> severities"

lemma graded_add [simp]: "sf_Severity f \<in> severities \<Longrightarrow> graded_rbac (add_finding f r) \<longleftrightarrow> graded_rbac r"
  by (simp add: graded_rbac_def add_finding_def)

lemma graded_warning [simp]: "graded_rbac (add_warning m r) \<longleftrightarrow> graded_rbac r"
  by (simp add: graded_rbac_def add_warning_def)

lemma graded_if: "(b \<Longrightarrow> graded_rbac r) \<Longrightarrow> (\<not> b \<Longrightarrow> graded_rbac r') \<Longrightarrow> graded_rbac (if b then r else r')"
  by simp

lemma severities_simps [simp]: "''CRITICAL'' \<in> severities" "''HIGH'' \<in> severities" "''MEDIUM'' \<in> severities" "''LOW'' \<in> severities"
  by (simp_all add: severities_def)

lemma graded_broad [simp]:
  "ob_Severity b \<in> severities \<Longrightarrow> graded_rbac (r\<lparr>rv_OverlyBroadRules := rv_OverlyBroadRules r @ [b]\<rparr>) \<longleftrightarrow> graded_rbac r"
  by (auto simp: graded_rbac_def)

lemma graded_validateRule: "graded_rbac r \<Longrightarrow> graded_rbac (validateRule n rule r)"
  unfolding validateRule_def Let_def by (simp split del: if_split add: graded_if)

lemma graded_validate_rules: "graded_rbac r \<Longrightarrow> graded_rbac (validate_rules i rules r)"
  by (induction i rules r rule: validate_rules.induct) (auto simp: graded_validateRule)

lemma graded_overly_broad_loop:
  "graded_rbac (snd (snd s)) \<Longrightarrow> graded_rbac (snd (snd (overly_broad_loop i rules s)))"
proof (induction i rules s rule: overly_broad_loop.induct)
  case (2 i rule rules s)
  have "graded_rbac (snd (snd (overly_broad_step i rule s)))"
    using 2(2) by (cases s) (simp add: overly_broad_step_def Let_def)
  with 2(1) show ?case by simp
qed simp

lemma graded_dangerous_loop:
  "graded_rbac (snd (snd (snd s))) \<Longrightarrow> graded_rbac (snd (snd (snd (dangerous_loop i rules s))))"
proof (induction i rules s rule: dangerous_loop.induct)
  case (2 i rule rules s)
  have "graded_rbac (snd (snd (snd (dangerous_step i rule s))))"
    using 2(2) by (cases s) (simp add: dangerous_step_def Let_def)
  with 2(1) show ?case by simp
qed simp

lemma graded_ValidateClusterRole: "graded_rbac (ValidateClusterRole cr)"
proof -
  have "graded_rbac empty_result" by (simp add: graded_rbac_def empty_result_def)
  then have "graded_rbac (validate_rules 0 (cr_Rules cr) empty_result)" by (rule graded_validate_rules)
  then have "graded_rbac (checkOverlyBroadPermissions cr (validate_rules 0 (cr_Rules cr) empty_result))" (is "graded_rbac ?r")
    using graded_overly_broad_loop [of "(False, False, validate_rules 0 (cr_Rules cr) empty_result)" 0 "cr_Rules cr"]
    by (simp add: checkOverlyBroadPermissions_def split_beta)
  then have "graded_rbac (checkDangerousPermissions cr ?r)"
    using graded_dangerous_loop [of "(False, False, False, ?r)" 0 "cr_Rules cr"]
    by (simp add: checkDangerousPermissions_def split_beta Let_def)
  then show ?thesis by (simp add: ValidateClusterRole_def Let_def graded_rbac_def)
qed

definition graded :: "SecurityReport \<Rightarrow> bool" where
  "graded r \<longleftrightarrow> tf_Severity ` set (rp_TLSFindings r) \<subseteq> severities \<and> rf_Severity ` set (rp_RBACFindings r) \<subseteq> severities
     \<and> xf_Severity ` set (rp_SecretFindings r) \<subseteq> severities \<and> rp_GeneralFindings r = []"

lemma graded_findings:
  "graded r \<Longrightarrow> graded (r\<lparr>rp_TLSFindings := rp_TLSFindings r @ insecure_finding h\<rparr>)"
  "graded r \<Longrightarrow> graded (r\<lparr>rp_TLSFindings := rp_TLSFindings r @ tls_findings h v\<rparr>)"
  "graded r \<Longrightarrow> graded (r\<lparr>rp_RBACFindings := rp_RBACFindings r @ rbac_findings cr\<rparr>)"
  "graded r \<Longrightarrow> graded (r\<lparr>rp_SecretFindings := rp_SecretFindings r @ secret_findings s age\<rparr>)"
  using graded_ValidateClusterRole [of cr]
  by (auto simp: graded_def insecure_finding_def tls_findings_def rbac_findings_def secret_findings_def Let_def graded_rbac_def)

lemma graded_rbac_roles_loop: "graded r \<Longrightarrow> graded (rbac_roles_loop ul roles r)"
  by (induction ul roles r rule: rbac_roles_loop.induct) (simp_all add: graded_findings)

lemma graded_tls_hosts_loop: "graded r \<Longrightarrow> yields graded (tls_hosts_loop M m hosts r)"
proof (induction M m hosts r rule: tls_hosts_loop.induct)
  case (2 M m host hosts report)
  show ?case unfolding tls_hosts_loop.simps Let_def
    by (rule yields_bind_on [where R = graded])
      (intro yields_if yields_bind yields_return graded_findings 2(1) [OF refl] 2(2) | assumption)+
qed (simp add: yields_return)

lemma graded_secrets_loop: "graded r \<Longrightarrow> yields graded (secrets_loop M ss r)"
  by (induction M ss r rule: secrets_loop.induct) (auto simp: Let_def graded_findings intro!: yields_return yields_bind)

lemma graded_scans:
  "graded r \<Longrightarrow> yields (\<lambda>x. graded (snd x)) (scanPhysicalHostsTLS M m r)"
  "graded r \<Longrightarrow> yields (\<lambda>x. graded (snd x)) (scanRBACConfigurations M r)"
  "graded r \<Longrightarrow> yields (\<lambda>x. graded (snd x)) (scanSecrets M m r)"
  unfolding scanPhysicalHostsTLS_def scanRBACConfigurations_def scanSecrets_def
  by (rule yields_bind, rule yields_case_sum, simp add: yields_return,
      (rule yields_bind_on [OF graded_tls_hosts_loop] yields_bind_on [OF graded_secrets_loop], assumption)?,
      simp add: yields_return graded_rbac_roles_loop)+

lemma graded_recommendations: "graded (generateRecommendations r) \<longleftrightarrow> graded r"
  by (simp add: generateRecommendations_def add_recommendation_def graded_def Let_def)

definition all_severities :: "SecurityReport \<Rightarrow> string list" where
  "all_severities r = map tf_Severity (rp_TLSFindings r) @ map rf_Severity (rp_RBACFindings r) @ map xf_Severity (rp_SecretFindings r)
     @ map gf_Severity (rp_GeneralFindings r)"

lemma calculateTotals_counts:
  "rp_CriticalIssues (calculateTotals r) = of_nat (count_list (all_severities r) ''CRITICAL'')"
  "rp_HighIssues (calculateTotals r) = of_nat (count_list (all_severities r) ''HIGH'')"
  "rp_MediumIssues (calculateTotals r) = of_nat (count_list (all_severities r) ''MEDIUM'')"
  "rp_LowIssues (calculateTotals r) = of_nat (count_list (all_severities r) ''LOW'')"
  "all_severities (calculateTotals r) = all_severities r"
  by (simp_all add: calculateTotals_def Let_def count_severities_count all_severities_def)

lemma calculateTotals_total:
  assumes "set (all_severities r) \<subseteq> severities"
  shows "rp_TotalIssues (calculateTotals r) = of_nat (length (all_severities r))"
proof -
  have "rp_TotalIssues (calculateTotals r) = of_nat (count_list (all_severities r) SeverityCritical + count_list (all_severities r) SeverityHigh
      + count_list (all_severities r) SeverityMedium + count_list (all_severities r) SeverityLow)"
    by (simp add: calculateTotals_def Let_def count_severities_count all_severities_def)
  then show ?thesis by (simp only: count_list_severities [OF assms])
qed

lemma graded_all_severities: "graded r \<Longrightarrow> set (all_severities r) \<subseteq> severities"
  by (auto simp: graded_def all_severities_def)

lemma graded_calculateTotals [simp]: "graded (calculateTotals r) \<longleftrightarrow> graded r"
  by (simp add: calculateTotals_def Let_def graded_def)

text \<open>
  C36. The totals of a scan account for every finding: each of the four numbers counts the findings
  of its severity, and since every finding has one of the four severities the total is the number of findings.
\<close>

theorem runSecurityScan_totals:
  "yields (\<lambda>r. rp_TotalIssues r = of_nat (length (rp_TLSFindings r) + length (rp_RBACFindings r) + length (rp_SecretFindings r))
     \<and> rp_CriticalIssues r = of_nat (count_list (all_severities r) ''CRITICAL'')
     \<and> rp_HighIssues r = of_nat (count_list (all_severities r) ''HIGH'')
     \<and> rp_MediumIssues r = of_nat (count_list (all_severities r) ''MEDIUM'')
     \<and> rp_LowIssues r = of_nat (count_list (all_severities r) ''LOW'')) (runSecurityScan M m)"
  (is "yields ?P _")
proof -
  have P: "?P (calculateTotals r)" if "graded r" for r
    using that calculateTotals_total [OF graded_all_severities, of r]
    by (simp only: calculateTotals_counts) (simp add: all_severities_def graded_def calculateTotals_def Let_def)
  have e: "graded (empty_report now)" for now by (simp add: graded_def empty_report_def)
  show ?thesis unfolding runSecurityScan_def Let_def
    apply (rule yields_bind)
    apply (rule yields_bind_on [OF graded_scans(1) [OF e]], clarify)
    apply (rule yields_bind_on [OF graded_scans(2)], simp, clarify)
    apply (rule yields_bind_on [OF graded_scans(3)], simp, clarify)
    apply (rule yields_bind, rule yields_return, rule P)
    apply (simp add: graded_recommendations)
    done
qed

section \<open>Which events are stored\<close>

text \<open>
  \<open>created\<close> reads off the world the keys of the events the API server has created for the monitor, and \<open>readings\<close> the
  clock readings it has made, both in order. A create may fail for any reason, and a failed one may have taken effect. But names are
  unique in a namespace: no event is created under a key that is taken, where events are not deleted while a report is written.
  Nothing is assumed of the clock.
\<close>

definition event_key :: "Event \<Rightarrow> string \<times> string" where
  "event_key e = (ev_Namespace e, ev_Name e)"

locale event_store =
  fixes M :: "('w, 'pool) monitor_env" and created :: "'w \<Rightarrow> (string \<times> string) list" and readings :: "'w \<Rightarrow> Time list"
  assumes create: "run_state (mo_Create_Event M e) w = (r, w') \<Longrightarrow>
      created w' = created w \<and> r \<noteq> None \<or> event_key e \<notin> set (created w) \<and> created w' = created w @ [event_key e]"
    and create_reads: "run_state (mo_Create_Event M e) w = (r, w') \<Longrightarrow> readings w' = readings w"
    and clock: "run_state (mo_Now M) w = (t, w') \<Longrightarrow> created w' = created w \<and> readings w' = readings w @ [t]"
begin

text \<open>A computation that creates only events of the given reasons, each named after a second it has read.\<close>

definition creates :: "string \<Rightarrow> string set \<Rightarrow> ('w, 'a) io \<Rightarrow> bool" where
  "creates ns reasons m \<longleftrightarrow> (\<forall>w r w'. run_state m w = (r, w') \<longrightarrow>
     (\<exists>D T. created w' = created w @ D \<and> readings w' = readings w @ T \<and> distinct D \<and> set D \<inter> set (created w) = {} \<and>
        set D \<subseteq> (\<lambda>(reason, t). (ns, event_name (mo_unicode_lower M) reason t)) ` (reasons \<times> set T)))"

lemma creates_return: "creates ns reasons (State_Monad.return x)"
  by (simp add: creates_def)

lemma creates_bind:
  assumes "creates ns A m" and "\<And>x. creates ns B (f x)"
  shows "creates ns (A \<union> B) (State_Monad.bind m f)"
  unfolding creates_def
proof (intro allI impI)
  fix w r w'
  assume "run_state (State_Monad.bind m f) w = (r, w')"
  then obtain x v where x: "run_state m w = (x, v)" "run_state (f x) v = (r, w')" by (cases "run_state m w") auto
  from assms(1) x(1) obtain D T where 1: "created v = created w @ D" "readings v = readings w @ T" "distinct D" "set D \<inter> set (created w) = {}"
      "set D \<subseteq> (\<lambda>(reason, t). (ns, event_name (mo_unicode_lower M) reason t)) ` (A \<times> set T)"
    unfolding creates_def by blast
  from assms(2) x(2) obtain D' T' where 2: "created w' = created v @ D'" "readings w' = readings v @ T'" "distinct D'" "set D' \<inter> set (created v) = {}"
      "set D' \<subseteq> (\<lambda>(reason, t). (ns, event_name (mo_unicode_lower M) reason t)) ` (B \<times> set T')"
    unfolding creates_def by blast
  show "\<exists>D T. created w' = created w @ D \<and> readings w' = readings w @ T \<and> distinct D \<and> set D \<inter> set (created w) = {} \<and>
      set D \<subseteq> (\<lambda>(reason, t). (ns, event_name (mo_unicode_lower M) reason t)) ` ((A \<union> B) \<times> set T)"
  proof (intro exI conjI)
    show "created w' = created w @ D @ D'" "readings w' = readings w @ T @ T'" using 1 2 by simp_all
    show "distinct (D @ D')" "set (D @ D') \<inter> set (created w) = {}" using 1 2 by auto
    show "set (D @ D') \<subseteq> (\<lambda>(reason, t). (ns, event_name (mo_unicode_lower M) reason t)) ` ((A \<union> B) \<times> set (T @ T'))"
      using 1(5) 2(5) by fastforce
  qed
qed

lemma createSecurityEvent_creates: "creates (sm_Namespace m) {reason} (createSecurityEvent M m reason severity resource message)"
  unfolding creates_def
proof (intro allI impI)
  fix w r w'
  assume run: "run_state (createSecurityEvent M m reason severity resource message) w = (r, w')"
  obtain t1 w1 where 1: "run_state (mo_Now M) w = (t1, w1)" by fastforce
  obtain t2 w2 where 2: "run_state (mo_Now M) w1 = (t2, w2)" by fastforce
  obtain t3 w3 where 3: "run_state (mo_Now M) w2 = (t3, w3)" by fastforce
  let ?k = "(sm_Namespace m, event_name (mo_unicode_lower M) reason t1)"
  let ?e = "\<lparr>ev_Name = event_name (mo_unicode_lower M) reason t1, ev_Namespace = sm_Namespace m,
    ev_InvolvedKind = ''SecurityMonitor'', ev_InvolvedName = ''beskar7-security-monitor'', ev_InvolvedNamespace = sm_Namespace m,
    ev_Reason = reason, ev_Message = ''['' @ severity @ ''] '' @ resource @ '': '' @ message, ev_Type = ''Warning'',
    ev_Component = ''beskar7-security-monitor'', ev_FirstTimestamp = t2, ev_LastTimestamp = t3, ev_Count = 1\<rparr>"
  obtain u where e: "event_key ?e = ?k" "run_state (mo_Create_Event M ?e) w3 = (u, w')"
    using run 1 2 3 by (cases "run_state (mo_Create_Event M ?e) w3") (simp add: createSecurityEvent_def event_key_def)
  have w3: "created w3 = created w" "readings w3 = readings w @ [t1, t2, t3]" using clock 1 2 3 by simp_all
  from create [OF e(2)] have "created w' = created w @ [] \<or> ?k \<notin> set (created w) \<and> created w' = created w @ [?k]"
    using w3(1) e(1) by auto
  then obtain D where D: "created w' = created w @ D" "distinct D" "set D \<inter> set (created w) = {}" "set D \<subseteq> {?k}"
    by (elim disjE) auto
  have "readings w' = readings w @ [t1, t2, t3]" using create_reads [OF e(2)] w3(2) by simp
  with D show "\<exists>D T. created w' = created w @ D \<and> readings w' = readings w @ T \<and> distinct D \<and> set D \<inter> set (created w) = {} \<and>
      set D \<subseteq> (\<lambda>(reason, t). (sm_Namespace m, event_name (mo_unicode_lower M) reason t)) ` ({reason} \<times> set T)"
    by (intro exI [of _ D] exI [of _ "[t1, t2, t3]"]) auto
qed

lemma report_loop_creates:
  "creates (sm_Namespace m) (if list_ex (\<lambda>f. serious (fst f)) fs then {reason} else {}) (report_loop M m reason fs)"
proof (induction fs)
  case (Cons f fs)
  obtain a b c where f: "f = (a, b, c)" by (metis prod.exhaust)
  have step: "creates (sm_Namespace m) (if serious a then {reason} else {})
      (if serious a then createSecurityEvent M m reason a b c else State_Monad.return ())"
    by (simp add: createSecurityEvent_creates creates_return)
  have eq: "(if list_ex (\<lambda>f. serious (fst f)) (f # fs) then {reason} else {}) =
      (if serious a then {reason} else {}) \<union> (if list_ex (\<lambda>f. serious (fst f)) fs then {reason} else {})"
    by (simp add: f)
  show ?case unfolding eq unfolding f report_loop.simps by (rule creates_bind [OF step Cons.IH])
qed (simp add: creates_return)

end

definition serious_reasons :: "SecurityReport \<Rightarrow> string set" where
  "serious_reasons r =
     (if list_ex (\<lambda>f. serious (tf_Severity f)) (rp_TLSFindings r) then {''TLSSecurityIssue''} else {}) \<union>
     ((if list_ex (\<lambda>f. serious (rf_Severity f)) (rp_RBACFindings r) then {''RBACSecurityIssue''} else {}) \<union>
     (if list_ex (\<lambda>f. serious (xf_Severity f)) (rp_SecretFindings r) then {''SecretSecurityIssue''} else {}))"

lemma event_name_second: "event_name f reason t = event_name f reason (t div second * second)"
  by (simp add: event_name_def)

lemma list_ex_map_comp: "list_ex P (map f xs) = list_ex (\<lambda>x. P (f x)) xs"
  by (induction xs) auto

text \<open>
  C37. How many events a report gets. With \<open>D\<close> the events created while the report is written and \<open>T\<close> the clock readings made
  meanwhile: the events have different names, each is named after one of the three categories that has a finding of high or critical severity
  and after a second that was read, and so there are at most as many as such categories times seconds, however many serious
  findings the report has. A report written within one second gets at most one event per category. This holds for every API
  server that keeps names unique while no event is deleted, whether its creates succeed or fail.
\<close>

theorem reportFindings_one_event_per_second:
  assumes "event_store M created readings" and "run_state (reportFindings M m report) w = (u, w')"
  shows "\<exists>D T. created w' = created w @ D \<and> readings w' = readings w @ T \<and> distinct D \<and>
    set D \<subseteq> (\<lambda>(reason, t). (sm_Namespace m, event_name (mo_unicode_lower M) reason t)) ` (serious_reasons report \<times> set T) \<and>
    length D \<le> card (serious_reasons report) * card ((\<lambda>t. t div second) ` set T)"
proof -
  let ?key = "\<lambda>(reason, t). (sm_Namespace m, event_name (mo_unicode_lower M) reason t)"
  note loop = event_store.report_loop_creates [OF assms(1)] and seq = event_store.creates_bind [OF assms(1)]
  have "event_store.creates M created readings (sm_Namespace m) (serious_reasons report) (reportFindings M m report)"
    unfolding reportFindings_def serious_reasons_def
    by (intro seq loop [where reason = "''TLSSecurityIssue''" and fs = "map (\<lambda>f. (tf_Severity f, tf_Resource f, tf_Description f)) (rp_TLSFindings report)" for report,
          unfolded list_ex_map_comp fst_conv]
        loop [where reason = "''RBACSecurityIssue''" and fs = "map (\<lambda>f. (rf_Severity f, rf_Resource f, rf_Description f)) (rp_RBACFindings report)" for report,
          unfolded list_ex_map_comp fst_conv]
        loop [where reason = "''SecretSecurityIssue''" and fs = "map (\<lambda>f. (xf_Severity f, xf_Resource f, xf_Description f)) (rp_SecretFindings report)" for report,
          unfolded list_ex_map_comp fst_conv])
  with assms(2) obtain D T where D: "created w' = created w @ D" "readings w' = readings w @ T" "distinct D"
      "set D \<subseteq> ?key ` (serious_reasons report \<times> set T)"
    unfolding event_store.creates_def [OF assms(1)] by blast
  let ?S = "(\<lambda>t. t div second) ` set T"
  have "?key ` (serious_reasons report \<times> set T) \<subseteq> (\<lambda>(reason, s). ?key (reason, s * second)) ` (serious_reasons report \<times> ?S)"
  proof (clarsimp)
    fix reason t
    assume "reason \<in> serious_reasons report" "t \<in> set T"
    then have "(reason, t div second) \<in> serious_reasons report \<times> ?S" by simp
    moreover have "(sm_Namespace m, event_name (mo_unicode_lower M) reason t) = (\<lambda>(reason, s). ?key (reason, s * second)) (reason, t div second)"
      using event_name_second [of _ reason t] by simp
    ultimately show "(sm_Namespace m, event_name (mo_unicode_lower M) reason t) \<in>
        (\<lambda>(reason, s). (sm_Namespace m, event_name (mo_unicode_lower M) reason (s * second))) ` (serious_reasons report \<times> ?S)"
      by (simp add: image_iff split_beta) force
  qed
  with D(4) have sub: "set D \<subseteq> (\<lambda>(reason, s). ?key (reason, s * second)) ` (serious_reasons report \<times> ?S)" by blast
  have fin: "finite (serious_reasons report \<times> ?S)" by (simp add: serious_reasons_def)
  have "length D = card (set D)" using D(3) by (simp add: distinct_card)
  also have "\<dots> \<le> card (serious_reasons report \<times> ?S)" by (rule surj_card_le [OF fin sub])
  finally have "length D \<le> card (serious_reasons report) * card ?S" by (simp add: card_cartesian_product)
  with D show ?thesis by blast
qed

text \<open>An API server in memory, with a network on which no server answers.\<close>

record monitor_mem =
  mon_hosts :: "PhysicalHost list"
  mon_secrets :: "Secret list"
  mon_roles :: "ClusterRole list"
  mon_events :: "Event list"
  mon_readings :: "Time list"

definition mem_create_event :: "Event \<Rightarrow> (monitor_mem, error option) io" where
  "mem_create_event e = State (\<lambda>w. if event_key e \<in> event_key ` set (mon_events w) then (Some (Err ''already exists''), w)
     else (None, w\<lparr>mon_events := mon_events w @ [e]\<rparr>))"

definition mem_monitor :: "(monitor_mem, unit) monitor_env" where
  "mem_monitor = \<lparr>mo_Now = State (\<lambda>w. (5 * second, w\<lparr>mon_readings := mon_readings w @ [5 * second]\<rparr>)),
     mo_List_PhysicalHosts = (\<lambda>ns. State (\<lambda>w. (Inr (mon_hosts w), w))), mo_List_Secrets = (\<lambda>ns. State (\<lambda>w. (Inr (mon_secrets w), w))),
     mo_List_ClusterRoles = State (\<lambda>w. (Inr (mon_roles w), w)), mo_Create_Event = mem_create_event,
     mo_tls = \<lparr>tls_Now = State (\<lambda>w. (5 * second, w)), DialTLS = (\<lambda>t a c. State (\<lambda>w. (Inl (Err ''no route to host''), w))),
       PeerCertificates = (\<lambda>c. State (\<lambda>w. ([], w))), Close_TLS = (\<lambda>c. State (\<lambda>w. ((), w))),
       HostnameError = (\<lambda>c h. ''''), IP_String = (\<lambda>ip. ''''), Format_RFC3339 = show_int\<rparr>,
     mo_unicode_lower = (\<lambda>s. s)\<rparr>"

definition mem_event_keys :: "monitor_mem \<Rightarrow> (string \<times> string) list" where
  "mem_event_keys w = map event_key (mon_events w)"

interpretation mem_events: event_store mem_monitor mem_event_keys mon_readings
  by unfold_locales (auto simp: mem_monitor_def mem_create_event_def mem_event_keys_def split: if_splits)

definition sample_finding :: "string \<Rightarrow> TLSSecurityFinding" where
  "sample_finding host = \<lparr>tf_Severity = ''HIGH'', tf_Type = ''TLSError'', tf_Resource = host, tf_Description = ''Failed to connect'',
     tf_Details = '''', tf_Remediation = '''', tf_Expiry = None\<rparr>"

definition sample_report :: SecurityReport where
  "sample_report = (empty_report 0)\<lparr>rp_TLSFindings := [sample_finding ''PhysicalHost/a'', sample_finding ''PhysicalHost/b'']\<rparr>"

definition sample_monitor_mem :: monitor_mem where
  "sample_monitor_mem = \<lparr>mon_hosts = [], mon_secrets = [], mon_roles = [], mon_events = [], mon_readings = []\<rparr>"

text \<open>Two serious findings, one event.\<close>

theorem reportFindings_one_event_per_second_witness:
  "length (filter (\<lambda>f. serious (tf_Severity f)) (rp_TLSFindings sample_report)) = 2 \<and>
   mem_event_keys (snd (run_state (reportFindings mem_monitor (NewSecurityMonitor ''default'') sample_report) sample_monitor_mem)) =
     [(''default'', ''security-tlssecurityissue-5'')]"
proof -
  let ?r = "run_state (reportFindings mem_monitor (NewSecurityMonitor ''default'') sample_report) sample_monitor_mem"
  have n: "event_name (mo_unicode_lower mem_monitor) ''TLSSecurityIssue'' (5 * second) = ''security-tlssecurityissue-5''" by code_simp
  have r: "serious_reasons sample_report = {''TLSSecurityIssue''}"
    by (simp add: serious_reasons_def sample_report_def sample_finding_def empty_report_def serious_def)
  have T: "set (mon_readings (snd ?r)) = {5 * second}" and some: "mem_event_keys (snd ?r) \<noteq> []"
    by (simp_all add: reportFindings_def createSecurityEvent_def mem_monitor_def mem_create_event_def mem_event_keys_def sample_report_def
        sample_finding_def empty_report_def serious_def sample_monitor_mem_def)
  obtain D T where D: "mem_event_keys (snd ?r) = mem_event_keys sample_monitor_mem @ D" "mon_readings (snd ?r) = mon_readings sample_monitor_mem @ T"
      "set D \<subseteq> (\<lambda>(reason, t). (sm_Namespace (NewSecurityMonitor ''default'' :: unit SecurityMonitor), event_name (mo_unicode_lower mem_monitor) reason t)) `
        (serious_reasons sample_report \<times> set T)"
      "length D \<le> card (serious_reasons sample_report) * card ((\<lambda>t. t div second) ` set T)"
    using reportFindings_one_event_per_second [OF mem_events.event_store_axioms surjective_pairing, of "NewSecurityMonitor ''default''" sample_report sample_monitor_mem]
    by (elim exE conjE) (rule that)
  have e: "mem_event_keys sample_monitor_mem = []" "mon_readings sample_monitor_mem = []" by (simp_all add: mem_event_keys_def sample_monitor_mem_def)
  with D(2) T have T': "set T = {5 * second}" by simp
  have "length D \<le> 1" "set D \<subseteq> {(''default'', ''security-tlssecurityissue-5'')}"
    using D(3,4) unfolding T' r by (simp_all add: NewSecurityMonitor_def n [simplified])
  moreover have "D \<noteq> []" using some D(1) e by simp
  ultimately have "D = [(''default'', ''security-tlssecurityissue-5'')]" by (cases D) auto
  with D(1) e show ?thesis by (simp add: sample_report_def sample_finding_def serious_def)
qed

end
