(* ===== verification/DeepCopy.thy ===== *)
theory DeepCopy
  imports ApiTypes
begin

text \<open>
  The deep copies of \<open>api/v1beta1\<close>: the hand-written \<open>DeepCopyInto\<close> methods beside the types and the
  generated file \<open>zz_generated.deepcopy.go\<close>. What a copy is worth depends on aliasing, so the
  objects live in an explicit store: a pointer, slice or map is the address of a cell, and the
  structs that contain any have a second record here (suffix \<open>_m\<close>) with addresses in their place. Each is read back as a record of the
  theory of API types.

  A slice is the address of its array, which it spans. The target of a copy is allocated when its
  contents are complete; nothing reads it before that. The copies of library types (\<open>ObjectMeta\<close>,
  \<open>ListMeta\<close>, \<open>Time\<close>) are an argument \<open>K\<close>.
\<close>

type_synonym addr = nat

section \<open>Structs with addresses\<close>

record ObjectMeta_m =
  mom_Name :: string
  mom_Namespace :: string
  mom_UID :: string
  mom_ResourceVersion :: string
  mom_Labels :: "addr option"
  mom_Annotations :: "addr option"
  mom_Finalizers :: "addr option"
  mom_DeletionTimestamp :: "addr option"

record ListMeta_m =
  mlm_ResourceVersion :: string
  mlm_Continue :: string
  mlm_RemainingItemCount :: "addr option"

record RedfishConnection_m =
  mrc_Address :: string
  mrc_CredentialsSecretRef :: string
  mrc_InsecureSkipVerify :: "addr option"

record RedfishConnectionInfo =
  ri_Address :: string
  ri_CredentialsSecretRef :: string

record PhysicalHostSpec_m =
  mps_RedfishConnection :: RedfishConnection_m
  mps_ConsumerRef :: "addr option"

record NICInfo_m =
  mni_Name :: string
  mni_MACAddress :: string
  mni_Driver :: string
  mni_Speed :: string
  mni_IPAddresses :: "addr option"

record InspectionReport_m =
  mir_Timestamp :: Time
  mir_Manufacturer :: string
  mir_Model :: string
  mir_SerialNumber :: string
  mir_BootModeDetected :: string
  mir_FirmwareVersion :: string
  mir_CPUs :: "addr option"
  mir_Memory :: "addr option"
  mir_Disks :: "addr option"
  mir_NICs :: "addr option"

record PhysicalHostStatus_m =
  mst_Ready :: bool
  mst_State :: string
  mst_ObservedPowerState :: string
  mst_ErrorMessage :: string
  mst_HardwareDetails :: HardwareDetails
  mst_Addresses :: "addr option"
  mst_InspectionReport :: "addr option"
  mst_InspectionPhase :: string
  mst_InspectionTimestamp :: "addr option"
  mst_Conditions :: "addr option"

record PhysicalHost_m =
  mph_type :: TypeMeta
  mph_meta :: ObjectMeta_m
  mph_Spec :: PhysicalHostSpec_m
  mph_Status :: PhysicalHostStatus_m

record PhysicalHostList_m =
  mpl_type :: TypeMeta
  mpl_meta :: ListMeta_m
  mpl_Items :: "addr option"

record Beskar7MachineSpec_m =
  mbs_ProviderID :: "addr option"
  mbs_InspectionImageURL :: string
  mbs_TargetImageURL :: string
  mbs_ConfigurationURL :: string
  mbs_HardwareRequirements :: "addr option"

record Beskar7MachineStatus_m =
  mbt_Ready :: bool
  mbt_Phase :: "addr option"
  mbt_FailureReason :: "addr option"
  mbt_FailureMessage :: "addr option"
  mbt_Addresses :: "addr option"
  mbt_Conditions :: "addr option"

record Beskar7Machine_m =
  mbm_type :: TypeMeta
  mbm_meta :: ObjectMeta_m
  mbm_Spec :: Beskar7MachineSpec_m
  mbm_Status :: Beskar7MachineStatus_m

record Beskar7MachineList_m =
  mbl_type :: TypeMeta
  mbl_meta :: ListMeta_m
  mbl_Items :: "addr option"

record Beskar7MachineTemplateResource_m =
  mtr_Spec :: Beskar7MachineSpec_m

record Beskar7MachineTemplateSpec_m =
  mts_Template :: Beskar7MachineTemplateResource_m

record Beskar7MachineTemplate_m =
  mtm_type :: TypeMeta
  mtm_meta :: ObjectMeta_m
  mtm_Spec :: Beskar7MachineTemplateSpec_m

record Beskar7MachineTemplateList_m =
  mtl_type :: TypeMeta
  mtl_meta :: ListMeta_m
  mtl_Items :: "addr option"

record FailureDomainSpec_m =
  mfd_ControlPlane :: bool
  mfd_Attributes :: "addr option"

record Beskar7ClusterStatus_m =
  mct_Ready :: bool
  mct_ControlPlaneEndpoint :: APIEndpoint
  mct_FailureDomains :: "addr option"
  mct_Conditions :: "addr option"

record Beskar7Cluster_m =
  mbc_type :: TypeMeta
  mbc_meta :: ObjectMeta_m
  mbc_Spec :: Beskar7ClusterSpec
  mbc_Status :: Beskar7ClusterStatus_m

record Beskar7ClusterList_m =
  mcl_type :: TypeMeta
  mcl_meta :: ListMeta_m
  mcl_Items :: "addr option"

section \<open>The store\<close>

datatype cell = NoCell
  | is_BoolCell: BoolCell (at_Bool: bool)
  | is_StringCell: StringCell (at_String: string)
  | is_TimeCell: TimeCell (at_Time: Time)
  | is_IntCell: IntCell (at_Int: goint)
  | is_StringsCell: StringsCell (at_Strings: "string list")
  | is_StringMapCell: StringMapCell (at_StringMap: "(string, string) fmap")
  | is_RefCell: RefCell (at_Ref: ObjectReference)
  | is_RequirementsCell: RequirementsCell (at_Requirements: HardwareRequirements)
  | is_AddressesCell: AddressesCell (at_Addresses: "MachineAddress list")
  | is_ConditionsCell: ConditionsCell (at_Conditions: Conditions)
  | is_CPUsCell: CPUsCell (at_CPUs: "CPUInfo list")
  | is_MemoryCell: MemoryCell (at_Memory: "MemoryInfo list")
  | is_DisksCell: DisksCell (at_Disks: "DiskInfo list")
  | is_NICsCell: NICsCell (at_NICs: "NICInfo_m list")
  | is_ReportCell: ReportCell (at_Report: InspectionReport_m)
  | is_DomainsCell: DomainsCell (at_Domains: "(string, FailureDomainSpec_m) fmap")
  | is_HostsCell: HostsCell (at_Hosts: "PhysicalHost_m list")
  | is_MachinesCell: MachinesCell (at_Machines: "Beskar7Machine_m list")
  | is_TemplatesCell: TemplatesCell (at_Templates: "Beskar7MachineTemplate_m list")
  | is_ClustersCell: ClustersCell (at_Clusters: "Beskar7Cluster_m list")
  | is_CPUCell: CPUCell (at_CPU: CPUInfo)
  | is_MemCell: MemCell (at_Mem: MemoryInfo)
  | is_DiskCell: DiskCell (at_Disk: DiskInfo)
  | is_NICCell: NICCell (at_NIC: NICInfo_m)
  | is_DetailsCell: DetailsCell (at_Details: HardwareDetails)
  | is_HWStatusCell: HWStatusCell (at_HWStatus: HardwareStatus)
  | is_ConnectionCell: ConnectionCell (at_Connection: RedfishConnection_m)
  | is_ConnectionInfoCell: ConnectionInfoCell (at_ConnectionInfo: RedfishConnectionInfo)
  | is_HostSpecCell: HostSpecCell (at_HostSpec: PhysicalHostSpec_m)
  | is_HostStatusCell: HostStatusCell (at_HostStatus: PhysicalHostStatus_m)
  | is_HostCell: HostCell (at_Host: PhysicalHost_m)
  | is_HostListCell: HostListCell (at_HostList: PhysicalHostList_m)
  | is_MachineSpecCell: MachineSpecCell (at_MachineSpec: Beskar7MachineSpec_m)
  | is_MachineStatusCell: MachineStatusCell (at_MachineStatus: Beskar7MachineStatus_m)
  | is_MachineCell: MachineCell (at_Machine: Beskar7Machine_m)
  | is_MachineListCell: MachineListCell (at_MachineList: Beskar7MachineList_m)
  | is_TemplateResourceCell: TemplateResourceCell (at_TemplateResource: Beskar7MachineTemplateResource_m)
  | is_TemplateSpecCell: TemplateSpecCell (at_TemplateSpec: Beskar7MachineTemplateSpec_m)
  | is_TemplateCell: TemplateCell (at_Template: Beskar7MachineTemplate_m)
  | is_TemplateListCell: TemplateListCell (at_TemplateList: Beskar7MachineTemplateList_m)
  | is_ClusterSpecCell: ClusterSpecCell (at_ClusterSpec: Beskar7ClusterSpec)
  | is_ClusterStatusCell: ClusterStatusCell (at_ClusterStatus: Beskar7ClusterStatus_m)
  | is_ClusterCell: ClusterCell (at_Cluster: Beskar7Cluster_m)
  | is_ClusterListCell: ClusterListCell (at_ClusterList: Beskar7ClusterList_m)

type_synonym heap = "cell list"

definition cell_at :: "heap \<Rightarrow> addr \<Rightarrow> cell" where
  "cell_at h a = (if a < length h then h ! a else NoCell)"

definition load :: "addr \<Rightarrow> (heap, cell) io" where
  "load a = State (\<lambda>h. (cell_at h a, h))"

definition alloc :: "cell \<Rightarrow> (heap, addr) io" where
  "alloc c = State (\<lambda>h. (length h, h @ [c]))"

definition store :: "addr \<Rightarrow> cell \<Rightarrow> (heap, unit) io" where
  "store a c = State (\<lambda>h. ((), h[a := c]))"

text \<open>
  \<open>new_copy\<close> is the pattern of every copied pointer, slice and map, and of the \<open>DeepCopy\<close> methods: nil
  stays nil, otherwise a new cell receives the copy of the contents. \<open>copy_all\<close> is the loop over a slice.
\<close>

definition new_copy :: "('a \<Rightarrow> cell) \<Rightarrow> (cell \<Rightarrow> 'a) \<Rightarrow> ('a \<Rightarrow> (heap, 'a) io) \<Rightarrow> addr option \<Rightarrow> (heap, addr option) io" where
  "new_copy mk at_cell into p =
    (case p of
       None \<Rightarrow> State_Monad.return None
     | Some a \<Rightarrow> do {
         c \<leftarrow> load a;
         y \<leftarrow> into (at_cell c);
         b \<leftarrow> alloc (mk y);
         State_Monad.return (Some b)
       })"

fun copy_all :: "('a \<Rightarrow> (heap, 'a) io) \<Rightarrow> 'a list \<Rightarrow> (heap, 'a list) io" where
  "copy_all into [] = State_Monad.return []"
| "copy_all into (x # xs) = do {
     y \<leftarrow> into x;
     ys \<leftarrow> copy_all into xs;
     State_Monad.return (y # ys)
   }"

section \<open>The copies\<close>

record k8s_copies =
  ObjectMeta_DeepCopyInto :: "ObjectMeta_m \<Rightarrow> (heap, ObjectMeta_m) io"
  ListMeta_DeepCopyInto :: "ListMeta_m \<Rightarrow> (heap, ListMeta_m) io"
  Time_DeepCopyInto :: "Time \<Rightarrow> (heap, Time) io"

text \<open>Structs without addresses: \<open>*out = *in\<close> is all.\<close>

definition CPUInfo_DeepCopyInto :: "CPUInfo \<Rightarrow> (heap, CPUInfo) io" where
  "CPUInfo_DeepCopyInto inn = State_Monad.return inn"

definition DiskInfo_DeepCopyInto :: "DiskInfo \<Rightarrow> (heap, DiskInfo) io" where
  "DiskInfo_DeepCopyInto inn = State_Monad.return inn"

definition MemoryInfo_DeepCopyInto :: "MemoryInfo \<Rightarrow> (heap, MemoryInfo) io" where
  "MemoryInfo_DeepCopyInto inn = State_Monad.return inn"

definition HardwareStatus_DeepCopyInto :: "HardwareStatus \<Rightarrow> (heap, HardwareStatus) io" where
  "HardwareStatus_DeepCopyInto inn = State_Monad.return inn"

definition HardwareDetails_DeepCopyInto :: "HardwareDetails \<Rightarrow> (heap, HardwareDetails) io" where
  "HardwareDetails_DeepCopyInto inn = State_Monad.return (inn\<lparr>hd_Status := hd_Status inn\<rparr>)"

definition RedfishConnectionInfo_DeepCopyInto :: "RedfishConnectionInfo \<Rightarrow> (heap, RedfishConnectionInfo) io" where
  "RedfishConnectionInfo_DeepCopyInto inn = State_Monad.return inn"

definition HardwareRequirements_DeepCopyInto :: "HardwareRequirements \<Rightarrow> (heap, HardwareRequirements) io" where
  "HardwareRequirements_DeepCopyInto inn = State_Monad.return inn"

definition Beskar7ClusterSpec_DeepCopyInto :: "Beskar7ClusterSpec \<Rightarrow> (heap, Beskar7ClusterSpec) io" where
  "Beskar7ClusterSpec_DeepCopyInto inn = State_Monad.return (inn\<lparr>cs_ControlPlaneEndpoint := cs_ControlPlaneEndpoint inn\<rparr>)"

text \<open>Copies of a value behind an address, as \<open>new\<close> and assignment or \<open>make\<close> and \<open>copy\<close> make them.\<close>

abbreviation copy_cell :: "('a \<Rightarrow> cell) \<Rightarrow> (cell \<Rightarrow> 'a) \<Rightarrow> addr option \<Rightarrow> (heap, addr option) io" where
  "copy_cell mk at_cell \<equiv> new_copy mk at_cell State_Monad.return"

definition NICInfo_DeepCopyInto :: "NICInfo_m \<Rightarrow> (heap, NICInfo_m) io" where
  "NICInfo_DeepCopyInto inn = do {
     ips \<leftarrow> copy_cell StringsCell at_Strings (mni_IPAddresses inn);
     State_Monad.return (inn\<lparr>mni_IPAddresses := ips\<rparr>)
   }"

definition RedfishConnection_DeepCopyInto :: "RedfishConnection_m \<Rightarrow> (heap, RedfishConnection_m) io" where
  "RedfishConnection_DeepCopyInto inn = do {
     skip \<leftarrow> copy_cell BoolCell at_Bool (mrc_InsecureSkipVerify inn);
     State_Monad.return (inn\<lparr>mrc_InsecureSkipVerify := skip\<rparr>)
   }"

text \<open>The connection is assigned, not copied with its own method.\<close>

definition PhysicalHostSpec_DeepCopyInto :: "PhysicalHostSpec_m \<Rightarrow> (heap, PhysicalHostSpec_m) io" where
  "PhysicalHostSpec_DeepCopyInto inn = do {
     ref \<leftarrow> copy_cell RefCell at_Ref (mps_ConsumerRef inn);
     State_Monad.return (inn\<lparr>mps_RedfishConnection := mps_RedfishConnection inn, mps_ConsumerRef := ref\<rparr>)
   }"

text \<open>The interfaces are copied as values, with the addresses of their slices.\<close>

definition InspectionReport_DeepCopyInto :: "k8s_copies \<Rightarrow> InspectionReport_m \<Rightarrow> (heap, InspectionReport_m) io" where
  "InspectionReport_DeepCopyInto K inn = do {
     timestamp \<leftarrow> Time_DeepCopyInto K (mir_Timestamp inn);
     cpus \<leftarrow> copy_cell CPUsCell at_CPUs (mir_CPUs inn);
     memory \<leftarrow> copy_cell MemoryCell at_Memory (mir_Memory inn);
     disks \<leftarrow> copy_cell DisksCell at_Disks (mir_Disks inn);
     nics \<leftarrow> copy_cell NICsCell at_NICs (mir_NICs inn);
     State_Monad.return (inn\<lparr>mir_Timestamp := timestamp, mir_CPUs := cpus, mir_Memory := memory, mir_Disks := disks, mir_NICs := nics\<rparr>)
   }"

definition PhysicalHostStatus_DeepCopyInto :: "k8s_copies \<Rightarrow> PhysicalHostStatus_m \<Rightarrow> (heap, PhysicalHostStatus_m) io" where
  "PhysicalHostStatus_DeepCopyInto K inn = do {
     addresses \<leftarrow> copy_cell AddressesCell at_Addresses (mst_Addresses inn);
     report \<leftarrow> new_copy ReportCell at_Report (InspectionReport_DeepCopyInto K) (mst_InspectionReport inn);
     timestamp \<leftarrow> new_copy TimeCell at_Time (Time_DeepCopyInto K) (mst_InspectionTimestamp inn);
     conditions \<leftarrow> copy_cell ConditionsCell at_Conditions (mst_Conditions inn);
     State_Monad.return (inn\<lparr>mst_HardwareDetails := mst_HardwareDetails inn, mst_Addresses := addresses, mst_InspectionReport := report,
       mst_InspectionTimestamp := timestamp, mst_Conditions := conditions\<rparr>)
   }"

definition PhysicalHost_DeepCopyInto :: "k8s_copies \<Rightarrow> PhysicalHost_m \<Rightarrow> (heap, PhysicalHost_m) io" where
  "PhysicalHost_DeepCopyInto K inn = do {
     meta \<leftarrow> ObjectMeta_DeepCopyInto K (mph_meta inn);
     spec \<leftarrow> PhysicalHostSpec_DeepCopyInto (mph_Spec inn);
     status \<leftarrow> PhysicalHostStatus_DeepCopyInto K (mph_Status inn);
     State_Monad.return (inn\<lparr>mph_type := mph_type inn, mph_meta := meta, mph_Spec := spec, mph_Status := status\<rparr>)
   }"

definition PhysicalHostList_DeepCopyInto :: "k8s_copies \<Rightarrow> PhysicalHostList_m \<Rightarrow> (heap, PhysicalHostList_m) io" where
  "PhysicalHostList_DeepCopyInto K inn = do {
     meta \<leftarrow> ListMeta_DeepCopyInto K (mpl_meta inn);
     items \<leftarrow> new_copy HostsCell at_Hosts (copy_all (PhysicalHost_DeepCopyInto K)) (mpl_Items inn);
     State_Monad.return (inn\<lparr>mpl_type := mpl_type inn, mpl_meta := meta, mpl_Items := items\<rparr>)
   }"

definition Beskar7MachineSpec_DeepCopyInto :: "Beskar7MachineSpec_m \<Rightarrow> (heap, Beskar7MachineSpec_m) io" where
  "Beskar7MachineSpec_DeepCopyInto inn = do {
     provider \<leftarrow> copy_cell StringCell at_String (mbs_ProviderID inn);
     requirements \<leftarrow> copy_cell RequirementsCell at_Requirements (mbs_HardwareRequirements inn);
     State_Monad.return (inn\<lparr>mbs_ProviderID := provider, mbs_HardwareRequirements := requirements\<rparr>)
   }"

definition Beskar7MachineStatus_DeepCopyInto :: "Beskar7MachineStatus_m \<Rightarrow> (heap, Beskar7MachineStatus_m) io" where
  "Beskar7MachineStatus_DeepCopyInto inn = do {
     phase \<leftarrow> copy_cell StringCell at_String (mbt_Phase inn);
     reason \<leftarrow> copy_cell StringCell at_String (mbt_FailureReason inn);
     message \<leftarrow> copy_cell StringCell at_String (mbt_FailureMessage inn);
     addresses \<leftarrow> copy_cell AddressesCell at_Addresses (mbt_Addresses inn);
     conditions \<leftarrow> copy_cell ConditionsCell at_Conditions (mbt_Conditions inn);
     State_Monad.return (inn\<lparr>mbt_Phase := phase, mbt_FailureReason := reason, mbt_FailureMessage := message,
       mbt_Addresses := addresses, mbt_Conditions := conditions\<rparr>)
   }"

definition Beskar7Machine_DeepCopyInto :: "k8s_copies \<Rightarrow> Beskar7Machine_m \<Rightarrow> (heap, Beskar7Machine_m) io" where
  "Beskar7Machine_DeepCopyInto K inn = do {
     meta \<leftarrow> ObjectMeta_DeepCopyInto K (mbm_meta inn);
     spec \<leftarrow> Beskar7MachineSpec_DeepCopyInto (mbm_Spec inn);
     status \<leftarrow> Beskar7MachineStatus_DeepCopyInto (mbm_Status inn);
     State_Monad.return (inn\<lparr>mbm_type := mbm_type inn, mbm_meta := meta, mbm_Spec := spec, mbm_Status := status\<rparr>)
   }"

definition Beskar7MachineList_DeepCopyInto :: "k8s_copies \<Rightarrow> Beskar7MachineList_m \<Rightarrow> (heap, Beskar7MachineList_m) io" where
  "Beskar7MachineList_DeepCopyInto K inn = do {
     meta \<leftarrow> ListMeta_DeepCopyInto K (mbl_meta inn);
     items \<leftarrow> new_copy MachinesCell at_Machines (copy_all (Beskar7Machine_DeepCopyInto K)) (mbl_Items inn);
     State_Monad.return (inn\<lparr>mbl_type := mbl_type inn, mbl_meta := meta, mbl_Items := items\<rparr>)
   }"

definition Beskar7MachineTemplateResource_DeepCopyInto :: "Beskar7MachineTemplateResource_m \<Rightarrow> (heap, Beskar7MachineTemplateResource_m) io" where
  "Beskar7MachineTemplateResource_DeepCopyInto inn = do {
     spec \<leftarrow> Beskar7MachineSpec_DeepCopyInto (mtr_Spec inn);
     State_Monad.return (inn\<lparr>mtr_Spec := spec\<rparr>)
   }"

definition Beskar7MachineTemplateSpec_DeepCopyInto :: "Beskar7MachineTemplateSpec_m \<Rightarrow> (heap, Beskar7MachineTemplateSpec_m) io" where
  "Beskar7MachineTemplateSpec_DeepCopyInto inn = do {
     template \<leftarrow> Beskar7MachineTemplateResource_DeepCopyInto (mts_Template inn);
     State_Monad.return (inn\<lparr>mts_Template := template\<rparr>)
   }"

definition Beskar7MachineTemplate_DeepCopyInto :: "k8s_copies \<Rightarrow> Beskar7MachineTemplate_m \<Rightarrow> (heap, Beskar7MachineTemplate_m) io" where
  "Beskar7MachineTemplate_DeepCopyInto K inn = do {
     meta \<leftarrow> ObjectMeta_DeepCopyInto K (mtm_meta inn);
     spec \<leftarrow> Beskar7MachineTemplateSpec_DeepCopyInto (mtm_Spec inn);
     State_Monad.return (inn\<lparr>mtm_type := mtm_type inn, mtm_meta := meta, mtm_Spec := spec\<rparr>)
   }"

definition Beskar7MachineTemplateList_DeepCopyInto :: "k8s_copies \<Rightarrow> Beskar7MachineTemplateList_m \<Rightarrow> (heap, Beskar7MachineTemplateList_m) io" where
  "Beskar7MachineTemplateList_DeepCopyInto K inn = do {
     meta \<leftarrow> ListMeta_DeepCopyInto K (mtl_meta inn);
     items \<leftarrow> new_copy TemplatesCell at_Templates (copy_all (Beskar7MachineTemplate_DeepCopyInto K)) (mtl_Items inn);
     State_Monad.return (inn\<lparr>mtl_type := mtl_type inn, mtl_meta := meta, mtl_Items := items\<rparr>)
   }"

text \<open>The failure domains go into a new map as values, with the addresses of their attributes.\<close>

definition Beskar7ClusterStatus_DeepCopyInto :: "Beskar7ClusterStatus_m \<Rightarrow> (heap, Beskar7ClusterStatus_m) io" where
  "Beskar7ClusterStatus_DeepCopyInto inn = do {
     domains \<leftarrow> copy_cell DomainsCell at_Domains (mct_FailureDomains inn);
     conditions \<leftarrow> copy_cell ConditionsCell at_Conditions (mct_Conditions inn);
     State_Monad.return (inn\<lparr>mct_ControlPlaneEndpoint := mct_ControlPlaneEndpoint inn, mct_FailureDomains := domains, mct_Conditions := conditions\<rparr>)
   }"

definition Beskar7Cluster_DeepCopyInto :: "k8s_copies \<Rightarrow> Beskar7Cluster_m \<Rightarrow> (heap, Beskar7Cluster_m) io" where
  "Beskar7Cluster_DeepCopyInto K inn = do {
     meta \<leftarrow> ObjectMeta_DeepCopyInto K (mbc_meta inn);
     spec \<leftarrow> Beskar7ClusterSpec_DeepCopyInto (mbc_Spec inn);
     status \<leftarrow> Beskar7ClusterStatus_DeepCopyInto (mbc_Status inn);
     State_Monad.return (inn\<lparr>mbc_type := mbc_type inn, mbc_meta := meta, mbc_Spec := spec, mbc_Status := status\<rparr>)
   }"

definition Beskar7ClusterList_DeepCopyInto :: "k8s_copies \<Rightarrow> Beskar7ClusterList_m \<Rightarrow> (heap, Beskar7ClusterList_m) io" where
  "Beskar7ClusterList_DeepCopyInto K inn = do {
     meta \<leftarrow> ListMeta_DeepCopyInto K (mcl_meta inn);
     items \<leftarrow> new_copy ClustersCell at_Clusters (copy_all (Beskar7Cluster_DeepCopyInto K)) (mcl_Items inn);
     State_Monad.return (inn\<lparr>mcl_type := mcl_type inn, mcl_meta := meta, mcl_Items := items\<rparr>)
   }"

section \<open>Copies behind pointers\<close>

text \<open>The \<open>DeepCopy\<close> methods, on pointers that may be nil.\<close>

definition CPUInfo_DeepCopy :: "addr option \<Rightarrow> (heap, addr option) io" where
  "CPUInfo_DeepCopy = new_copy CPUCell at_CPU CPUInfo_DeepCopyInto"

definition DiskInfo_DeepCopy :: "addr option \<Rightarrow> (heap, addr option) io" where
  "DiskInfo_DeepCopy = new_copy DiskCell at_Disk DiskInfo_DeepCopyInto"

definition MemoryInfo_DeepCopy :: "addr option \<Rightarrow> (heap, addr option) io" where
  "MemoryInfo_DeepCopy = new_copy MemCell at_Mem MemoryInfo_DeepCopyInto"

definition NICInfo_DeepCopy :: "addr option \<Rightarrow> (heap, addr option) io" where
  "NICInfo_DeepCopy = new_copy NICCell at_NIC NICInfo_DeepCopyInto"

definition HardwareStatus_DeepCopy :: "addr option \<Rightarrow> (heap, addr option) io" where
  "HardwareStatus_DeepCopy = new_copy HWStatusCell at_HWStatus HardwareStatus_DeepCopyInto"

definition HardwareDetails_DeepCopy :: "addr option \<Rightarrow> (heap, addr option) io" where
  "HardwareDetails_DeepCopy = new_copy DetailsCell at_Details HardwareDetails_DeepCopyInto"

definition RedfishConnection_DeepCopy :: "addr option \<Rightarrow> (heap, addr option) io" where
  "RedfishConnection_DeepCopy = new_copy ConnectionCell at_Connection RedfishConnection_DeepCopyInto"

definition RedfishConnectionInfo_DeepCopy :: "addr option \<Rightarrow> (heap, addr option) io" where
  "RedfishConnectionInfo_DeepCopy = new_copy ConnectionInfoCell at_ConnectionInfo RedfishConnectionInfo_DeepCopyInto"

definition InspectionReport_DeepCopy :: "k8s_copies \<Rightarrow> addr option \<Rightarrow> (heap, addr option) io" where
  "InspectionReport_DeepCopy K = new_copy ReportCell at_Report (InspectionReport_DeepCopyInto K)"

definition PhysicalHostSpec_DeepCopy :: "addr option \<Rightarrow> (heap, addr option) io" where
  "PhysicalHostSpec_DeepCopy = new_copy HostSpecCell at_HostSpec PhysicalHostSpec_DeepCopyInto"

definition PhysicalHostStatus_DeepCopy :: "k8s_copies \<Rightarrow> addr option \<Rightarrow> (heap, addr option) io" where
  "PhysicalHostStatus_DeepCopy K = new_copy HostStatusCell at_HostStatus (PhysicalHostStatus_DeepCopyInto K)"

definition PhysicalHost_DeepCopy :: "k8s_copies \<Rightarrow> addr option \<Rightarrow> (heap, addr option) io" where
  "PhysicalHost_DeepCopy K = new_copy HostCell at_Host (PhysicalHost_DeepCopyInto K)"

definition PhysicalHostList_DeepCopy :: "k8s_copies \<Rightarrow> addr option \<Rightarrow> (heap, addr option) io" where
  "PhysicalHostList_DeepCopy K = new_copy HostListCell at_HostList (PhysicalHostList_DeepCopyInto K)"

definition HardwareRequirements_DeepCopy :: "addr option \<Rightarrow> (heap, addr option) io" where
  "HardwareRequirements_DeepCopy = new_copy RequirementsCell at_Requirements HardwareRequirements_DeepCopyInto"

definition Beskar7MachineSpec_DeepCopy :: "addr option \<Rightarrow> (heap, addr option) io" where
  "Beskar7MachineSpec_DeepCopy = new_copy MachineSpecCell at_MachineSpec Beskar7MachineSpec_DeepCopyInto"

definition Beskar7MachineStatus_DeepCopy :: "addr option \<Rightarrow> (heap, addr option) io" where
  "Beskar7MachineStatus_DeepCopy = new_copy MachineStatusCell at_MachineStatus Beskar7MachineStatus_DeepCopyInto"

definition Beskar7Machine_DeepCopy :: "k8s_copies \<Rightarrow> addr option \<Rightarrow> (heap, addr option) io" where
  "Beskar7Machine_DeepCopy K = new_copy MachineCell at_Machine (Beskar7Machine_DeepCopyInto K)"

definition Beskar7MachineList_DeepCopy :: "k8s_copies \<Rightarrow> addr option \<Rightarrow> (heap, addr option) io" where
  "Beskar7MachineList_DeepCopy K = new_copy MachineListCell at_MachineList (Beskar7MachineList_DeepCopyInto K)"

definition Beskar7MachineTemplateResource_DeepCopy :: "addr option \<Rightarrow> (heap, addr option) io" where
  "Beskar7MachineTemplateResource_DeepCopy = new_copy TemplateResourceCell at_TemplateResource Beskar7MachineTemplateResource_DeepCopyInto"

definition Beskar7MachineTemplateSpec_DeepCopy :: "addr option \<Rightarrow> (heap, addr option) io" where
  "Beskar7MachineTemplateSpec_DeepCopy = new_copy TemplateSpecCell at_TemplateSpec Beskar7MachineTemplateSpec_DeepCopyInto"

definition Beskar7MachineTemplate_DeepCopy :: "k8s_copies \<Rightarrow> addr option \<Rightarrow> (heap, addr option) io" where
  "Beskar7MachineTemplate_DeepCopy K = new_copy TemplateCell at_Template (Beskar7MachineTemplate_DeepCopyInto K)"

definition Beskar7MachineTemplateList_DeepCopy :: "k8s_copies \<Rightarrow> addr option \<Rightarrow> (heap, addr option) io" where
  "Beskar7MachineTemplateList_DeepCopy K = new_copy TemplateListCell at_TemplateList (Beskar7MachineTemplateList_DeepCopyInto K)"

definition Beskar7ClusterSpec_DeepCopy :: "addr option \<Rightarrow> (heap, addr option) io" where
  "Beskar7ClusterSpec_DeepCopy = new_copy ClusterSpecCell at_ClusterSpec Beskar7ClusterSpec_DeepCopyInto"

definition Beskar7ClusterStatus_DeepCopy :: "addr option \<Rightarrow> (heap, addr option) io" where
  "Beskar7ClusterStatus_DeepCopy = new_copy ClusterStatusCell at_ClusterStatus Beskar7ClusterStatus_DeepCopyInto"

definition Beskar7Cluster_DeepCopy :: "k8s_copies \<Rightarrow> addr option \<Rightarrow> (heap, addr option) io" where
  "Beskar7Cluster_DeepCopy K = new_copy ClusterCell at_Cluster (Beskar7Cluster_DeepCopyInto K)"

definition Beskar7ClusterList_DeepCopy :: "k8s_copies \<Rightarrow> addr option \<Rightarrow> (heap, addr option) io" where
  "Beskar7ClusterList_DeepCopy K = new_copy ClusterListCell at_ClusterList (Beskar7ClusterList_DeepCopyInto K)"

text \<open>\<open>DeepCopyObject\<close> returns an interface value: nil, or the kind of object with its address.\<close>

datatype runtime_Object = PhysicalHost_Object addr | PhysicalHostList_Object addr | Beskar7Machine_Object addr | Beskar7MachineList_Object addr | Beskar7MachineTemplate_Object addr | Beskar7MachineTemplateList_Object addr | Beskar7Cluster_Object addr | Beskar7ClusterList_Object addr

definition PhysicalHost_DeepCopyObject :: "k8s_copies \<Rightarrow> addr option \<Rightarrow> (heap, runtime_Object option) io" where
  "PhysicalHost_DeepCopyObject K inn = do {
     c \<leftarrow> PhysicalHost_DeepCopy K inn;
     case c of
       Some a \<Rightarrow> State_Monad.return (Some (PhysicalHost_Object a))
     | None \<Rightarrow> State_Monad.return None
   }"

definition PhysicalHostList_DeepCopyObject :: "k8s_copies \<Rightarrow> addr option \<Rightarrow> (heap, runtime_Object option) io" where
  "PhysicalHostList_DeepCopyObject K inn = do {
     c \<leftarrow> PhysicalHostList_DeepCopy K inn;
     case c of
       Some a \<Rightarrow> State_Monad.return (Some (PhysicalHostList_Object a))
     | None \<Rightarrow> State_Monad.return None
   }"

definition Beskar7Machine_DeepCopyObject :: "k8s_copies \<Rightarrow> addr option \<Rightarrow> (heap, runtime_Object option) io" where
  "Beskar7Machine_DeepCopyObject K inn = do {
     c \<leftarrow> Beskar7Machine_DeepCopy K inn;
     case c of
       Some a \<Rightarrow> State_Monad.return (Some (Beskar7Machine_Object a))
     | None \<Rightarrow> State_Monad.return None
   }"

definition Beskar7MachineList_DeepCopyObject :: "k8s_copies \<Rightarrow> addr option \<Rightarrow> (heap, runtime_Object option) io" where
  "Beskar7MachineList_DeepCopyObject K inn = do {
     c \<leftarrow> Beskar7MachineList_DeepCopy K inn;
     case c of
       Some a \<Rightarrow> State_Monad.return (Some (Beskar7MachineList_Object a))
     | None \<Rightarrow> State_Monad.return None
   }"

definition Beskar7MachineTemplate_DeepCopyObject :: "k8s_copies \<Rightarrow> addr option \<Rightarrow> (heap, runtime_Object option) io" where
  "Beskar7MachineTemplate_DeepCopyObject K inn = do {
     c \<leftarrow> Beskar7MachineTemplate_DeepCopy K inn;
     case c of
       Some a \<Rightarrow> State_Monad.return (Some (Beskar7MachineTemplate_Object a))
     | None \<Rightarrow> State_Monad.return None
   }"

definition Beskar7MachineTemplateList_DeepCopyObject :: "k8s_copies \<Rightarrow> addr option \<Rightarrow> (heap, runtime_Object option) io" where
  "Beskar7MachineTemplateList_DeepCopyObject K inn = do {
     c \<leftarrow> Beskar7MachineTemplateList_DeepCopy K inn;
     case c of
       Some a \<Rightarrow> State_Monad.return (Some (Beskar7MachineTemplateList_Object a))
     | None \<Rightarrow> State_Monad.return None
   }"

definition Beskar7Cluster_DeepCopyObject :: "k8s_copies \<Rightarrow> addr option \<Rightarrow> (heap, runtime_Object option) io" where
  "Beskar7Cluster_DeepCopyObject K inn = do {
     c \<leftarrow> Beskar7Cluster_DeepCopy K inn;
     case c of
       Some a \<Rightarrow> State_Monad.return (Some (Beskar7Cluster_Object a))
     | None \<Rightarrow> State_Monad.return None
   }"

definition Beskar7ClusterList_DeepCopyObject :: "k8s_copies \<Rightarrow> addr option \<Rightarrow> (heap, runtime_Object option) io" where
  "Beskar7ClusterList_DeepCopyObject K inn = do {
     c \<leftarrow> Beskar7ClusterList_DeepCopy K inn;
     case c of
       Some a \<Rightarrow> State_Monad.return (Some (Beskar7ClusterList_Object a))
     | None \<Rightarrow> State_Monad.return None
   }"

section \<open>What a copy promises\<close>

text \<open>
  The contract of a \<open>DeepCopyInto\<close>: \<open>ok\<close> says that the addresses of a struct lead to cells of the right
  kind, \<open>val\<close> reads the struct back, \<open>reach\<close> collects the addresses it leads to, and \<open>shared\<close> is the
  part of them that the copy keeps in common with the original. A struct depends only on the cells it
  reaches. The copy only adds cells, reads back as the original, and reaches exactly the shared cells
  of those that existed before.
\<close>

definition grows :: "heap \<Rightarrow> heap \<Rightarrow> bool" where
  "grows h h' \<longleftrightarrow> length h \<le> length h' \<and> (\<forall>a < length h. h' ! a = h ! a)"

lemma grows_refl [simp]: "grows h h"
  by (simp add: grows_def)

lemma grows_trans [trans]: "grows h h' \<Longrightarrow> grows h' h'' \<Longrightarrow> grows h h''"
  by (simp add: grows_def)

lemma grows_append [simp]: "grows h (h @ e)"
  by (simp add: grows_def nth_append)

lemma grows_cell: "grows h h' \<Longrightarrow> a < length h \<Longrightarrow> cell_at h' a = cell_at h a \<and> a < length h'"
  by (auto simp: grows_def cell_at_def)

lemma run_memory [simp]:
  "run_state (load a) h = (cell_at h a, h)" "run_state (alloc c) h = (length h, h @ [c])"
  by (simp_all add: load_def alloc_def)

lemma cell_at_new [simp]: "cell_at (h @ [c]) (length h) = c"
  by (simp add: cell_at_def)

text \<open>The same cells at some addresses.\<close>

definition same_on :: "addr set \<Rightarrow> heap \<Rightarrow> heap \<Rightarrow> bool" where
  "same_on A h h' \<longleftrightarrow> (\<forall>a \<in> A. a < length h' \<and> cell_at h' a = cell_at h a)"

lemma same_on_Un [simp]: "same_on (A \<union> B) h h' \<longleftrightarrow> same_on A h h' \<and> same_on B h h'"
  by (auto simp: same_on_def)

lemma same_on_UN: "same_on (\<Union>x \<in> S. A x) h h' \<longleftrightarrow> (\<forall>x \<in> S. same_on (A x) h h')"
  by (auto simp: same_on_def)

lemma same_on_simps [simp]:
  "same_on {} h h'" "same_on (insert a A) h h' \<longleftrightarrow> (a < length h' \<and> cell_at h' a = cell_at h a) \<and> same_on A h h'"
  by (auto simp: same_on_def)

lemma grows_same_on: "grows h h' \<Longrightarrow> A \<subseteq> {..<length h} \<Longrightarrow> same_on A h h'"
  by (auto simp: same_on_def grows_cell)

locale deep_copy =
  fixes ok :: "heap \<Rightarrow> 'a \<Rightarrow> bool" and val :: "heap \<Rightarrow> 'a \<Rightarrow> 'v" and reach :: "heap \<Rightarrow> 'a \<Rightarrow> addr set"
    and shared :: "heap \<Rightarrow> 'a \<Rightarrow> addr set" and into :: "'a \<Rightarrow> (heap, 'a) io"
  assumes local: "ok h x \<Longrightarrow> same_on (reach h x) h h' \<Longrightarrow> ok h' x \<and> val h' x = val h x \<and> reach h' x = reach h x \<and> shared h' x = shared h x"
    and bound: "ok h x \<Longrightarrow> reach h x \<subseteq> {..<length h} \<and> shared h x \<subseteq> reach h x"
    and copies: "ok h x \<Longrightarrow> run_state (into x) h = (y, h') \<Longrightarrow>
      grows h h' \<and> ok h' y \<and> val h' y = val h x \<and> reach h' y \<inter> {..<length h} = shared h x"
begin

lemma later:
  assumes "ok h x" and "grows h h'"
  shows "ok h' x \<and> val h' x = val h x \<and> reach h' x = reach h x \<and> shared h' x = shared h x"
  using assms bound [of h x] by (intro local grows_same_on) auto

text \<open>A copy as one step of a larger one: what it promises at the end of the whole.\<close>

lemma copy_step:
  assumes "ok h0 x" and "grows h0 h"
  obtains y h' where "run_state (into x) h = (y, h')" and "grows h h'"
    and "\<And>H. grows h' H \<Longrightarrow> ok H y \<and> val H y = val h0 x \<and> reach H y \<inter> {..<length h0} = shared h0 x"
proof -
  obtain y h' where run: "run_state (into x) h = (y, h')" by (rule prod.exhaust)
  have x: "ok h x" "val h x = val h0 x" "reach h x = reach h0 x" "shared h x = shared h0 x" using later [OF assms] by auto
  note c = copies [OF x(1) run]
  have "ok H y \<and> val H y = val h0 x \<and> reach H y \<inter> {..<length h0} = shared h0 x" if "grows h' H" for H
  proof -
    have "reach h' y \<inter> {..<length h0} = shared h0 x"
      using c x bound [OF assms(1)] assms(2) by (auto simp: grows_def)
    then show ?thesis using later [of h' y H] c that x by auto
  qed
  then show thesis using that run c by blast
qed

text \<open>
  A copy that shares nothing is independent: whatever is written through the copy, the original
  still reads the same.
\<close>

lemma independent:
  assumes "ok h x" and "shared h x = {}" and "run_state (into x) h = (y, h')" and "a \<in> reach h' y"
  shows "val (snd (run_state (store a c) h')) x = val h x"
proof -
  have c: "grows h h'" "reach h' y \<inter> {..<length h} = {}" using copies [OF assms(1,3)] assms(2) by auto
  have ne: "b < length h \<and> b \<noteq> a" if "b \<in> reach h x" for b using bound [OF assms(1)] assms(4) c(2) that by auto
  have "same_on (reach h x) h (h'[a := c])"
    unfolding same_on_def
  proof
    fix b assume "b \<in> reach h x"
    from ne [OF this] c(1) show "b < length (h'[a := c]) \<and> cell_at (h'[a := c]) b = cell_at h b"
      by (simp add: cell_at_def grows_def)
  qed
  then show ?thesis using local [OF assms(1)] by (simp add: store_def)
qed

end

text \<open>Values without addresses, and copies by assignment, which share everything.\<close>

definition value_ok :: "heap \<Rightarrow> 'a \<Rightarrow> bool" where [simp]: "value_ok h x \<longleftrightarrow> True"
definition value_val :: "heap \<Rightarrow> 'a \<Rightarrow> 'a" where [simp]: "value_val h x = x"
definition no_addrs :: "heap \<Rightarrow> 'a \<Rightarrow> addr set" where [simp]: "no_addrs h x = {}"

lemma value_copy: "deep_copy value_ok value_val no_addrs no_addrs State_Monad.return"
  by unfold_locales auto

context deep_copy
begin

lemma shallow: "deep_copy ok val reach reach State_Monad.return"
proof
  fix h x
  assume "ok h x"
  then show "reach h x \<subseteq> {..<length h} \<and> reach h x \<subseteq> reach h x" using bound [of h x] by auto
next
  fix h x y h'
  assume "ok h x" and "run_state (State_Monad.return x) h = (y, h')"
  then show "grows h h' \<and> ok h' y \<and> val h' y = val h x \<and> reach h' y \<inter> {..<length h} = reach h x"
    using bound [of h x] by auto
qed (use local in blast)

end

text \<open>Lists of structs.\<close>

definition list_ok :: "(heap \<Rightarrow> 'a \<Rightarrow> bool) \<Rightarrow> heap \<Rightarrow> 'a list \<Rightarrow> bool" where
  "list_ok ok h xs \<longleftrightarrow> (\<forall>x \<in> set xs. ok h x)"
definition list_val :: "(heap \<Rightarrow> 'a \<Rightarrow> 'v) \<Rightarrow> heap \<Rightarrow> 'a list \<Rightarrow> 'v list" where
  "list_val val h xs = map (val h) xs"
definition list_addrs :: "(heap \<Rightarrow> 'a \<Rightarrow> addr set) \<Rightarrow> heap \<Rightarrow> 'a list \<Rightarrow> addr set" where
  "list_addrs reach h xs = (\<Union>x \<in> set xs. reach h x)"

lemma list_simps [simp]:
  "list_ok ok h []" "list_ok ok h (x # xs) \<longleftrightarrow> ok h x \<and> list_ok ok h xs"
  "list_val val h [] = []" "list_val val h (x # xs) = val h x # list_val val h xs"
  "list_addrs reach h [] = {}" "list_addrs reach h (x # xs) = reach h x \<union> list_addrs reach h xs"
  by (simp_all add: list_ok_def list_val_def list_addrs_def)

context deep_copy
begin

lemma lists: "deep_copy (list_ok ok) (list_val val) (list_addrs reach) (list_addrs shared) (copy_all into)"
proof
  fix h xs h'
  assume "list_ok ok h xs" and "same_on (list_addrs reach h xs) h h'"
  then show "list_ok ok h' xs \<and> list_val val h' xs = list_val val h xs \<and> list_addrs reach h' xs = list_addrs reach h xs
      \<and> list_addrs shared h' xs = list_addrs shared h xs"
  proof (induction xs)
    case (Cons x xs)
    then show ?case using local [of h x h'] by simp
  qed simp
next
  fix h xs
  assume "list_ok ok h xs"
  then show "list_addrs reach h xs \<subseteq> {..<length h} \<and> list_addrs shared h xs \<subseteq> list_addrs reach h xs"
  proof (induction xs)
    case (Cons x xs)
    then show ?case using bound [of h x] by auto
  qed simp
next
  fix h xs ys h'
  have all: "grows h h' \<and> list_ok ok h' ys \<and> list_val val h' ys = list_val val h0 xs \<and> list_addrs reach h' ys \<inter> {..<length h0} = list_addrs shared h0 xs"
    if "list_ok ok h0 xs" "grows h0 h" "run_state (copy_all into xs) h = (ys, h')" for h0
    using that
  proof (induction xs arbitrary: h ys h')
    case (Cons x xs)
    have w: "ok h0 x" "list_ok ok h0 xs" using Cons.prems(1) by simp_all
    obtain y h1 where 1: "run_state (into x) h = (y, h1)" and g1: "grows h h1"
      and c1: "\<And>H. grows h1 H \<Longrightarrow> ok H y \<and> val H y = val h0 x \<and> reach H y \<inter> {..<length h0} = shared h0 x"
      by (rule copy_step [OF w(1) Cons.prems(2)]) blast
    obtain zs h2 where 2: "run_state (copy_all into xs) h1 = (zs, h2)" by (rule prod.exhaust)
    have ys: "ys = y # zs" "h' = h2" using Cons.prems(3) by (simp_all add: 1 2)
    have i: "grows h1 h2 \<and> list_ok ok h2 zs \<and> list_val val h2 zs = list_val val h0 xs \<and> list_addrs reach h2 zs \<inter> {..<length h0} = list_addrs shared h0 xs"
      by (rule Cons.IH [OF w(2) grows_trans [OF Cons.prems(2) g1] 2])
    then show ?case using c1 [of h2] grows_trans [OF g1] by (simp add: ys Int_Un_distrib2)
  qed simp
  show "list_ok ok h xs \<Longrightarrow> run_state (copy_all into xs) h = (ys, h') \<Longrightarrow>
      grows h h' \<and> list_ok ok h' ys \<and> list_val val h' ys = list_val val h xs \<and> list_addrs reach h' ys \<inter> {..<length h} = list_addrs shared h xs"
    by (rule all [OF _ grows_refl])
qed

end

text \<open>Structs behind a pointer.\<close>

definition ptr_ok :: "(cell \<Rightarrow> bool) \<Rightarrow> (cell \<Rightarrow> 'a) \<Rightarrow> (heap \<Rightarrow> 'a \<Rightarrow> bool) \<Rightarrow> heap \<Rightarrow> addr option \<Rightarrow> bool" where
  "ptr_ok is_cell at_cell ok h p = (case p of None \<Rightarrow> True | Some a \<Rightarrow> a < length h \<and> is_cell (cell_at h a) \<and> ok h (at_cell (cell_at h a)))"
definition ptr_val :: "(cell \<Rightarrow> 'a) \<Rightarrow> (heap \<Rightarrow> 'a \<Rightarrow> 'v) \<Rightarrow> heap \<Rightarrow> addr option \<Rightarrow> 'v option" where
  "ptr_val at_cell val h p = map_option (\<lambda>a. val h (at_cell (cell_at h a))) p"
definition ptr_reach :: "(cell \<Rightarrow> 'a) \<Rightarrow> (heap \<Rightarrow> 'a \<Rightarrow> addr set) \<Rightarrow> heap \<Rightarrow> addr option \<Rightarrow> addr set" where
  "ptr_reach at_cell reach h p = (case p of None \<Rightarrow> {} | Some a \<Rightarrow> insert a (reach h (at_cell (cell_at h a))))"
definition ptr_shared :: "(cell \<Rightarrow> 'a) \<Rightarrow> (heap \<Rightarrow> 'a \<Rightarrow> addr set) \<Rightarrow> heap \<Rightarrow> addr option \<Rightarrow> addr set" where
  "ptr_shared at_cell shared h p = (case p of None \<Rightarrow> {} | Some a \<Rightarrow> shared h (at_cell (cell_at h a)))"

lemma ptr_simps [simp]:
  "ptr_ok is_cell at_cell ok h None" "ptr_ok is_cell at_cell ok h (Some a) \<longleftrightarrow> a < length h \<and> is_cell (cell_at h a) \<and> ok h (at_cell (cell_at h a))"
  "ptr_val at_cell val h None = None" "ptr_val at_cell val h (Some a) = Some (val h (at_cell (cell_at h a)))"
  "ptr_reach at_cell reach h None = {}" "ptr_reach at_cell reach h (Some a) = insert a (reach h (at_cell (cell_at h a)))"
  "ptr_shared at_cell shared h None = {}" "ptr_shared at_cell shared h (Some a) = shared h (at_cell (cell_at h a))"
  by (simp_all add: ptr_ok_def ptr_val_def ptr_reach_def ptr_shared_def)

lemma ptr_shared_none [simp]: "ptr_shared at_cell no_addrs h p = {}"
  by (cases p) simp_all

locale deep_copy_cell = deep_copy ok val reach shared into
  for ok :: "heap \<Rightarrow> 'a \<Rightarrow> bool" and val :: "heap \<Rightarrow> 'a \<Rightarrow> 'v" and reach shared :: "heap \<Rightarrow> 'a \<Rightarrow> addr set"
    and into :: "'a \<Rightarrow> (heap, 'a) io" +
  fixes mk :: "'a \<Rightarrow> cell" and is_cell :: "cell \<Rightarrow> bool" and at_cell :: "cell \<Rightarrow> 'a"
  assumes is_mk [simp]: "is_cell (mk x)" and at_mk [simp]: "at_cell (mk x) = x"
begin

lemma pointers:
  "deep_copy (ptr_ok is_cell at_cell ok) (ptr_val at_cell val) (ptr_reach at_cell reach) (ptr_shared at_cell shared) (new_copy mk at_cell into)"
proof
  fix h p h'
  assume "ptr_ok is_cell at_cell ok h p" and "same_on (ptr_reach at_cell reach h p) h h'"
  then show "ptr_ok is_cell at_cell ok h' p \<and> ptr_val at_cell val h' p = ptr_val at_cell val h p \<and>
      ptr_reach at_cell reach h' p = ptr_reach at_cell reach h p \<and> ptr_shared at_cell shared h' p = ptr_shared at_cell shared h p"
    using local [of h "at_cell (cell_at h (the p))" h'] by (cases p) simp_all
next
  fix h p
  assume "ptr_ok is_cell at_cell ok h p"
  then show "ptr_reach at_cell reach h p \<subseteq> {..<length h} \<and> ptr_shared at_cell shared h p \<subseteq> ptr_reach at_cell reach h p"
    using bound [of h "at_cell (cell_at h (the p))"] by (cases p) auto
next
  fix h p q h'
  assume w: "ptr_ok is_cell at_cell ok h p" and run: "run_state (new_copy mk at_cell into p) h = (q, h')"
  show "grows h h' \<and> ptr_ok is_cell at_cell ok h' q \<and> ptr_val at_cell val h' q = ptr_val at_cell val h p \<and>
      ptr_reach at_cell reach h' q \<inter> {..<length h} = ptr_shared at_cell shared h p"
  proof (cases p)
    case None
    then show ?thesis using run by (simp add: new_copy_def)
  next
    case (Some a)
    let ?x = "at_cell (cell_at h a)"
    have x: "ok h ?x" using w by (simp add: Some)
    obtain y h1 where 1: "run_state (into ?x) h = (y, h1)" and g: "grows h h1"
      and c: "\<And>H. grows h1 H \<Longrightarrow> ok H y \<and> val H y = val h ?x \<and> reach H y \<inter> {..<length h} = shared h ?x"
      by (rule copy_step [OF x grows_refl]) blast
    have q: "q = Some (length h1)" "h' = h1 @ [mk y]" using run by (simp_all add: new_copy_def Some 1)
    have "length h \<le> length h1" using g by (simp add: grows_def)
    then have "insert (length h1) (reach h' y) \<inter> {..<length h} = reach h' y \<inter> {..<length h}" by auto
    then show ?thesis using c [of h'] grows_trans [OF g, of h'] by (simp add: q Some)
  qed
qed

end

text \<open>Structs: their parts are copied one after the other, and what is not a part is kept.\<close>

definition pair_ok :: "(heap \<Rightarrow> 'a \<Rightarrow> bool) \<Rightarrow> (heap \<Rightarrow> 'b \<Rightarrow> bool) \<Rightarrow> heap \<Rightarrow> 'a \<times> 'b \<Rightarrow> bool" where
  "pair_ok ok1 ok2 h x \<longleftrightarrow> ok1 h (fst x) \<and> ok2 h (snd x)"
definition pair_val :: "(heap \<Rightarrow> 'a \<Rightarrow> 'v) \<Rightarrow> (heap \<Rightarrow> 'b \<Rightarrow> 'u) \<Rightarrow> heap \<Rightarrow> 'a \<times> 'b \<Rightarrow> 'v \<times> 'u" where
  "pair_val val1 val2 h x = (val1 h (fst x), val2 h (snd x))"
definition pair_addrs :: "(heap \<Rightarrow> 'a \<Rightarrow> addr set) \<Rightarrow> (heap \<Rightarrow> 'b \<Rightarrow> addr set) \<Rightarrow> heap \<Rightarrow> 'a \<times> 'b \<Rightarrow> addr set" where
  "pair_addrs reach1 reach2 h x = reach1 h (fst x) \<union> reach2 h (snd x)"
definition pair_into :: "('a \<Rightarrow> (heap, 'a) io) \<Rightarrow> ('b \<Rightarrow> (heap, 'b) io) \<Rightarrow> 'a \<times> 'b \<Rightarrow> (heap, 'a \<times> 'b) io" where
  "pair_into into1 into2 x = do {y \<leftarrow> into1 (fst x); z \<leftarrow> into2 (snd x); State_Monad.return (y, z)}"

lemmas pair_defs = pair_ok_def pair_val_def pair_addrs_def pair_into_def

lemma pair_copy:
  assumes 1: "deep_copy ok1 val1 reach1 shared1 into1" and 2: "deep_copy ok2 val2 reach2 shared2 into2"
  shows "deep_copy (pair_ok ok1 ok2) (pair_val val1 val2) (pair_addrs reach1 reach2) (pair_addrs shared1 shared2) (pair_into into1 into2)"
proof
  fix h x h'
  assume "pair_ok ok1 ok2 h x" and "same_on (pair_addrs reach1 reach2 h x) h h'"
  then show "pair_ok ok1 ok2 h' x \<and> pair_val val1 val2 h' x = pair_val val1 val2 h x \<and>
      pair_addrs reach1 reach2 h' x = pair_addrs reach1 reach2 h x \<and> pair_addrs shared1 shared2 h' x = pair_addrs shared1 shared2 h x"
    using deep_copy.local [OF 1, of h "fst x" h'] deep_copy.local [OF 2, of h "snd x" h'] by (simp add: pair_defs)
next
  fix h x
  assume "pair_ok ok1 ok2 h x"
  then show "pair_addrs reach1 reach2 h x \<subseteq> {..<length h} \<and> pair_addrs shared1 shared2 h x \<subseteq> pair_addrs reach1 reach2 h x"
    using deep_copy.bound [OF 1, of h "fst x"] deep_copy.bound [OF 2, of h "snd x"] unfolding pair_defs by blast
next
  fix h x y h'
  assume w: "pair_ok ok1 ok2 h x" and run: "run_state (pair_into into1 into2 x) h = (y, h')"
  obtain y1 h1 where r1: "run_state (into1 (fst x)) h = (y1, h1)" and g1: "grows h h1"
    and c1: "\<And>H. grows h1 H \<Longrightarrow> ok1 H y1 \<and> val1 H y1 = val1 h (fst x) \<and> reach1 H y1 \<inter> {..<length h} = shared1 h (fst x)"
    by (rule deep_copy.copy_step [OF 1 _ grows_refl, of h "fst x"]) (use w in \<open>simp add: pair_defs\<close>, blast)
  obtain y2 h2 where r2: "run_state (into2 (snd x)) h1 = (y2, h2)" and g2: "grows h1 h2"
    and c2: "\<And>H. grows h2 H \<Longrightarrow> ok2 H y2 \<and> val2 H y2 = val2 h (snd x) \<and> reach2 H y2 \<inter> {..<length h} = shared2 h (snd x)"
    by (rule deep_copy.copy_step [OF 2 _ g1, of "snd x"]) (use w in \<open>simp add: pair_defs\<close>, blast)
  have y: "y = (y1, y2)" "h' = h2" using run by (simp_all add: pair_defs r1 r2)
  show "grows h h' \<and> pair_ok ok1 ok2 h' y \<and> pair_val val1 val2 h' y = pair_val val1 val2 h x \<and>
      pair_addrs reach1 reach2 h' y \<inter> {..<length h} = pair_addrs shared1 shared2 h x"
    using grows_trans [OF g1 g2] c1 [OF g2] c2 [OF grows_refl] by (simp add: y pair_defs Int_Un_distrib2)
qed

lemma struct_copy:
  assumes D: "deep_copy ok val reach shared into" and get_put: "\<And>b x. get (put b x) = b" and put_get: "\<And>x. put (get x) x = x"
    and val': "\<And>h h' x b. val h' b = val h (get x) \<Longrightarrow> VAL h' (put b x) = VAL h x"
    and eqs: "\<And>h x. OK h x \<longleftrightarrow> ok h (get x)" "\<And>h x. REACH h x = reach h (get x)" "\<And>h x. SHARED h x = shared h (get x)"
      "\<And>x. INTO x = do {b \<leftarrow> into (get x); State_Monad.return (put b x)}"
  shows "deep_copy OK VAL REACH SHARED INTO"
proof
  fix h x h'
  assume "OK h x" and "same_on (REACH h x) h h'"
  then show "OK h' x \<and> VAL h' x = VAL h x \<and> REACH h' x = REACH h x \<and> SHARED h' x = SHARED h x"
    using deep_copy.local [OF D, of h "get x" h'] val' [of h' "get x" h x] by (simp add: eqs put_get)
next
  fix h x
  assume "OK h x"
  then show "REACH h x \<subseteq> {..<length h} \<and> SHARED h x \<subseteq> REACH h x" using deep_copy.bound [OF D] by (simp add: eqs)
next
  fix h x y h'
  assume w: "OK h x" and run: "run_state (INTO x) h = (y, h')"
  obtain b h1 where 1: "run_state (into (get x)) h = (b, h1)" by (rule prod.exhaust)
  have y: "y = put b x" "h' = h1" using run by (simp_all add: eqs 1)
  show "grows h h' \<and> OK h' y \<and> VAL h' y = VAL h x \<and> REACH h' y \<inter> {..<length h} = SHARED h x"
    using deep_copy.copies [OF D _ 1] w val' [of h1 b h x] by (simp add: eqs y get_put)
qed

text \<open>The kinds of cell the copies use.\<close>

abbreviation cell_kind :: "('a \<Rightarrow> cell) \<Rightarrow> (cell \<Rightarrow> bool) \<Rightarrow> (cell \<Rightarrow> 'a) \<Rightarrow> bool" where
  "cell_kind \<equiv> deep_copy_cell_axioms"

lemma cell_kinds:
  "cell_kind BoolCell is_BoolCell at_Bool"
  "cell_kind StringCell is_StringCell at_String"
  "cell_kind TimeCell is_TimeCell at_Time"
  "cell_kind IntCell is_IntCell at_Int"
  "cell_kind StringsCell is_StringsCell at_Strings"
  "cell_kind StringMapCell is_StringMapCell at_StringMap"
  "cell_kind RefCell is_RefCell at_Ref"
  "cell_kind RequirementsCell is_RequirementsCell at_Requirements"
  "cell_kind AddressesCell is_AddressesCell at_Addresses"
  "cell_kind ConditionsCell is_ConditionsCell at_Conditions"
  "cell_kind CPUsCell is_CPUsCell at_CPUs"
  "cell_kind MemoryCell is_MemoryCell at_Memory"
  "cell_kind DisksCell is_DisksCell at_Disks"
  "cell_kind NICsCell is_NICsCell at_NICs"
  "cell_kind ReportCell is_ReportCell at_Report"
  "cell_kind DomainsCell is_DomainsCell at_Domains"
  "cell_kind HostsCell is_HostsCell at_Hosts"
  "cell_kind MachinesCell is_MachinesCell at_Machines"
  "cell_kind TemplatesCell is_TemplatesCell at_Templates"
  "cell_kind ClustersCell is_ClustersCell at_Clusters"
  "cell_kind HostCell is_HostCell at_Host"
  "cell_kind MachineCell is_MachineCell at_Machine"
  "cell_kind TemplateCell is_TemplateCell at_Template"
  "cell_kind ClusterCell is_ClusterCell at_Cluster"
  by (simp_all add: deep_copy_cell_axioms_def)

lemmas Bool_cell = cell_kinds(1)
  and String_cell = cell_kinds(2)
  and Time_cell = cell_kinds(3)
  and Int_cell = cell_kinds(4)
  and Strings_cell = cell_kinds(5)
  and StringMap_cell = cell_kinds(6)
  and Ref_cell = cell_kinds(7)
  and Requirements_cell = cell_kinds(8)
  and Addresses_cell = cell_kinds(9)
  and Conditions_cell = cell_kinds(10)
  and CPUs_cell = cell_kinds(11)
  and Memory_cell = cell_kinds(12)
  and Disks_cell = cell_kinds(13)
  and NICs_cell = cell_kinds(14)
  and Report_cell = cell_kinds(15)
  and Domains_cell = cell_kinds(16)
  and Hosts_cell = cell_kinds(17)
  and Machines_cell = cell_kinds(18)
  and Templates_cell = cell_kinds(19)
  and Clusters_cell = cell_kinds(20)
  and Host_cell = cell_kinds(21)
  and Machine_cell = cell_kinds(22)
  and Template_cell = cell_kinds(23)
  and Cluster_cell = cell_kinds(24)

text \<open>Values behind a pointer, a slice or a map.\<close>

definition leaf_ok :: "(cell \<Rightarrow> bool) \<Rightarrow> (cell \<Rightarrow> 'a) \<Rightarrow> heap \<Rightarrow> addr option \<Rightarrow> bool" where
  "leaf_ok is_cell at_cell = ptr_ok is_cell at_cell value_ok"
definition leaf_val :: "(cell \<Rightarrow> 'a) \<Rightarrow> heap \<Rightarrow> addr option \<Rightarrow> 'a option" where
  "leaf_val at_cell = ptr_val at_cell value_val"
definition leaf_reach :: "(cell \<Rightarrow> 'a) \<Rightarrow> heap \<Rightarrow> addr option \<Rightarrow> addr set" where
  "leaf_reach at_cell = ptr_reach at_cell no_addrs"

definition slice :: "'a list option \<Rightarrow> 'a list" where
  "slice p = (case p of None \<Rightarrow> [] | Some xs \<Rightarrow> xs)"

lemma leaf_reach_set [simp]: "leaf_reach at_cell h p = set_option p"
  by (cases p) (simp_all add: leaf_reach_def)

lemma pointer_copy:
  assumes "deep_copy ok val reach shared into" and "cell_kind mk is_cell at_cell"
  shows "deep_copy (ptr_ok is_cell at_cell ok) (ptr_val at_cell val) (ptr_reach at_cell reach) (ptr_shared at_cell shared) (new_copy mk at_cell into)"
  using deep_copy_cell.pointers [OF deep_copy_cell.intro [OF assms]] .

lemma ptr_shared_no_addrs [simp]: "ptr_shared at_cell no_addrs = no_addrs" "list_addrs no_addrs = no_addrs" "pair_addrs no_addrs no_addrs = no_addrs"
  by (auto simp: fun_eq_iff list_addrs_def pair_addrs_def)

lemma leaf_copy:
  "cell_kind mk is_cell at_cell \<Longrightarrow> deep_copy (leaf_ok is_cell at_cell) (leaf_val at_cell) (leaf_reach at_cell) no_addrs (copy_cell mk at_cell)"
  using pointer_copy [OF value_copy] by (simp add: leaf_ok_def leaf_val_def leaf_reach_def)

section \<open>The contract of each type\<close>

text \<open>Metadata of the library.\<close>

definition string_map :: "(string, string) fmap option \<Rightarrow> string \<rightharpoonup> string" where
  "string_map p = (case p of None \<Rightarrow> Map.empty | Some m \<Rightarrow> fmlookup m)"

definition ObjectMeta_ok :: "heap \<Rightarrow> ObjectMeta_m \<Rightarrow> bool" where
  "ObjectMeta_ok h x \<longleftrightarrow> leaf_ok is_StringMapCell at_StringMap h (mom_Labels x) \<and> leaf_ok is_StringMapCell at_StringMap h (mom_Annotations x) \<and> leaf_ok is_StringsCell at_Strings h (mom_Finalizers x) \<and> leaf_ok is_TimeCell at_Time h (mom_DeletionTimestamp x)"
definition ObjectMeta_val :: "heap \<Rightarrow> ObjectMeta_m \<Rightarrow> ObjectMeta" where
  "ObjectMeta_val h x = \<lparr>om_Name = mom_Name x, om_Namespace = mom_Namespace x, om_UID = mom_UID x, om_ResourceVersion = mom_ResourceVersion x,
     om_Labels = string_map (leaf_val at_StringMap h (mom_Labels x)), om_Annotations = string_map (leaf_val at_StringMap h (mom_Annotations x)),
     om_Finalizers = slice (leaf_val at_Strings h (mom_Finalizers x)), om_DeletionTimestamp = leaf_val at_Time h (mom_DeletionTimestamp x)\<rparr>"
definition ObjectMeta_reach :: "heap \<Rightarrow> ObjectMeta_m \<Rightarrow> addr set" where
  "ObjectMeta_reach h x = leaf_reach at_StringMap h (mom_Labels x) \<union> leaf_reach at_StringMap h (mom_Annotations x) \<union> leaf_reach at_Strings h (mom_Finalizers x) \<union> leaf_reach at_Time h (mom_DeletionTimestamp x)"

record ListMeta =
  lm_ResourceVersion :: string
  lm_Continue :: string
  lm_RemainingItemCount :: "goint option"

definition ListMeta_ok :: "heap \<Rightarrow> ListMeta_m \<Rightarrow> bool" where
  "ListMeta_ok h x \<longleftrightarrow> leaf_ok is_IntCell at_Int h (mlm_RemainingItemCount x)"
definition ListMeta_val :: "heap \<Rightarrow> ListMeta_m \<Rightarrow> ListMeta" where
  "ListMeta_val h x = \<lparr>lm_ResourceVersion = mlm_ResourceVersion x, lm_Continue = mlm_Continue x, lm_RemainingItemCount = leaf_val at_Int h (mlm_RemainingItemCount x)\<rparr>"
definition ListMeta_reach :: "heap \<Rightarrow> ListMeta_m \<Rightarrow> addr set" where
  "ListMeta_reach h x = leaf_reach at_Int h (mlm_RemainingItemCount x)"

text \<open>The deep copies of the library share nothing with the original, as generated deep copies promise.\<close>

locale k8s_library =
  fixes K :: k8s_copies
  assumes ObjectMeta_copy: "deep_copy ObjectMeta_ok ObjectMeta_val ObjectMeta_reach no_addrs (ObjectMeta_DeepCopyInto K)"
    and ListMeta_copy: "deep_copy ListMeta_ok ListMeta_val ListMeta_reach no_addrs (ListMeta_DeepCopyInto K)"
    and Time_copy: "deep_copy value_ok value_val no_addrs no_addrs (Time_DeepCopyInto K)"

text \<open>The types of the repository.\<close>

definition NICInfo_ok :: "heap \<Rightarrow> NICInfo_m \<Rightarrow> bool" where
  "NICInfo_ok h x \<longleftrightarrow> leaf_ok is_StringsCell at_Strings h (mni_IPAddresses x)"
definition NICInfo_val :: "heap \<Rightarrow> NICInfo_m \<Rightarrow> NICInfo" where
  "NICInfo_val h x = \<lparr>ni_Name = mni_Name x, ni_MACAddress = mni_MACAddress x, ni_Driver = mni_Driver x, ni_Speed = mni_Speed x,
     ni_IPAddresses = slice (leaf_val at_Strings h (mni_IPAddresses x))\<rparr>"
definition NICInfo_reach :: "heap \<Rightarrow> NICInfo_m \<Rightarrow> addr set" where
  "NICInfo_reach h x = leaf_reach at_Strings h (mni_IPAddresses x)"

lemma NICInfo_copy: "deep_copy NICInfo_ok NICInfo_val NICInfo_reach no_addrs NICInfo_DeepCopyInto"
  by (rule struct_copy [OF leaf_copy [OF Strings_cell], where get = "mni_IPAddresses"
      and put = "\<lambda>a x. x\<lparr>mni_IPAddresses := a\<rparr>"])
    (auto simp: NICInfo_ok_def NICInfo_val_def NICInfo_reach_def NICInfo_DeepCopyInto_def pair_defs)

definition RedfishConnection_ok :: "heap \<Rightarrow> RedfishConnection_m \<Rightarrow> bool" where
  "RedfishConnection_ok h x \<longleftrightarrow> leaf_ok is_BoolCell at_Bool h (mrc_InsecureSkipVerify x)"
definition RedfishConnection_val :: "heap \<Rightarrow> RedfishConnection_m \<Rightarrow> RedfishConnection" where
  "RedfishConnection_val h x = \<lparr>rc_Address = mrc_Address x, rc_CredentialsSecretRef = mrc_CredentialsSecretRef x, rc_InsecureSkipVerify = leaf_val at_Bool h (mrc_InsecureSkipVerify x)\<rparr>"
definition RedfishConnection_reach :: "heap \<Rightarrow> RedfishConnection_m \<Rightarrow> addr set" where
  "RedfishConnection_reach h x = leaf_reach at_Bool h (mrc_InsecureSkipVerify x)"

lemma RedfishConnection_copy: "deep_copy RedfishConnection_ok RedfishConnection_val RedfishConnection_reach no_addrs RedfishConnection_DeepCopyInto"
  by (rule struct_copy [OF leaf_copy [OF Bool_cell], where get = "mrc_InsecureSkipVerify"
      and put = "\<lambda>a x. x\<lparr>mrc_InsecureSkipVerify := a\<rparr>"])
    (auto simp: RedfishConnection_ok_def RedfishConnection_val_def RedfishConnection_reach_def RedfishConnection_DeepCopyInto_def pair_defs)

definition PhysicalHostSpec_ok :: "heap \<Rightarrow> PhysicalHostSpec_m \<Rightarrow> bool" where
  "PhysicalHostSpec_ok h x \<longleftrightarrow> RedfishConnection_ok h (mps_RedfishConnection x) \<and> leaf_ok is_RefCell at_Ref h (mps_ConsumerRef x)"
definition PhysicalHostSpec_val :: "heap \<Rightarrow> PhysicalHostSpec_m \<Rightarrow> PhysicalHostSpec" where
  "PhysicalHostSpec_val h x = \<lparr>ps_RedfishConnection = RedfishConnection_val h (mps_RedfishConnection x), ps_ConsumerRef = leaf_val at_Ref h (mps_ConsumerRef x)\<rparr>"
definition PhysicalHostSpec_reach :: "heap \<Rightarrow> PhysicalHostSpec_m \<Rightarrow> addr set" where
  "PhysicalHostSpec_reach h x = RedfishConnection_reach h (mps_RedfishConnection x) \<union> leaf_reach at_Ref h (mps_ConsumerRef x)"
definition PhysicalHostSpec_shared :: "heap \<Rightarrow> PhysicalHostSpec_m \<Rightarrow> addr set" where
  "PhysicalHostSpec_shared h x = RedfishConnection_reach h (mps_RedfishConnection x)"

lemma PhysicalHostSpec_copy: "deep_copy PhysicalHostSpec_ok PhysicalHostSpec_val PhysicalHostSpec_reach PhysicalHostSpec_shared PhysicalHostSpec_DeepCopyInto"
  by (rule struct_copy [OF pair_copy [OF deep_copy.shallow [OF RedfishConnection_copy] leaf_copy [OF Ref_cell]], where get = "\<lambda>x. (mps_RedfishConnection x, mps_ConsumerRef x)"
      and put = "\<lambda>(a, b) x. x\<lparr>mps_RedfishConnection := a, mps_ConsumerRef := b\<rparr>"])
    (auto simp: PhysicalHostSpec_ok_def PhysicalHostSpec_val_def PhysicalHostSpec_reach_def PhysicalHostSpec_shared_def PhysicalHostSpec_DeepCopyInto_def pair_defs)

definition Beskar7MachineSpec_ok :: "heap \<Rightarrow> Beskar7MachineSpec_m \<Rightarrow> bool" where
  "Beskar7MachineSpec_ok h x \<longleftrightarrow> leaf_ok is_StringCell at_String h (mbs_ProviderID x) \<and> leaf_ok is_RequirementsCell at_Requirements h (mbs_HardwareRequirements x)"
definition Beskar7MachineSpec_val :: "heap \<Rightarrow> Beskar7MachineSpec_m \<Rightarrow> Beskar7MachineSpec" where
  "Beskar7MachineSpec_val h x = \<lparr>bs_ProviderID = leaf_val at_String h (mbs_ProviderID x), bs_InspectionImageURL = mbs_InspectionImageURL x, bs_TargetImageURL = mbs_TargetImageURL x,
     bs_ConfigurationURL = mbs_ConfigurationURL x, bs_HardwareRequirements = leaf_val at_Requirements h (mbs_HardwareRequirements x)\<rparr>"
definition Beskar7MachineSpec_reach :: "heap \<Rightarrow> Beskar7MachineSpec_m \<Rightarrow> addr set" where
  "Beskar7MachineSpec_reach h x = leaf_reach at_String h (mbs_ProviderID x) \<union> leaf_reach at_Requirements h (mbs_HardwareRequirements x)"

lemma Beskar7MachineSpec_copy: "deep_copy Beskar7MachineSpec_ok Beskar7MachineSpec_val Beskar7MachineSpec_reach no_addrs Beskar7MachineSpec_DeepCopyInto"
  by (rule struct_copy [OF pair_copy [OF leaf_copy [OF String_cell] leaf_copy [OF Requirements_cell]], where get = "\<lambda>x. (mbs_ProviderID x, mbs_HardwareRequirements x)"
      and put = "\<lambda>(a, b) x. x\<lparr>mbs_ProviderID := a, mbs_HardwareRequirements := b\<rparr>"])
    (auto simp: Beskar7MachineSpec_ok_def Beskar7MachineSpec_val_def Beskar7MachineSpec_reach_def Beskar7MachineSpec_DeepCopyInto_def pair_defs)

definition Beskar7MachineStatus_ok :: "heap \<Rightarrow> Beskar7MachineStatus_m \<Rightarrow> bool" where
  "Beskar7MachineStatus_ok h x \<longleftrightarrow> leaf_ok is_StringCell at_String h (mbt_Phase x) \<and> leaf_ok is_StringCell at_String h (mbt_FailureReason x) \<and> leaf_ok is_StringCell at_String h (mbt_FailureMessage x) \<and> leaf_ok is_AddressesCell at_Addresses h (mbt_Addresses x) \<and> leaf_ok is_ConditionsCell at_Conditions h (mbt_Conditions x)"
definition Beskar7MachineStatus_val :: "heap \<Rightarrow> Beskar7MachineStatus_m \<Rightarrow> Beskar7MachineStatus" where
  "Beskar7MachineStatus_val h x = \<lparr>bt_Ready = mbt_Ready x, bt_Phase = leaf_val at_String h (mbt_Phase x), bt_FailureReason = leaf_val at_String h (mbt_FailureReason x),
     bt_FailureMessage = leaf_val at_String h (mbt_FailureMessage x), bt_Addresses = slice (leaf_val at_Addresses h (mbt_Addresses x)),
     bt_Conditions = slice (leaf_val at_Conditions h (mbt_Conditions x))\<rparr>"
definition Beskar7MachineStatus_reach :: "heap \<Rightarrow> Beskar7MachineStatus_m \<Rightarrow> addr set" where
  "Beskar7MachineStatus_reach h x = leaf_reach at_String h (mbt_Phase x) \<union> leaf_reach at_String h (mbt_FailureReason x) \<union> leaf_reach at_String h (mbt_FailureMessage x) \<union> leaf_reach at_Addresses h (mbt_Addresses x) \<union> leaf_reach at_Conditions h (mbt_Conditions x)"

lemma Beskar7MachineStatus_copy: "deep_copy Beskar7MachineStatus_ok Beskar7MachineStatus_val Beskar7MachineStatus_reach no_addrs Beskar7MachineStatus_DeepCopyInto"
  by (rule struct_copy [OF pair_copy [OF leaf_copy [OF String_cell] pair_copy [OF leaf_copy [OF String_cell] pair_copy [OF leaf_copy [OF String_cell] pair_copy [OF leaf_copy [OF Addresses_cell] leaf_copy [OF Conditions_cell]]]]], where get = "\<lambda>x. (mbt_Phase x, mbt_FailureReason x, mbt_FailureMessage x, mbt_Addresses x, mbt_Conditions x)"
      and put = "\<lambda>(a, b, c, d, e) x. x\<lparr>mbt_Phase := a, mbt_FailureReason := b, mbt_FailureMessage := c, mbt_Addresses := d, mbt_Conditions := e\<rparr>"])
    (auto simp: Beskar7MachineStatus_ok_def Beskar7MachineStatus_val_def Beskar7MachineStatus_reach_def Beskar7MachineStatus_DeepCopyInto_def pair_defs)

record Beskar7MachineTemplateResource =
  tr_Spec :: Beskar7MachineSpec

record Beskar7MachineTemplateSpec =
  ts_Template :: Beskar7MachineTemplateResource

record Beskar7MachineTemplate =
  tp_type :: TypeMeta
  tp_meta :: ObjectMeta
  tp_Spec :: Beskar7MachineTemplateSpec

definition Beskar7MachineTemplateResource_ok :: "heap \<Rightarrow> Beskar7MachineTemplateResource_m \<Rightarrow> bool" where
  "Beskar7MachineTemplateResource_ok h x \<longleftrightarrow> Beskar7MachineSpec_ok h (mtr_Spec x)"
definition Beskar7MachineTemplateResource_val :: "heap \<Rightarrow> Beskar7MachineTemplateResource_m \<Rightarrow> Beskar7MachineTemplateResource" where
  "Beskar7MachineTemplateResource_val h x = \<lparr>tr_Spec = Beskar7MachineSpec_val h (mtr_Spec x)\<rparr>"
definition Beskar7MachineTemplateResource_reach :: "heap \<Rightarrow> Beskar7MachineTemplateResource_m \<Rightarrow> addr set" where
  "Beskar7MachineTemplateResource_reach h x = Beskar7MachineSpec_reach h (mtr_Spec x)"

lemma Beskar7MachineTemplateResource_copy: "deep_copy Beskar7MachineTemplateResource_ok Beskar7MachineTemplateResource_val Beskar7MachineTemplateResource_reach no_addrs Beskar7MachineTemplateResource_DeepCopyInto"
  by (rule struct_copy [OF Beskar7MachineSpec_copy, where get = "mtr_Spec"
      and put = "\<lambda>a x. x\<lparr>mtr_Spec := a\<rparr>"])
    (auto simp: Beskar7MachineTemplateResource_ok_def Beskar7MachineTemplateResource_val_def Beskar7MachineTemplateResource_reach_def Beskar7MachineTemplateResource_DeepCopyInto_def pair_defs)

definition Beskar7MachineTemplateSpec_ok :: "heap \<Rightarrow> Beskar7MachineTemplateSpec_m \<Rightarrow> bool" where
  "Beskar7MachineTemplateSpec_ok h x \<longleftrightarrow> Beskar7MachineTemplateResource_ok h (mts_Template x)"
definition Beskar7MachineTemplateSpec_val :: "heap \<Rightarrow> Beskar7MachineTemplateSpec_m \<Rightarrow> Beskar7MachineTemplateSpec" where
  "Beskar7MachineTemplateSpec_val h x = \<lparr>ts_Template = Beskar7MachineTemplateResource_val h (mts_Template x)\<rparr>"
definition Beskar7MachineTemplateSpec_reach :: "heap \<Rightarrow> Beskar7MachineTemplateSpec_m \<Rightarrow> addr set" where
  "Beskar7MachineTemplateSpec_reach h x = Beskar7MachineTemplateResource_reach h (mts_Template x)"

lemma Beskar7MachineTemplateSpec_copy: "deep_copy Beskar7MachineTemplateSpec_ok Beskar7MachineTemplateSpec_val Beskar7MachineTemplateSpec_reach no_addrs Beskar7MachineTemplateSpec_DeepCopyInto"
  by (rule struct_copy [OF Beskar7MachineTemplateResource_copy, where get = "mts_Template"
      and put = "\<lambda>a x. x\<lparr>mts_Template := a\<rparr>"])
    (auto simp: Beskar7MachineTemplateSpec_ok_def Beskar7MachineTemplateSpec_val_def Beskar7MachineTemplateSpec_reach_def Beskar7MachineTemplateSpec_DeepCopyInto_def pair_defs)

text \<open>The failure domains, which are assigned with the addresses of their attributes.\<close>

definition FailureDomains_ok :: "heap \<Rightarrow> (string, FailureDomainSpec_m) fmap \<Rightarrow> bool" where
  "FailureDomains_ok h m \<longleftrightarrow> (\<forall>d \<in> fmran' m. leaf_ok is_StringMapCell at_StringMap h (mfd_Attributes d))"
definition FailureDomains_val :: "heap \<Rightarrow> (string, FailureDomainSpec_m) fmap \<Rightarrow> FailureDomains" where
  "FailureDomains_val h m =
     fmmap (\<lambda>d. \<lparr>fd_ControlPlane = mfd_ControlPlane d, fd_Attributes = leaf_val at_StringMap h (mfd_Attributes d)\<rparr>) m"
definition FailureDomains_reach :: "heap \<Rightarrow> (string, FailureDomainSpec_m) fmap \<Rightarrow> addr set" where
  "FailureDomains_reach h m = (\<Union>d \<in> fmran' m. set_option (mfd_Attributes d))"

lemma leaf_local:
  "leaf_ok is_cell at_cell h p \<Longrightarrow> same_on (set_option p) h h' \<Longrightarrow> leaf_ok is_cell at_cell h' p \<and> leaf_val at_cell h' p = leaf_val at_cell h p"
  by (cases p) (auto simp: leaf_ok_def leaf_val_def)

lemma leaf_bound: "leaf_ok is_cell at_cell h p \<Longrightarrow> set_option p \<subseteq> {..<length h}"
  by (cases p) (auto simp: leaf_ok_def)

lemma FailureDomains_copy:
  "deep_copy FailureDomains_ok FailureDomains_val FailureDomains_reach FailureDomains_reach State_Monad.return"
proof
  fix h m h'
  assume w: "FailureDomains_ok h m" and s: "same_on (FailureDomains_reach h m) h h'"
  have l: "leaf_ok is_StringMapCell at_StringMap h' (mfd_Attributes d) \<and> leaf_val at_StringMap h' (mfd_Attributes d) = leaf_val at_StringMap h (mfd_Attributes d)"
    if "d \<in> fmran' m" for d
    using w s that by (intro leaf_local) (auto simp: FailureDomains_ok_def FailureDomains_reach_def same_on_UN)
  then have "FailureDomains_val h' m = FailureDomains_val h m"
    unfolding FailureDomains_val_def by (intro fmap_ext) (auto simp: fmran'I split: option.split dest: fmran'I intro!: option.map_cong)
  with l show "FailureDomains_ok h' m \<and> FailureDomains_val h' m = FailureDomains_val h m \<and>
      FailureDomains_reach h' m = FailureDomains_reach h m \<and> FailureDomains_reach h' m = FailureDomains_reach h m"
    by (simp add: FailureDomains_ok_def FailureDomains_reach_def)
next
  fix h m
  assume "FailureDomains_ok h m"
  then show "FailureDomains_reach h m \<subseteq> {..<length h} \<and> FailureDomains_reach h m \<subseteq> FailureDomains_reach h m"
    using leaf_bound unfolding FailureDomains_ok_def FailureDomains_reach_def by blast
next
  fix h m y h'
  assume "FailureDomains_ok h m" and "run_state (State_Monad.return m) h = (y, h')"
  then show "grows h h' \<and> FailureDomains_ok h' y \<and> FailureDomains_val h' y = FailureDomains_val h m \<and>
      FailureDomains_reach h' y \<inter> {..<length h} = FailureDomains_reach h m"
    using leaf_bound unfolding FailureDomains_ok_def FailureDomains_reach_def by fastforce
qed

definition Beskar7ClusterStatus_ok :: "heap \<Rightarrow> Beskar7ClusterStatus_m \<Rightarrow> bool" where
  "Beskar7ClusterStatus_ok h x \<longleftrightarrow> ptr_ok is_DomainsCell at_Domains FailureDomains_ok h (mct_FailureDomains x) \<and> leaf_ok is_ConditionsCell at_Conditions h (mct_Conditions x)"
definition Beskar7ClusterStatus_val :: "heap \<Rightarrow> Beskar7ClusterStatus_m \<Rightarrow> Beskar7ClusterStatus" where
  "Beskar7ClusterStatus_val h x = \<lparr>ct_Ready = mct_Ready x, ct_ControlPlaneEndpoint = mct_ControlPlaneEndpoint x,
     ct_FailureDomains = ptr_val at_Domains FailureDomains_val h (mct_FailureDomains x), ct_Conditions = slice (leaf_val at_Conditions h (mct_Conditions x))\<rparr>"
definition Beskar7ClusterStatus_reach :: "heap \<Rightarrow> Beskar7ClusterStatus_m \<Rightarrow> addr set" where
  "Beskar7ClusterStatus_reach h x = ptr_reach at_Domains FailureDomains_reach h (mct_FailureDomains x) \<union> leaf_reach at_Conditions h (mct_Conditions x)"
definition Beskar7ClusterStatus_shared :: "heap \<Rightarrow> Beskar7ClusterStatus_m \<Rightarrow> addr set" where
  "Beskar7ClusterStatus_shared h x = ptr_shared at_Domains FailureDomains_reach h (mct_FailureDomains x)"

lemma Beskar7ClusterStatus_copy: "deep_copy Beskar7ClusterStatus_ok Beskar7ClusterStatus_val Beskar7ClusterStatus_reach Beskar7ClusterStatus_shared Beskar7ClusterStatus_DeepCopyInto"
  by (rule struct_copy [OF pair_copy [OF pointer_copy [OF FailureDomains_copy Domains_cell] leaf_copy [OF Conditions_cell]], where get = "\<lambda>x. (mct_FailureDomains x, mct_Conditions x)"
      and put = "\<lambda>(a, b) x. x\<lparr>mct_FailureDomains := a, mct_Conditions := b\<rparr>"])
    (auto simp: Beskar7ClusterStatus_ok_def Beskar7ClusterStatus_val_def Beskar7ClusterStatus_reach_def Beskar7ClusterStatus_shared_def Beskar7ClusterStatus_DeepCopyInto_def pair_defs)

lemma NICs_copy:
  "deep_copy (ptr_ok is_NICsCell at_NICs (list_ok NICInfo_ok)) (ptr_val at_NICs (list_val NICInfo_val)) (ptr_reach at_NICs (list_addrs NICInfo_reach))
     (ptr_shared at_NICs (list_addrs NICInfo_reach)) (copy_cell NICsCell at_NICs)"
  by (rule pointer_copy [OF deep_copy.shallow [OF deep_copy.lists [OF NICInfo_copy]] NICs_cell])

definition InspectionReport_ok :: "heap \<Rightarrow> InspectionReport_m \<Rightarrow> bool" where
  "InspectionReport_ok h x \<longleftrightarrow> value_ok h (mir_Timestamp x) \<and> leaf_ok is_CPUsCell at_CPUs h (mir_CPUs x) \<and> leaf_ok is_MemoryCell at_Memory h (mir_Memory x) \<and> leaf_ok is_DisksCell at_Disks h (mir_Disks x) \<and> ptr_ok is_NICsCell at_NICs (list_ok NICInfo_ok) h (mir_NICs x)"
definition InspectionReport_val :: "heap \<Rightarrow> InspectionReport_m \<Rightarrow> InspectionReport" where
  "InspectionReport_val h x = \<lparr>ir_Timestamp = mir_Timestamp x, ir_Manufacturer = mir_Manufacturer x, ir_Model = mir_Model x,
     ir_SerialNumber = mir_SerialNumber x, ir_BootModeDetected = mir_BootModeDetected x, ir_FirmwareVersion = mir_FirmwareVersion x,
     ir_CPUs = slice (leaf_val at_CPUs h (mir_CPUs x)), ir_Memory = slice (leaf_val at_Memory h (mir_Memory x)), ir_Disks = slice (leaf_val at_Disks h (mir_Disks x)),
     ir_NICs = slice (ptr_val at_NICs (list_val NICInfo_val) h (mir_NICs x))\<rparr>"
definition InspectionReport_reach :: "heap \<Rightarrow> InspectionReport_m \<Rightarrow> addr set" where
  "InspectionReport_reach h x = no_addrs h (mir_Timestamp x) \<union> leaf_reach at_CPUs h (mir_CPUs x) \<union> leaf_reach at_Memory h (mir_Memory x) \<union> leaf_reach at_Disks h (mir_Disks x) \<union> ptr_reach at_NICs (list_addrs NICInfo_reach) h (mir_NICs x)"
definition InspectionReport_shared :: "heap \<Rightarrow> InspectionReport_m \<Rightarrow> addr set" where
  "InspectionReport_shared h x = ptr_shared at_NICs (list_addrs NICInfo_reach) h (mir_NICs x)"

definition PhysicalHostStatus_ok :: "heap \<Rightarrow> PhysicalHostStatus_m \<Rightarrow> bool" where
  "PhysicalHostStatus_ok h x \<longleftrightarrow> leaf_ok is_AddressesCell at_Addresses h (mst_Addresses x) \<and> ptr_ok is_ReportCell at_Report InspectionReport_ok h (mst_InspectionReport x) \<and> ptr_ok is_TimeCell at_Time value_ok h (mst_InspectionTimestamp x) \<and> leaf_ok is_ConditionsCell at_Conditions h (mst_Conditions x)"
definition PhysicalHostStatus_val :: "heap \<Rightarrow> PhysicalHostStatus_m \<Rightarrow> PhysicalHostStatus" where
  "PhysicalHostStatus_val h x = \<lparr>st_Ready = mst_Ready x, st_State = mst_State x, st_ObservedPowerState = mst_ObservedPowerState x, st_ErrorMessage = mst_ErrorMessage x,
     st_HardwareDetails = mst_HardwareDetails x, st_Addresses = slice (leaf_val at_Addresses h (mst_Addresses x)),
     st_InspectionReport = ptr_val at_Report InspectionReport_val h (mst_InspectionReport x), st_InspectionPhase = mst_InspectionPhase x,
     st_InspectionTimestamp = ptr_val at_Time value_val h (mst_InspectionTimestamp x), st_Conditions = slice (leaf_val at_Conditions h (mst_Conditions x))\<rparr>"
definition PhysicalHostStatus_reach :: "heap \<Rightarrow> PhysicalHostStatus_m \<Rightarrow> addr set" where
  "PhysicalHostStatus_reach h x = leaf_reach at_Addresses h (mst_Addresses x) \<union> ptr_reach at_Report InspectionReport_reach h (mst_InspectionReport x) \<union> ptr_reach at_Time no_addrs h (mst_InspectionTimestamp x) \<union> leaf_reach at_Conditions h (mst_Conditions x)"
definition PhysicalHostStatus_shared :: "heap \<Rightarrow> PhysicalHostStatus_m \<Rightarrow> addr set" where
  "PhysicalHostStatus_shared h x = ptr_shared at_Report InspectionReport_shared h (mst_InspectionReport x)"

definition PhysicalHost_ok :: "heap \<Rightarrow> PhysicalHost_m \<Rightarrow> bool" where
  "PhysicalHost_ok h x \<longleftrightarrow> ObjectMeta_ok h (mph_meta x) \<and> PhysicalHostSpec_ok h (mph_Spec x) \<and> PhysicalHostStatus_ok h (mph_Status x)"
definition PhysicalHost_val :: "heap \<Rightarrow> PhysicalHost_m \<Rightarrow> PhysicalHost" where
  "PhysicalHost_val h x = \<lparr>ph_type = mph_type x, ph_meta = ObjectMeta_val h (mph_meta x), ph_Spec = PhysicalHostSpec_val h (mph_Spec x), ph_Status = PhysicalHostStatus_val h (mph_Status x)\<rparr>"
definition PhysicalHost_reach :: "heap \<Rightarrow> PhysicalHost_m \<Rightarrow> addr set" where
  "PhysicalHost_reach h x = ObjectMeta_reach h (mph_meta x) \<union> PhysicalHostSpec_reach h (mph_Spec x) \<union> PhysicalHostStatus_reach h (mph_Status x)"
definition PhysicalHost_shared :: "heap \<Rightarrow> PhysicalHost_m \<Rightarrow> addr set" where
  "PhysicalHost_shared h x = PhysicalHostSpec_shared h (mph_Spec x) \<union> PhysicalHostStatus_shared h (mph_Status x)"

definition Beskar7Machine_ok :: "heap \<Rightarrow> Beskar7Machine_m \<Rightarrow> bool" where
  "Beskar7Machine_ok h x \<longleftrightarrow> ObjectMeta_ok h (mbm_meta x) \<and> Beskar7MachineSpec_ok h (mbm_Spec x) \<and> Beskar7MachineStatus_ok h (mbm_Status x)"
definition Beskar7Machine_val :: "heap \<Rightarrow> Beskar7Machine_m \<Rightarrow> Beskar7Machine" where
  "Beskar7Machine_val h x = \<lparr>bm_type = mbm_type x, bm_meta = ObjectMeta_val h (mbm_meta x), bm_Spec = Beskar7MachineSpec_val h (mbm_Spec x), bm_Status = Beskar7MachineStatus_val h (mbm_Status x)\<rparr>"
definition Beskar7Machine_reach :: "heap \<Rightarrow> Beskar7Machine_m \<Rightarrow> addr set" where
  "Beskar7Machine_reach h x = ObjectMeta_reach h (mbm_meta x) \<union> Beskar7MachineSpec_reach h (mbm_Spec x) \<union> Beskar7MachineStatus_reach h (mbm_Status x)"

definition Beskar7MachineTemplate_ok :: "heap \<Rightarrow> Beskar7MachineTemplate_m \<Rightarrow> bool" where
  "Beskar7MachineTemplate_ok h x \<longleftrightarrow> ObjectMeta_ok h (mtm_meta x) \<and> Beskar7MachineTemplateSpec_ok h (mtm_Spec x)"
definition Beskar7MachineTemplate_val :: "heap \<Rightarrow> Beskar7MachineTemplate_m \<Rightarrow> Beskar7MachineTemplate" where
  "Beskar7MachineTemplate_val h x = \<lparr>tp_type = mtm_type x, tp_meta = ObjectMeta_val h (mtm_meta x), tp_Spec = Beskar7MachineTemplateSpec_val h (mtm_Spec x)\<rparr>"
definition Beskar7MachineTemplate_reach :: "heap \<Rightarrow> Beskar7MachineTemplate_m \<Rightarrow> addr set" where
  "Beskar7MachineTemplate_reach h x = ObjectMeta_reach h (mtm_meta x) \<union> Beskar7MachineTemplateSpec_reach h (mtm_Spec x)"

definition Beskar7Cluster_ok :: "heap \<Rightarrow> Beskar7Cluster_m \<Rightarrow> bool" where
  "Beskar7Cluster_ok h x \<longleftrightarrow> ObjectMeta_ok h (mbc_meta x) \<and> Beskar7ClusterStatus_ok h (mbc_Status x)"
definition Beskar7Cluster_val :: "heap \<Rightarrow> Beskar7Cluster_m \<Rightarrow> Beskar7Cluster" where
  "Beskar7Cluster_val h x = \<lparr>bc_type = mbc_type x, bc_meta = ObjectMeta_val h (mbc_meta x), bc_Spec = mbc_Spec x, bc_Status = Beskar7ClusterStatus_val h (mbc_Status x)\<rparr>"
definition Beskar7Cluster_reach :: "heap \<Rightarrow> Beskar7Cluster_m \<Rightarrow> addr set" where
  "Beskar7Cluster_reach h x = ObjectMeta_reach h (mbc_meta x) \<union> Beskar7ClusterStatus_reach h (mbc_Status x)"
definition Beskar7Cluster_shared :: "heap \<Rightarrow> Beskar7Cluster_m \<Rightarrow> addr set" where
  "Beskar7Cluster_shared h x = Beskar7ClusterStatus_shared h (mbc_Status x)"

text \<open>The lists of objects.\<close>

record 'o ObjectList =
  ol_type :: TypeMeta
  ol_meta :: ListMeta
  ol_Items :: "'o list option"

definition PhysicalHostList_ok :: "heap \<Rightarrow> PhysicalHostList_m \<Rightarrow> bool" where
  "PhysicalHostList_ok h x \<longleftrightarrow> ListMeta_ok h (mpl_meta x) \<and> ptr_ok is_HostsCell at_Hosts (list_ok PhysicalHost_ok) h (mpl_Items x)"
definition PhysicalHostList_val :: "heap \<Rightarrow> PhysicalHostList_m \<Rightarrow> PhysicalHost ObjectList" where
  "PhysicalHostList_val h x = \<lparr>ol_type = mpl_type x, ol_meta = ListMeta_val h (mpl_meta x), ol_Items = ptr_val at_Hosts (list_val PhysicalHost_val) h (mpl_Items x)\<rparr>"
definition PhysicalHostList_reach :: "heap \<Rightarrow> PhysicalHostList_m \<Rightarrow> addr set" where
  "PhysicalHostList_reach h x = ListMeta_reach h (mpl_meta x) \<union> ptr_reach at_Hosts (list_addrs PhysicalHost_reach) h (mpl_Items x)"
definition PhysicalHostList_shared :: "heap \<Rightarrow> PhysicalHostList_m \<Rightarrow> addr set" where
  "PhysicalHostList_shared h x = ptr_shared at_Hosts (list_addrs PhysicalHost_shared) h (mpl_Items x)"

definition Beskar7MachineList_ok :: "heap \<Rightarrow> Beskar7MachineList_m \<Rightarrow> bool" where
  "Beskar7MachineList_ok h x \<longleftrightarrow> ListMeta_ok h (mbl_meta x) \<and> ptr_ok is_MachinesCell at_Machines (list_ok Beskar7Machine_ok) h (mbl_Items x)"
definition Beskar7MachineList_val :: "heap \<Rightarrow> Beskar7MachineList_m \<Rightarrow> Beskar7Machine ObjectList" where
  "Beskar7MachineList_val h x = \<lparr>ol_type = mbl_type x, ol_meta = ListMeta_val h (mbl_meta x), ol_Items = ptr_val at_Machines (list_val Beskar7Machine_val) h (mbl_Items x)\<rparr>"
definition Beskar7MachineList_reach :: "heap \<Rightarrow> Beskar7MachineList_m \<Rightarrow> addr set" where
  "Beskar7MachineList_reach h x = ListMeta_reach h (mbl_meta x) \<union> ptr_reach at_Machines (list_addrs Beskar7Machine_reach) h (mbl_Items x)"

definition Beskar7MachineTemplateList_ok :: "heap \<Rightarrow> Beskar7MachineTemplateList_m \<Rightarrow> bool" where
  "Beskar7MachineTemplateList_ok h x \<longleftrightarrow> ListMeta_ok h (mtl_meta x) \<and> ptr_ok is_TemplatesCell at_Templates (list_ok Beskar7MachineTemplate_ok) h (mtl_Items x)"
definition Beskar7MachineTemplateList_val :: "heap \<Rightarrow> Beskar7MachineTemplateList_m \<Rightarrow> Beskar7MachineTemplate ObjectList" where
  "Beskar7MachineTemplateList_val h x = \<lparr>ol_type = mtl_type x, ol_meta = ListMeta_val h (mtl_meta x), ol_Items = ptr_val at_Templates (list_val Beskar7MachineTemplate_val) h (mtl_Items x)\<rparr>"
definition Beskar7MachineTemplateList_reach :: "heap \<Rightarrow> Beskar7MachineTemplateList_m \<Rightarrow> addr set" where
  "Beskar7MachineTemplateList_reach h x = ListMeta_reach h (mtl_meta x) \<union> ptr_reach at_Templates (list_addrs Beskar7MachineTemplate_reach) h (mtl_Items x)"

definition Beskar7ClusterList_ok :: "heap \<Rightarrow> Beskar7ClusterList_m \<Rightarrow> bool" where
  "Beskar7ClusterList_ok h x \<longleftrightarrow> ListMeta_ok h (mcl_meta x) \<and> ptr_ok is_ClustersCell at_Clusters (list_ok Beskar7Cluster_ok) h (mcl_Items x)"
definition Beskar7ClusterList_val :: "heap \<Rightarrow> Beskar7ClusterList_m \<Rightarrow> Beskar7Cluster ObjectList" where
  "Beskar7ClusterList_val h x = \<lparr>ol_type = mcl_type x, ol_meta = ListMeta_val h (mcl_meta x), ol_Items = ptr_val at_Clusters (list_val Beskar7Cluster_val) h (mcl_Items x)\<rparr>"
definition Beskar7ClusterList_reach :: "heap \<Rightarrow> Beskar7ClusterList_m \<Rightarrow> addr set" where
  "Beskar7ClusterList_reach h x = ListMeta_reach h (mcl_meta x) \<union> ptr_reach at_Clusters (list_addrs Beskar7Cluster_reach) h (mcl_Items x)"
definition Beskar7ClusterList_shared :: "heap \<Rightarrow> Beskar7ClusterList_m \<Rightarrow> addr set" where
  "Beskar7ClusterList_shared h x = ptr_shared at_Clusters (list_addrs Beskar7Cluster_shared) h (mcl_Items x)"

context k8s_library
begin

lemma InspectionReport_copy: "deep_copy InspectionReport_ok InspectionReport_val InspectionReport_reach InspectionReport_shared (InspectionReport_DeepCopyInto K)"
  by (rule struct_copy [OF pair_copy [OF Time_copy pair_copy [OF leaf_copy [OF CPUs_cell] pair_copy [OF leaf_copy [OF Memory_cell] pair_copy [OF leaf_copy [OF Disks_cell] NICs_copy]]]], where get = "\<lambda>x. (mir_Timestamp x, mir_CPUs x, mir_Memory x, mir_Disks x, mir_NICs x)"
      and put = "\<lambda>(a, b, c, d, e) x. x\<lparr>mir_Timestamp := a, mir_CPUs := b, mir_Memory := c, mir_Disks := d, mir_NICs := e\<rparr>"])
    (auto simp: InspectionReport_ok_def InspectionReport_val_def InspectionReport_reach_def InspectionReport_shared_def InspectionReport_DeepCopyInto_def pair_defs)

lemma PhysicalHostStatus_copy: "deep_copy PhysicalHostStatus_ok PhysicalHostStatus_val PhysicalHostStatus_reach PhysicalHostStatus_shared (PhysicalHostStatus_DeepCopyInto K)"
  by (rule struct_copy [OF pair_copy [OF leaf_copy [OF Addresses_cell] pair_copy [OF pointer_copy [OF InspectionReport_copy Report_cell] pair_copy [OF pointer_copy [OF Time_copy Time_cell] leaf_copy [OF Conditions_cell]]]], where get = "\<lambda>x. (mst_Addresses x, mst_InspectionReport x, mst_InspectionTimestamp x, mst_Conditions x)"
      and put = "\<lambda>(a, b, c, d) x. x\<lparr>mst_Addresses := a, mst_InspectionReport := b, mst_InspectionTimestamp := c, mst_Conditions := d\<rparr>"])
    (auto simp: PhysicalHostStatus_ok_def PhysicalHostStatus_val_def PhysicalHostStatus_reach_def PhysicalHostStatus_shared_def PhysicalHostStatus_DeepCopyInto_def pair_defs)

lemma PhysicalHost_copy: "deep_copy PhysicalHost_ok PhysicalHost_val PhysicalHost_reach PhysicalHost_shared (PhysicalHost_DeepCopyInto K)"
  by (rule struct_copy [OF pair_copy [OF ObjectMeta_copy pair_copy [OF PhysicalHostSpec_copy PhysicalHostStatus_copy]], where get = "\<lambda>x. (mph_meta x, mph_Spec x, mph_Status x)"
      and put = "\<lambda>(a, b, c) x. x\<lparr>mph_meta := a, mph_Spec := b, mph_Status := c\<rparr>"])
    (auto simp: PhysicalHost_ok_def PhysicalHost_val_def PhysicalHost_reach_def PhysicalHost_shared_def PhysicalHost_DeepCopyInto_def pair_defs)

lemma PhysicalHostList_copy: "deep_copy PhysicalHostList_ok PhysicalHostList_val PhysicalHostList_reach PhysicalHostList_shared (PhysicalHostList_DeepCopyInto K)"
  by (rule struct_copy [OF pair_copy [OF ListMeta_copy pointer_copy [OF deep_copy.lists [OF PhysicalHost_copy] Hosts_cell]], where get = "\<lambda>x. (mpl_meta x, mpl_Items x)"
      and put = "\<lambda>(a, b) x. x\<lparr>mpl_meta := a, mpl_Items := b\<rparr>"])
    (auto simp: PhysicalHostList_ok_def PhysicalHostList_val_def PhysicalHostList_reach_def PhysicalHostList_shared_def PhysicalHostList_DeepCopyInto_def pair_defs)

lemma Beskar7Machine_copy: "deep_copy Beskar7Machine_ok Beskar7Machine_val Beskar7Machine_reach no_addrs (Beskar7Machine_DeepCopyInto K)"
  by (rule struct_copy [OF pair_copy [OF ObjectMeta_copy pair_copy [OF Beskar7MachineSpec_copy Beskar7MachineStatus_copy]], where get = "\<lambda>x. (mbm_meta x, mbm_Spec x, mbm_Status x)"
      and put = "\<lambda>(a, b, c) x. x\<lparr>mbm_meta := a, mbm_Spec := b, mbm_Status := c\<rparr>"])
    (auto simp: Beskar7Machine_ok_def Beskar7Machine_val_def Beskar7Machine_reach_def Beskar7Machine_DeepCopyInto_def pair_defs)

lemma Beskar7MachineList_copy: "deep_copy Beskar7MachineList_ok Beskar7MachineList_val Beskar7MachineList_reach no_addrs (Beskar7MachineList_DeepCopyInto K)"
  by (rule struct_copy [OF pair_copy [OF ListMeta_copy pointer_copy [OF deep_copy.lists [OF Beskar7Machine_copy] Machines_cell]], where get = "\<lambda>x. (mbl_meta x, mbl_Items x)"
      and put = "\<lambda>(a, b) x. x\<lparr>mbl_meta := a, mbl_Items := b\<rparr>"])
    (auto simp: Beskar7MachineList_ok_def Beskar7MachineList_val_def Beskar7MachineList_reach_def Beskar7MachineList_DeepCopyInto_def pair_defs)

lemma Beskar7MachineTemplate_copy: "deep_copy Beskar7MachineTemplate_ok Beskar7MachineTemplate_val Beskar7MachineTemplate_reach no_addrs (Beskar7MachineTemplate_DeepCopyInto K)"
  by (rule struct_copy [OF pair_copy [OF ObjectMeta_copy Beskar7MachineTemplateSpec_copy], where get = "\<lambda>x. (mtm_meta x, mtm_Spec x)"
      and put = "\<lambda>(a, b) x. x\<lparr>mtm_meta := a, mtm_Spec := b\<rparr>"])
    (auto simp: Beskar7MachineTemplate_ok_def Beskar7MachineTemplate_val_def Beskar7MachineTemplate_reach_def Beskar7MachineTemplate_DeepCopyInto_def pair_defs)

lemma Beskar7MachineTemplateList_copy: "deep_copy Beskar7MachineTemplateList_ok Beskar7MachineTemplateList_val Beskar7MachineTemplateList_reach no_addrs (Beskar7MachineTemplateList_DeepCopyInto K)"
  by (rule struct_copy [OF pair_copy [OF ListMeta_copy pointer_copy [OF deep_copy.lists [OF Beskar7MachineTemplate_copy] Templates_cell]], where get = "\<lambda>x. (mtl_meta x, mtl_Items x)"
      and put = "\<lambda>(a, b) x. x\<lparr>mtl_meta := a, mtl_Items := b\<rparr>"])
    (auto simp: Beskar7MachineTemplateList_ok_def Beskar7MachineTemplateList_val_def Beskar7MachineTemplateList_reach_def Beskar7MachineTemplateList_DeepCopyInto_def pair_defs)

lemma Beskar7Cluster_copy: "deep_copy Beskar7Cluster_ok Beskar7Cluster_val Beskar7Cluster_reach Beskar7Cluster_shared (Beskar7Cluster_DeepCopyInto K)"
  by (rule struct_copy [OF pair_copy [OF ObjectMeta_copy Beskar7ClusterStatus_copy], where get = "\<lambda>x. (mbc_meta x, mbc_Status x)"
      and put = "\<lambda>(a, b) x. x\<lparr>mbc_meta := a, mbc_Status := b\<rparr>"])
    (auto simp: Beskar7Cluster_ok_def Beskar7Cluster_val_def Beskar7Cluster_reach_def Beskar7Cluster_shared_def Beskar7Cluster_DeepCopyInto_def pair_defs Beskar7ClusterSpec_DeepCopyInto_def)

lemma Beskar7ClusterList_copy: "deep_copy Beskar7ClusterList_ok Beskar7ClusterList_val Beskar7ClusterList_reach Beskar7ClusterList_shared (Beskar7ClusterList_DeepCopyInto K)"
  by (rule struct_copy [OF pair_copy [OF ListMeta_copy pointer_copy [OF deep_copy.lists [OF Beskar7Cluster_copy] Clusters_cell]], where get = "\<lambda>x. (mcl_meta x, mcl_Items x)"
      and put = "\<lambda>(a, b) x. x\<lparr>mcl_meta := a, mcl_Items := b\<rparr>"])
    (auto simp: Beskar7ClusterList_ok_def Beskar7ClusterList_val_def Beskar7ClusterList_reach_def Beskar7ClusterList_shared_def Beskar7ClusterList_DeepCopyInto_def pair_defs)

end

section \<open>A reference for the library\<close>

definition ref_k8s :: k8s_copies where
  "ref_k8s =
    \<lparr>ObjectMeta_DeepCopyInto = (\<lambda>x. do {
       labels \<leftarrow> copy_cell StringMapCell at_StringMap (mom_Labels x);
       annotations \<leftarrow> copy_cell StringMapCell at_StringMap (mom_Annotations x);
       finalizers \<leftarrow> copy_cell StringsCell at_Strings (mom_Finalizers x);
       deletion \<leftarrow> copy_cell TimeCell at_Time (mom_DeletionTimestamp x);
       State_Monad.return (x\<lparr>mom_Labels := labels, mom_Annotations := annotations, mom_Finalizers := finalizers,
         mom_DeletionTimestamp := deletion\<rparr>)
     }),
     ListMeta_DeepCopyInto = (\<lambda>x. do {
       remaining \<leftarrow> copy_cell IntCell at_Int (mlm_RemainingItemCount x);
       State_Monad.return (x\<lparr>mlm_RemainingItemCount := remaining\<rparr>)
     }),
     Time_DeepCopyInto = State_Monad.return\<rparr>"

interpretation ref: k8s_library ref_k8s
proof (rule k8s_library.intro)
  show "deep_copy ObjectMeta_ok ObjectMeta_val ObjectMeta_reach no_addrs (ObjectMeta_DeepCopyInto ref_k8s)"
    by (rule struct_copy [OF pair_copy [OF leaf_copy [OF StringMap_cell] pair_copy [OF leaf_copy [OF StringMap_cell]
        pair_copy [OF leaf_copy [OF Strings_cell] leaf_copy [OF Time_cell]]]],
        where get = "\<lambda>x. (mom_Labels x, mom_Annotations x, mom_Finalizers x, mom_DeletionTimestamp x)"
        and put = "\<lambda>(a, b, c, d) x. x\<lparr>mom_Labels := a, mom_Annotations := b, mom_Finalizers := c, mom_DeletionTimestamp := d\<rparr>"])
      (auto simp: ObjectMeta_ok_def ObjectMeta_val_def ObjectMeta_reach_def ref_k8s_def pair_defs)
  show "deep_copy ListMeta_ok ListMeta_val ListMeta_reach no_addrs (ListMeta_DeepCopyInto ref_k8s)"
    by (rule struct_copy [OF leaf_copy [OF Int_cell], where get = mlm_RemainingItemCount and put = "\<lambda>a x. x\<lparr>mlm_RemainingItemCount := a\<rparr>"])
      (auto simp: ListMeta_ok_def ListMeta_val_def ListMeta_reach_def ref_k8s_def)
  show "deep_copy value_ok value_val no_addrs no_addrs (Time_DeepCopyInto ref_k8s)"
    using value_copy by (simp add: ref_k8s_def)
qed

text \<open>The contract holds for the copies of the repository.\<close>

interpretation nic_copy: deep_copy NICInfo_ok NICInfo_val NICInfo_reach no_addrs NICInfo_DeepCopyInto
  by (rule NICInfo_copy)

interpretation connection_copy: deep_copy RedfishConnection_ok RedfishConnection_val RedfishConnection_reach no_addrs RedfishConnection_DeepCopyInto
  by (rule RedfishConnection_copy)

interpretation host_copy: deep_copy_cell PhysicalHost_ok PhysicalHost_val PhysicalHost_reach PhysicalHost_shared "PhysicalHost_DeepCopyInto ref_k8s"
  HostCell is_HostCell at_Host
  by (intro deep_copy_cell.intro ref.PhysicalHost_copy Host_cell)

interpretation machine_copy: deep_copy_cell Beskar7Machine_ok Beskar7Machine_val Beskar7Machine_reach no_addrs "Beskar7Machine_DeepCopyInto ref_k8s"
  MachineCell is_MachineCell at_Machine
  by (intro deep_copy_cell.intro ref.Beskar7Machine_copy Machine_cell)

interpretation template_copy: deep_copy_cell Beskar7MachineTemplate_ok Beskar7MachineTemplate_val Beskar7MachineTemplate_reach no_addrs
  "Beskar7MachineTemplate_DeepCopyInto ref_k8s" TemplateCell is_TemplateCell at_Template
  by (intro deep_copy_cell.intro ref.Beskar7MachineTemplate_copy Template_cell)

interpretation cluster_copy: deep_copy_cell Beskar7Cluster_ok Beskar7Cluster_val Beskar7Cluster_reach Beskar7Cluster_shared "Beskar7Cluster_DeepCopyInto ref_k8s"
  ClusterCell is_ClusterCell at_Cluster
  by (intro deep_copy_cell.intro ref.Beskar7Cluster_copy Cluster_cell)

section \<open>What the copies share\<close>

lemma pointer_copy_run:
  assumes "deep_copy ok val reach shared into" and "cell_kind mk is_cell at_cell"
    and "a < length h" and "cell_at h a = mk x" and "ok h x" and "run_state (new_copy mk at_cell into (Some a)) h = (q, h')"
  shows "\<exists>b y. q = Some b \<and> cell_at h' b = mk y \<and> length h \<le> b \<and> grows h h' \<and> val h' y = val h x \<and> reach h' y \<inter> {..<length h} = shared h x"
proof -
  have k: "at_cell (mk z) = z" for z using assms(2) by (simp add: deep_copy_cell_axioms_def)
  obtain y h1 where 1: "run_state (into x) h = (y, h1)" and g: "grows h h1"
    and c: "\<And>H. grows h1 H \<Longrightarrow> ok H y \<and> val H y = val h x \<and> reach H y \<inter> {..<length h} = shared h x"
    by (rule deep_copy.copy_step [OF assms(1,5) grows_refl]) blast
  have q: "q = Some (length h1)" "h' = h1 @ [mk y]" using assms(6) by (simp_all add: new_copy_def assms(4) k 1)
  have "length h \<le> length h1" using g by (simp add: grows_def)
  then show ?thesis using c [of h'] grows_trans [OF g, of h'] by (intro exI [of _ "length h1"] exI [of _ y]) (simp add: q)
qed

text \<open>
  C39. The copy of a physical host reads the same as the original but is not a deep copy: it has
  in common with the original exactly the flag \<open>InsecureSkipVerify\<close> of the connection and the address
  lists of the inspected network interfaces.
\<close>

theorem PhysicalHost_DeepCopy_shares:
  assumes "k8s_library K" and "a < length h" and "cell_at h a = HostCell x" and "PhysicalHost_ok h x"
    and "run_state (PhysicalHost_DeepCopy K (Some a)) h = (q, h')"
  shows "\<exists>b y. q = Some b \<and> cell_at h' b = HostCell y \<and> length h \<le> b \<and> PhysicalHost_val h' y = PhysicalHost_val h x \<and>
    PhysicalHost_reach h' y \<inter> {..<length h} =
      {c. mrc_InsecureSkipVerify (mps_RedfishConnection (mph_Spec x)) = Some c} \<union>
      {c. \<exists>r s nic. mst_InspectionReport (mph_Status x) = Some r \<and> mir_NICs (at_Report (cell_at h r)) = Some s \<and>
         nic \<in> set (at_NICs (cell_at h s)) \<and> mni_IPAddresses nic = Some c}"
proof -
  have s: "PhysicalHost_shared h x = {c. mrc_InsecureSkipVerify (mps_RedfishConnection (mph_Spec x)) = Some c} \<union>
      {c. \<exists>r s nic. mst_InspectionReport (mph_Status x) = Some r \<and> mir_NICs (at_Report (cell_at h r)) = Some s \<and>
         nic \<in> set (at_NICs (cell_at h s)) \<and> mni_IPAddresses nic = Some c}"
    by (auto simp: PhysicalHost_shared_def PhysicalHostSpec_shared_def PhysicalHostStatus_shared_def InspectionReport_shared_def
        RedfishConnection_reach_def NICInfo_reach_def list_addrs_def ptr_shared_def set_eq_iff split: option.splits)
  show ?thesis
    using pointer_copy_run [OF k8s_library.PhysicalHost_copy [OF assms(1)] Host_cell assms(2-4) assms(5) [unfolded PhysicalHost_DeepCopy_def]]
    unfolding s by blast
qed

text \<open>
  C40. The copy of a machine is independent: it reads the same as the original, and whatever is
  written through any of its addresses, the original still reads the same.
\<close>

theorem Beskar7Machine_copy_independent:
  assumes "k8s_library K" and "Beskar7Machine_ok h x" and "run_state (Beskar7Machine_DeepCopyInto K x) h = (y, h')"
  shows "Beskar7Machine_val h' y = Beskar7Machine_val h x \<and>
    (\<forall>a c. a \<in> Beskar7Machine_reach h' y \<longrightarrow> Beskar7Machine_val (snd (run_state (store a c) h')) x = Beskar7Machine_val h x)"
  using deep_copy.copies [OF k8s_library.Beskar7Machine_copy [OF assms(1)] assms(2,3)]
    deep_copy.independent [OF k8s_library.Beskar7Machine_copy [OF assms(1)] assms(2) _ assms(3)] by simp

text \<open>
  The copy of a cluster reads the same as the original and has in common with it exactly the
  attribute maps of its failure domains.
\<close>

theorem Beskar7Cluster_DeepCopy_shares:
  assumes "k8s_library K" and "a < length h" and "cell_at h a = ClusterCell x" and "Beskar7Cluster_ok h x"
    and "run_state (Beskar7Cluster_DeepCopy K (Some a)) h = (q, h')"
  shows "\<exists>b y. q = Some b \<and> cell_at h' b = ClusterCell y \<and> length h \<le> b \<and> Beskar7Cluster_val h' y = Beskar7Cluster_val h x \<and>
    Beskar7Cluster_reach h' y \<inter> {..<length h} =
      {c. \<exists>m d. mct_FailureDomains (mbc_Status x) = Some m \<and> d \<in> fmran' (at_Domains (cell_at h m)) \<and> mfd_Attributes d = Some c}"
proof -
  have s: "Beskar7Cluster_shared h x =
      {c. \<exists>m d. mct_FailureDomains (mbc_Status x) = Some m \<and> d \<in> fmran' (at_Domains (cell_at h m)) \<and> mfd_Attributes d = Some c}"
    by (auto simp: Beskar7Cluster_shared_def Beskar7ClusterStatus_shared_def FailureDomains_reach_def ptr_shared_def split: option.splits)
  show ?thesis
    using pointer_copy_run [OF k8s_library.Beskar7Cluster_copy [OF assms(1)] Cluster_cell assms(2-4) assms(5) [unfolded Beskar7Cluster_DeepCopy_def]]
    unfolding s by blast
qed

definition sample_host_m :: PhysicalHost_m where
  "sample_host_m = \<lparr>mph_type = \<lparr>tm_Kind = '''', tm_APIVersion = ''''\<rparr>,
     mph_meta = \<lparr>mom_Name = ''host'', mom_Namespace = ''default'', mom_UID = '''', mom_ResourceVersion = '''', mom_Labels = None, mom_Annotations = None,
       mom_Finalizers = None, mom_DeletionTimestamp = None\<rparr>,
     mph_Spec = \<lparr>mps_RedfishConnection = \<lparr>mrc_Address = ''https://bmc'', mrc_CredentialsSecretRef = ''s'', mrc_InsecureSkipVerify = Some 0\<rparr>,
       mps_ConsumerRef = None\<rparr>,
     mph_Status = \<lparr>mst_Ready = False, mst_State = '''', mst_ObservedPowerState = '''', mst_ErrorMessage = '''',
       mst_HardwareDetails = \<lparr>hd_Manufacturer = '''', hd_Model = '''', hd_SerialNumber = '''', hd_Status = \<lparr>hs_Health = '''', hs_HealthRollup = '''', hs_State = ''''\<rparr>\<rparr>,
       mst_Addresses = None, mst_InspectionReport = None, mst_InspectionPhase = '''', mst_InspectionTimestamp = None, mst_Conditions = None\<rparr>\<rparr>"

theorem PhysicalHost_DeepCopy_shares_witness:
  "\<exists>b y. cell_at (snd (run_state (PhysicalHost_DeepCopy ref_k8s (Some 1)) [BoolCell False, HostCell sample_host_m])) b = HostCell y \<and>
     2 \<le> b \<and> 0 \<in> PhysicalHost_reach (snd (run_state (PhysicalHost_DeepCopy ref_k8s (Some 1)) [BoolCell False, HostCell sample_host_m])) y"
proof -
  let ?h = "[BoolCell False, HostCell sample_host_m]"
  have c: "cell_at ?h 1 = HostCell sample_host_m" by (simp add: cell_at_def)
  have w: "PhysicalHost_ok ?h sample_host_m"
    by (simp add: PhysicalHost_ok_def PhysicalHostSpec_ok_def PhysicalHostStatus_ok_def RedfishConnection_ok_def ObjectMeta_ok_def leaf_ok_def
        sample_host_m_def cell_at_def)
  have s: "0 \<in> {c. mrc_InsecureSkipVerify (mps_RedfishConnection (mph_Spec sample_host_m)) = Some c}" by (simp add: sample_host_m_def)
  have l: "1 < length ?h" by simp
  from PhysicalHost_DeepCopy_shares [OF ref.k8s_library_axioms l c w surjective_pairing]
  show ?thesis
  proof (elim exE conjE)
    fix b y
    let ?H = "snd (run_state (PhysicalHost_DeepCopy ref_k8s (Some 1)) ?h)"
    assume b: "cell_at ?H b = HostCell y" "length ?h \<le> b"
      and r: "PhysicalHost_reach ?H y \<inter> {..<length ?h} = {c. mrc_InsecureSkipVerify (mps_RedfishConnection (mph_Spec sample_host_m)) = Some c} \<union>
        {c. \<exists>r s nic. mst_InspectionReport (mph_Status sample_host_m) = Some r \<and> mir_NICs (at_Report (cell_at ?h r)) = Some s \<and>
           nic \<in> set (at_NICs (cell_at ?h s)) \<and> mni_IPAddresses nic = Some c}"
    have "0 \<in> PhysicalHost_reach ?H y \<inter> {..<length ?h}" unfolding r using s by (rule UnI1)
    then have "0 \<in> PhysicalHost_reach ?H y" by (rule IntD1)
    moreover have "2 \<le> b" using b(2) by simp
    ultimately show ?thesis using b(1) by (intro exI conjI)
  qed
qed

definition sample_machine_m :: Beskar7Machine_m where
  "sample_machine_m = \<lparr>mbm_type = \<lparr>tm_Kind = '''', tm_APIVersion = ''''\<rparr>, mbm_meta = mph_meta sample_host_m,
     mbm_Spec = \<lparr>mbs_ProviderID = Some 0, mbs_InspectionImageURL = '''', mbs_TargetImageURL = '''', mbs_ConfigurationURL = '''', mbs_HardwareRequirements = None\<rparr>,
     mbm_Status = \<lparr>mbt_Ready = False, mbt_Phase = None, mbt_FailureReason = None, mbt_FailureMessage = None, mbt_Addresses = None, mbt_Conditions = None\<rparr>\<rparr>"

theorem Beskar7Machine_copy_independent_witness:
  "Beskar7Machine_val (snd (run_state (store 1 (StringCell ''other'')) (snd (run_state (Beskar7Machine_DeepCopyInto ref_k8s sample_machine_m) [StringCell ''b7://ns/host'']))))
     sample_machine_m = Beskar7Machine_val [StringCell ''b7://ns/host''] sample_machine_m"
proof -
  let ?h = "[StringCell ''b7://ns/host'']"
  have w: "Beskar7Machine_ok ?h sample_machine_m"
    by (simp add: Beskar7Machine_ok_def Beskar7MachineSpec_ok_def Beskar7MachineStatus_ok_def ObjectMeta_ok_def leaf_ok_def
        sample_machine_m_def sample_host_m_def cell_at_def)
  have "1 \<in> Beskar7Machine_reach (snd (run_state (Beskar7Machine_DeepCopyInto ref_k8s sample_machine_m) ?h))
      (fst (run_state (Beskar7Machine_DeepCopyInto ref_k8s sample_machine_m) ?h))"
    by (simp add: Beskar7Machine_DeepCopyInto_def Beskar7MachineSpec_DeepCopyInto_def Beskar7MachineStatus_DeepCopyInto_def ref_k8s_def new_copy_def
        sample_machine_m_def sample_host_m_def Beskar7Machine_reach_def Beskar7MachineSpec_reach_def)
  then show ?thesis using Beskar7Machine_copy_independent [OF ref.k8s_library_axioms w surjective_pairing] by blast
qed

definition sample_cluster_m :: Beskar7Cluster_m where
  "sample_cluster_m = \<lparr>mbc_type = \<lparr>tm_Kind = '''', tm_APIVersion = ''''\<rparr>, mbc_meta = mph_meta sample_host_m,
     mbc_Spec = \<lparr>cs_ControlPlaneEndpoint = \<lparr>ep_Host = '''', ep_Port = 0\<rparr>\<rparr>,
     mbc_Status = \<lparr>mct_Ready = False, mct_ControlPlaneEndpoint = \<lparr>ep_Host = '''', ep_Port = 0\<rparr>, mct_FailureDomains = Some 1, mct_Conditions = None\<rparr>\<rparr>"

definition sample_cluster_heap :: heap where
  "sample_cluster_heap = [StringMapCell fmempty, DomainsCell (fmupd ''zone'' \<lparr>mfd_ControlPlane = True, mfd_Attributes = Some 0\<rparr> fmempty),
     ClusterCell sample_cluster_m]"

theorem Beskar7Cluster_DeepCopy_shares_witness:
  "\<exists>b y. cell_at (snd (run_state (Beskar7Cluster_DeepCopy ref_k8s (Some 2)) sample_cluster_heap)) b = ClusterCell y \<and>
     0 \<in> Beskar7Cluster_reach (snd (run_state (Beskar7Cluster_DeepCopy ref_k8s (Some 2)) sample_cluster_heap)) y"
proof -
  let ?d = "\<lparr>mfd_ControlPlane = True, mfd_Attributes = Some 0\<rparr>"
  have l: "2 < length sample_cluster_heap" by (simp add: sample_cluster_heap_def)
  have c: "cell_at sample_cluster_heap 2 = ClusterCell sample_cluster_m" by (simp add: cell_at_def sample_cluster_heap_def)
  have r: "fmran' (fmupd ''zone'' ?d fmempty) = {?d}" by (auto simp: fmlookup_ran'_iff split: if_splits)
  have w: "Beskar7Cluster_ok sample_cluster_heap sample_cluster_m"
    by (simp add: Beskar7Cluster_ok_def Beskar7ClusterStatus_ok_def FailureDomains_ok_def ObjectMeta_ok_def leaf_ok_def r
        sample_cluster_m_def sample_host_m_def cell_at_def sample_cluster_heap_def)
  have "0 \<in> {c. \<exists>m d. mct_FailureDomains (mbc_Status sample_cluster_m) = Some m \<and>
      d \<in> fmran' (at_Domains (cell_at sample_cluster_heap m)) \<and> mfd_Attributes d = Some c}"
    by (auto simp: sample_cluster_m_def cell_at_def r sample_cluster_heap_def)
  note s = this
  from Beskar7Cluster_DeepCopy_shares [OF ref.k8s_library_axioms l c w surjective_pairing]
  show ?thesis
  proof (elim exE conjE)
    fix b y
    let ?H = "snd (run_state (Beskar7Cluster_DeepCopy ref_k8s (Some 2)) sample_cluster_heap)"
    assume b: "cell_at ?H b = ClusterCell y"
      and r: "Beskar7Cluster_reach ?H y \<inter> {..<length sample_cluster_heap} =
        {c. \<exists>m d. mct_FailureDomains (mbc_Status sample_cluster_m) = Some m \<and>
           d \<in> fmran' (at_Domains (cell_at sample_cluster_heap m)) \<and> mfd_Attributes d = Some c}"
    from s have "0 \<in> Beskar7Cluster_reach ?H y" unfolding r [symmetric] by (rule IntD1)
    with b show ?thesis by (intro exI conjI)
  qed
qed

end
