(* ===== verification/HostLifecycle.thy ===== *)
theory HostLifecycle
  imports Beskar7MachineCtl InspectionHandler
begin

text \<open>
  The life of a physical host across the components that write it: the host controller, the machine
  controller and the inspection handler. The specification is a transition system on the consumer, the state and
  the inspection phase of a host, with the steps each component may make. The refinement is one of traces: in the history of an API
  server every write of a component is one of its steps, whatever other clients write in between.
\<close>

section \<open>The specification\<close>

type_synonym life = "ObjectReference option \<times> string \<times> string"

definition life_of :: "PhysicalHost \<Rightarrow> life" where
  "life_of h = (ps_ConsumerRef (ph_Spec h), st_State (ph_Status h), st_InspectionPhase (ph_Status h))"

text \<open>
  The host controller settles the state by the claim, records an error or leaves the three alone; the machine controller
  claims a free host, starts an inspection, ends it with a completed report or a timeout, and releases a host; the handler
  completes the inspection phase.
\<close>

inductive lifecycle :: "component \<Rightarrow> life \<Rightarrow> life \<Rightarrow> bool" where
  keep: "lifecycle HostController x x"
| settle: "lifecycle HostController (r, s, p) (r, next_state (r \<noteq> None) s, p)"
| fail: "lifecycle HostController (r, s, p) (r, StateError, p)"
| claim: "lifecycle MachineController (None, StateAvailable, p) (Some m, StateAvailable, p)"
| inspect: "lifecycle MachineController (r, StateInUse, p) (r, StateInspecting, InspectionPhaseBooting)"
| ready: "lifecycle MachineController (r, StateInspecting, InspectionPhaseComplete) (r, StateReady, InspectionPhaseComplete)"
| timeout: "lifecycle MachineController (r, StateInspecting, p) (r, StateError, InspectionPhaseTimeout)"
| release: "lifecycle MachineController (Some m, s, p) (None, s, p)"
| report: "lifecycle ReportHandler (r, s, p) (r, s, InspectionPhaseComplete)"

inductive_cases lifecycle_cases: "lifecycle c x y"

text \<open>Only the host controller removes a host, and only one that is being deleted.\<close>

definition permitted :: "component \<Rightarrow> PhysicalHost \<Rightarrow> PhysicalHost option \<Rightarrow> bool" where
  "permitted c h v = (case v of
     Some h' \<Rightarrow> lifecycle c (life_of h) (life_of h')
   | None \<Rightarrow> c = HostController \<and> om_DeletionTimestamp (ph_meta h) \<noteq> None)"

text \<open>
  The traces of the specification from the hosts \<open>S\<close>: the components change only hosts that are stored and only as
  they may; what the others do is not restricted.
\<close>

fun lawful :: "host_map \<Rightarrow> history \<Rightarrow> bool" where
  "lawful S [] = True"
| "lawful S ((c, k, v) # D) = ((c = Others \<or> (\<exists>h. S k = Some h \<and> permitted c h v)) \<and> lawful (S(k := v)) D)"

definition by_others :: "history \<Rightarrow> bool" where
  "by_others D \<longleftrightarrow> (\<forall>d \<in> set D. fst d = Others)"

lemma lawful_append: "lawful S (D1 @ D2) \<longleftrightarrow> lawful S D1 \<and> lawful (replay D1 S) D2"
  by (induction D1 arbitrary: S) auto

lemma lawful_others: "by_others D \<Longrightarrow> lawful S D"
  by (induction D arbitrary: S) (auto simp: by_others_def)

lemma by_others_append [simp]: "by_others (D1 @ D2) \<longleftrightarrow> by_others D1 \<and> by_others D2" "by_others []"
  by (auto simp: by_others_def)

section \<open>The API server under interference\<close>

text \<open>
  \<open>log\<close> reads the history off the world and \<open>ok\<close> is the server's own invariant. During a call that writes no host the
  others may make any writes.
\<close>

definition calm :: "('w \<Rightarrow> history) \<Rightarrow> ('w \<Rightarrow> bool) \<Rightarrow> ('w, 'a) io \<Rightarrow> bool" where
  "calm log ok m \<longleftrightarrow> (\<forall>w r w'. ok w \<and> run_state m w = (r, w') \<longrightarrow> ok w' \<and> (\<exists>D. log w' = log w @ D \<and> by_others D))"

text \<open>
  A write of the component \<open>c\<close> under the key \<open>k\<close>, based on the version \<open>v\<close>: it has no effect, or it is applied to the stored
  object if that has the version, with an outcome as \<open>own\<close> says; the others may write before and after it.
\<close>

definition applied :: "('w \<Rightarrow> history) \<Rightarrow> ('w \<Rightarrow> bool) \<Rightarrow> component \<Rightarrow> NamespacedName \<Rightarrow> string \<Rightarrow>
    (PhysicalHost \<Rightarrow> PhysicalHost option \<Rightarrow> bool) \<Rightarrow> 'w \<Rightarrow> 'w \<Rightarrow> bool" where
  "applied log ok c k v own w w' \<longleftrightarrow> ok w' \<and> (\<exists>D1 D D2. log w' = log w @ D1 @ D @ D2 \<and> by_others D1 \<and> by_others D2 \<and>
     (D = [] \<or> (\<exists>h0 x. D = [(c, k, x)] \<and> stored (log w @ D1) k = Some h0 \<and> ph_version h0 = v \<and> own h0 x)))"

text \<open>
  The laws for the component \<open>c\<close>. Reads may be stale: they return a state the object has had. A write keeps what it
  does not carry; an update that leaves an object under deletion without finalizers removes it.
\<close>

locale shared_store =
  fixes E :: "'w env" and log :: "'w \<Rightarrow> history" and ok :: "'w \<Rightarrow> bool" and c :: component
  assumes sound: "ok w \<Longrightarrow> sound_history (log w)"
    and get_calm: "calm log ok (Get_PhysicalHost E k)"
    and get: "ok w \<Longrightarrow> run_state (Get_PhysicalHost E k) w = (Inr h, w') \<Longrightarrow> ph_key h = k \<and> h \<in> past (log w')"
    and list_calm: "calm log ok (List_PhysicalHosts E ns)"
    and listing: "ok w \<Longrightarrow> run_state (List_PhysicalHosts E ns) w = (Inr hs, w') \<Longrightarrow> set hs \<subseteq> past (log w')"
    and update: "ok w \<Longrightarrow> run_state (Update_PhysicalHost E h) w = (u, w') \<Longrightarrow>
      applied log ok c (ph_key h) (ph_version h) (\<lambda>h0 x. case x of None \<Rightarrow> \<not> lasting (ph_meta h)
        | Some h' \<Rightarrow> ph_Spec h' = ph_Spec h \<and> ph_Status h' = ph_Status h0) w w'"
    and status_update: "ok w \<Longrightarrow> run_state (StatusUpdate_PhysicalHost E h) w = (u, w') \<Longrightarrow>
      applied log ok c (ph_key h) (ph_version h) (\<lambda>h0 x. \<exists>h'. x = Some h' \<and> ph_Spec h' = ph_Spec h0 \<and> ph_Status h' = ph_Status h) w w'"
    and now: "calm log ok (Now E)"
    and secret: "calm log ok (Get_Secret E k)"
    and event: "calm log ok (Event_PhysicalHost E h t rs m)"
    and machine: "calm log ok (Get_Beskar7Machine E k)"
    and owner: "calm log ok (GetOwnerMachine E om)"
    and cluster: "calm log ok (GetClusterFromMetadata E om)"
    and patch: "calm log ok (Patch_Beskar7Machine E b b')"

definition calm_client :: "('w \<Rightarrow> history) \<Rightarrow> ('w \<Rightarrow> bool) \<Rightarrow> 'w Client \<Rightarrow> bool" where
  "calm_client log ok C \<longleftrightarrow> calm log ok (GetSystemInfo C) \<and> calm log ok (GetPowerState C) \<and> calm log ok (GetNetworkAddresses C) \<and>
     calm log ok (SetBootSourcePXE C) \<and> (\<forall>s. calm log ok (SetPowerState C s)) \<and> calm log ok (Close C)"

lemma calm_clientD:
  assumes "calm_client log ok C"
  shows "calm log ok (GetSystemInfo C)" "calm log ok (GetPowerState C)" "calm log ok (GetNetworkAddresses C)"
    "calm log ok (SetBootSourcePXE C)" "calm log ok (SetPowerState C s)" "calm log ok (Close C)"
  using assms by (simp_all add: calm_client_def)

locale shared_bmc =
  fixes log :: "'w \<Rightarrow> history" and ok :: "'w \<Rightarrow> bool" and F :: "'w RedfishClientFactory"
  assumes connect: "calm log ok (F a u p i)"
    and calls: "run_state (F a u p i) w = (Inr C, w') \<Longrightarrow> calm_client log ok C"

section \<open>Computations that keep to the specification\<close>

text \<open>
  A computation refines the specification after the reads \<open>H\<close>: when every object of \<open>H\<close> has been stored before, what it appends to the
  history is a trace of the specification.
\<close>

definition refines :: "('w \<Rightarrow> history) \<Rightarrow> ('w \<Rightarrow> bool) \<Rightarrow> PhysicalHost set \<Rightarrow> ('w, 'a) io \<Rightarrow> bool" where
  "refines log ok H m \<longleftrightarrow> (\<forall>w r w'. ok w \<and> H \<subseteq> past (log w) \<and> run_state m w = (r, w') \<longrightarrow>
     ok w' \<and> (\<exists>D. log w' = log w @ D \<and> lawful (stored (log w)) D))"

lemma refinesD:
  assumes "refines log ok H m" and "ok w" and "H \<subseteq> past (log w)" and "run_state m w = (r, w')"
  obtains D where "ok w'" and "log w' = log w @ D" and "lawful (stored (log w)) D"
  using assms unfolding refines_def by blast

lemma refines_calm: "calm log ok m \<Longrightarrow> refines log ok H m"
  unfolding refines_def calm_def by (metis lawful_others)

named_theorems calm_rules \<open>composition rules for calm computations\<close>

lemma calm_return [calm_rules]: "calm log ok (State_Monad.return x)"
  by (simp add: calm_def)

lemma calm_bind [calm_rules]:
  assumes "calm log ok m" and "\<And>r. calm log ok (f r)"
  shows "calm log ok (State_Monad.bind m f)"
  unfolding calm_def
proof (intro allI impI, elim conjE)
  fix w r w'
  assume ok: "ok w" and "run_state (State_Monad.bind m f) w = (r, w')"
  then obtain x v where x: "run_state m w = (x, v)" "run_state (f x) v = (r, w')" by (cases "run_state m w") auto
  from assms(1) ok x(1) obtain D where "ok v" "log v = log w @ D" "by_others D" unfolding calm_def by blast
  moreover from assms(2) \<open>ok v\<close> x(2) obtain D' where "ok w'" "log w' = log v @ D'" "by_others D'" unfolding calm_def by blast
  ultimately show "ok w' \<and> (\<exists>D. log w' = log w @ D \<and> by_others D)" by auto
qed

lemma calm_if [calm_rules]: "(b \<Longrightarrow> calm log ok m) \<Longrightarrow> (\<not> b \<Longrightarrow> calm log ok n) \<Longrightarrow> calm log ok (if b then m else n)"
  by simp

lemma calm_case_sum [calm_rules]:
  "(\<And>e. calm log ok (f e)) \<Longrightarrow> (\<And>v. calm log ok (g v)) \<Longrightarrow> calm log ok (case x of Inl e \<Rightarrow> f e | Inr v \<Rightarrow> g v)"
  by (cases x) auto

lemma calm_case_option [calm_rules]:
  "calm log ok f \<Longrightarrow> (\<And>v. calm log ok (g v)) \<Longrightarrow> calm log ok (case x of None \<Rightarrow> f | Some v \<Rightarrow> g v)"
  by (cases x) auto

lemma calm_case_prod [calm_rules]: "(\<And>a b. calm log ok (f a b)) \<Longrightarrow> calm log ok (case x of (a, b) \<Rightarrow> f a b)"
  by (cases x) auto

lemma refines_return: "refines log ok H (State_Monad.return x)"
  by (rule refines_calm) (rule calm_return)

text \<open>What has been stored before stays so; the result of the first computation may be one more such object.\<close>

lemma refines_bind:
  assumes "refines log ok H m" and "\<And>w r w'. ok w \<Longrightarrow> run_state m w = (r, w') \<Longrightarrow> K r \<subseteq> past (log w')"
    and "\<And>r. refines log ok (H \<union> K r) (f r)"
  shows "refines log ok H (State_Monad.bind m f)"
  unfolding refines_def
proof (intro allI impI, elim conjE)
  fix w r w'
  assume w: "ok w" "H \<subseteq> past (log w)" and "run_state (State_Monad.bind m f) w = (r, w')"
  then obtain x v where x: "run_state m w = (x, v)" "run_state (f x) v = (r, w')" by (cases "run_state m w") auto
  from refinesD [OF assms(1) w x(1)] obtain D where D: "ok v" "log v = log w @ D" "lawful (stored (log w)) D" by blast
  have "H \<union> K x \<subseteq> past (log v)" using w(2) assms(2) [OF w(1) x(1)] D(2) by auto
  from refinesD [OF assms(3) D(1) this x(2)] obtain D' where "ok w'" "log w' = log v @ D'" "lawful (stored (log v)) D'" by blast
  with D show "ok w' \<and> (\<exists>D. log w' = log w @ D \<and> lawful (stored (log w)) D)"
    by (intro conjI exI [of _ "D @ D'"]) (simp_all add: lawful_append stored_append)
qed

lemma refines_seq: "refines log ok H m \<Longrightarrow> (\<And>r. refines log ok H (f r)) \<Longrightarrow> refines log ok H (State_Monad.bind m f)"
  using refines_bind [of log ok H m "\<lambda>_. {}" f] by simp

lemma refines_before: "calm log ok m \<Longrightarrow> (\<And>r. refines log ok H (f r)) \<Longrightarrow> refines log ok H (State_Monad.bind m f)"
  by (rule refines_seq [OF refines_calm])

lemma refines_after: "refines log ok H m \<Longrightarrow> (\<And>r. calm log ok (f r)) \<Longrightarrow> refines log ok H (State_Monad.bind m f)"
  by (rule refines_seq [OF _ refines_calm])

lemma refines_case_sum:
  "(\<And>e. x = Inl e \<Longrightarrow> refines log ok H (f e)) \<Longrightarrow> (\<And>v. x = Inr v \<Longrightarrow> refines log ok H (g v)) \<Longrightarrow>
     refines log ok H (case x of Inl e \<Rightarrow> f e | Inr v \<Rightarrow> g v)"
  by (cases x) auto

lemma refines_case_option:
  "(x = None \<Longrightarrow> refines log ok H f) \<Longrightarrow> (\<And>v. x = Some v \<Longrightarrow> refines log ok H (g v)) \<Longrightarrow>
     refines log ok H (case x of None \<Rightarrow> f | Some v \<Rightarrow> g v)"
  by (cases x) auto

lemma refines_case_prod:
  "(\<And>a b. x = (a, b) \<Longrightarrow> refines log ok H (f a b)) \<Longrightarrow> refines log ok H (case x of (a, b) \<Rightarrow> f a b)"
  by (cases x) auto

lemma refines_if:
  "(b \<Longrightarrow> refines log ok H m) \<Longrightarrow> (\<not> b \<Longrightarrow> refines log ok H n) \<Longrightarrow> refines log ok H (if b then m else n)"
  by simp

lemmas refines_rules = refines_return refines_case_sum refines_case_option refines_case_prod refines_if

context shared_store
begin

lemma get_bind:
  assumes "\<And>e. refines log ok H (f (Inl e))" and "\<And>h. refines log ok (insert h H) (f (Inr h))"
  shows "refines log ok H (State_Monad.bind (Get_PhysicalHost E k) f)"
proof (rule refines_bind [OF refines_calm [OF get_calm], of _ "case_sum (\<lambda>_. {}) (\<lambda>h. {h})"])
  show "refines log ok (H \<union> case_sum (\<lambda>_. {}) (\<lambda>h. {h}) g) (f g)" for g
    using assms by (cases g) simp_all
qed (auto split: sum.splits dest: get)

text \<open>A write based on an object that was read changes that very object.\<close>

lemma refines_write:
  assumes "h0 \<in> H" and "ph_key h = ph_key h0" and "ph_version h = ph_version h0"
    and "\<And>w r w'. ok w \<Longrightarrow> run_state m w = (r, w') \<Longrightarrow> applied log ok c (ph_key h) (ph_version h) own w w'"
    and "\<And>x. lasting (ph_meta h0) \<Longrightarrow> own h0 x \<Longrightarrow> permitted c h0 x"
  shows "refines log ok H m"
  unfolding refines_def
proof (intro allI impI, elim conjE)
  fix w r w'
  assume w: "ok w" and H: "H \<subseteq> past (log w)" and run: "run_state m w = (r, w')"
  from assms(4) [OF w run] obtain D1 D D2 where D: "ok w'" "log w' = log w @ D1 @ D @ D2" "by_others D1" "by_others D2"
      "D = [] \<or> (\<exists>x0 x. D = [(c, ph_key h, x)] \<and> stored (log w @ D1) (ph_key h) = Some x0 \<and> ph_version x0 = ph_version h \<and> own x0 x)"
    unfolding applied_def by blast
  have s: "sound_history (log w @ D1)" using sound [OF D(1)] D(2) sound_history_prefix by (metis append.assoc)
  have p: "h0 \<in> past (log w @ D1)" using H assms(1) by auto
  then have l: "lasting (ph_meta h0)" using s by (auto simp: sound_history_def past_def)
  have "lawful (replay D1 (stored (log w))) D"
    using D(5)
  proof (elim disjE exE conjE)
    fix x0 x
    assume x: "D = [(c, ph_key h, x)]" "stored (log w @ D1) (ph_key h) = Some x0" "ph_version x0 = ph_version h" "own x0 x"
    then have "x0 = h0" using past_is_stored [OF s p] assms(2,3) by simp
    with x assms(5) [OF l] show ?thesis by (simp add: stored_append)
  qed simp
  then have "lawful (stored (log w)) (D1 @ D @ D2)" using D(3,4) by (simp add: lawful_append lawful_others)
  with D(1,2) show "ok w' \<and> (\<exists>D. log w' = log w @ D \<and> lawful (stored (log w)) D)" by blast
qed

lemma status_write:
  assumes "h0 \<in> H" and "ph_meta h = ph_meta h0"
    and "lifecycle c (life_of h0) (ps_ConsumerRef (ph_Spec h0), st_State (ph_Status h), st_InspectionPhase (ph_Status h))"
  shows "refines log ok H (StatusUpdate_PhysicalHost E h)"
  by (rule refines_write [OF assms(1) _ _ status_update])
    (use assms(2,3) in \<open>auto simp: ph_key_def ph_version_def permitted_def life_of_def\<close>)

lemma spec_write:
  assumes "h0 \<in> H" and "ph_meta h = ph_meta h0"
    and "lifecycle c (life_of h0) (ps_ConsumerRef (ph_Spec h), st_State (ph_Status h0), st_InspectionPhase (ph_Status h0))"
  shows "refines log ok H (Update_PhysicalHost E h)"
  by (rule refines_write [OF assms(1) _ _ update])
    (use assms(2,3) in \<open>auto simp: ph_key_def ph_version_def permitted_def life_of_def split: option.splits\<close>)

end

context shared_bmc
begin

lemma connect_bind:
  assumes "\<And>e. refines log ok H (f (Inl e))" and "\<And>C. calm_client log ok C \<Longrightarrow> refines log ok H (f (Inr C))"
  shows "refines log ok H (State_Monad.bind (F a u p i) f)"
  unfolding refines_def
proof (intro allI impI, elim conjE)
  fix w r w'
  assume w: "ok w" "H \<subseteq> past (log w)" and "run_state (State_Monad.bind (F a u p i) f) w = (r, w')"
  then obtain x v where x: "run_state (F a u p i) w = (x, v)" "run_state (f x) v = (r, w')"
    by (cases "run_state (F a u p i) w") auto
  from connect w(1) x(1) obtain D where D: "ok v" "log v = log w @ D" "by_others D" unfolding calm_def by blast
  have "refines log ok H (f x)" using assms calls x(1) by (cases x) auto
  from refinesD [OF this D(1) _ x(2)] w(2) D(2) obtain D' where "ok w'" "log w' = log v @ D'" "lawful (stored (log v)) D'" by auto
  with D show "ok w' \<and> (\<exists>D. log w' = log w @ D \<and> lawful (stored (log w)) D)"
    by (intro conjI exI [of _ "D @ D'"]) (simp_all add: lawful_append stored_append lawful_others)
qed

end

section \<open>The host controller\<close>

locale host_side = shared_store E log ok HostController + shared_bmc log ok F
  for E :: "'w env" and log ok and F :: "'w RedfishClientFactory"
begin

lemma fail_write: "ph \<in> H \<Longrightarrow> refines log ok H (StatusUpdate_PhysicalHost E (ph_fail E ph e rs m))"
  by (rule status_write [of ph]) (simp_all add: life_of_def lifecycle.fail [simplified])

lemma settled_write:
  assumes "ph \<in> H" and "ph_meta h = ph_meta ph" and "ph_Spec h = ph_Spec ph"
    and "st_State (ph_Status h) = st_State (ph_Status ph)" and "st_InspectionPhase (ph_Status h) = st_InspectionPhase (ph_Status ph)"
  shows "refines log ok H (StatusUpdate_PhysicalHost E (ph_settle E h))"
proof (rule status_write [OF assms(1)])
  show "lifecycle HostController (life_of ph)
      (ps_ConsumerRef (ph_Spec ph), st_State (ph_Status (ph_settle E h)), st_InspectionPhase (ph_Status (ph_settle E h)))"
    using lifecycle.settle [of "ps_ConsumerRef (ph_Spec ph)" "st_State (ph_Status ph)" "st_InspectionPhase (ph_Status ph)"] assms(3-5)
    by (simp add: life_of_def ph_settle_state ph_settle_phase claimed_def)
qed (use assms(2) in simp)

text \<open>A write of the finalizers may remove the host, but only when it is being deleted.\<close>

lemma finalizers_write: "ph \<in> H \<Longrightarrow> refines log ok H (Update_PhysicalHost E (ph_set_finalizers fs ph))"
  by (rule refines_write [OF _ _ _ update, of ph])
    (auto simp: ph_set_finalizers_def ph_key_def ph_version_def permitted_def life_of_def lasting_def lifecycle.keep split: option.splits)

lemma connected_refines:
  assumes "ph \<in> H" and "calm_client log ok C"
  shows "refines log ok H (ph_reconcileConnected E ph C)"
  unfolding ph_reconcileConnected_def Let_def
  by (intro refines_rules refines_after [OF fail_write] refines_after [OF settled_write [where ph = ph]] calm_rules assms(1)
      refines_before [OF calm_clientD(1) [OF assms(2)]] refines_before [OF calm_clientD(2) [OF assms(2)]]
      refines_before [OF calm_clientD(3) [OF assms(2)]])
    (auto split: sum.split)

lemma credentials_calm: "calm log ok (getRedfishCredentials E ph)"
  unfolding getRedfishCredentials_def Let_def by (intro calm_rules secret)

lemma host_normal_refines:
  assumes "ph \<in> H" and "pr_Client R = E" and "pr_RedfishClientFactory R \<in> {None, Some F}"
  shows "refines log ok H (ph_reconcileNormal R ph)"
proof -
  have "pr_RedfishClientFactory R = Some factory \<Longrightarrow> factory = F" for factory using assms(3) by auto
  then show ?thesis
    unfolding ph_reconcileNormal_def Let_def assms(2)
    by (intro refines_before [OF credentials_calm] refines_rules refines_after [OF fail_write] calm_rules assms(1))
      (auto intro!: connect_bind refines_rules refines_after [OF fail_write] refines_after [OF connected_refines] calm_rules assms(1)
        calm_clientD(6))
qed

lemma host_delete_refines:
  assumes "ph \<in> H" and "pr_Client R = E"
  shows "refines log ok H (ph_reconcileDelete R ph)"
  unfolding ph_reconcileDelete_def Let_def assms(2)
  by (intro refines_before refines_rules refines_after [OF finalizers_write] calm_rules event assms(1))

lemma host_reconcile_refines:
  assumes "pr_Client R = E" and "pr_RedfishClientFactory R \<in> {None, Some F}"
  shows "refines log ok H (ph_Reconcile R req)"
  unfolding ph_Reconcile_def Let_def assms(1)
  by (intro get_bind refines_rules) (auto intro!: refines_rules refines_after [OF finalizers_write] calm_rules
      host_delete_refines host_normal_refines assms)

end

section \<open>The machine controller\<close>

text \<open>The host that is handed on for handling, not only claimed.\<close>

definition handed_on :: "PhysicalHost option \<times> Result \<times> error option \<Rightarrow> PhysicalHost set" where
  "handed_on found = (case found of (h, r, e) \<Rightarrow> if Result_IsZero r then set_option h else {})"

locale machine_side = shared_store E log ok MachineController + shared_bmc log ok F
  for E :: "'w env" and log ok and F :: "'w RedfishClientFactory"
begin

lemma claim_write:
  assumes "host \<in> H" and "st_State (ph_Status host) = StateAvailable" and "ps_ConsumerRef (ph_Spec host) = None"
  shows "refines log ok H (Update_PhysicalHost E (set_consumer (Some r) host))"
  by (rule spec_write [of host]) (use assms lifecycle.claim in \<open>simp_all add: life_of_def\<close>)

lemma claim_loop_refines: "set hs \<subseteq> H \<Longrightarrow> refines log ok H (claim_loop E b hs)"
proof (induction hs)
  case (Cons h hs)
  then show ?case by (auto intro!: refines_rules refines_after [OF claim_write] calm_rules)
qed (simp add: refines_return)

lemma findAvailable_refines: "refines log ok H (findAvailable E b)"
  unfolding findAvailable_def
proof (rule refines_bind [OF refines_calm [OF list_calm], of _ "case_sum (\<lambda>_. {}) set"])
  show "refines log ok (H \<union> case_sum (\<lambda>_. {}) set l)
      (case l of Inl err \<Rightarrow> State_Monad.return (None, ResultZero, Some err) | Inr items \<Rightarrow> claim_loop E b items)" for l
    by (cases l) (auto intro!: refines_return claim_loop_refines)
qed (auto split: sum.splits dest: listing)

lemma find_refines: "refines log ok H (findAndClaimOrGetAssociatedHost E b)"
  unfolding findAndClaimOrGetAssociatedHost_def
  by (intro refines_rules findAvailable_refines get_bind)

lemma find_past:
  assumes "ok w" and "run_state (findAndClaimOrGetAssociatedHost E b) w = (found, w')"
  shows "handed_on found \<subseteq> past (log w')"
proof -
  have new: "handed_on found = {}" if "run_state (findAvailable E b) v = (found, w')" for v
    using yieldsD [OF findAvailable_not_settled that] by (auto simp: handed_on_def split: prod.splits)
  have named: ?thesis if "run_state (do {
      g \<leftarrow> Get_PhysicalHost E k;
      case g of Inl _ \<Rightarrow> findAvailable E b | Inr host \<Rightarrow> State_Monad.return (Some host, ResultZero, None)
    }) w = (found, w')" for k
  proof -
    obtain g v where g: "run_state (Get_PhysicalHost E k) w = (g, v)" by fastforce
    show ?thesis
    proof (cases g)
      case (Inl err)
      with that g have "run_state (findAvailable E b) v = (found, w')" by simp
      from new [OF this] show ?thesis by simp
    next
      case (Inr host)
      with that g get [OF assms(1)] show ?thesis by (auto simp: handed_on_def)
    qed
  qed
  show ?thesis
    using assms(2) new named unfolding findAndClaimOrGetAssociatedHost_def
    by (cases "bs_ProviderID (bm_Spec b)") (simp_all split: option.splits sum.splits if_splits prod.splits)
qed

lemma inspection_write:
  assumes "host \<in> H" and "st_State (ph_Status host) = StateInUse"
  shows "refines log ok H (StatusUpdate_PhysicalHost E (inspecting_status now host))"
  by (rule status_write [of host])
    (use assms lifecycle.inspect in \<open>simp_all add: life_of_def inspecting_status_def\<close>)

lemma boot_refines:
  assumes "host \<in> H" and "st_State (ph_Status host) = StateInUse" and "calm_client log ok C"
  shows "refines log ok H (inspection_boot E b host C)"
  unfolding inspection_boot_def
  by (intro refines_rules refines_before [OF calm_clientD(4) [OF assms(3)]] refines_before [OF calm_clientD(2) [OF assms(3)]]
      refines_before [OF calm_if [OF calm_clientD(5) [OF assms(3)] calm_return]] refines_before [OF now]
      refines_after [OF inspection_write] calm_rules assms)

lemma client_bind:
  assumes "mr_Client R = E" and "mr_RedfishClientFactory R \<in> {None, Some F}" and "refines log ok H (f None)"
    and "\<And>e. refines log ok H (f (Some (Inl e)))" and "\<And>C. calm_client log ok C \<Longrightarrow> refines log ok H (f (Some (Inr C)))"
  shows "refines log ok H (State_Monad.bind (getRedfishClientForHost R host) f)"
proof -
  have F: "mr_RedfishClientFactory R = Some factory \<Longrightarrow> factory = F" for factory using assms(2) by auto
  have "refines log ok H (State_Monad.bind (case g of
      Inl err \<Rightarrow> State_Monad.return (Some (Inl (wrap_error ''failed to get credentials secret'' err)))
    | Inr secret \<Rightarrow>
        (case mr_RedfishClientFactory R of
           None \<Rightarrow> State_Monad.return None
         | Some factory \<Rightarrow> do {
             c \<leftarrow> factory (rc_Address (ps_RedfishConnection (ph_Spec host)))
               (secret_string secret ''username'') (secret_string secret ''password'') (insecure_setting host);
             State_Monad.return (Some c)
           })) f)" for g
    using assms(3-5) F by (cases g; cases "mr_RedfishClientFactory R") (auto intro!: connect_bind)
  then show ?thesis unfolding getRedfishClientForHost_def assms(1) by (auto intro!: refines_before [OF secret])
qed

lemma trigger_refines:
  assumes "mr_Client R = E" and "mr_RedfishClientFactory R \<in> {None, Some F}"
    and "host \<in> H" and "st_State (ph_Status host) = StateInUse"
  shows "refines log ok H (triggerInspection R b host)"
  unfolding triggerInspection_def
  by (intro client_bind assms(1,2)) (auto simp: assms(1) intro!: refines_return refines_after [OF boot_refines] assms(3,4) calm_rules calm_clientD(6))

lemma ready_write:
  assumes "host \<in> H" and "st_State (ph_Status host) = StateInspecting" and "st_InspectionPhase (ph_Status host) = InspectionPhaseComplete"
  shows "refines log ok H (StatusUpdate_PhysicalHost E (ready_status E host))"
  by (rule status_write [of host])
    (use assms lifecycle.ready in \<open>simp_all add: life_of_def ready_status_def\<close>)

lemma timeout_write:
  assumes "host \<in> H" and "st_State (ph_Status host) = StateInspecting"
  shows "refines log ok H (StatusUpdate_PhysicalHost E (timeout_status d host))"
  by (rule status_write [of host])
    (use assms lifecycle.timeout in \<open>simp_all add: life_of_def timeout_status_def\<close>)

lemma inspecting_refines:
  assumes "host \<in> H" and "st_State (ph_Status host) = StateInspecting"
  shows "refines log ok H (handleInspectingHost E b host)"
proof -
  have "refines log ok H (validateInspectionReport E b host)" if "st_InspectionPhase (ph_Status host) = InspectionPhaseComplete"
    unfolding validateInspectionReport_def
    by (intro refines_rules refines_after [OF ready_write] calm_rules assms that)
  then show ?thesis
    unfolding handleInspectingHost_def Let_def
    by (intro refines_before refines_rules refines_after [OF timeout_write] calm_rules now assms)
qed

lemma state_refines:
  assumes "mr_Client R = E" and "mr_RedfishClientFactory R \<in> {None, Some F}" and "host \<in> H"
  shows "refines log ok H (handlePhysicalHostState R b host)"
  unfolding handlePhysicalHostState_def Let_def assms(1)
  by (intro refines_rules inspecting_refines trigger_refines assms)

lemma machine_normal_refines:
  assumes "mr_Client R = E" and "mr_RedfishClientFactory R \<in> {None, Some F}"
  shows "refines log ok H (bm_reconcileNormal R b)"
  unfolding bm_reconcileNormal_def Let_def assms(1)
  by (intro refines_rules refines_bind [of log ok _ _ handed_on, OF find_refines find_past]) (auto intro!: refines_rules state_refines assms simp: handed_on_def)

lemma release_write:
  assumes "host \<in> H" and "ps_ConsumerRef (ph_Spec host) = Some ref"
  shows "refines log ok H (Update_PhysicalHost E (set_consumer None host))"
  by (rule spec_write [of host]) (use assms lifecycle.release in \<open>simp_all add: life_of_def\<close>)

lemma release_refines: "refines log ok H (release_host E b)"
  unfolding release_host_def
  by (intro refines_rules get_bind) (auto intro!: refines_rules refines_after [OF release_write] calm_rules split: option.split)

lemma machine_delete_refines:
  assumes "mr_Client R = E"
  shows "refines log ok H (bm_reconcileDelete R b)"
  unfolding bm_reconcileDelete_def Let_def assms
  by (intro refines_after [OF release_refines] calm_rules)

lemma machine_reconcile_refines:
  assumes "mr_Client R = E" and "mr_RedfishClientFactory R \<in> {None, Some F}"
  shows "refines log ok H (bm_Reconcile R req)"
proof -
  have exit_calm: "calm log ok (patch_on_exit E b x)" for b x
    unfolding patch_on_exit_def by (intro calm_rules patch)
  show ?thesis
    unfolding bm_Reconcile_def Let_def assms(1)
    by (intro refines_before [OF machine] refines_before [OF owner] refines_before [OF cluster] refines_rules
        refines_after exit_calm machine_delete_refines machine_normal_refines assms)
qed

end

section \<open>The inspection handler\<close>

locale report_side = shared_store E log ok ReportHandler
  for E :: "'w env" and log ok
begin

lemma report_write: "host \<in> H \<Longrightarrow> refines log ok H (StatusUpdate_PhysicalHost E (set_report r host))"
  by (rule status_write [of host]) (simp_all add: life_of_def set_report_def lifecycle.report [simplified])

lemma serve_refines: "refines log ok H (ServeHTTP E meth body)"
proof -
  have "refines log ok H (updatePhysicalHost E req)" for req
    unfolding updatePhysicalHost_def
    by (intro get_bind) (auto intro!: refines_return refines_before [OF now] refines_after [OF report_write] calm_rules)
  then show ?thesis unfolding ServeHTTP_def by (intro refines_rules refines_after calm_rules)
qed

end

section \<open>Runs of the system\<close>

text \<open>
  A step of the system is a call of a component, a reconciliation of either controller for any request or one inspection
  report, with other clients writing meanwhile, or writes of other clients alone. A component that runs at the same time
  as another one counts among its others; the theorems then apply to each of the two calls.
\<close>

inductive system_step :: "'w PhysicalHostReconciler \<Rightarrow> 'w Beskar7MachineReconciler \<Rightarrow> 'w env \<Rightarrow> ('w \<Rightarrow> history) \<Rightarrow> ('w \<Rightarrow> bool) \<Rightarrow> 'w \<Rightarrow> 'w \<Rightarrow> bool"
  for PR MR HE log ok where
  host: "run_state (ph_Reconcile PR req) w = (out, w') \<Longrightarrow> system_step PR MR HE log ok w w'"
| machine: "run_state (bm_Reconcile MR req) w = (out, w') \<Longrightarrow> system_step PR MR HE log ok w w'"
| report: "run_state (ServeHTTP HE meth body) w = (resp, w') \<Longrightarrow> system_step PR MR HE log ok w w'"
| others: "ok w' \<Longrightarrow> log w' = log w @ D \<Longrightarrow> by_others D \<Longrightarrow> system_step PR MR HE log ok w w'"

text \<open>The components as \<open>main\<close> connects them: each with a client of the API server, the controllers with a factory of BMC clients or none.\<close>

definition connected_system ::
  "'w PhysicalHostReconciler \<Rightarrow> 'w Beskar7MachineReconciler \<Rightarrow> 'w env \<Rightarrow> ('w \<Rightarrow> history) \<Rightarrow> ('w \<Rightarrow> bool) \<Rightarrow> 'w RedfishClientFactory \<Rightarrow> bool" where
  "connected_system PR MR HE log ok F \<longleftrightarrow>
     host_side (pr_Client PR) log ok F \<and> pr_RedfishClientFactory PR \<in> {None, Some F} \<and>
     machine_side (mr_Client MR) log ok F \<and> mr_RedfishClientFactory MR \<in> {None, Some F} \<and> report_side HE log ok"

lemma system_step_lawful:
  assumes "connected_system PR MR HE log ok F" and "ok w" and "system_step PR MR HE log ok w w'"
  obtains D where "ok w'" and "log w' = log w @ D" and "lawful (stored (log w)) D"
  using assms(3)
proof cases
  case (host req out)
  have "refines log ok {} (ph_Reconcile PR req)"
    using assms(1) by (auto simp: connected_system_def intro: host_side.host_reconcile_refines)
  from refinesD [OF this assms(2) _ host] that show ?thesis by blast
next
  case (machine req out)
  have "refines log ok {} (bm_Reconcile MR req)"
    using assms(1) by (auto simp: connected_system_def intro: machine_side.machine_reconcile_refines)
  from refinesD [OF this assms(2) _ machine] that show ?thesis by blast
next
  case (report meth body resp)
  have "refines log ok {} (ServeHTTP HE meth body)"
    using assms(1) by (auto simp: connected_system_def intro: report_side.serve_refines)
  from refinesD [OF this assms(2) _ report] that show ?thesis by blast
next
  case (others D)
  with that lawful_others show ?thesis by blast
qed

lemma system_run_lawful:
  assumes "connected_system PR MR HE log ok F" and "ok w" and "(system_step PR MR HE log ok)\<^sup>*\<^sup>* w w'"
  shows "ok w' \<and> (\<exists>D. log w' = log w @ D \<and> lawful (stored (log w)) D)"
  using assms(3)
proof (induction rule: rtranclp_induct)
  case (step y z)
  then obtain D where D: "ok y" "log y = log w @ D" "lawful (stored (log w)) D" by blast
  from system_step_lawful [OF assms(1) D(1) step.hyps(2)] obtain D' where "ok z" "log z = log y @ D'" "lawful (stored (log y)) D'" .
  with D show ?case by (intro conjI exI [of _ "D @ D'"]) (simp_all add: lawful_append stored_append)
qed (use assms(2) in simp)

section \<open>Consequences of the specification\<close>

text \<open>What is removed stays away unless the others create it anew.\<close>

lemma lawful_absent:
  "lawful S D \<Longrightarrow> S k = None \<Longrightarrow> \<forall>v. (Others, k, v) \<notin> set D \<Longrightarrow> replay D S k = None"
proof (induction D arbitrary: S)
  case (Cons d D)
  obtain c k' v where d: "d = (c, k', v)" by (metis prod.exhaust)
  have "k' \<noteq> k"
  proof
    assume "k' = k"
    with Cons.prems d have "c = Others" by auto
    with \<open>k' = k\<close> d Cons.prems(3) show False by auto
  qed
  then have absent: "(S(k' := v)) k = None" using Cons.prems(2) by simp
  have rest: "lawful (S(k' := v)) D" "\<forall>v. (Others, k, v) \<notin> set D" using Cons.prems d by auto
  have "replay D (S(k' := v)) k = None" by (rule Cons.IH [OF rest(1) absent rest(2)])
  with d show ?case by simp
qed simp

text \<open>
  A host that gains a property, without writes of the others to it, gains it by a write of a component, which is one of its steps.
\<close>

lemma lawful_gains:
  assumes "lawful S D" and "S k = Some h" and "\<not> P (life_of h)" and "replay D S k = Some h'" and "P (life_of h')"
    and "\<forall>v. (Others, k, v) \<notin> set D"
  shows "\<exists>D1 c h1 h2 D2. D = D1 @ (c, k, Some h2) # D2 \<and> replay D1 S k = Some h1 \<and>
    lifecycle c (life_of h1) (life_of h2) \<and> \<not> P (life_of h1) \<and> P (life_of h2)"
  using assms(1-4,6)
proof (induction D arbitrary: S h)
  case Nil
  with assms(5) show ?case by simp
next
  case (Cons d D)
  obtain c k' v where d: "d = (c, k', v)" by (metis prod.exhaust)
  have rest: "lawful (S(k' := v)) D" "replay D (S(k' := v)) k = Some h'" "\<forall>v. (Others, k, v) \<notin> set D"
    using Cons.prems d by auto
  show ?case
  proof (cases "k' = k")
    case False
    then have "(S(k' := v)) k = Some h" using Cons.prems(2) by simp
    from Cons.IH [OF rest(1) this Cons.prems(3) rest(2,3)] obtain D1 c' h1 h2 D2 where
        "D = D1 @ (c', k, Some h2) # D2" "replay D1 (S(k' := v)) k = Some h1" "lifecycle c' (life_of h1) (life_of h2)"
        "\<not> P (life_of h1)" "P (life_of h2)" by blast
    then show ?thesis
      by (intro exI [of _ "d # D1"] exI [of _ c'] exI [of _ h1] exI [of _ h2] exI [of _ D2]) (simp add: d)
  next
    case True
    with Cons.prems d have own: "permitted c h v" by auto
    show ?thesis
    proof (cases v)
      case None
      with lawful_absent [OF rest(1) _ rest(3)] rest(2) True show ?thesis by simp
    next
      case (Some h2)
      with own have step: "lifecycle c (life_of h) (life_of h2)" by (simp add: permitted_def)
      show ?thesis
      proof (cases "P (life_of h2)")
        case True
        with step Some d \<open>k' = k\<close> Cons.prems(2,3) show ?thesis
          by (intro exI [of _ "[]"] exI [of _ c] exI [of _ h] exI [of _ h2] exI [of _ D]) simp
      next
        case False
        have "(S(k' := v)) k = Some h2" using True Some by simp
        from Cons.IH [OF rest(1) this False rest(2,3)] obtain D1 c' h1 h3 D2 where
            "D = D1 @ (c', k, Some h3) # D2" "replay D1 (S(k' := v)) k = Some h1" "lifecycle c' (life_of h1) (life_of h3)"
            "\<not> P (life_of h1)" "P (life_of h3)" by blast
        then show ?thesis
          by (intro exI [of _ "d # D1"] exI [of _ c'] exI [of _ h1] exI [of _ h3] exI [of _ D2]) (simp add: d)
      qed
    qed
  qed
qed

lemma lifecycle_gains_consumer:
  "lifecycle c x y \<Longrightarrow> fst y = Some m \<Longrightarrow> fst x \<noteq> Some m \<Longrightarrow> c = MachineController \<and> fst x = None \<and> fst (snd x) = StateAvailable"
  by (erule lifecycle_cases) auto

text \<open>Ready, or inspected with a completed report: what only a report leads to.\<close>

definition inspected :: "life \<Rightarrow> bool" where
  "inspected x \<longleftrightarrow> fst (snd x) = StateReady \<or> fst (snd x) = StateInspecting \<and> snd (snd x) = InspectionPhaseComplete"

lemma next_state_kept: "next_state b s \<in> {StateInspecting, StateReady} \<Longrightarrow> next_state b s = s"
  by (auto simp: next_state_def split: if_splits)

lemma lifecycle_gains_inspected:
  assumes "lifecycle c x y" and "inspected y" and "\<not> inspected x"
  shows "c = ReportHandler \<and> fst (snd x) = StateInspecting \<and> fst (snd y) = StateInspecting"
  using assms(1)
proof cases
  case (settle r s p)
  with assms(2,3) next_state_kept [of "r \<noteq> None" s] show ?thesis by (auto simp: inspected_def)
qed (use assms(2,3) in \<open>auto simp: inspected_def\<close>)

section \<open>The in-memory environment\<close>

text \<open>
  The API server in memory with a history: \<open>mem_env_by c\<close> is the client of the component \<open>c\<close>.
\<close>

definition noted :: "component \<Rightarrow> (PhysicalHost \<Rightarrow> (mem_world, error + PhysicalHost) io) \<Rightarrow> PhysicalHost \<Rightarrow> (mem_world, error + PhysicalHost) io" where
  "noted c m h = State (\<lambda>w. case run_state (m h) w of
     (Inl err, w') \<Rightarrow> (Inl err, w')
   | (Inr h', w') \<Rightarrow> (Inr h', ((fst w')\<lparr>mm_log := mm_log (fst w') @ [(c, ph_key h, mem_hosts w' (ph_key h))]\<rparr>, snd w')))"

definition mem_env_by :: "component \<Rightarrow> mem_world env" where
  "mem_env_by c = mem_env\<lparr>Update_PhysicalHost := noted c (Update_PhysicalHost mem_env),
     StatusUpdate_PhysicalHost := noted c (StatusUpdate_PhysicalHost mem_env)\<rparr>"

definition mem_log :: "mem_world \<Rightarrow> history" where
  "mem_log w = mm_log (fst w)"

definition mem_ok :: "mem_world \<Rightarrow> bool" where
  "mem_ok w \<longleftrightarrow> stored (mem_log w) = mem_hosts w \<and> sound_history (mem_log w) \<and>
     (\<forall>h \<in> past (mem_log w). \<exists>n < mm_version (fst w). ph_version h = show_nat n)"

lemma mem_same_calm:
  assumes "\<And>w r w'. run_state m w = (r, w') \<Longrightarrow> mm_hosts (fst w') = mm_hosts (fst w) \<and> mm_log (fst w') = mm_log (fst w) \<and>
    mm_version (fst w') = mm_version (fst w)"
  shows "calm mem_log mem_ok m"
proof -
  have "mem_log w' = mem_log w \<and> mem_hosts w' = mem_hosts w \<and> mm_version (fst w') = mm_version (fst w)" if "run_state m w = (r, w')" for w r w'
    using assms [OF that] by (simp add: mem_log_def mem_hosts_def [abs_def] stored_hosts_def)
  then show ?thesis unfolding calm_def mem_ok_def by fastforce
qed

lemma mem_past: "mem_ok w \<Longrightarrow> mem_hosts w k = Some h \<Longrightarrow> h \<in> past (mem_log w)"
  using stored_past by (simp add: mem_ok_def)

lemma mem_ok_write:
  assumes "mem_ok w" and "mem_hosts w' = (mem_hosts w)(ph_key h := v)" and "mem_log w' = mem_log w @ [(c, ph_key h, v)]"
    and "mm_version (fst w') = Suc (mm_version (fst w))"
    and "\<And>h'. v = Some h' \<Longrightarrow> ph_key h' = ph_key h \<and> lasting (ph_meta h') \<and> ph_version h' = show_nat (mm_version (fst w))"
  shows "mem_ok w'"
proof -
  have new: "past [(c, ph_key h, v)] = set_option v" by (cases v) (auto simp: past_def)
  have old: "\<And>x. x \<in> past (mem_log w) \<Longrightarrow> \<exists>n < mm_version (fst w). ph_version x = show_nat n" and s: "sound_history (mem_log w)"
    using assms(1) by (auto simp: mem_ok_def)
  have fresh: "ph_version x \<noteq> ph_version h'" if "x \<in> past (mem_log w)" "v = Some h'" for x h'
    using old [OF that(1)] assms(5) [OF that(2)] digits_val_show_nat by (metis less_irrefl)
  have "sound_history (mem_log w')"
    unfolding sound_history_def assms(3) past_append new
  proof (intro conjI allI impI ballI)
    fix c' k x
    assume "(c', k, Some x) \<in> set (mem_log w @ [(c, ph_key h, v)])"
    then show "ph_key x = k" "lasting (ph_meta x)" using s assms(5) by (auto simp: sound_history_def)
  next
    fix x y
    assume "x \<in> past (mem_log w) \<union> set_option v" "y \<in> past (mem_log w) \<union> set_option v" "ph_key x = ph_key y \<and> ph_version x = ph_version y"
    then show "x = y" using s fresh [of x] fresh [of y] by (cases v) (auto simp: sound_history_def)
  qed
  moreover have "\<exists>n < mm_version (fst w'). ph_version x = show_nat n" if "x \<in> past (mem_log w')" for x
  proof -
    from that consider "x \<in> past (mem_log w)" | "v = Some x" unfolding assms(3) past_append new by auto
    then show ?thesis unfolding assms(4) using old [of x] assms(5) [of x] by cases (auto intro: less_SucI)
  qed
  ultimately show ?thesis using assms(1,2,3) by (simp add: mem_ok_def stored_append)
qed

lemma mem_write_applied:
  assumes "mem_ok w" and "run_state (noted c (mem_write merge) h) w = (u, w')"
    and "\<And>h0. ph_key h0 = ph_key h \<Longrightarrow> ph_key (merge h0 h) = ph_key h"
  shows "applied mem_log mem_ok c (ph_key h) (ph_version h) (\<lambda>h0 x. lasting (ph_meta h0) \<and> (case x of
      None \<Rightarrow> \<not> lasting (ph_meta (merge h0 h))
    | Some h' \<Rightarrow> ph_Spec h' = ph_Spec (merge h0 h) \<and> ph_Status h' = ph_Status (merge h0 h))) w w'"
proof (cases "\<exists>h0. mem_hosts w (ph_key h) = Some h0 \<and> ph_version h0 = ph_version h")
  case False
  with assms(2) have "w' = w" by (auto simp: noted_def mem_write_def Let_def split: option.splits if_splits)
  with assms(1) show ?thesis unfolding applied_def by (intro conjI exI [of _ "[]"]) simp_all
next
  case True
  then obtain h0 where h0: "mem_hosts w (ph_key h) = Some h0" "ph_version h0 = ph_version h" by blast
  define h' where "h' = stamp (mm_version (fst w)) (merge h0 h)"
  define v where "v = (if lasting (ph_meta h') then Some h' else None)"
  obtain u1 w1 where run: "run_state (mem_write merge h) w = (u1, w1)" by (rule prod.exhaust)
  have key: "ph_key (merge h0 h) = ph_key h" using mem_hosts_lasting [OF h0(1)] assms(3) by simp
  note w1 = mem_write_store [OF run h0 key h'_def, folded v_def]
  have w': "fst w' = (fst w1)\<lparr>mm_log := mm_log (fst w1) @ [(c, ph_key h, v)]\<rparr>"
    using assms(2) run w1 by (auto simp: noted_def)
  then have "mem_hosts w' = mem_hosts w1" by (simp add: mem_hosts_def [abs_def] stored_hosts_def)
  then have eqs: "mem_hosts w' = (mem_hosts w)(ph_key h := v)" "mem_log w' = mem_log w @ [(c, ph_key h, v)]"
      "mm_version (fst w') = Suc (mm_version (fst w))"
    using w1 w' by (simp_all add: mem_log_def)
  have "mem_ok w'"
    by (rule mem_ok_write [OF assms(1) eqs]) (use key in \<open>auto simp: v_def h'_def ph_key_def ph_version_def stamp_def split: if_splits\<close>)
  moreover have "stored (mem_log w) (ph_key h) = Some h0" using assms(1) h0(1) by (simp add: mem_ok_def)
  ultimately show ?thesis
    unfolding applied_def using eqs(2) h0(2) mem_hosts_lasting [OF h0(1)]
    by (intro conjI exI [of _ "[]"] exI [of _ "[(c, ph_key h, v)]"] disjI2 exI [of _ h0] exI [of _ v])
      (auto simp: v_def h'_def)
qed

lemma applied_mono:
  "applied log ok c k v P w w' \<Longrightarrow> (\<And>h0 x. P h0 x \<Longrightarrow> Q h0 x) \<Longrightarrow> applied log ok c k v Q w w'"
  unfolding applied_def by blast

interpretation mem_shared: shared_store "mem_env_by c" mem_log mem_ok c for c
proof unfold_locales
  show "mem_ok w \<Longrightarrow> sound_history (mem_log w)" for w by (simp add: mem_ok_def)
next
  fix h w u w'
  assume ok: "mem_ok w" and "run_state (Update_PhysicalHost (mem_env_by c) h) w = (u, w')"
  then have "run_state (noted c (mem_write (\<lambda>h0 h. h\<lparr>ph_Status := ph_Status h0\<rparr>)) h) w = (u, w')" by (simp add: mem_env_by_def)
  from mem_write_applied [OF ok this]
  show "applied mem_log mem_ok c (ph_key h) (ph_version h) (\<lambda>h0 x. case x of None \<Rightarrow> \<not> lasting (ph_meta h)
      | Some h' \<Rightarrow> ph_Spec h' = ph_Spec h \<and> ph_Status h' = ph_Status h0) w w'"
    by (rule applied_mono) (auto simp: ph_key_def split: option.splits)
next
  fix h w u w'
  assume ok: "mem_ok w" and "run_state (StatusUpdate_PhysicalHost (mem_env_by c) h) w = (u, w')"
  then have "run_state (noted c (mem_write (\<lambda>h0 h. h0\<lparr>ph_Status := ph_Status h\<rparr>)) h) w = (u, w')" by (simp add: mem_env_by_def)
  from mem_write_applied [OF ok this]
  show "applied mem_log mem_ok c (ph_key h) (ph_version h)
      (\<lambda>h0 x. \<exists>h'. x = Some h' \<and> ph_Spec h' = ph_Spec h0 \<and> ph_Status h' = ph_Status h) w w'"
    by (rule applied_mono) (auto simp: ph_key_def split: option.splits)
next
  fix w k h w'
  assume "mem_ok w" and "run_state (Get_PhysicalHost (mem_env_by c) k) w = (Inr h, w')"
  then show "ph_key h = k \<and> h \<in> past (mem_log w')"
    using mem_past [of w k h] mem_hosts_lasting [of w k h]
    by (auto simp: mem_env_by_def lookup_by_def mem_hosts_def split: option.splits)
next
  fix w ns hs w'
  assume "mem_ok w" and "run_state (List_PhysicalHosts (mem_env_by c) ns) w = (Inr hs, w')"
  then show "set hs \<subseteq> past (mem_log w')"
    using mem_past [of w] by (auto simp: mem_env_by_def list_hosts_def mem_hosts_def)
qed (rule mem_same_calm; auto simp: mem_env_by_def mem_patch_def mem_env_def)+

interpretation mock_shared: shared_bmc mem_log mem_ok mock_factory
proof
  show "calm mem_log mem_ok (mock_factory a u p i)" for a u p i by (rule mem_same_calm) (auto simp: mock_factory_def)
  show "calm_client mem_log mem_ok C" if "run_state (mock_factory a u p i) w = (Inr C, w')" for a u p i w C w'
  proof -
    have "C = mock_client" using that by (simp add: mock_factory_def)
    then show ?thesis unfolding calm_client_def by (intro conjI allI mem_same_calm) (auto simp del: run_on_mock simp: on_mock_def split: prod.splits)
  qed
qed

interpretation mem_host: host_side "mem_env_by HostController" mem_log mem_ok mock_factory
  by unfold_locales

interpretation mem_machine: machine_side "mem_env_by MachineController" mem_log mem_ok mock_factory
  by unfold_locales

interpretation mem_report: report_side "mem_env_by ReportHandler" mem_log mem_ok
  by unfold_locales

section \<open>Properties\<close>

text \<open>
  C1. Refinement: whatever calls of the two controllers and of the inspection handler are made, in whatever order and for
  whatever requests, with reads that may be stale and other clients that write hosts as they like between the API calls, the history of the hosts
  grows by a trace of the specification. Every host write that the API server accepts from a component changes the object stored at that
  moment by a step of this component: the host controller settles the state by the claim, records an error, keeps all
  three or removes a host under deletion; the machine controller claims a host that is available and unconsumed, starts an inspection of one in use, ends
  one as ready after a completed report or with a timeout, or releases a consumed host; the handler completes the inspection phase.
\<close>

theorem system_refines_lifecycle:
  assumes "connected_system PR MR HE log ok F" and "ok w" and "(system_step PR MR HE log ok)\<^sup>*\<^sup>* w w'"
  shows "\<exists>D. log w' = log w @ D \<and> lawful (stored (log w)) D"
  using system_run_lawful [OF assms] by blast

text \<open>
  C6. A host changes hands only when it is free: if a run takes a host of one consumer to a host of another and no other client has
  written it meanwhile, then in the history of the run there is a write of the machine controller that gave the host to the
  new consumer, and the object stored when that write was made was available and had no consumer.
\<close>

theorem host_changes_hands_when_free:
  assumes "connected_system PR MR HE log ok F" and "ok w" and "(system_step PR MR HE log ok)\<^sup>*\<^sup>* w w'"
    and "log w' = log w @ D" and "\<forall>v. (Others, k, v) \<notin> set D"
    and "stored (log w) k = Some h" and "ps_ConsumerRef (ph_Spec h) = Some r"
    and "stored (log w') k = Some h'" and "ps_ConsumerRef (ph_Spec h') = Some r'" and "r' \<noteq> r"
  shows "\<exists>D1 h1 h2 D2. D = D1 @ (MachineController, k, Some h2) # D2 \<and> stored (log w @ D1) k = Some h1 \<and>
    ps_ConsumerRef (ph_Spec h1) = None \<and> st_State (ph_Status h1) = StateAvailable \<and> ps_ConsumerRef (ph_Spec h2) = Some r'"
proof -
  have "lawful (stored (log w)) D" using system_run_lawful [OF assms(1-3)] assms(4) by auto
  moreover have "\<not> fst (life_of h) = Some r'" "fst (life_of h') = Some r'" using assms(7,9,10) by (auto simp: life_of_def)
  moreover have "replay D (stored (log w)) k = Some h'" using assms(4,8) by (simp add: stored_append)
  ultimately obtain D1 c h1 h2 D2 where D: "D = D1 @ (c, k, Some h2) # D2" "replay D1 (stored (log w)) k = Some h1"
      and step: "lifecycle c (life_of h1) (life_of h2)" "fst (life_of h1) \<noteq> Some r'" "fst (life_of h2) = Some r'"
    using lawful_gains [where S = "stored (log w)" and P = "\<lambda>x. fst x = Some r'"] assms(5,6) by blast
  from lifecycle_gains_consumer [OF step(1,3,2)] D step(3) show ?thesis by (auto simp: life_of_def stored_append)
qed

text \<open>
  C7. A host becomes ready only by a report on its inspection: if a run ends with a ready host that was, at its start, neither
  ready nor inspected with a completed report, and no other client has written it meanwhile, then in the history of the run there is a write
  of the inspection handler that completed the inspection phase of this host while it was being inspected.
\<close>

theorem host_ready_after_inspection:
  assumes "connected_system PR MR HE log ok F" and "ok w" and "(system_step PR MR HE log ok)\<^sup>*\<^sup>* w w'"
    and "log w' = log w @ D" and "\<forall>v. (Others, k, v) \<notin> set D"
    and "stored (log w) k = Some h" and "st_State (ph_Status h) \<noteq> StateReady"
    and "st_State (ph_Status h) \<noteq> StateInspecting \<or> st_InspectionPhase (ph_Status h) \<noteq> InspectionPhaseComplete"
    and "stored (log w') k = Some h'" and "st_State (ph_Status h') = StateReady"
  shows "\<exists>D1 h1 h2 D2. D = D1 @ (ReportHandler, k, Some h2) # D2 \<and> stored (log w @ D1) k = Some h1 \<and>
    st_State (ph_Status h1) = StateInspecting \<and> st_State (ph_Status h2) = StateInspecting \<and>
    st_InspectionPhase (ph_Status h2) = InspectionPhaseComplete"
proof -
  have "lawful (stored (log w)) D" using system_run_lawful [OF assms(1-3)] assms(4) by auto
  moreover have "\<not> inspected (life_of h)" "inspected (life_of h')" using assms(7,8,10) by (auto simp: inspected_def life_of_def)
  moreover have "replay D (stored (log w)) k = Some h'" using assms(4,9) by (simp add: stored_append)
  ultimately obtain D1 c h1 h2 D2 where D: "D = D1 @ (c, k, Some h2) # D2" "replay D1 (stored (log w)) k = Some h1"
      and step: "lifecycle c (life_of h1) (life_of h2)" "\<not> inspected (life_of h1)" "inspected (life_of h2)"
    using lawful_gains [where S = "stored (log w)" and P = inspected] assms(5,6) by blast
  from lifecycle_gains_inspected [OF step(1,3,2)] D step(3) show ?thesis by (auto simp: life_of_def stored_append inspected_def)
qed

text \<open>
  Two runs on the in-memory environment. In the first, the machine \<open>m0\<close> is deleted, its host is
  reconciled, and \<open>m1\<close> claims it. In the second, the host of \<open>m1\<close> is booted for inspection, the
  inspection image reports, and the machine is reconciled again.
\<close>

definition host_controller :: "mem_world PhysicalHostReconciler" where
  "host_controller = NewPhysicalHostReconciler (mem_env_by HostController) (Some mock_factory) True"

definition machine_controller :: "mem_world Beskar7MachineReconciler" where
  "machine_controller = \<lparr>mr_Client = mem_env_by MachineController, mr_RedfishClientFactory = Some mock_factory\<rparr>"

definition sample_owner :: Machine where
  "sample_owner = \<lparr>mc_meta = sample_meta ''o1'' [], mc_Addresses = [], mc_Conditions = []\<rparr>"

definition pool_world :: "PhysicalHost list \<Rightarrow> Beskar7Machine list \<Rightarrow> mem_world" where
  "pool_world hs ms = ((fst (sample_world hs [sample_secret]))\<lparr>mm_machines := ms, mm_owner := Some sample_owner,
     mm_cluster := Some \<lparr>cl_meta = sample_meta ''c1'' []\<rparr>, mm_log := map (\<lambda>h. (Others, ph_key h, Some h)) hs\<rparr>, NewMockClient)"

definition after_machine :: "string \<Rightarrow> mem_world \<Rightarrow> mem_world" where
  "after_machine m w = snd (run_state (bm_Reconcile machine_controller (sample_key m)) w)"

definition after_host :: "string \<Rightarrow> mem_world \<Rightarrow> mem_world" where
  "after_host h w = snd (run_state (ph_Reconcile host_controller (sample_key h)) w)"

definition after_report :: "InspectionReportRequest \<Rightarrow> mem_world \<Rightarrow> mem_world" where
  "after_report req w = snd (run_state (ServeHTTP (mem_env_by ReportHandler) ''POST'' (Inr req)) w)"

definition deleted_machine :: Beskar7Machine where
  "deleted_machine = (sample_machine (Some (providerID ''metal'' ''h1'')))
     \<lparr>bm_meta := (sample_meta ''m0'' [Beskar7MachineFinalizer])\<lparr>om_DeletionTimestamp := Some 0\<rparr>\<rparr>"

definition handover_start :: mem_world where
  "handover_start = pool_world [sample_host ''h1'' [PhysicalHostFinalizer] (Some (sample_ref ''m0'')) StateReady]
     [deleted_machine, sample_machine None]"

definition handover_end :: mem_world where
  "handover_end = after_machine ''m1'' (after_host ''h1'' (after_machine ''m0'' handover_start))"

definition inspection_start :: mem_world where
  "inspection_start = pool_world [sample_host ''h1'' [PhysicalHostFinalizer] (Some (sample_ref ''m1'')) StateInUse]
     [sample_machine (Some (providerID ''metal'' ''h1''))]"

definition inspection_end :: mem_world where
  "inspection_end = after_machine ''m1'' (after_report sample_request (after_machine ''m1'' inspection_start))"

abbreviation sample_step :: "mem_world \<Rightarrow> mem_world \<Rightarrow> bool" where
  "sample_step \<equiv> system_step host_controller machine_controller (mem_env_by ReportHandler) mem_log mem_ok"

lemma sample_system_steps:
  "sample_step w (after_machine m w)"
  "sample_step w (after_host h w)"
  "sample_step w (after_report req w)"
  unfolding after_machine_def after_host_def after_report_def
  by (metis prod.collapse system_step.machine, metis prod.collapse system_step.host, metis prod.collapse system_step.report)

lemma sample_runs:
  "sample_step\<^sup>*\<^sup>* handover_start handover_end"
  "sample_step\<^sup>*\<^sup>* inspection_start inspection_end"
  unfolding handover_end_def inspection_end_def
  by (meson sample_system_steps rtranclp.rtrancl_refl rtranclp.rtrancl_into_rtrancl)+

lemma sample_connected:
  "connected_system host_controller machine_controller (mem_env_by ReportHandler) mem_log mem_ok mock_factory"
  using mem_host.host_side_axioms mem_machine.machine_side_axioms mem_report.report_side_axioms
  by (simp add: connected_system_def host_controller_def NewPhysicalHostReconciler_def machine_controller_def)

lemma pool_ok:
  assumes "ph_version h = ''7''" and "lasting (ph_meta h)"
  shows "mem_ok (pool_world [h] ms)"
proof -
  have "show_nat 7 = ''7''" by code_simp
  then have "\<exists>n < 8. ''7'' = show_nat n" by (intro exI [of _ 7]) simp
  with assms show ?thesis
    by (auto simp: mem_ok_def pool_world_def sample_world_def mem_log_def mem_hosts_def [abs_def] stored_hosts_def
        stored_def sound_history_def past_def fun_eq_iff)
qed

lemma sample_starts_ok: "mem_ok handover_start" "mem_ok inspection_start"
  unfolding handover_start_def inspection_start_def
  by (rule pool_ok; simp add: sample_host_def sample_meta_def ph_version_def lasting_def)+

lemma sample_pid: "parseProviderID (providerID ''metal'' ''h1'') = Inr (''metal'', ''h1'')" "providerID ''metal'' ''h1'' \<noteq> []"
  by (simp_all add: parseProviderID_def providerID_def ProviderIDPrefix_def)

lemmas run_eval = after_machine_def after_host_def after_report_def pool_world_def sample_owner_def deleted_machine_def
  bm_Reconcile_def bm_reconcileNormal_def bm_reconcileDelete_def release_host_def patch_on_exit_def machine_controller_def
  host_controller_def mem_env_by_def noted_def mem_log_def
  machine_eval sample_pid isPaused_def isClusterPaused_def bm_set_finalizers_def bm_GetConditions_def bm_SetConditions_def

lemma handover_run:
  "map_option (\<lambda>h. ps_ConsumerRef (ph_Spec h)) (mem_hosts handover_start (sample_key ''h1'')) = Some (Some (sample_ref ''m0''))"
  "map_option (\<lambda>h. ps_ConsumerRef (ph_Spec h)) (mem_hosts handover_end (sample_key ''h1'')) = Some (Some (sample_ref ''m1''))"
  "map fst (mem_log handover_start) = [Others]"
  "map fst (mem_log handover_end) = [Others, MachineController, HostController, MachineController]"
  by (simp_all add: handover_start_def handover_end_def run_eval ph_eval sample_defs mem_eval)

lemma no_time_passed: "\<not> DefaultInspectionTimeout < time_Sub 0 0"
  using DefaultInspectionTimeout_bounds by (simp add: DefaultInspectionTimeout_def time_Sub_def)

lemma inspection_run:
  "map_option (\<lambda>h. st_State (ph_Status h)) (mem_hosts inspection_start (sample_key ''h1'')) = Some StateInUse"
  "map_option (\<lambda>h. st_State (ph_Status h)) (mem_hosts inspection_end (sample_key ''h1'')) = Some StateReady"
  "map fst (mem_log inspection_start) = [Others]"
  "map fst (mem_log inspection_end) = [Others, MachineController, ReportHandler, MachineController]"
  by (simp_all add: inspection_start_def inspection_end_def run_eval handlePhysicalHostState_def triggerInspection_def
      getRedfishClientForHost_def inspection_boot_def inspecting_status_def handleInspectingHost_def validateInspectionReport_def
      ready_status_def secret_string_def handler_eval no_time_passed ph_eval sample_defs mem_eval)

text \<open>The writes of a run, and the stored hosts at its ends.\<close>

lemma sample_run_log:
  assumes "sample_step\<^sup>*\<^sup>* w w'" and "mem_ok w" and "map fst (mem_log w) = cs" and "map fst (mem_log w') = cs @ ds"
  obtains D where "mem_log w' = mem_log w @ D" and "map fst D = ds" and "stored (mem_log w) = mem_hosts w" and "stored (mem_log w') = mem_hosts w'"
  using system_run_lawful [OF sample_connected assms(2,1)] assms(2-4) by (auto simp: mem_ok_def)

lemma not_others: "Others \<notin> set (map fst D) \<Longrightarrow> (Others, k, v) \<notin> set D"
  by force

theorem system_refines_lifecycle_witness:
  "\<exists>D. mem_log inspection_end = mem_log inspection_start @ D \<and> lawful (stored (mem_log inspection_start)) D \<and>
     map fst D = [MachineController, ReportHandler, MachineController] \<and>
     map_option (\<lambda>h. st_State (ph_Status h)) (mem_hosts inspection_end (sample_key ''h1'')) = Some StateReady"
proof -
  obtain D where D: "mem_log inspection_end = mem_log inspection_start @ D" "lawful (stored (mem_log inspection_start)) D"
    using system_refines_lifecycle [OF sample_connected sample_starts_ok(2) sample_runs(2)] by blast
  with inspection_run(3,4) have "map fst D = [MachineController, ReportHandler, MachineController]" by simp
  with D inspection_run(2) show ?thesis by (intro exI [of _ D] conjI)
qed

theorem host_changes_hands_when_free_witness:
  "\<exists>D1 h1 h2 D2. mem_log handover_end = mem_log handover_start @ D1 @ (MachineController, sample_key ''h1'', Some h2) # D2 \<and>
     stored (mem_log handover_start @ D1) (sample_key ''h1'') = Some h1 \<and> ps_ConsumerRef (ph_Spec h1) = None \<and>
     st_State (ph_Status h1) = StateAvailable \<and> ps_ConsumerRef (ph_Spec h2) = Some (sample_ref ''m1'')"
proof -
  have "map fst (mem_log handover_end) = [Others] @ [MachineController, HostController, MachineController]" using handover_run(4) by simp
  from sample_run_log [OF sample_runs(1) sample_starts_ok(1) handover_run(3) this] obtain D where
      D: "mem_log handover_end = mem_log handover_start @ D" "map fst D = [MachineController, HostController, MachineController]"
      and st: "stored (mem_log handover_start) = mem_hosts handover_start" "stored (mem_log handover_end) = mem_hosts handover_end" .
  obtain h h' where h: "mem_hosts handover_start (sample_key ''h1'') = Some h" "ps_ConsumerRef (ph_Spec h) = Some (sample_ref ''m0'')"
      "mem_hosts handover_end (sample_key ''h1'') = Some h'" "ps_ConsumerRef (ph_Spec h') = Some (sample_ref ''m1'')"
    using handover_run by (meson map_option_eq_Some)
  have "\<forall>v. (Others, sample_key ''h1'', v) \<notin> set D" using D(2) by (intro allI not_others) simp
  from host_changes_hands_when_free [OF sample_connected sample_starts_ok(1) sample_runs(1) D(1) this, of h "sample_ref ''m0''" h' "sample_ref ''m1''"]
    h st D(1)
  show ?thesis by (fastforce simp: sample_ref_def)
qed

theorem host_ready_after_inspection_witness:
  "\<exists>D1 h1 h2 D2. mem_log inspection_end = mem_log inspection_start @ D1 @ (ReportHandler, sample_key ''h1'', Some h2) # D2 \<and>
     stored (mem_log inspection_start @ D1) (sample_key ''h1'') = Some h1 \<and> st_State (ph_Status h1) = StateInspecting \<and>
     st_InspectionPhase (ph_Status h2) = InspectionPhaseComplete"
proof -
  have "map fst (mem_log inspection_end) = [Others] @ [MachineController, ReportHandler, MachineController]" using inspection_run(4) by simp
  from sample_run_log [OF sample_runs(2) sample_starts_ok(2) inspection_run(3) this] obtain D where
      D: "mem_log inspection_end = mem_log inspection_start @ D" "map fst D = [MachineController, ReportHandler, MachineController]"
      and st: "stored (mem_log inspection_start) = mem_hosts inspection_start" "stored (mem_log inspection_end) = mem_hosts inspection_end" .
  obtain h h' where h: "mem_hosts inspection_start (sample_key ''h1'') = Some h" "st_State (ph_Status h) = StateInUse"
      "mem_hosts inspection_end (sample_key ''h1'') = Some h'" "st_State (ph_Status h') = StateReady"
    using inspection_run by (meson map_option_eq_Some)
  have "\<forall>v. (Others, sample_key ''h1'', v) \<notin> set D" using D(2) by (intro allI not_others) simp
  from host_ready_after_inspection [OF sample_connected sample_starts_ok(2) sample_runs(2) D(1) this, of h h'] h st D(1)
  show ?thesis by fastforce
qed

end
