(* ===== verification/QueueProgress.thy ===== *)
theory QueueProgress
  imports ProvisioningQueue
begin

text \<open>
  Progress of \<open>internal/coordination/provisioning_queue.go\<close>: the loop of one worker as a function of
  what wakes it, that it makes steps of the queue's transition system only, that it empties the
  queue, and that a caller waiting for a permit gets it.
\<close>

section \<open>The worker loop\<close>

text \<open>
  One tick of a worker: the clock readings at the scan of the queue, around the operation and at the
  completion, whether the parent context is done by then, and the choice of the final \<open>select\<close>
  among its ready branches.
\<close>

record tick =
  tk_taken :: Time
  tk_started :: Time
  tk_ended :: Time
  tk_completed :: Time
  tk_parent_done :: bool
  tk_choice :: nat

datatype wakeup = Ticker tick | StopCh | ContextCanceled

definition processRequest :: "ref \<Rightarrow> tick \<Rightarrow> ProvisioningQueue \<Rightarrow> ProvisioningQueue" where
  "processRequest r k pq =
    (let result = process_result (pq_heap pq r) (tk_started k) (tk_ended k);
         pq1 = finish_section r (tk_ended k) pq;
         req = pq_heap pq1 r;
         ready = send_ready req (context_done req (tk_parent_done k) (tk_completed k))
     in complete_request r result (tk_completed k) (ready ! (tk_choice k mod length ready)) pq1)"

definition worker_tick :: "tick \<Rightarrow> ProvisioningQueue \<Rightarrow> ProvisioningQueue" where
  "worker_tick k pq = (case getNextRequest (\<lambda>_. tk_taken k) (tk_taken k) pq of
     (None, pq') \<Rightarrow> pq' | (Some r, pq') \<Rightarrow> processRequest r k pq')"

fun worker :: "wakeup list \<Rightarrow> ProvisioningQueue \<Rightarrow> ProvisioningQueue" where
  "worker [] pq = pq"
| "worker (Ticker k # es) pq = worker es (worker_tick k pq)"
| "worker (StopCh # es) pq = pq"
| "worker (ContextCanceled # es) pq = pq"

section \<open>Ticks as steps\<close>

lemma send_ready_nonempty: "send_ready req d \<noteq> []"
  by (simp add: send_ready_def Let_def)

lemma worker_tick_steps:
  assumes "i < length (sy_workers s)" and "sy_workers s ! i = Idle"
    and "sy_now s \<le> tk_taken k" and "tk_taken k \<le> tk_ended k" and "tk_ended k \<le> tk_completed k"
  shows "worker_step\<^sup>*\<^sup>* s (s\<lparr>sy_pq := worker_tick k (sy_pq s), sy_now := tk_completed k\<rparr>)"
proof -
  obtain x pq' where g: "getNextRequest (\<lambda>_. tk_taken k) (tk_taken k) (sy_pq s) = (x, pq')" by fastforce
  show ?thesis
  proof (cases x)
    case None
    then have "pq' = sy_pq s" using g by (auto simp: getNextRequest_def split: if_splits option.splits)
    with None g have "worker_tick k (sy_pq s) = sy_pq s" by (simp add: worker_tick_def)
    with worker_step.tick [of s "tk_completed k"] assms(3-5) show ?thesis by auto
  next
    case (Some r)
    let ?result = "process_result (pq_heap pq' r) (tk_started k) (tk_ended k)" and ?pq1 = "finish_section r (tk_ended k) pq'"
    let ?ready = "send_ready (pq_heap ?pq1 r) (context_done (pq_heap ?pq1 r) (tk_parent_done k) (tk_completed k))"
    let ?s1 = "s\<lparr>sy_now := tk_taken k\<rparr>"
    let ?s2 = "?s1\<lparr>sy_pq := pq', sy_workers := (sy_workers s)[i := Processing r]\<rparr>"
    let ?s3 = "?s2\<lparr>sy_now := tk_ended k\<rparr>"
    let ?s4 = "?s3\<lparr>sy_pq := ?pq1, sy_workers := (sy_workers s)[i := Completing r ?result]\<rparr>"
    let ?s5 = "?s4\<lparr>sy_now := tk_completed k\<rparr>"
    let ?s6 = "?s5\<lparr>sy_pq := worker_tick k (sy_pq s), sy_workers := sy_workers s\<rparr>"
    have same: "(sy_workers s)[i := Idle] = sy_workers s" using assms(2) by (metis list_update_id)
    have "worker_step s ?s1" "worker_step ?s2 ?s3" "worker_step ?s4 ?s5"
      by (rule worker_step.tick; use assms(3-5) in simp)+
    moreover have "worker_step ?s1 ?s2"
      using worker_step.take [of i ?s1 r pq'] assms(1,2) g Some by simp
    moreover have "worker_step ?s3 ?s4"
      using worker_step.finish [of i ?s3 r ?result "tk_started k"] assms(1) by simp
    moreover have "worker_step ?s5 ?s6"
      using worker_step.complete [of i ?s5 r ?result "?ready ! (tk_choice k mod length ?ready)" "tk_parent_done k"] assms(1,2)
        send_ready_nonempty g Some
      by (simp add: worker_tick_def processRequest_def Let_def same)
    ultimately have "worker_step\<^sup>*\<^sup>* s ?s6" by (meson converse_rtranclp_into_rtranclp rtranclp.rtrancl_refl)
    then show ?thesis by (cases s) simp
  qed
qed

lemma worker_steps:
  assumes "i < length (sy_workers s)" and "sy_workers s ! i = Idle"
    and "sorted (sy_now s # concat (map (\<lambda>k. [tk_taken k, tk_ended k, tk_completed k]) ks))"
  shows "\<exists>t. worker_step\<^sup>*\<^sup>* s (s\<lparr>sy_pq := worker (map Ticker ks) (sy_pq s), sy_now := t\<rparr>)"
  using assms
proof (induction ks arbitrary: s)
  case Nil
  have "s\<lparr>sy_pq := worker (map Ticker []) (sy_pq s), sy_now := sy_now s\<rparr> = s" by simp
  then show ?case by (metis rtranclp.rtrancl_refl)
next
  case (Cons k ks)
  let ?s = "s\<lparr>sy_pq := worker_tick k (sy_pq s), sy_now := tk_completed k\<rparr>"
  have "worker_step\<^sup>*\<^sup>* s ?s" using Cons.prems by (intro worker_tick_steps [of i]) simp_all
  moreover obtain t where "worker_step\<^sup>*\<^sup>* ?s (?s\<lparr>sy_pq := worker (map Ticker ks) (sy_pq ?s), sy_now := t\<rparr>)"
    using Cons.IH [of ?s] Cons.prems by auto
  ultimately show ?case by (intro exI [of _ t]) (auto intro: rtranclp_trans)
qed

section \<open>The queue empties\<close>

lemma worker_tick_none:
  assumes "fst (getNextRequest (\<lambda>_. tk_taken k) (tk_taken k) pq) = None"
  shows "worker_tick k pq = pq"
  using assms by (auto simp: worker_tick_def getNextRequest_def split: if_splits option.splits)

lemma count_after_slot: "fcard (fmdom (fmdrop h (fmupd h r m))) \<le> fcard (fmdom m)"
  by (intro fcard_mono) auto

text \<open>What a tick that takes a request does.\<close>

lemma worker_tick_some:
  assumes "fst (getNextRequest (\<lambda>_. tk_taken k) (tk_taken k) pq) = Some r"
  shows "\<exists>before after. pq_queue pq = before @ r # after \<and> pq_queue (worker_tick k pq) = before @ after"
    and "pq_bmcCooldownPeriod (worker_tick k pq) = pq_bmcCooldownPeriod pq"
    and "pq_maxConcurrentOps (worker_tick k pq) = pq_maxConcurrentOps pq"
    and "processing_count (worker_tick k pq) \<le> processing_count pq"
    and "pq_lastBMCOperation (worker_tick k pq) = (pq_lastBMCOperation pq)(bmcAddress (pv_Host (pq_heap pq r)) \<mapsto> tk_ended k)"
    and "pv_CompletedAt (pq_heap (worker_tick k pq) r) = Some (tk_completed k)"
    and "x \<noteq> r \<Longrightarrow> pv_CompletedAt (pq_heap (worker_tick k pq) x) = pv_CompletedAt (pq_heap pq x)"
proof -
  from assms obtain rest where n: "next_scan pq (\<lambda>_. tk_taken k) [] (pq_queue pq) = Some (r, rest)"
      and pq': "getNextRequest (\<lambda>_. tk_taken k) (tk_taken k) pq = (Some r, heap_update r (\<lambda>req. req\<lparr>pv_StartedAt := Some (tk_taken k)\<rparr>)
            (pq\<lparr>pq_queue := rest, pq_processing := fmupd (hostName (pv_Host (pq_heap pq r))) r (pq_processing pq)\<rparr>))"
    by (auto simp: getNextRequest_def split: if_splits option.splits)
  note defs = worker_tick_def pq' processRequest_def Let_def complete_request_def finish_section_def heap_update_def
  show "\<exists>before after. pq_queue pq = before @ r # after \<and> pq_queue (worker_tick k pq) = before @ after"
    using next_scan_split [OF n] by (auto simp: defs)
  show "processing_count (worker_tick k pq) \<le> processing_count pq"
    using count_after_slot by (simp add: defs processing_count_def del: fmdrop_fmupd)
  show "pq_bmcCooldownPeriod (worker_tick k pq) = pq_bmcCooldownPeriod pq"
    "pq_maxConcurrentOps (worker_tick k pq) = pq_maxConcurrentOps pq"
    "pq_lastBMCOperation (worker_tick k pq) = (pq_lastBMCOperation pq)(bmcAddress (pv_Host (pq_heap pq r)) \<mapsto> tk_ended k)"
    "pv_CompletedAt (pq_heap (worker_tick k pq) r) = Some (tk_completed k)"
    "x \<noteq> r \<Longrightarrow> pv_CompletedAt (pq_heap (worker_tick k pq) x) = pv_CompletedAt (pq_heap pq x)"
    by (simp_all add: defs)
qed

text \<open>
  The pace of the ticks: in time order, and every \<open>n\<close> ticks cover the cooldown, counted from \<open>t0\<close> and
  from the end of every tick.
\<close>

definition paced :: "nat \<Rightarrow> Time \<Rightarrow> tick list \<Rightarrow> bool" where
  "paced n t0 ks \<longleftrightarrow> 0 < n \<and> (n \<le> length ks \<longrightarrow> t0 + 10 * second \<le> tk_taken (ks ! (n - 1))) \<and>
     (\<forall>j. j + n < length ks \<longrightarrow> tk_ended (ks ! j) + 10 * second \<le> tk_taken (ks ! (j + n))) \<and>
     sorted (t0 # map tk_ended ks)"

definition rested :: "Time \<Rightarrow> ProvisioningQueue \<Rightarrow> bool" where
  "rested t0 pq \<longleftrightarrow> pq_bmcCooldownPeriod pq = 10 * second \<and> int (processing_count pq) < sint (pq_maxConcurrentOps pq) \<and>
     (\<forall>a t. pq_lastBMCOperation pq a = Some t \<longrightarrow> t \<le> t0)"

lemma take_when_rested:
  assumes "rested t0 pq" and "t0 + 10 * second \<le> now" and "pq_queue pq \<noteq> []"
  shows "fst (getNextRequest (\<lambda>_. now) now pq) \<noteq> None"
proof -
  have "cooled_down pq a now" for a
    unfolding cooled_down_exact [OF assms(1) [unfolded rested_def, THEN conjunct1]] using assms(1,2) by (force simp: rested_def)
  then have "next_scan pq (\<lambda>_. now) [] (pq_queue pq) \<noteq> None" using assms(3) by (cases "pq_queue pq") simp_all
  then show ?thesis using assms(1) by (auto simp: getNextRequest_def rested_def)
qed

lemma rested_tick:
  assumes "rested t0 pq" and "t0 \<le> tk_ended k" and "fst (getNextRequest (\<lambda>_. tk_taken k) (tk_taken k) pq) = Some r"
  shows "rested (tk_ended k) (worker_tick k pq)"
  using assms(1,2) worker_tick_some(2-5) [OF assms(3)] by (force simp: rested_def)

lemma worker_tick_empty: "pq_queue pq = [] \<Longrightarrow> worker_tick k pq = pq"
  by (rule worker_tick_none) (simp add: getNextRequest_def)

lemma worker_empty: "pq_queue pq = [] \<Longrightarrow> worker (map Ticker ks) pq = pq"
  by (induction ks) (simp_all add: worker_tick_empty)

lemma worker_tick_completed:
  "pv_CompletedAt (pq_heap pq x) \<noteq> None \<Longrightarrow> pv_CompletedAt (pq_heap (worker_tick k pq) x) \<noteq> None"
  by (cases "fst (getNextRequest (\<lambda>_. tk_taken k) (tk_taken k) pq)")
    (simp_all add: worker_tick_none, metis worker_tick_some(6,7) option.distinct(1) option.exhaust)

lemma worker_completed:
  "pv_CompletedAt (pq_heap pq x) \<noteq> None \<Longrightarrow> pv_CompletedAt (pq_heap (worker (map Ticker ks) pq) x) \<noteq> None"
proof (induction ks arbitrary: pq)
  case (Cons k ks)
  from Cons.IH [OF worker_tick_completed [OF Cons.prems]] show ?case by simp
qed simp

text \<open>The induction: \<open>m\<close> more ticks at most pass before one takes a request.\<close>

lemma worker_drains:
  assumes "rested t0 pq" and "0 < m" and "m \<le> n"
    and "m \<le> length ks \<longrightarrow> t0 + 10 * second \<le> tk_taken (ks ! (m - 1))"
    and "\<And>j. j + n < length ks \<Longrightarrow> tk_ended (ks ! j) + 10 * second \<le> tk_taken (ks ! (j + n))"
    and "sorted (t0 # map tk_ended ks)" and "pq_queue pq \<noteq> [] \<Longrightarrow> m + n * (length (pq_queue pq) - 1) \<le> length ks"
  shows "pq_queue (worker (map Ticker ks) pq) = [] \<and>
    (\<forall>r \<in> set (pq_queue pq). pv_CompletedAt (pq_heap (worker (map Ticker ks) pq) r) \<noteq> None)"
  using assms
proof (induction ks arbitrary: pq t0 m)
  case Nil
  then show ?case by (cases "pq_queue pq") auto
next
  case (Cons k ks)
  show ?case
  proof (cases "pq_queue pq = []")
    case True
    then show ?thesis using worker_empty [of pq "k # ks"] by simp
  next
    case False
    have spaced: "\<And>j. j + n < length ks \<Longrightarrow> tk_ended (ks ! j) + 10 * second \<le> tk_taken (ks ! (j + n))"
      using Cons.prems(5) [of "Suc _"] by simp
    have enough: "m + n * (length (pq_queue pq) - 1) \<le> Suc (length ks)" using Cons.prems(7) [OF False] by simp
    show ?thesis
    proof (cases "fst (getNextRequest (\<lambda>_. tk_taken k) (tk_taken k) pq)")
      case None
      then have "m \<noteq> 1" using take_when_rested [OF Cons.prems(1) _ False, of "tk_taken k"] Cons.prems(4) by auto
      with Cons.prems(2) have m: "0 < m - 1" "m - 1 \<le> n" "m = Suc (m - 1)" using Cons.prems(3) by auto
      have "m - 1 \<le> length ks \<longrightarrow> t0 + 10 * second \<le> tk_taken (ks ! (m - 1 - 1))"
        using Cons.prems(4) m(1) by (simp add: nth_Cons')
      from Cons.IH [OF Cons.prems(1) m(1,2) this spaced] Cons.prems(6) enough m(3) worker_tick_none [OF None]
      show ?thesis by simp
    next
      case (Some r)
      from worker_tick_some(1) [OF Some] obtain before after
        where q: "pq_queue pq = before @ r # after" "pq_queue (worker_tick k pq) = before @ after" by blast
      have "n \<le> length ks \<longrightarrow> tk_ended k + 10 * second \<le> tk_taken (ks ! (n - 1))"
        using Cons.prems(5) [of 0] Cons.prems(2,3) by (simp add: nth_Cons')
      moreover have "n + n * (length (pq_queue (worker_tick k pq)) - 1) \<le> length ks"
        if "pq_queue (worker_tick k pq) \<noteq> []"
      proof -
        have "n + n * (length (pq_queue (worker_tick k pq)) - 1) = n * (length (pq_queue pq) - 1)"
          using that by (cases "length before + length after") (auto simp: q)
        with enough Cons.prems(2) show ?thesis by linarith
      qed
      moreover have "rested (tk_ended k) (worker_tick k pq)" using rested_tick [OF Cons.prems(1) _ Some] Cons.prems(6) by simp
      ultimately have IH: "pq_queue (worker (map Ticker ks) (worker_tick k pq)) = [] \<and>
          (\<forall>r \<in> set (before @ after). pv_CompletedAt (pq_heap (worker (map Ticker ks) (worker_tick k pq)) r) \<noteq> None)"
        using Cons.IH [of "tk_ended k" "worker_tick k pq" n] Cons.prems(2,3,6) spaced unfolding q(2) by auto
      moreover have "pv_CompletedAt (pq_heap (worker (map Ticker ks) (worker_tick k pq)) r) \<noteq> None"
        by (rule worker_completed) (simp add: worker_tick_some(6) [OF Some])
      ultimately show ?thesis by (auto simp: q(1))
    qed
  qed
qed

text \<open>
  C8. The queue empties: a worker alone with the queue, with a free slot and ticks of which every \<open>n\<close>
  cover the cooldown, has completed every waiting request after \<open>n\<close> ticks for each of them.
\<close>

theorem worker_drains_queue:
  assumes "rested t0 pq" and "paced n t0 ks" and "n * length (pq_queue pq) \<le> length ks"
  shows "pq_queue (worker (map Ticker ks) pq) = [] \<and>
    (\<forall>r \<in> set (pq_queue pq). pv_CompletedAt (pq_heap (worker (map Ticker ks) pq) r) \<noteq> None)"
proof (rule worker_drains [OF assms(1), of n n])
  show "n + n * (length (pq_queue pq) - 1) \<le> length ks" if "pq_queue pq \<noteq> []"
    using assms(3) that by (cases "pq_queue pq") simp_all
qed (use assms(2) in \<open>simp_all add: paced_def\<close>)

definition sample_tick :: "Time \<Rightarrow> tick" where
  "sample_tick t = \<lparr>tk_taken = t, tk_started = t, tk_ended = t + 2 * second, tk_completed = t + 2 * second,
     tk_parent_done = False, tk_choice = 0\<rparr>"

theorem worker_drains_queue_witness:
  "let pq = sy_pq (sample_submit (sample_submit (initial sample_heap 1 10 1 0)));
       pq' = worker (map Ticker [sample_tick (10 * second), sample_tick (22 * second)]) pq
   in pq_queue pq = [0, 1] \<and> pq_queue pq' = [] \<and> pv_CompletedAt (pq_heap pq' 0) \<noteq> None \<and> pv_CompletedAt (pq_heap pq' 1) \<noteq> None"
proof -
  define pq where "pq = sy_pq (sample_submit (sample_submit (initial sample_heap 1 10 1 0)))"
  have q: "pq_queue pq = [0, 1]" and r: "rested 0 pq"
    by (simp_all add: pq_def rested_def sample_submit_def initial_def NewProvisioningQueue_def SubmitRequest_def alloc_def
        processing_count_def fcard.rep_eq)
  have "paced 1 0 [sample_tick (10 * second), sample_tick (22 * second)]"
    by (auto simp: paced_def sample_tick_def nth_Cons')
  from worker_drains_queue [OF r this] q show ?thesis unfolding pq_def [symmetric] Let_def by simp
qed

section \<open>A waiting caller\<close>

lemma AcquireBMCPermit_granted:
  assumes "j < length passes" and "fst (acquire_try host (fst (passes ! j)) (fst (snd (passes ! j))))"
  shows "\<exists>e. AcquireBMCPermit host passes = Some e \<and> ((\<forall>p \<in> set passes. snd (snd p) = None) \<longrightarrow> e = None)"
  using assms
proof (induction passes arbitrary: j)
  case (Cons p passes)
  obtain now pq ended where p: "p = (now, pq, ended)" by (cases p)
  show ?case
  proof (cases "fst (acquire_try host now pq) \<or> ended \<noteq> None")
    case False
    with Cons.prems p obtain i where "j = Suc i" by (cases j) auto
    with Cons.IH [of i] Cons.prems p False show ?thesis by auto
  qed (use p in auto)
qed simp

text \<open>
  C11. A caller of \<open>AcquireBMCPermit\<close> does not wait for ever. The passes of its loop are at least 100 ms
  apart; when the BMC has seen no operation since the call began, the call has returned by the first
  pass from the hundredth on that finds a free slot, without an error unless its context ended.
\<close>

theorem AcquireBMCPermit_terminates:
  assumes "\<And>i. i < length passes \<Longrightarrow> start + int i * (100 * millisecond) \<le> fst (passes ! i)"
    and "100 \<le> j" and "j < length passes" and "passes ! j = (now, pq, ended)"
    and "pq_bmcCooldownPeriod pq = 10 * second" and "int (processing_count pq) < sint (pq_maxConcurrentOps pq)"
    and "\<And>t. pq_lastBMCOperation pq (bmcAddress host) = Some t \<Longrightarrow> t \<le> start"
  shows "\<exists>e. AcquireBMCPermit host passes = Some e \<and> ((\<forall>p \<in> set passes. snd (snd p) = None) \<longrightarrow> e = None)"
proof (rule AcquireBMCPermit_granted [OF assms(3)])
  have "start + 10 * second \<le> now" using assms(1) [OF assms(3)] assms(2,4) by simp
  then have "cooled_down pq (bmcAddress host) now"
    unfolding cooled_down_exact [OF assms(5)] using assms(7) by force
  with assms(6) show "fst (acquire_try host (fst (passes ! j)) (fst (snd (passes ! j))))"
    by (simp add: assms(4) acquire_try_def Let_def split: prod.split)
qed

theorem AcquireBMCPermit_terminates_witness:
  "let host = sample_host ''h1'' [] None StateInUse;
       pq = ReleaseBMCPermit host 0 (NewProvisioningQueue sample_heap 1 10)
   in AcquireBMCPermit host (map (\<lambda>i. (int i * (100 * millisecond), pq, None)) [0..<101]) = Some None"
proof -
  let ?host = "sample_host ''h1'' [] None StateInUse"
  let ?pq = "ReleaseBMCPermit ?host 0 (NewProvisioningQueue sample_heap 1 10)"
  let ?passes = "map (\<lambda>i. (int i * (100 * millisecond), ?pq, None :: error option)) [0..<101]"
  have pq: "pq_bmcCooldownPeriod ?pq = 10 * second" "int (processing_count ?pq) < sint (pq_maxConcurrentOps ?pq)"
      "pq_lastBMCOperation ?pq (bmcAddress ?host) = Some 0"
    by (simp_all add: ReleaseBMCPermit_def NewProvisioningQueue_def processing_count_def fcard.rep_eq)
  have "\<exists>e. AcquireBMCPermit ?host ?passes = Some e \<and> ((\<forall>p \<in> set ?passes. snd (snd p) = None) \<longrightarrow> e = None)"
  proof (rule AcquireBMCPermit_terminates [of _ 0 100])
    show "?passes ! 100 = (10 * second, ?pq, None)" by (simp add: nth_map_upt)
  qed (use pq in \<open>simp_all add: nth_map_upt\<close>)
  then show ?thesis by (auto simp: Let_def)
qed

end
