(* ===== verification/InspectionServer.thy ===== *)
theory InspectionServer
  imports InspectionHandler GoURL
begin

text \<open>
  The HTTP server of \<open>SetupInspectionServer\<close> in \<open>controllers/inspection_handler.go\<close>: the routes of its
  \<open>http.ServeMux\<close> in front of the inspection handler. The routing is that of \<open>net/http\<close> for
  patterns of literal segments: the path is cleaned, segments are compared after unescaping, and a
  path that was not clean is redirected. A request for \<open>*\<close> has no route.
\<close>

section \<open>Paths\<close>

text \<open>\<open>path.Clean\<close> of a rooted path, element by element.\<close>

definition clean_element :: "string list \<Rightarrow> string \<Rightarrow> string list" where
  "clean_element out e = (if e = [] \<or> e = ''.'' then out else if e = ''..'' then butlast out else out @ [e])"

definition path_Clean :: "string \<Rightarrow> string" where
  "path_Clean p = ''/'' @ strings_Join ''/'' (foldl clean_element [] (strings_Split CHR ''/'' p))"

text \<open>\<open>cleanPath\<close> of \<open>net/http\<close>: rooted, cleaned, with the trailing slash of the original.\<close>

definition cleanPath :: "string \<Rightarrow> string" where
  "cleanPath p0 =
    (if p0 = [] then ''/''
     else
       (let p = (if hd p0 \<noteq> CHR ''/'' then ''/'' @ p0 else p0); np = path_Clean p
        in if last p = CHR ''/'' \<and> np \<noteq> ''/'' then np @ ''/'' else np))"

text \<open>A segment that is not validly escaped is compared as it is.\<close>

definition pathUnescape :: "string \<Rightarrow> string" where
  "pathUnescape s = (case unescape encodePath s of Inl _ \<Rightarrow> s | Inr u \<Rightarrow> u)"

function path_segments :: "string \<Rightarrow> string list" where
  "path_segments p =
    (if p = [] then []
     else if p = ''/'' then [''/'']
     else pathUnescape (takeWhile (\<lambda>c. c \<noteq> CHR ''/'') (tl p)) # path_segments (dropWhile (\<lambda>c. c \<noteq> CHR ''/'') (tl p)))"
  by pat_completeness auto
termination
proof (relation "measure length")
  fix p :: string
  assume "p \<noteq> []"
  then show "(dropWhile (\<lambda>c. c \<noteq> CHR ''/'') (tl p), p) \<in> measure length"
    using length_dropWhile_le [of "\<lambda>c. c \<noteq> CHR ''/''" "tl p"] by (cases p) auto
qed simp

declare path_segments.simps [simp del]

section \<open>Routes\<close>

datatype route = InspectionRoute | HealthzRoute

definition mux_patterns :: "(string list \<times> route) list" where
  "mux_patterns = [([''api'', ''v1'', ''inspection''], InspectionRoute), ([''healthz''], HealthzRoute)]"

definition mux_match :: "string \<Rightarrow> route option" where
  "mux_match p = map_of mux_patterns (path_segments p)"

text \<open>The answer to a request: a response of a handler, or a permanent redirect to another path.\<close>

datatype server_response = Response http_response | MovedPermanently string

definition NotFound :: http_response where
  "NotFound = http_Error ''404 page not found'' 404"

definition serve_route :: "'w env \<Rightarrow> route option \<Rightarrow> string \<Rightarrow> error + InspectionReportRequest \<Rightarrow> ('w, server_response) io" where
  "serve_route E n method body =
    (case n of
       None \<Rightarrow> State_Monad.return (Response NotFound)
     | Some HealthzRoute \<Rightarrow> State_Monad.return (Response \<lparr>hp_Code = 200, hp_Body = ''ok''\<rparr>)
     | Some InspectionRoute \<Rightarrow> do {
         resp \<leftarrow> ServeHTTP E method body;
         State_Monad.return (Response resp)
       })"

text \<open>
  \<open>escapedPath\<close> is the escaped path of the request's URL, \<open>*\<close> for the request URI \<open>*\<close>. The server answers \<open>OPTIONS *\<close> itself, and its
  multiplexer refuses any other request for \<open>*\<close>. The path of a \<open>CONNECT\<close> request is not cleaned.
\<close>

definition inspection_server :: "'w env \<Rightarrow> string \<Rightarrow> string \<Rightarrow> error + InspectionReportRequest \<Rightarrow> ('w, server_response) io" where
  "inspection_server E method escapedPath body =
    (if escapedPath = ''*'' then State_Monad.return (Response \<lparr>hp_Code = (if method = ''OPTIONS'' then 200 else 400), hp_Body = ''''\<rparr>)
     else if method = ''CONNECT'' then serve_route E (mux_match escapedPath) method body
     else if cleanPath escapedPath \<noteq> escapedPath then State_Monad.return (MovedPermanently (cleanPath escapedPath))
     else serve_route E (mux_match escapedPath) method body)"

section \<open>Clean paths\<close>

definition plain_segment :: "string \<Rightarrow> bool" where
  "plain_segment e \<longleftrightarrow> e \<noteq> [] \<and> CHR ''/'' \<notin> set e \<and> e \<noteq> ''.'' \<and> e \<noteq> ''..''"

definition path_of :: "string list \<Rightarrow> string" where
  "path_of es = ''/'' @ strings_Join ''/'' es"

lemma foldl_clean: "\<forall>e \<in> set es. plain_segment e \<Longrightarrow> foldl clean_element out es = out @ es"
  by (induction es arbitrary: out) (auto simp: clean_element_def plain_segment_def)

lemma last_Join: "es \<noteq> [] \<Longrightarrow> last es \<noteq> [] \<Longrightarrow> strings_Join sep es \<noteq> [] \<and> last (strings_Join sep es) = last (last es)"
  by (induction es rule: strings_Join.induct [of _ sep]) auto

lemma cleanPath_path_of:
  assumes "es \<noteq> []" and "\<forall>e \<in> set es. plain_segment e"
  shows "cleanPath (path_of es) = path_of es"
proof -
  have "strings_Split CHR ''/'' (path_of es) = [] # es"
    using strings_Split_Join [of es "CHR ''/''"] assms by (simp add: path_of_def plain_segment_def)
  then have c: "path_Clean (path_of es) = path_of es"
    using foldl_clean [OF assms(2)] by (simp add: path_Clean_def path_of_def clean_element_def)
  have e: "last es \<noteq> []" "CHR ''/'' \<notin> set (last es)" using assms by (simp_all add: plain_segment_def)
  with last_Join [OF assms(1), of "''/''"] have "last (path_of es) = last (last es)" by (simp add: path_of_def)
  then have "last (path_of es) \<noteq> CHR ''/''" using e by (metis last_in_set)
  with c show ?thesis by (simp add: cleanPath_def path_of_def Let_def)
qed

lemma path_segments_step:
  assumes "e \<noteq> []" and "CHR ''/'' \<notin> set e" and "rest = [] \<or> hd rest = CHR ''/''"
  shows "path_segments (CHR ''/'' # e @ rest) = pathUnescape e # path_segments rest"
proof -
  have "takeWhile (\<lambda>c. c \<noteq> CHR ''/'') (e @ rest) = e \<and> dropWhile (\<lambda>c. c \<noteq> CHR ''/'') (e @ rest) = rest"
    using assms(2,3) by (induction e) (cases rest; auto)+
  with assms(1) show ?thesis by (subst path_segments.simps) simp
qed

lemma path_segments_path_of:
  "es \<noteq> [] \<Longrightarrow> \<forall>e \<in> set es. plain_segment e \<Longrightarrow> path_segments (path_of es) = map pathUnescape es"
proof (induction "''/''" es rule: strings_Join.induct)
  case (2 s)
  then show ?case using path_segments_step [of s "[]"] by (simp add: path_of_def plain_segment_def path_segments.simps)
next
  case (3 s t ss)
  then show ?case using path_segments_step [of s "path_of (t # ss)"] by (simp add: path_of_def plain_segment_def)
qed simp

section \<open>Properties\<close>

lemma inspection_server_clean:
  assumes "es \<noteq> []" and "\<forall>e \<in> set es. plain_segment e"
  shows "inspection_server E method (path_of es) body = serve_route E (map_of mux_patterns (map pathUnescape es)) method body"
  using cleanPath_path_of [OF assms] path_segments_path_of [OF assms] by (simp add: inspection_server_def mux_match_def path_of_def)

text \<open>
  C14. Only a report can change a host through the server: every request is answered without touching
  the API server, unless it is a POST whose path is \<open>/api/v1/inspection\<close> after unescaping its segments, and
  then the server does what the inspection handler does.
\<close>

theorem server_reaches_hosts_only_by_reports:
  "(\<exists>resp. inspection_server E method p body = State_Monad.return resp) \<or>
   method = ''POST'' \<and> path_segments p = [''api'', ''v1'', ''inspection''] \<and>
   inspection_server E method p body = State_Monad.bind (ServeHTTP E ''POST'' body) (\<lambda>resp. State_Monad.return (Response resp))"
proof -
  have "(\<exists>resp. serve_route E (mux_match p) method body = State_Monad.return resp) \<or>
      method = ''POST'' \<and> path_segments p = [''api'', ''v1'', ''inspection''] \<and>
      serve_route E (mux_match p) method body = State_Monad.bind (ServeHTTP E ''POST'' body) (\<lambda>resp. State_Monad.return (Response resp))"
  proof (cases "mux_match p")
    case (Some r)
    then show ?thesis
    proof (cases r)
      case InspectionRoute
      with Some have "path_segments p = [''api'', ''v1'', ''inspection'']" by (auto simp: mux_match_def mux_patterns_def split: if_splits)
      with Some InspectionRoute show ?thesis by (cases "method = ''POST''") (auto simp: serve_route_def ServeHTTP_def)
    qed (auto simp: serve_route_def)
  qed (auto simp: serve_route_def)
  then show ?thesis by (auto simp: inspection_server_def)
qed

text \<open>
  C15. The report URL of the documentation, \<open>/api/v1/inspection/{namespace}/{physicalhost-name}\<close>, does not
  exist: whatever report is posted there is answered with 404 and reaches no host. The handler is
  registered for \<open>/api/v1/inspection\<close> alone.
\<close>

theorem documented_report_path_not_found:
  assumes "plain_segment ns" and "plain_segment name"
  shows "inspection_server E ''POST'' (''/api/v1/inspection/'' @ ns @ ''/'' @ name) body = State_Monad.return (Response NotFound) \<and>
    inspection_server E ''POST'' ''/api/v1/inspection'' body =
      State_Monad.bind (ServeHTTP E ''POST'' body) (\<lambda>resp. State_Monad.return (Response resp))"
proof
  have p: "''/api/v1/inspection/'' @ ns @ ''/'' @ name = path_of [''api'', ''v1'', ''inspection'', ns, name]"
    "''/api/v1/inspection'' = path_of [''api'', ''v1'', ''inspection'']" by (simp_all add: path_of_def)
  have plain: "plain_segment ''api''" "plain_segment ''v1''" "plain_segment ''inspection''" by (simp_all add: plain_segment_def)
  have u: "pathUnescape ''api'' = ''api''" "pathUnescape ''v1'' = ''v1''" "pathUnescape ''inspection'' = ''inspection''"
    by (simp_all add: pathUnescape_def)
  show "inspection_server E ''POST'' (''/api/v1/inspection/'' @ ns @ ''/'' @ name) body = State_Monad.return (Response NotFound)"
    unfolding p using plain assms by (subst inspection_server_clean) (simp_all add: mux_patterns_def serve_route_def)
  show "inspection_server E ''POST'' ''/api/v1/inspection'' body =
      State_Monad.bind (ServeHTTP E ''POST'' body) (\<lambda>resp. State_Monad.return (Response resp))"
    unfolding p using plain by (subst inspection_server_clean) (simp_all add: mux_patterns_def serve_route_def u)
qed

theorem documented_report_path_not_found_witness:
  "inspection_server mem_env ''POST'' ''/api/v1/inspection/metal/h1'' (Inr sample_request) =
     State_Monad.return (Response \<lparr>hp_Code = 404, hp_Body = ''404 page not found\<newline>''\<rparr>)"
  using documented_report_path_not_found [of "''metal''" "''h1''" mem_env "Inr sample_request"]
  by (simp add: plain_segment_def NotFound_def http_Error_def)

end
