(* ===== verification/GoFlag.thy ===== *)
theory GoFlag
  imports GoNet Complex_Main "HOL-Library.Log_Nat"
begin

text \<open>
  The parts of the standard library the command line of the manager uses: \<open>flag.Parse\<close> with its
  error handling, and the value parsers \<open>strconv.ParseBool\<close>, \<open>strconv.ParseInt\<close> with base 0 and
  \<open>time.ParseDuration\<close>. The lemmas show what printed numbers and whole durations are read as.
\<close>

section \<open>Booleans and integers\<close>

definition ParseBool :: "string \<Rightarrow> bool option" where
  "ParseBool s = (if s \<in> {''1'', ''t'', ''T'', ''TRUE'', ''true'', ''True''} then Some True
     else if s \<in> {''0'', ''f'', ''F'', ''FALSE'', ''false'', ''False''} then Some False else None)"

datatype num_error = ErrSyntax | ErrRange

definition digit_value :: "char \<Rightarrow> nat option" where
  "digit_value c = (if is_digit c then Some (byte c - 48)
     else if 97 \<le> byte (lower_byte c) \<and> byte (lower_byte c) \<le> 122 then Some (byte (lower_byte c) - 87) else None)"

fun uint_digits :: "nat \<Rightarrow> nat \<Rightarrow> string \<Rightarrow> num_error + nat" where
  "uint_digits base n [] = Inr n"
| "uint_digits base n (c # cs) =
    (if c = CHR ''_'' then uint_digits base n cs
     else (case digit_value c of
       None \<Rightarrow> Inl ErrSyntax
     | Some d \<Rightarrow>
         if base \<le> d then Inl ErrSyntax
         else if 2 ^ 64 \<le> n * base + d then Inl ErrRange
         else uint_digits base (n * base + d) cs))"

text \<open>The base and the digits of a number written with an optional prefix.\<close>

definition base_prefix :: "string \<Rightarrow> nat \<times> string" where
  "base_prefix s = (case s of
     [] \<Rightarrow> (10, [])
   | c # cs \<Rightarrow>
       if c \<noteq> CHR ''0'' then (10, s)
       else if length s \<ge> 3 \<and> lower_byte (hd cs) = CHR ''b'' then (2, tl cs)
       else if length s \<ge> 3 \<and> lower_byte (hd cs) = CHR ''o'' then (8, tl cs)
       else if length s \<ge> 3 \<and> lower_byte (hd cs) = CHR ''x'' then (16, tl cs)
       else (8, cs))"

text \<open>
  \<open>underscoreOK\<close> looks at the number after its sign: underscores must separate digits. The state is
  the last thing seen: nothing, a digit or prefix, an underscore, or something else.
\<close>

datatype seen = SawStart | SawDigit | SawUnderscore | SawOther

fun underscore_scan :: "bool \<Rightarrow> seen \<Rightarrow> string \<Rightarrow> bool" where
  "underscore_scan hex st [] = (st \<noteq> SawUnderscore)"
| "underscore_scan hex st (c # cs) =
    (if is_digit c \<or> hex \<and> 97 \<le> byte (lower_byte c) \<and> byte (lower_byte c) \<le> 102 then underscore_scan hex SawDigit cs
     else if c = CHR ''_'' then (if st \<noteq> SawDigit then False else underscore_scan hex SawUnderscore cs)
     else if st = SawUnderscore then False
     else underscore_scan hex SawOther cs)"

definition underscoreOK :: "string \<Rightarrow> bool" where
  "underscoreOK s0 =
    (let s = (if s0 \<noteq> [] \<and> hd s0 \<in> {CHR ''-'', CHR ''+''} then tl s0 else s0)
     in if length s \<ge> 2 \<and> hd s = CHR ''0'' \<and> lower_byte (s ! 1) \<in> {CHR ''b'', CHR ''o'', CHR ''x''}
        then underscore_scan (lower_byte (s ! 1) = CHR ''x'') SawDigit (drop 2 s)
        else underscore_scan False SawStart s)"

definition ParseUint0 :: "string \<Rightarrow> num_error + nat" where
  "ParseUint0 s =
    (if s = [] then Inl ErrSyntax
     else (case base_prefix s of (base, ds) \<Rightarrow>
       (case uint_digits base 0 ds of
          Inl e \<Rightarrow> Inl e
        | Inr n \<Rightarrow> if CHR ''_'' \<in> set ds \<and> \<not> underscoreOK s then Inl ErrSyntax else Inr n)))"

definition ParseInt0 :: "string \<Rightarrow> num_error + goint" where
  "ParseInt0 s =
    (if s = [] then Inl ErrSyntax
     else (case accept_sign s of (neg, u) \<Rightarrow>
       (case ParseUint0 u of
          Inl e \<Rightarrow> Inl e
        | Inr n \<Rightarrow>
            if \<not> neg \<and> 2 ^ 63 \<le> n then Inl ErrRange
            else if neg \<and> 2 ^ 63 < n then Inl ErrRange
            else Inr (if neg then - of_nat n else of_nat n))))"

section \<open>Durations\<close>

text \<open>
  The fraction of a duration is computed in \<open>float64\<close>. The model rounds a positive rational to the
  nearest number of 53 significant bits, ties to even. Overflow to infinity only happens to the
  scale of a fraction with more than 300 zeros, where the product truncates to zero with and without it.
\<close>

definition scale2 :: "int \<Rightarrow> rat \<Rightarrow> rat" where
  "scale2 e x = (if 0 \<le> e then x * 2 ^ nat e else x / 2 ^ nat (- e))"

definition float_exponent :: "rat \<Rightarrow> int" where
  "float_exponent x = (case quotient_of x of (p, q) \<Rightarrow>
     let e = bitlen p - bitlen q in if 1 \<le> scale2 (- e) x then e else e - 1)"

definition round_even :: "rat \<Rightarrow> int" where
  "round_even x = (let n = \<lfloor>x\<rfloor>; r = x - of_int n in
     if r < 1 / 2 then n else if 1 / 2 < r then n + 1 else if even n then n else n + 1)"

definition float64 :: "rat \<Rightarrow> rat" where
  "float64 x = (if x \<le> 0 then 0
     else let e = float_exponent x - 52 in scale2 e (of_int (round_even (scale2 (- e) x))))"

fun leadingInt :: "nat \<Rightarrow> string \<Rightarrow> (nat \<times> string) option" where
  "leadingInt x [] = Some (x, [])"
| "leadingInt x (c # cs) =
    (if \<not> is_digit c then Some (x, c # cs)
     else if x > 2 ^ 63 div 10 then None
     else let y = x * 10 + (byte c - 48) in if y > 2 ^ 63 then None else leadingInt y cs)"

fun leadingFraction :: "bool \<Rightarrow> nat \<Rightarrow> rat \<Rightarrow> string \<Rightarrow> nat \<times> rat \<times> string" where
  "leadingFraction overflow x scale [] = (x, scale, [])"
| "leadingFraction overflow x scale (c # cs) =
    (if \<not> is_digit c then (x, scale, c # cs)
     else if overflow \<or> x > (2 ^ 63 - 1) div 10 \<or> x * 10 + (byte c - 48) > 2 ^ 63 then leadingFraction True x scale cs
     else leadingFraction False (x * 10 + (byte c - 48)) (float64 (scale * 10)) cs)"

definition unitMap :: "string \<Rightarrow> nat option" where
  "unitMap u = map_of [(''ns'', 1), (''us'', 1000), ([CHR 0xC2, CHR 0xB5, CHR ''s''], 1000),
     ([CHR 0xCE, CHR 0xBC, CHR ''s''], 1000), (''ms'', 1000000), (''s'', 1000000000), (''m'', 60000000000),
     (''h'', 3600000000000)] u"

definition unit_byte :: "char \<Rightarrow> bool" where
  "unit_byte c \<longleftrightarrow> c \<noteq> CHR ''.'' \<and> \<not> is_digit c"

text \<open>One number with its unit; the result is the nanoseconds and the rest of the string.\<close>

definition duration_part :: "string \<Rightarrow> (nat \<times> string) option" where
  "duration_part s =
    (if s = [] \<or> unit_byte (hd s) then None
     else (case leadingInt 0 s of
       None \<Rightarrow> None
     | Some (v, s1) \<Rightarrow>
         (let pre = length s1 \<noteq> length s;
              dot = s1 \<noteq> [] \<and> hd s1 = CHR ''.'';
              (f, scale, s2) = (if dot then leadingFraction False 0 1 (tl s1) else (0, 1, s1));
              post = dot \<and> length s2 \<noteq> length (tl s1);
              u = takeWhile unit_byte s2; s3 = dropWhile unit_byte s2
          in if \<not> pre \<and> \<not> post then None
             else if u = [] then None
             else (case unitMap u of
               None \<Rightarrow> None
             | Some unit_ns \<Rightarrow>
                 if v > 2 ^ 63 div unit_ns then None
                 else let w = v * unit_ns + (if f > 0
                          then nat \<lfloor>float64 (float64 (of_nat f) * float64 (float64 (of_nat unit_ns) / scale))\<rfloor> else 0)
                      in if f > 0 \<and> w > 2 ^ 63 then None else Some (w, s3)))))"

lemma leadingInt_length: "leadingInt x s = Some (v, r) \<Longrightarrow> length r \<le> length s"
  by (induction x s rule: leadingInt.induct) (auto simp: Let_def split: if_splits)

lemma leadingFraction_length: "leadingFraction ov x sc s = (f, sc', r) \<Longrightarrow> length r \<le> length s"
  by (induction ov x sc s rule: leadingFraction.induct) (auto split: if_splits)

lemma duration_part_length:
  assumes "duration_part s = Some (w, r)"
  shows "length r < length s"
proof -
  from assms obtain v s1 where l: "leadingInt 0 s = Some (v, s1)"
    by (auto simp: duration_part_def split: if_splits option.splits)
  obtain f scale s2 where f: "(if s1 \<noteq> [] \<and> hd s1 = CHR ''.'' then leadingFraction False 0 1 (tl s1) else (0, 1, s1)) = (f, scale, s2)"
    by (metis prod_cases3)
  have "takeWhile unit_byte s2 \<noteq> [] \<and> r = dropWhile unit_byte s2"
    using assms l f by (auto simp: duration_part_def Let_def split: if_splits option.splits)
  then have "length r < length s2"
    by (metis append.right_neutral add_diff_cancel_right' diff_less length_append length_greater_0_conv takeWhile_dropWhile_id
        length_dropWhile_le le_neq_implies_less append_Nil append_eq_append_conv)
  moreover have "length s2 \<le> length s1" using f leadingFraction_length [of False 0 1 "tl s1" f scale s2] by (auto split: if_splits)
  ultimately show ?thesis using leadingInt_length [OF l] by simp
qed

text \<open>The sum is a 64 bit word; the check after the addition does not see a sum that wraps to zero.\<close>

function duration_sum :: "nat \<Rightarrow> string \<Rightarrow> nat option" where
  "duration_sum d s =
    (if s = [] then Some d
     else (case duration_part s of
       None \<Rightarrow> None
     | Some (v, rest) \<Rightarrow> let d' = (d + v) mod 2 ^ 64 in if d' > 2 ^ 63 then None else duration_sum d' rest))"
  by pat_completeness auto
termination by (relation "measure (length \<circ> snd)") (auto dest: duration_part_length)

declare duration_sum.simps [simp del]

definition ParseDuration :: "string \<Rightarrow> Duration option" where
  "ParseDuration s =
    (case accept_sign s of (neg, u) \<Rightarrow>
       if u = ''0'' then Some 0
       else if u = [] then None
       else (case duration_sum 0 u of
         None \<Rightarrow> None
       | Some d \<Rightarrow> if neg then Some (- int d) else if d > 2 ^ 63 - 1 then None else Some (int d)))"

section \<open>Parsing the command line\<close>

text \<open>
  A flag tells whether it is boolean and how it sets its variable in the state \<open>'s\<close>. A parser
  ends with the state and the remaining arguments, or the process exits: with 0 after a request for
  help, with 2 after an error.
\<close>

record 's Flag =
  fl_IsBoolFlag :: bool
  fl_Set :: "string \<Rightarrow> 's \<Rightarrow> error + 's"

datatype 's parse_out = Parsed 's "string list" | ParseHelp | ParseFailed error

text \<open>The name and the value of the text behind the dashes; an equals sign cannot be its first byte.\<close>

definition split_flag :: "string \<Rightarrow> string \<times> string option" where
  "split_flag s = (case dropWhile (\<lambda>c. c \<noteq> CHR ''='') (tl s) of
     [] \<Rightarrow> (s, None)
   | _ # v \<Rightarrow> (hd s # takeWhile (\<lambda>c. c \<noteq> CHR ''='') (tl s), Some v))"

definition dashes :: "string \<Rightarrow> nat" where
  "dashes s = (if s ! 1 = CHR ''-'' then 2 else 1)"

fun parse_flags :: "(string \<Rightarrow> 's Flag option) \<Rightarrow> string list \<Rightarrow> 's \<Rightarrow> 's parse_out" where
  "parse_flags formal [] st = Parsed st []"
| "parse_flags formal (s # args) st =
    (if length s < 2 \<or> hd s \<noteq> CHR ''-'' then Parsed st (s # args)
     else if s = ''--'' then Parsed st args
     else
       (let text = drop (dashes s) s in
        if text = [] \<or> hd text = CHR ''-'' \<or> hd text = CHR ''='' then ParseFailed (Err (''bad flag syntax: '' @ s))
        else
          (case split_flag text of (name, val) \<Rightarrow>
             (case formal name of
                None \<Rightarrow>
                  if name = ''help'' \<or> name = ''h'' then ParseHelp
                  else ParseFailed (Err (''flag provided but not defined: -'' @ name))
              | Some fl \<Rightarrow>
                  if fl_IsBoolFlag fl then
                    (case fl_Set fl (case val of None \<Rightarrow> ''true'' | Some v \<Rightarrow> v) st of
                       Inl err \<Rightarrow> ParseFailed (Err ((case val of
                           None \<Rightarrow> ''invalid boolean flag '' @ name
                         | Some v \<Rightarrow> ''invalid boolean value '' @ Quote v @ '' for -'' @ name) @ '': '' @ Error err))
                     | Inr st' \<Rightarrow> parse_flags formal args st')
                  else
                    (case val of
                       Some v \<Rightarrow>
                         (case fl_Set fl v st of
                            Inl err \<Rightarrow> ParseFailed (Err (''invalid value '' @ Quote v @ '' for flag -'' @ name @ '': '' @ Error err))
                          | Inr st' \<Rightarrow> parse_flags formal args st')
                     | None \<Rightarrow>
                         (case args of
                            [] \<Rightarrow> ParseFailed (Err (''flag needs an argument: -'' @ name))
                          | v # rest \<Rightarrow>
                              (case fl_Set fl v st of
                                 Inl err \<Rightarrow> ParseFailed (Err (''invalid value '' @ Quote v @ '' for flag -'' @ name @ '': '' @ Error err))
                               | Inr st' \<Rightarrow> parse_flags formal rest st')))))))"

text \<open>The values of the four kinds of flags. Their parsers' errors are replaced by two fixed ones.\<close>

definition errParse :: error where "errParse = Err ''parse error''"
definition errRange :: error where "errRange = Err ''value out of range''"

definition StringVar :: "(string \<Rightarrow> 's \<Rightarrow> 's) \<Rightarrow> 's Flag" where
  "StringVar upd = \<lparr>fl_IsBoolFlag = False, fl_Set = (\<lambda>v st. Inr (upd v st))\<rparr>"

definition BoolVar :: "(bool \<Rightarrow> 's \<Rightarrow> 's) \<Rightarrow> 's Flag" where
  "BoolVar upd = \<lparr>fl_IsBoolFlag = True,
     fl_Set = (\<lambda>v st. case ParseBool v of None \<Rightarrow> Inl errParse | Some b \<Rightarrow> Inr (upd b st))\<rparr>"

definition IntVar :: "(goint \<Rightarrow> 's \<Rightarrow> 's) \<Rightarrow> 's Flag" where
  "IntVar upd = \<lparr>fl_IsBoolFlag = False,
     fl_Set = (\<lambda>v st. case ParseInt0 v of
        Inl ErrSyntax \<Rightarrow> Inl errParse | Inl ErrRange \<Rightarrow> Inl errRange | Inr n \<Rightarrow> Inr (upd n st))\<rparr>"

definition DurationVar :: "(Duration \<Rightarrow> 's \<Rightarrow> 's) \<Rightarrow> 's Flag" where
  "DurationVar upd = \<lparr>fl_IsBoolFlag = False,
     fl_Set = (\<lambda>v st. case ParseDuration v of None \<Rightarrow> Inl errParse | Some d \<Rightarrow> Inr (upd d st))\<rparr>"

section \<open>Reading printed numbers\<close>

abbreviation digits_from :: "nat \<Rightarrow> string \<Rightarrow> nat" where
  "digits_from x ds \<equiv> foldl (\<lambda>a c. a * 10 + (byte c - 48)) x ds"

lemma digits_from_ge: "x \<le> digits_from x ds"
proof (induction ds arbitrary: x)
  case (Cons c ds)
  have "x \<le> x * 10 + (byte c - 48)" by simp
  also have "\<dots> \<le> digits_from (x * 10 + (byte c - 48)) ds" by (rule Cons.IH)
  finally show ?case by simp
qed simp

lemma leadingInt_digits:
  assumes "\<forall>c \<in> set ds. is_digit c" and "digits_from x ds \<le> 2 ^ 63" and "rest = [] \<or> \<not> is_digit (hd rest)"
  shows "leadingInt x (ds @ rest) = Some (digits_from x ds, rest)"
  using assms
proof (induction ds arbitrary: x)
  case Nil
  then show ?case by (cases rest) auto
next
  case (Cons c ds)
  let ?y = "x * 10 + (byte c - 48)"
  have "?y \<le> 2 ^ 63" using digits_from_ge [of ?y ds] Cons.prems(2) by simp
  moreover from this have "\<not> x > 2 ^ 63 div 10" by simp
  ultimately show ?case using Cons.IH [of ?y] Cons.prems by (simp add: Let_def)
qed

lemma uint_digits_decimal:
  assumes "\<forall>c \<in> set ds. is_digit c" and "digits_from x ds < 2 ^ 64"
  shows "uint_digits 10 x ds = Inr (digits_from x ds)"
  using assms
proof (induction ds arbitrary: x)
  case (Cons c ds)
  let ?y = "x * 10 + (byte c - 48)"
  have c: "digit_value c = Some (byte c - 48)" "byte c - 48 < 10" "c \<noteq> CHR ''_''"
    using Cons.prems(1) by (auto simp: digit_value_def is_digit_def)
  have "?y < 2 ^ 64" using digits_from_ge [of ?y ds] Cons.prems(2) by simp
  with c Cons.IH [of ?y] Cons.prems show ?case by simp
qed simp

lemma unitMap_bytes: "unitMap u = Some k \<Longrightarrow> u \<noteq> [] \<and> list_all unit_byte u \<and> 0 < k"
  by (auto simp: unitMap_def unit_byte_def is_digit_def split: if_splits)

lemma unit_split:
  "list_all unit_byte u \<Longrightarrow> rest = [] \<or> is_digit (hd rest) \<Longrightarrow>
     takeWhile unit_byte (u @ rest) = u \<and> dropWhile unit_byte (u @ rest) = rest"
  by (induction u) (cases rest; auto simp: unit_byte_def)+

lemma duration_part_whole:
  assumes "unitMap u = Some k" and "n * k \<le> 2 ^ 63" and "rest = [] \<or> is_digit (hd rest)"
  shows "duration_part (show_nat n @ u @ rest) = Some (n * k, rest)"
proof -
  note u = unitMap_bytes [OF assms(1)]
  have h: "hd (u @ rest) \<noteq> CHR ''.''" "\<not> is_digit (hd (u @ rest))" "u @ rest \<noteq> []"
    using u by (cases u; simp add: unit_byte_def)+
  have "n \<le> 2 ^ 63" using u assms(2) by (metis le_trans mult_le_mono2 nat_mult_1_right Suc_leI One_nat_def)
  then have l: "leadingInt 0 (show_nat n @ u @ rest) = Some (n, u @ rest)"
    using leadingInt_digits [OF show_nat_digits, of 0 n "u @ rest"] h digits_val_show_nat [of n]
    by (simp add: digits_val_def)
  have "is_digit (hd (show_nat n))" using show_nat_digits [of n] by (cases "show_nat n") auto
  then have "\<not> unit_byte (hd (show_nat n @ u @ rest))" by (simp add: unit_byte_def)
  moreover have "\<not> 2 ^ 63 div k < n" using assms(2) u by (simp add: not_less less_eq_div_iff_mult_less_eq)
  ultimately show ?thesis using l h u unit_split [of u rest] assms(1,3) by (simp add: duration_part_def Let_def)
qed

text \<open>A number of whole units is read as that many nanoseconds.\<close>

lemma ParseDuration_whole:
  assumes "unitMap u = Some k" and "n * k < 2 ^ 63"
  shows "ParseDuration (show_nat n @ u) = Some (int (n * k))"
proof -
  have "is_digit (hd (show_nat n))" using show_nat_digits [of n] by (cases "show_nat n") auto
  then have s: "accept_sign (show_nat n @ u) = (False, show_nat n @ u)"
    by (cases "show_nat n") (auto simp: accept_sign_def is_digit_def)
  have "duration_sum 0 (show_nat n @ u) = duration_sum (n * k) []"
    using duration_part_whole [OF assms(1), of n "[]"] assms(2) by (subst duration_sum.simps) (simp add: Let_def)
  also have "\<dots> = Some (n * k)" by (simp add: duration_sum.simps)
  finally have "duration_sum 0 (show_nat n @ u) = Some (n * k)" .
  moreover have "show_nat n @ u \<noteq> ''0''"
    using unitMap_bytes [OF assms(1)] by (metis Nil_is_append_conv append_butlast_last_id append1_eq_conv butlast.simps(2) butlast_append show_nat_nonempty)
  ultimately show ?thesis using assms(2) by (simp add: ParseDuration_def s)
qed

text \<open>A printed number is read back.\<close>

lemma ParseInt0_show_nat:
  assumes "n < 2 ^ 63"
  shows "ParseInt0 (show_nat n) = Inr (of_nat n)"
proof (cases "n = 0")
  case True
  then show ?thesis by (simp add: ParseInt0_def ParseUint0_def base_prefix_def accept_sign_def show_nat.simps)
next
  case False
  have d: "\<forall>c \<in> set (show_nat n). is_digit c" by (rule show_nat_digits)
  then have "is_digit (hd (show_nat n))" by (cases "show_nat n") auto
  then have s: "accept_sign (show_nat n) = (False, show_nat n)"
    by (cases "show_nat n") (auto simp: accept_sign_def is_digit_def)
  have b: "base_prefix (show_nat n) = (10, show_nat n)"
    using show_nat_no_leading_zero [of n] False by (cases "show_nat n") (auto simp: base_prefix_def)
  have "uint_digits 10 0 (show_nat n) = Inr n"
    using uint_digits_decimal [OF d, of 0] digits_val_show_nat [of n] assms by (simp add: digits_val_def)
  moreover have "CHR ''_'' \<notin> set (show_nat n)" using d by (auto simp: is_digit_def)
  ultimately show ?thesis using assms by (simp add: ParseInt0_def ParseUint0_def s b)
qed

end
