(* ===== verification/Manager.thy ===== *)
theory Manager
  imports PhysicalHostCtl Beskar7MachineCtl Beskar7ClusterCtl ClusterWebhook InspectionServer GoFlag
begin

text \<open>
  \<open>cmd/manager/main.go\<close> with the set-up functions it calls: the command line, the registration of the
  API types, the three controllers with their watches, the inspection server and the webhook, and the
  order in which the process sets them up. controller-runtime and the registries it uses are a
  parameter: one function for the calls into them, whose result is the error of the call.
\<close>

section \<open>The API group\<close>

record GroupVersion =
  gv_Group :: string
  gv_Version :: string

definition infrastructure_GroupVersion :: GroupVersion where
  "infrastructure_GroupVersion = \<lparr>gv_Group = ''infrastructure.cluster.x-k8s.io'', gv_Version = ''v1beta1''\<rparr>"

text \<open>The types the \<open>init\<close> functions of the package register, in the order of its files.\<close>

definition cluster_types :: "string list" where "cluster_types = [''Beskar7Cluster'', ''Beskar7ClusterList'']"
definition machine_types :: "string list" where "machine_types = [''Beskar7Machine'', ''Beskar7MachineList'']"
definition template_types :: "string list" where "template_types = [''Beskar7MachineTemplate'', ''Beskar7MachineTemplateList'']"
definition host_types :: "string list" where "host_types = [''PhysicalHost'', ''PhysicalHostList'']"

definition registered_types :: "string list" where
  "registered_types = cluster_types @ machine_types @ template_types @ host_types"

datatype scheme_part = ClientGoScheme | ClusterAPIScheme | TypesOf GroupVersion "string list"

section \<open>Controllers\<close>

datatype api_object = SecretObject Secret | HostObject PhysicalHost | MachineObject Beskar7Machine | ClusterObject Beskar7Cluster

datatype 'w reconciler = HostReconciler "'w PhysicalHostReconciler" | MachineReconciler "'w Beskar7MachineReconciler" |
  ClusterReconciler "'w env"

text \<open>What a controller builder collects: the type it is for, the watches with their mapping functions, the reconciler.\<close>

record 'w controller =
  cn_For :: string
  cn_Watches :: "(string \<times> (api_object \<Rightarrow> ('w, NamespacedName list) io)) list"
  cn_Reconciler :: "'w reconciler"

definition ph_SetupWithManager :: "'w PhysicalHostReconciler \<Rightarrow> 'w controller" where
  "ph_SetupWithManager R = \<lparr>cn_For = ''PhysicalHost'',
     cn_Watches = [(''Secret'', \<lambda>obj. SecretToPhysicalHosts (pr_Client R) (case obj of SecretObject s \<Rightarrow> Some s | _ \<Rightarrow> None))],
     cn_Reconciler = HostReconciler R\<rparr>"

definition bm_SetupWithManager :: "'w Beskar7MachineReconciler \<Rightarrow> 'w controller" where
  "bm_SetupWithManager R = \<lparr>cn_For = ''Beskar7Machine'', cn_Watches = [], cn_Reconciler = MachineReconciler R\<rparr>"

definition bc_SetupWithManager :: "'w env \<Rightarrow> 'w controller" where
  "bc_SetupWithManager E = \<lparr>cn_For = ''Beskar7Cluster'',
     cn_Watches = [(''PhysicalHost'', \<lambda>obj. PhysicalHostToBeskar7Clusters E (case obj of HostObject h \<Rightarrow> Some h | _ \<Rightarrow> None))],
     cn_Reconciler = ClusterReconciler E\<rparr>"

section \<open>Calls into the libraries\<close>

record ManagerOptions =
  mo_MetricsBindAddress :: string
  mo_WebhookPort :: goint
  mo_WebhookCertDir :: string
  mo_HealthProbeBindAddress :: string
  mo_LeaderElection :: bool
  mo_LeaderElectionID :: string
  mo_LeaseDuration :: Duration
  mo_RenewDeadline :: Duration
  mo_RetryPeriod :: Duration

record 'w http_server =
  sv_Addr :: string
  sv_Handler :: "string \<Rightarrow> string \<Rightarrow> error + InspectionReportRequest \<Rightarrow> ('w, server_response) io"
  sv_ReadTimeout :: Duration
  sv_WriteTimeout :: Duration
  sv_IdleTimeout :: Duration

record webhook_setup =
  wh_For :: string
  wh_ValidateCreate :: "Beskar7Cluster \<Rightarrow> string list \<times> invalid_error option"
  wh_ValidateUpdate :: "Beskar7Cluster \<Rightarrow> Beskar7Cluster \<Rightarrow> string list \<times> invalid_error option"
  wh_Default :: "Beskar7Cluster \<Rightarrow> Beskar7Cluster \<times> error option"

datatype 'w lib_call =
    AddToScheme scheme_part
  | MustRegister "metric_vec list"
  | GetConfigOrDie
  | NewManager ManagerOptions
  | CompleteController "'w controller"
  | GoListenAndServe "'w http_server"
  | AddRunnable "'w http_server"
  | CompleteWebhook webhook_setup
  | AddHealthzCheck string
  | AddReadyzCheck string
  | StartManager
  | Shutdown "'w http_server" Duration

type_synonym 'w library = "'w lib_call \<Rightarrow> ('w, error option) io"

section \<open>The inspection server\<close>

definition new_inspection_server :: "'w env \<Rightarrow> int \<Rightarrow> 'w http_server" where
  "new_inspection_server E port = \<lparr>sv_Addr = '':'' @ show_int port, sv_Handler = inspection_server E,
     sv_ReadTimeout = 15 * second, sv_WriteTimeout = 15 * second, sv_IdleTimeout = 60 * second\<rparr>"

text \<open>The server is started in a goroutine, which only logs an error, before it is handed to the manager.\<close>

definition SetupInspectionServer :: "'w library \<Rightarrow> 'w env \<Rightarrow> int \<Rightarrow> ('w, error option) io" where
  "SetupInspectionServer L E port = (let server = new_inspection_server E port in do {
     _ \<leftarrow> L (GoListenAndServe server);
     added \<leftarrow> L (AddRunnable server);
     State_Monad.return (case added of
         Some err \<Rightarrow> Some (wrap_error ''failed to add inspection server to manager'' err)
       | None \<Rightarrow> None)
   })"

text \<open>The manager runs this in its own goroutine; it waits for the end of the manager's context first.\<close>

definition inspectionServerRunnable_Start :: "'w library \<Rightarrow> 'w http_server \<Rightarrow> ('w, error option) io" where
  "inspectionServerRunnable_Start L server = L (Shutdown server (30 * second))"

definition SetupWebhookWithManager :: "'w library \<Rightarrow> ('w, error option) io" where
  "SetupWebhookWithManager L = L (CompleteWebhook \<lparr>wh_For = ''Beskar7Cluster'', wh_ValidateCreate = ValidateCreate,
     wh_ValidateUpdate = ValidateUpdate, wh_Default = Default\<rparr>)"

section \<open>The command line\<close>

record manager_flags =
  mf_metricsAddr :: string
  mf_probeAddr :: string
  mf_enableLeaderElection :: bool
  mf_leaderElectionLeaseDuration :: Duration
  mf_leaderElectionRenewDeadline :: Duration
  mf_leaderElectionRetryPeriod :: Duration
  mf_enableWebhook :: bool
  mf_webhookPort :: goint
  mf_webhookCertDir :: string

definition default_flags :: manager_flags where
  "default_flags = \<lparr>mf_metricsAddr = '':8080'', mf_probeAddr = '':8081'', mf_enableLeaderElection = True,
     mf_leaderElectionLeaseDuration = 15 * second, mf_leaderElectionRenewDeadline = 10 * second,
     mf_leaderElectionRetryPeriod = 2 * second, mf_enableWebhook = False, mf_webhookPort = 9443,
     mf_webhookCertDir = ''/tmp/k8s-webhook-server/serving-certs''\<rparr>"

definition manager_formal :: "(string \<times> manager_flags Flag) list" where
  "manager_formal =
    [(''metrics-bind-address'', StringVar (\<lambda>v f. f\<lparr>mf_metricsAddr := v\<rparr>)),
     (''health-probe-bind-address'', StringVar (\<lambda>v f. f\<lparr>mf_probeAddr := v\<rparr>)),
     (''leader-elect'', BoolVar (\<lambda>v f. f\<lparr>mf_enableLeaderElection := v\<rparr>)),
     (''leader-elect-lease-duration'', DurationVar (\<lambda>v f. f\<lparr>mf_leaderElectionLeaseDuration := v\<rparr>)),
     (''leader-elect-renew-deadline'', DurationVar (\<lambda>v f. f\<lparr>mf_leaderElectionRenewDeadline := v\<rparr>)),
     (''leader-elect-retry-period'', DurationVar (\<lambda>v f. f\<lparr>mf_leaderElectionRetryPeriod := v\<rparr>)),
     (''enable-webhook'', BoolVar (\<lambda>v f. f\<lparr>mf_enableWebhook := v\<rparr>)),
     (''webhook-port'', IntVar (\<lambda>v f. f\<lparr>mf_webhookPort := v\<rparr>)),
     (''webhook-cert-dir'', StringVar (\<lambda>v f. f\<lparr>mf_webhookCertDir := v\<rparr>))]"

text \<open>
  The libraries register flags of their own, those of the logger among them: \<open>others\<close> gives for the
  name of such a flag whether it is boolean and which values it refuses.
\<close>

type_synonym library_flags = "string \<Rightarrow> (bool \<times> (string \<Rightarrow> error option)) option"

definition command_line :: "library_flags \<Rightarrow> string \<Rightarrow> manager_flags Flag option" where
  "command_line others name = (case map_of manager_formal name of
     Some fl \<Rightarrow> Some fl
   | None \<Rightarrow> (case others name of
       None \<Rightarrow> None
     | Some (is_bool, check) \<Rightarrow>
         Some \<lparr>fl_IsBoolFlag = is_bool, fl_Set = (\<lambda>v f. case check v of Some err \<Rightarrow> Inl err | None \<Rightarrow> Inr f)\<rparr>))"

section \<open>The process\<close>

datatype process_end = Exit nat | MainReturned | Panicked error

definition or_exit :: "('w, error option) io \<Rightarrow> ('w, process_end) io \<Rightarrow> ('w, process_end) io" where
  "or_exit m next = do { e \<leftarrow> m; case e of Some err \<Rightarrow> State_Monad.return (Exit 1) | None \<Rightarrow> next }"

definition or_panic :: "('w, error option) io \<Rightarrow> ('w, process_end) io \<Rightarrow> ('w, process_end) io" where
  "or_panic m next = do { e \<leftarrow> m; case e of Some err \<Rightarrow> State_Monad.return (Panicked err) | None \<Rightarrow> next }"

definition manager_options :: "manager_flags \<Rightarrow> ManagerOptions" where
  "manager_options f = \<lparr>mo_MetricsBindAddress = mf_metricsAddr f, mo_WebhookPort = mf_webhookPort f,
     mo_WebhookCertDir = mf_webhookCertDir f, mo_HealthProbeBindAddress = mf_probeAddr f,
     mo_LeaderElection = mf_enableLeaderElection f, mo_LeaderElectionID = ''beskar7.infrastructure.cluster.x-k8s.io'',
     mo_LeaseDuration = mf_leaderElectionLeaseDuration f, mo_RenewDeadline = mf_leaderElectionRenewDeadline f,
     mo_RetryPeriod = mf_leaderElectionRetryPeriod f\<rparr>"

definition main_setup :: "'w library \<Rightarrow> 'w env \<Rightarrow> manager_flags \<Rightarrow> ('w, process_end) io" where
  "main_setup L E f =
     or_panic (L (MustRegister Init)) (
     or_exit (L GetConfigOrDie) (
     or_exit (L (NewManager (manager_options f))) (
     or_exit (L (CompleteController (bm_SetupWithManager (main_Beskar7MachineReconciler E)))) (
     or_exit (L (CompleteController (bc_SetupWithManager E))) (
     or_exit (L (CompleteController (ph_SetupWithManager (main_PhysicalHostReconciler E)))) (
     or_exit (SetupInspectionServer L E 8082) (
     or_exit (if mf_enableWebhook f then SetupWebhookWithManager L else State_Monad.return None) (
     or_exit (L (AddHealthzCheck ''healthz'')) (
     or_exit (L (AddReadyzCheck ''readyz'')) (
     or_exit (L StartManager) (
     State_Monad.return MainReturned)))))))))))"

definition main :: "'w library \<Rightarrow> 'w env \<Rightarrow> library_flags \<Rightarrow> string list \<Rightarrow> ('w, process_end) io" where
  "main L E others args = (case parse_flags (command_line others) args default_flags of
     ParseHelp \<Rightarrow> State_Monad.return (Exit 0)
   | ParseFailed err \<Rightarrow> State_Monad.return (Exit 2)
   | Parsed f rest \<Rightarrow> main_setup L E f)"

text \<open>The \<open>init\<close> function of the package runs before \<open>main\<close>.\<close>

definition process :: "'w library \<Rightarrow> 'w env \<Rightarrow> library_flags \<Rightarrow> string list \<Rightarrow> ('w, process_end) io" where
  "process L E others args =
     or_panic (L (AddToScheme ClientGoScheme)) (
     or_panic (L (AddToScheme ClusterAPIScheme)) (
     or_panic (L (AddToScheme (TypesOf infrastructure_GroupVersion registered_types))) (
     main L E others args)))"

section \<open>Start-up order\<close>

text \<open>
  A library that records its calls: \<open>fails\<close> tells which of them return an error.
\<close>

datatype call_name = NScheme nat | NRegister | NGetConfig | NNewManager | NController string | NListen | NAdd | NWebhook |
  NHealthz | NReadyz | NStart | NShutdown

fun call_name_of :: "'w lib_call \<Rightarrow> call_name" where
  "call_name_of (AddToScheme ClientGoScheme) = NScheme 0"
| "call_name_of (AddToScheme ClusterAPIScheme) = NScheme 1"
| "call_name_of (AddToScheme (TypesOf gv ts)) = NScheme 2"
| "call_name_of (MustRegister vs) = NRegister"
| "call_name_of GetConfigOrDie = NGetConfig"
| "call_name_of (NewManager opts) = NNewManager"
| "call_name_of (CompleteController c) = NController (cn_For c)"
| "call_name_of (GoListenAndServe s) = NListen"
| "call_name_of (AddRunnable s) = NAdd"
| "call_name_of (CompleteWebhook w) = NWebhook"
| "call_name_of (AddHealthzCheck n) = NHealthz"
| "call_name_of (AddReadyzCheck n) = NReadyz"
| "call_name_of StartManager = NStart"
| "call_name_of (Shutdown s d) = NShutdown"

definition recording :: "(call_name \<Rightarrow> error option) \<Rightarrow> call_name list library" where
  "recording fails c = State (\<lambda>calls. (fails (call_name_of c), calls @ [call_name_of c]))"

definition startup_calls :: "bool \<Rightarrow> call_name list" where
  "startup_calls webhook = [NRegister, NGetConfig, NNewManager, NController ''Beskar7Machine'', NController ''Beskar7Cluster'',
     NController ''PhysicalHost'', NListen, NAdd] @ (if webhook then [NWebhook] else []) @ [NHealthz, NReadyz, NStart]"

text \<open>The calls up to the first that fails; the listener's goroutine does not report its failure.\<close>

fun until_failure :: "(call_name \<Rightarrow> error option) \<Rightarrow> call_name list \<Rightarrow> call_name list" where
  "until_failure fails [] = []"
| "until_failure fails (c # cs) = c # (if c \<noteq> NListen \<and> fails c \<noteq> None then [] else until_failure fails cs)"

definition all_succeed :: "(call_name \<Rightarrow> error option) \<Rightarrow> call_name list \<Rightarrow> bool" where
  "all_succeed fails cs \<longleftrightarrow> (\<forall>c \<in> set cs. c = NListen \<or> fails c = None)"

lemma run_recording [simp]:
  "run_state (recording fails c) calls = (fails (call_name_of c), calls @ [call_name_of c])"
  by (simp add: recording_def)

lemma run_or [simp]:
  "run_state (or_exit m next) w = (case run_state m w of (Some err, w') \<Rightarrow> (Exit 1, w') | (None, w') \<Rightarrow> run_state next w')"
  "run_state (or_panic m next) w = (case run_state m w of (Some err, w') \<Rightarrow> (Panicked err, w') | (None, w') \<Rightarrow> run_state next w')"
  by (simp_all add: or_exit_def or_panic_def split: prod.splits option.splits)

text \<open>A part of the start-up makes the calls \<open>cs\<close> in order, up to the first failure.\<close>

definition in_order :: "(call_name \<Rightarrow> error option) \<Rightarrow> (call_name list, process_end) io \<Rightarrow> call_name list \<Rightarrow> bool" where
  "in_order fails m cs \<longleftrightarrow> (\<forall>calls. run_state m calls =
     (if all_succeed fails cs then MainReturned else Exit 1, calls @ until_failure fails cs))"

lemma in_order_return: "in_order fails (State_Monad.return MainReturned) []"
  by (simp add: in_order_def all_succeed_def)

lemma in_order_exit:
  "call_name_of k = c \<Longrightarrow> c \<noteq> NListen \<Longrightarrow> in_order fails next cs \<Longrightarrow> in_order fails (or_exit (recording fails k) next) (c # cs)"
  by (cases "fails c") (auto simp: in_order_def all_succeed_def)

lemma in_order_server:
  "in_order fails next cs \<Longrightarrow> in_order fails (or_exit (SetupInspectionServer (recording fails) E port) next) (NListen # NAdd # cs)"
  by (cases "fails NAdd") (auto simp: in_order_def all_succeed_def SetupInspectionServer_def Let_def)

lemma in_order_webhook:
  "in_order fails next cs \<Longrightarrow>
     in_order fails (or_exit (if b then SetupWebhookWithManager (recording fails) else State_Monad.return None) next)
       ((if b then [NWebhook] else []) @ cs)"
  by (cases b) (auto simp: SetupWebhookWithManager_def intro!: in_order_exit, simp add: in_order_def)

lemma setup_in_order:
  "in_order fails (or_exit (recording fails GetConfigOrDie) (
     or_exit (recording fails (NewManager (manager_options f))) (
     or_exit (recording fails (CompleteController (bm_SetupWithManager (main_Beskar7MachineReconciler E)))) (
     or_exit (recording fails (CompleteController (bc_SetupWithManager E))) (
     or_exit (recording fails (CompleteController (ph_SetupWithManager (main_PhysicalHostReconciler E)))) (
     or_exit (SetupInspectionServer (recording fails) E 8082) (
     or_exit (if mf_enableWebhook f then SetupWebhookWithManager (recording fails) else State_Monad.return None) (
     or_exit (recording fails (AddHealthzCheck ''healthz'')) (
     or_exit (recording fails (AddReadyzCheck ''readyz'')) (
     or_exit (recording fails StartManager) (
     State_Monad.return MainReturned))))))))))) (tl (startup_calls (mf_enableWebhook f)))"
  unfolding startup_calls_def append_Cons append_Nil list.sel
  by (intro in_order_exit in_order_server in_order_webhook in_order_return)
    (simp_all add: bm_SetupWithManager_def bc_SetupWithManager_def ph_SetupWithManager_def)

text \<open>
  C16. The order of the start-up: whatever calls fail, the process makes the calls of the fixed sequence
  up to the first failure, so the manager starts last and only when everything before it succeeded.
  \<open>main\<close> returns exactly when no call failed; otherwise the process panics (metrics) or exits with
  status 1. The webhook is set up exactly when its flag is given. The inspection server listens before
  the manager starts.
\<close>

theorem main_setup_order:
  "snd (run_state (main_setup (recording fails) E f) calls) = calls @ until_failure fails (startup_calls (mf_enableWebhook f)) \<and>
   fst (run_state (main_setup (recording fails) E f) calls) =
     (if all_succeed fails (startup_calls (mf_enableWebhook f)) then MainReturned
      else case fails NRegister of Some err \<Rightarrow> Panicked err | None \<Rightarrow> Exit 1)"
proof (cases "fails NRegister")
  case None
  have "startup_calls b = NRegister # tl (startup_calls b)" for b by (simp add: startup_calls_def)
  then obtain cs where cs: "startup_calls (mf_enableWebhook f) = NRegister # cs" by blast
  with setup_in_order [of fails f E] None show ?thesis
    by (simp add: main_setup_def in_order_def all_succeed_def)
next
  case (Some err)
  then show ?thesis by (simp add: main_setup_def startup_calls_def all_succeed_def)
qed

section \<open>Flags\<close>

lemma split_flag_value:
  assumes "name \<noteq> []" and "CHR ''='' \<notin> set name"
  shows "split_flag (name @ ''='' @ v) = (name, Some v)"
proof -
  obtain c cs where name: "name = c # cs" using assms(1) by (cases name) auto
  have "takeWhile (\<lambda>c. c \<noteq> CHR ''='') (cs @ CHR ''='' # v) = cs \<and> dropWhile (\<lambda>c. c \<noteq> CHR ''='') (cs @ CHR ''='' # v) = CHR ''='' # v"
    if "CHR ''='' \<notin> set cs" for cs using that by (induction cs) auto
  with assms(2) show ?thesis by (simp add: split_flag_def name)
qed

text \<open>A duration of whole seconds given on the command line reaches its variable.\<close>

lemma lease_duration_flag:
  assumes "n * 1000000000 < 2 ^ 63"
  shows "parse_flags (command_line others) [''--leader-elect-lease-duration='' @ show_nat n @ ''s''] default_flags =
    Parsed (default_flags\<lparr>mf_leaderElectionLeaseDuration := int n * second\<rparr>) []"
proof -
  let ?name = "''leader-elect-lease-duration''"
  have d: "ParseDuration (show_nat n @ ''s'') = Some (int n * second)"
    using ParseDuration_whole [of "''s''" 1000000000 n] assms by (simp add: unitMap_def)
  have "split_flag (?name @ ''='' @ show_nat n @ ''s'') = (?name, Some (show_nat n @ ''s''))"
    by (rule split_flag_value) simp_all
  then have "split_flag (''leader-elect-lease-duration='' @ show_nat n @ ''s'') = (?name, Some (show_nat n @ ''s''))"
    by simp
  then show ?thesis
    by (simp add: dashes_def command_line_def manager_formal_def DurationVar_def d Let_def)
qed

lemma webhook_flag:
  "parse_flags (command_line others) [''-enable-webhook''] default_flags = Parsed (default_flags\<lparr>mf_enableWebhook := True\<rparr>) []"
  by (simp add: dashes_def command_line_def manager_formal_def BoolVar_def split_flag_def ParseBool_def)

text \<open>The types the controllers are for are registered with the scheme before a controller is built.\<close>

lemma controllers_registered:
  "cn_For (ph_SetupWithManager R1) \<in> set registered_types \<and> cn_For (bm_SetupWithManager R2) \<in> set registered_types \<and>
   cn_For (bc_SetupWithManager E) \<in> set registered_types"
  by (simp add: ph_SetupWithManager_def bm_SetupWithManager_def bc_SetupWithManager_def registered_types_def
      cluster_types_def machine_types_def host_types_def)

end
