(* ===== verification/Spec2Isabelle.thy ===== *)
theory Spec2Isabelle
  imports PhysicalHostCtl Beskar7MachineCtl Beskar7ClusterCtl InspectionHandler ProvisioningQueue
    ClusterWebhook GofishClient SecurityMonitor DeepCopy HostLifecycle QueueProgress InspectionServer Manager
begin

text \<open>
  A verification of Beskar7, a Cluster API infrastructure provider for bare metal.

  \<^bold>\<open>The program.\<close> A manager process runs three controllers on a Kubernetes API server. A
  \<open>PhysicalHost\<close> stands for a machine with a Redfish BMC, a \<open>Beskar7Machine\<close> claims one host for a Cluster
  API machine, a \<open>Beskar7Cluster\<close> publishes failure domains and the control plane endpoint. The host
  controller talks to the BMC and settles the state of a host; the machine controller claims an
  available host, boots it into an inspection image over the network and releases it on deletion; the
  inspection image posts a hardware report to an HTTP server inside the manager; the machine controller
  compares the report with the requirements and makes the host ready. Beside them stand an admission
  webhook for clusters, Prometheus metrics, a queue that limits concurrent BMC operations, and validators of
  TLS endpoints and RBAC rules with a monitor that runs them.

  \<^bold>\<open>Conventions.\<close> Code with effects is a computation of the state monad on an arbitrary world \<open>'w\<close>. The
  libraries are parameters: \<open>'w env\<close> (\<open>Kube\<close>) collects the API client and the Cluster API helpers,
  \<open>'w Client\<close> (\<open>Redfish\<close>) is the interface \<open>internal/redfish/client.go\<close>, \<open>'w library\<close> (\<open>Manager\<close>) is
  controller-runtime, and the gofish library, the TLS dialer, the event writer and the deep copies of
  library types are records of the same kind. What the proofs need of them are named laws:
  \<open>store_ok E hosts seen\<close> (optimistic locking: reads return states the object has had, a successful write replaced exactly the version it was based on),
  \<open>finalizers_ok\<close>, \<open>conditions_ok\<close>, and the locales of the interfaces. \<open>MemEnv\<close> is an API server in memory that
  satisfies them; the witnesses run on it. Machine integers are 64 bit words, times and durations are
  integers of nanoseconds with the saturation of \<open>Time.Sub\<close>, strings are lists of bytes. A panic is an
  outcome of its own. A handler that mutates the object it is given returns the object.

  \<^bold>\<open>Theories.\<close>
  \<^item> \<open>Prelude\<close>: types, errors, results, and the rules for \<open>keeps\<close>, \<open>yields\<close> and \<open>triple\<close> that all component proofs use.
  \<^item> \<open>GoStrings\<close>, \<open>GoNet\<close>, \<open>GoURL\<close>, \<open>GoFlag\<close>: the parts of the standard library the program uses: printing and
    scanning numbers and durations, \<open>strings\<close>, IP addresses, \<open>net/url\<close>, and \<open>flag\<close> with its value parsers.
  \<^item> \<open>ApiTypes\<close>: \<open>api/v1beta1/*_types.go\<close>; the condition accessors of the three objects are instances of one locale.
  \<^item> \<open>DeepCopy\<close>: \<open>zz_generated.deepcopy.go\<close> and the hand-written copies, on an explicit store of cells, because
    what matters of a copy is which cells it shares with the original. Shown: copies read the same; a machine's copy is
    independent; the copies of hosts and clusters share exactly the cells the hand-written methods forget.
  \<^item> \<open>Kube\<close>, \<open>MemEnv\<close>: the API client with its laws, \<open>controllers/utils.go\<close>, and the server in memory.
  \<^item> \<open>Redfish\<close>: \<open>internal/redfish/client.go\<close> and \<open>mock_client.go\<close>, with the contract \<open>bmc_session\<close> of a connected client: what commands the
    BMC at its address has accepted after each call. What a BMC does with a command it has accepted is left open.
  \<^item> \<open>GofishClient\<close>: \<open>internal/redfish/gofish_client.go\<close>; it fulfils the contract on any gofish library whose calls have the
    documented effect. Shown: which endpoint an address leads to, and which addresses a host gets.
  \<^item> \<open>PhysicalHostCtl\<close>: \<open>controllers/physicalhost_controller.go\<close>. Shown: a successful reconciliation leaves a host whose
    state matches its claim; missing credentials are recorded; the reconciler \<open>main\<close> builds panics.
  \<^item> \<open>Beskar7MachineCtl\<close>: \<open>controllers/beskar7machine_controller.go\<close>. Shown: claims take only free hosts, deletion gives
    back the host that names the machine, the inspection boot sends exactly its commands to the BMC of the host, hardware validation is exact for
    memory stated in GB, the timeout is exact, provider IDs round-trip, and a machine without a provider ID never becomes ready and
    claims another host each time.
  \<^item> \<open>InspectionHandler\<close>, \<open>InspectionServer\<close>: \<open>controllers/inspection_handler.go\<close>, the handler and the server around it with
    the routing of \<open>http.ServeMux\<close>. Shown: an accepted report is stored completely, only a POST to the inspection
    path reaches a host, and the documented report URL is not served.
  \<^item> \<open>HostLifecycle\<close>: the specification of a host's life as a transition system with the steps of each component, and the
    refinement of traces by the two controllers and the handler under interference (locales \<open>shared_store\<close>, \<open>shared_bmc\<close>): in the history of
    the API server every write of a component is one of its steps. From it, that hosts change hands only when free
    and become ready only after a report on their inspection.
  \<^item> \<open>ProvisioningQueue\<close>, \<open>QueueProgress\<close>: \<open>internal/coordination/provisioning_queue.go\<close>. Request objects live on a heap; the
    sections under the mutex are functions, a run is an interleaving of them. Shown: the limits hold in every run,
    the number of operations is bounded for disciplined callers, and not for others, workers wait out the cooldown after every
    use of a BMC that has ended, a worker drains the queue, a waiting caller returns.
  \<^item> \<open>Beskar7ClusterCtl\<close>: \<open>controllers/beskar7cluster_controller.go\<close>. Shown: what a pass computes, its metrics included.
  \<^item> \<open>Metrics\<close>: \<open>internal/metrics/metrics.go\<close>; each recording function is the list of its calls on the vectors. Shown: every call is on
    a registered vector with as many values as labels.
  \<^item> \<open>ClusterWebhook\<close>: \<open>api/v1beta1/webhooks/\<close>. Shown: which clusters are admitted, and that defaulting completes an endpoint.
  \<^item> \<open>RBACValidator\<close>, \<open>TLSValidator\<close>, \<open>SecurityMonitor\<close>: \<open>internal/security/\<close>. Shown: exactly which findings a role gets, exactly which
    endpoints are accepted, that the totals of a scan add up, and how many events a report can get.
  \<^item> \<open>Manager\<close>: \<open>cmd/manager/main.go\<close>, \<open>groupversion_info.go\<close> and the \<open>SetupWithManager\<close> functions. Shown: the order of the start-up
    for every combination of failures.
  \<^item> This theory: a property of the whole inspection, from the posted report to the ready host.

  \<^bold>\<open>Loops and bounds.\<close> Loops over lists are recursive functions. \<open>AcquireBMCPermit\<close> and the worker loop wait for time to pass and
  are functions of the list of passes or wake-ups they go through; that they come to an end is proved as such, with the
  number of passes: a permit takes at most a hundred passes of 100 ms until the cooldown of ten seconds is over, a worker needs
  the ticks that cover one cooldown for each waiting request. The security monitor's loop is a function of the cases its \<open>select\<close>
  receives. No definition has fuel.

  \<^bold>\<open>Interference.\<close> Go routines, other replicas and users act on the same objects. The queue's runs interleave its mutex sections
  freely. For API objects, reads may be stale and other clients may write anything between any two API calls: the properties over \<open>store_ok\<close> say
  what a single write then does, and the refinement of \<open>HostLifecycle\<close> says of every accepted write of a component which step it makes on the
  object then stored. There a run is a sequence of calls of the components, interleaved with arbitrary writes of others, before, during and between
  the calls; a call of a component that overlaps another counts among the others of that one.

  \<^bold>\<open>Not modelled.\<close> Logging. The network and the operating system: sockets, TLS handshakes, JSON decoding of a report, process
  signals. The Kubernetes, Cluster API, controller-runtime, gofish and Prometheus libraries, which are parameters. The
  function \<open>getFailureDomainKeys\<close>, which only serves a log message, and the constants no code uses. The emulator
  \<open>test/emulation/mock_redfish_server.go\<close>, which is part of the tests.
\<close>

section \<open>From the report to the ready host\<close>

lemma measured_time: "measured (to_report t req) = measured (to_report 0 req)"
  by (simp add: measured_def fun_eq_iff cores_sum_def disk_sum_def to_report_def)

lemma satisfies_time: "satisfies q (to_report t req) = satisfies q (to_report 0 req)"
  by (simp add: satisfies_def fun_eq_iff cores_sum_def disk_sum_def to_report_def)

lemma route_inspection:
  "inspection_server E ''POST'' ''/api/v1/inspection'' body =
     State_Monad.bind (ServeHTTP E ''POST'' body) (\<lambda>resp. State_Monad.return (Response resp))"
proof -
  have "''/api/v1/inspection'' = path_of [''api'', ''v1'', ''inspection'']" by (simp add: path_of_def)
  then show ?thesis
    by (simp only:) (subst inspection_server_clean, simp_all add: plain_segment_def mux_patterns_def serve_route_def pathUnescape_def)
qed

text \<open>
  C5. A report decides the inspected host. Let the server have accepted a report whose memory modules state their size in whole
  GB, or none, and whose totals of cores, memory and disk fit an \<open>int\<close>, for a host that is under inspection. Then the
  next handling of its machine within the inspection timeout stores the host ready, unless the API server
  refuses that write, if the cores, GB of memory and GB of disk reported satisfy the machine's requirements; if they do not, nothing is written, the
  machine is unchanged and an error is returned.
\<close>

theorem report_decides_host:
  assumes "store_ok E hosts seen" and "\<And>h. keeps (seen h) (Now E)" and "mr_Client R = E"
    and "run_state (inspection_server E ''POST'' ''/api/v1/inspection'' (Inr req)) w = (Response resp, w1)" and "hp_Code resp = 200"
    and "hosts w1 \<lparr>nn_Namespace = rq_Namespace req, nn_Name = rq_HostName req\<rparr> = Some host"
    and "ph_key host = \<lparr>nn_Namespace = rq_Namespace req, nn_Name = rq_HostName req\<rparr>"
    and "st_State (ph_Status host) = StateInspecting" and "st_InspectionTimestamp (ph_Status host) = Some started"
    and "run_state (Now E) w1 = (now, w2)" and "now - started \<le> 10 * minute"
    and "bs_HardwareRequirements (bm_Spec b) = Some q" and "measured (to_report 0 req) gs"
    and "run_state (handlePhysicalHostState R b host) w1 = ((b', out), w3)"
  shows "if satisfies q (to_report 0 req) gs
    then (\<exists>h'. out = Return requeue_now None \<and> hosts w3 (ph_key host) = Some h' \<and>
            st_State (ph_Status h') = StateReady \<and> ph_Spec h' = ph_Spec host) \<or>
         (\<exists>err. out = Return ResultZero (Some err) \<and>
            run_state (StatusUpdate_PhysicalHost E (ready_status E host)) w2 = (Inl err, w3))
    else w3 = w2 \<and> b' = b \<and> (\<exists>err. out = Return ResultZero (Some err))"
proof -
  from assms(4) have s: "run_state (ServeHTTP E ''POST'' (Inr req)) w = (resp, w1)"
    unfolding route_inspection by (auto split: prod.splits)
  from accepted_report_stored [OF assms(1,2) s assms(5)] obtain h t
    where st: "ph_Status host = ph_Status (set_report (to_report t req) h)" using assms(6) by auto
  have r: "st_InspectionReport (ph_Status host) = Some (to_report t req)" "st_InspectionPhase (ph_Status host) = InspectionPhaseComplete"
    by (simp_all add: st set_report_def)
  have "seen host w1" using store_ok_stored [OF assms(1)] assms(6,7) by metis
  then have g: "seen host w2" by (rule keepsD [OF assms(2,10)])
  have "run_state (handleInspectingHost E b host) w1 = ((b', out), w3)"
    using assms(3,8,14) by (simp add: handlePhysicalHostState_def)
  then have "run_state (validateInspectionReport E b host) w2 = ((b', out), w3)"
    using handleInspectingHost_started [OF assms(9,10), of b] assms(11) r(2) by (simp add: DefaultInspectionTimeout_def)
  from validation_decides [OF assms(1) g r(1) assms(12) _ this, of gs] assms(13) show ?thesis
    by (simp add: measured_time [of t] satisfies_time [of q t] split: if_splits)
qed

definition modest_machine :: Beskar7Machine where
  "modest_machine = (sample_machine None)\<lparr>bm_Spec := (bm_Spec (sample_machine None))
     \<lparr>bs_HardwareRequirements := Some \<lparr>hr_MinCPUCores = 4, hr_MinMemoryGB = 0, hr_MinDiskGB = 0\<rparr>\<rparr>\<rparr>"

definition inspecting_world :: mem_world where
  "inspecting_world = sample_world [inspecting_status 0 (sample_host ''h1'' [PhysicalHostFinalizer] (Some (sample_ref ''m1'')) StateInUse)] []"

definition reported_world :: mem_world where
  "reported_world = snd (run_state (inspection_server mem_env ''POST'' ''/api/v1/inspection'' (Inr sample_request)) inspecting_world)"

theorem report_decides_host_witness:
  "\<exists>host h'. mem_hosts reported_world (sample_key ''h1'') = Some host \<and>
     mem_hosts (snd (run_state (handlePhysicalHostState machine_reconciler modest_machine host) reported_world)) (sample_key ''h1'') = Some h' \<and>
     st_State (ph_Status h') = StateReady"
proof -
  let ?q = "\<lparr>hr_MinCPUCores = 4, hr_MinMemoryGB = 0, hr_MinDiskGB = 0\<rparr>"
  let ?host = "stamp 8 (set_report (to_report 0 sample_request)
    (inspecting_status 0 (sample_host ''h1'' [PhysicalHostFinalizer] (Some (sample_ref ''m1'')) StateInUse)))"
  let ?resp = "\<lparr>hp_Code = 200, hp_Body = success_body\<rparr>"
  have run: "run_state (inspection_server mem_env ''POST'' ''/api/v1/inspection'' (Inr sample_request)) inspecting_world = (Response ?resp, reported_world)"
    unfolding reported_world_def route_inspection
    by (simp add: inspecting_world_def inspecting_status_def handler_eval sample_defs mem_eval)
  have host: "mem_hosts reported_world (sample_key ''h1'') = Some ?host"
    unfolding reported_world_def route_inspection
    by (simp add: inspecting_world_def inspecting_status_def handler_eval sample_defs mem_eval)
  have now: "run_state (Now mem_env) reported_world = (0, reported_world)"
    unfolding reported_world_def route_inspection
    by (simp add: inspecting_world_def inspecting_status_def handler_eval sample_defs mem_eval)
  obtain b' out w3 where r: "run_state (handlePhysicalHostState machine_reconciler modest_machine ?host) reported_world = ((b', out), w3)"
    by (metis prod.collapse)
  have fit: "measured (to_report 0 sample_request) []" and sat: "satisfies ?q (to_report 0 sample_request) []"
    by (simp_all add: measured_def fits_int_def satisfies_def cores_sum_def disk_sum_def to_report_def convert_maps sample_request_def)
  have k: "\<lparr>nn_Namespace = rq_Namespace sample_request, nn_Name = rq_HostName sample_request\<rparr> = sample_key ''h1''" "ph_key ?host = sample_key ''h1''"
    by (simp_all add: sample_request_def sample_key_def set_report_def inspecting_status_def ph_key_def stamp_def sample_host_def sample_meta_def)
  have "ph_key (ready_status mem_env h) = ph_key h \<and> ph_version (ready_status mem_env h) = ph_version h" for h
    by (simp add: ready_status_def ph_key_def ph_version_def)
  then have written: "\<exists>h. fst (run_state (StatusUpdate_PhysicalHost mem_env (ready_status mem_env ?host)) reported_world) = Inr h"
    using host k(2) by (simp add: mem_write_def Let_def)
  have "\<exists>h'. mem_hosts w3 (ph_key ?host) = Some h' \<and> st_State (ph_Status h') = StateReady"
    using report_decides_host [OF mem_store_ok _ _ run _ _ _ _ _ now _ _ fit r, of 0 ?q] host sat written k
    by (auto simp: machine_reconciler_def modest_machine_def set_report_def inspecting_status_def keeps_def)
  with host r k show ?thesis by auto
qed

end
